(* ===== verification/Prelude.thy ===== *)
theory Prelude
  imports Main "HOL-Library.AList" "HOL-Library.Sublist"
begin

text \<open>
  Shared vocabulary of the development: Python exceptions as values of a sum type, the parts of
  Python's strings, integers and dictionaries that the modelled scripts use, the generic lemmas
  about them, and the interfaces (locales) that several components implement.

  \<^item> A call that may raise has the type \<open>'a res\<close>, that is \<open>py_exc + 'a\<close>: \<open>Inl\<close> is the exception.
  \<^item> A Python \<open>str\<close> is a \<open>string\<close>; the scripts handle ASCII text only.
  \<^item> A Python \<open>dict\<close> keeps insertion order, so it is an association list with \<open>AList.update\<close>
    (replace in place, append when new) and \<open>map_of\<close>.
\<close>

named_theorems py_defs \<open>unfoldings of the small Python operations\<close>
named_theorems res_simps \<open>equations that compute with results\<close>

section \<open>Exceptions and results\<close>

datatype py_exc =
    ValueError string
  | KeyError string
  | IndexError string
  | TypeError string
  | AttributeError string
  | RuntimeError string
  | AssertionError string
  | ZeroDivisionError string
  | OSError string
  | NameError string
  | TimeoutExpired
  | StopIteration
  | SystemExit int
  | ConfigException string
  | ReqErr string string
  | ArgumentTypeError string
  | GenError string

type_synonym 'a res = "py_exc + 'a"

definition rbind :: "'a res \<Rightarrow> ('a \<Rightarrow> 'b res) \<Rightarrow> 'b res" where
  "rbind r f = (case r of Inl e \<Rightarrow> Inl e | Inr x \<Rightarrow> f x)"

definition assert_py :: "bool \<Rightarrow> string \<Rightarrow> unit res" where
  "assert_py b msg = (if b then Inr () else Inl (AssertionError msg))"

text \<open>\<open>try: r except ValueError as err: h\<close>.\<close>

definition except_value :: "'a res \<Rightarrow> (string \<Rightarrow> 'a res) \<Rightarrow> 'a res" where
  "except_value r h = (case r of Inl (ValueError err) \<Rightarrow> h err | _ \<Rightarrow> r)"

text \<open>A loop that maps a raising function over a list stops at the first exception.\<close>

fun rmap :: "('a \<Rightarrow> 'b res) \<Rightarrow> 'a list \<Rightarrow> 'b list res" where
  "rmap f [] = Inr []"
| "rmap f (x # xs) = rbind (f x) (\<lambda>y. rbind (rmap f xs) (\<lambda>ys. Inr (y # ys)))"

fun rfold :: "('s \<Rightarrow> 'a \<Rightarrow> 's res) \<Rightarrow> 's \<Rightarrow> 'a list \<Rightarrow> 's res" where
  "rfold f s [] = Inr s"
| "rfold f s (x # xs) = rbind (f s x) (\<lambda>s'. rfold f s' xs)"

definition is_ok :: "'a res \<Rightarrow> bool" where
  "is_ok r = (case r of Inl _ \<Rightarrow> False | Inr _ \<Rightarrow> True)"

lemma rbind_simps [simp, res_simps]:
  "rbind (Inl e) f = Inl e"
  "rbind (Inr x) f = f x"
  by (simp_all add: rbind_def)

lemma is_ok_simps [simp]: "\<not> is_ok (Inl e)" "is_ok (Inr x)"
  by (simp_all add: is_ok_def)

lemma is_ok_iff: "is_ok r \<longleftrightarrow> (\<exists>x. r = Inr x)"
  by (cases r) simp_all

lemma rbind_Inr_iff [res_simps]: "rbind r f = Inr y \<longleftrightarrow> (\<exists>x. r = Inr x \<and> f x = Inr y)"
  by (cases r) simp_all

lemma rbind_Inl_iff: "rbind r f = Inl e \<longleftrightarrow> r = Inl e \<or> (\<exists>x. r = Inr x \<and> f x = Inl e)"
  by (cases r) simp_all

lemma rbind_assoc: "rbind (rbind r f) g = rbind r (\<lambda>x. rbind (f x) g)"
  by (cases r) simp_all

lemma case_Inr_iff:
  "(case r of Inl d \<Rightarrow> Inl (g d) | Inr x \<Rightarrow> f x) = Inr y \<longleftrightarrow> (\<exists>x. r = Inr x \<and> f x = Inr y)"
  "(case m of None \<Rightarrow> Inl e | Some z \<Rightarrow> k z) = Inr y \<longleftrightarrow> (\<exists>z. m = Some z \<and> k z = Inr y)"
  by (cases r; simp) (cases m; simp)

lemma except_value_Inr [simp]: "except_value (Inr x) h = Inr x"
  by (simp add: except_value_def)

lemma except_value_Inr_iff:
  "except_value r h = Inr x \<longleftrightarrow> r = Inr x \<or> (\<exists>err. r = Inl (ValueError err) \<and> h err = Inr x)"
  by (simp add: except_value_def split: sum.splits py_exc.splits)

lemma rmap_Inr_iff:
  "rmap f xs = Inr ys \<longleftrightarrow> list_all2 (\<lambda>x y. f x = Inr y) xs ys"
proof (induction xs arbitrary: ys)
  case Nil
  show ?case by (cases ys) auto
next
  case (Cons x xs)
  show ?case
    by (cases "f x"; cases ys) (auto simp: rbind_Inr_iff Cons.IH)
qed

lemma rmap_ok_map: "(\<And>x. x \<in> set xs \<Longrightarrow> f x = Inr (g x)) \<Longrightarrow> rmap f xs = Inr (map g xs)"
  by (induction xs) auto

lemma rmap_is_ok: "(\<And>x. x \<in> set xs \<Longrightarrow> is_ok (f x)) \<Longrightarrow> is_ok (rmap f xs)"
  by (induction xs) (simp_all, fastforce simp: is_ok_iff)

lemma rmap_mem: "rmap f xs = Inr ys \<Longrightarrow> y \<in> set ys \<Longrightarrow> \<exists>x \<in> set xs. f x = Inr y"
  by (induction xs arbitrary: ys) (auto simp: rbind_Inr_iff)

lemma list_all2_left: "list_all2 P xs ys \<Longrightarrow> x \<in> set xs \<Longrightarrow> \<exists>y \<in> set ys. P x y"
  by (induction rule: list_all2_induct) auto

lemma list_all2_right: "list_all2 P xs ys \<Longrightarrow> y \<in> set ys \<Longrightarrow> \<exists>x \<in> set xs. P x y"
  by (induction rule: list_all2_induct) auto

lemma list_all2_fun_eq: "list_all2 (\<lambda>x y. f x = Inr y) xs ys \<Longrightarrow> list_all2 (\<lambda>x y. f x = Inr y) xs zs \<Longrightarrow> ys = zs"
  by (induction xs arbitrary: ys zs) (auto simp: list_all2_Cons1)

lemma find_append_case: "find P (xs @ ys) = (case find P xs of None \<Rightarrow> find P ys | Some x \<Rightarrow> Some x)"
  by (induction xs) auto

lemma rmap_cong [fundef_cong]:
  "xs = ys \<Longrightarrow> (\<And>x. x \<in> set ys \<Longrightarrow> f x = g x) \<Longrightarrow> rmap f xs = rmap g ys"
  by (induction xs arbitrary: ys) auto

lemma rfold_append: "rfold f s (xs @ ys) = rbind (rfold f s xs) (\<lambda>s'. rfold f s' ys)"
  by (induction xs arbitrary: s) (simp_all add: rbind_assoc)

text \<open>The loop rule of \<open>rfold\<close>: an invariant kept by every successful iteration.\<close>

lemma rfold_invariant:
  assumes "rfold f s xs = Inr t" and "P s"
    and "\<And>s x s'. x \<in> set xs \<Longrightarrow> P s \<Longrightarrow> f s x = Inr s' \<Longrightarrow> P s'"
  shows "P t"
  using assms
proof (induction xs arbitrary: s)
  case Nil
  then show ?case by simp
next
  case (Cons x xs)
  from Cons.prems(1) obtain s' where s': "f s x = Inr s'" "rfold f s' xs = Inr t"
    by (auto simp: rbind_Inr_iff)
  have "P s'" using Cons.prems(2,3) s'(1) by auto
  with s'(2) Cons.prems(3) show ?case by (auto intro: Cons.IH)
qed

text \<open>What holds of the value when a call returns: rules that follow the structure of a program.\<close>

definition res_all :: "('a \<Rightarrow> bool) \<Rightarrow> 'a res \<Rightarrow> bool" where
  "res_all P r = (case r of Inl _ \<Rightarrow> True | Inr y \<Rightarrow> P y)"

lemma res_all_simps [simp]: "res_all P (Inl e)" "res_all P (Inr y) = P y"
  by (simp_all add: res_all_def)

lemma res_all_rbind: "(\<And>x. r = Inr x \<Longrightarrow> res_all P (f x)) \<Longrightarrow> res_all P (rbind r f)"
  by (cases r) simp_all

lemma res_all_if: "(b \<Longrightarrow> res_all P r) \<Longrightarrow> (\<not> b \<Longrightarrow> res_all P s) \<Longrightarrow> res_all P (if b then r else s)"
  by simp

lemma res_allD: "res_all P r \<Longrightarrow> r = Inr y \<Longrightarrow> P y"
  by simp

lemmas res_all_rules = res_all_rbind res_all_if

section \<open>Characters and strings\<close>

definition is_space :: "char \<Rightarrow> bool" where
  "is_space c = (let n = of_char c :: nat in n = 32 \<or> (9 \<le> n \<and> n \<le> 13) \<or> (28 \<le> n \<and> n \<le> 31))"

definition is_digit :: "char \<Rightarrow> bool" where
  "is_digit c = (let n = of_char c :: nat in 48 \<le> n \<and> n \<le> 57)"

definition is_upper :: "char \<Rightarrow> bool" where
  "is_upper c = (let n = of_char c :: nat in 65 \<le> n \<and> n \<le> 90)"

definition is_lower :: "char \<Rightarrow> bool" where
  "is_lower c = (let n = of_char c :: nat in 97 \<le> n \<and> n \<le> 122)"

definition is_word :: "char \<Rightarrow> bool" where
  "is_word c = (is_digit c \<or> is_upper c \<or> is_lower c \<or> c = CHR ''_'')"

definition newline :: char where "newline = CHR 10"

definition nl :: string where "nl = [newline]"

definition lower_char :: "char \<Rightarrow> char" where
  "lower_char c = (if is_upper c then char_of ((of_char c :: nat) + 32) else c)"

definition py_lower :: "string \<Rightarrow> string" where
  "py_lower s = map lower_char s"

definition lstrip :: "string \<Rightarrow> string" where
  "lstrip s = dropWhile is_space s"

definition rstrip :: "string \<Rightarrow> string" where
  "rstrip s = rev (dropWhile is_space (rev s))"

definition strip :: "string \<Rightarrow> string" where
  "strip s = rstrip (lstrip s)"

definition startswith :: "string \<Rightarrow> string \<Rightarrow> bool" where
  "startswith s p = prefix p s"

definition endswith :: "string \<Rightarrow> string \<Rightarrow> bool" where
  "endswith s p = suffix p s"

text \<open>Python's \<open>needle in s\<close>.\<close>

fun contains :: "string \<Rightarrow> string \<Rightarrow> bool" where
  "contains s [] = True"
| "contains [] (n # ns) = False"
| "contains (c # cs) (n # ns) = (prefix (n # ns) (c # cs) \<or> contains cs (n # ns))"

fun py_join :: "string \<Rightarrow> string list \<Rightarrow> string" where
  "py_join sep [] = []"
| "py_join sep [x] = x"
| "py_join sep (x # y # zs) = x @ sep @ py_join sep (y # zs)"

text \<open>\<open>s.split(c)\<close> for a one-character separator: never the empty list.\<close>

fun split_char :: "char \<Rightarrow> string \<Rightarrow> string list" where
  "split_char c [] = [[]]"
| "split_char c (x # xs) =
     (if x = c then [] # split_char c xs
      else (case split_char c xs of [] \<Rightarrow> [[x]] | p # ps \<Rightarrow> (x # p) # ps))"

text \<open>\<open>s.split(c, maxsplit=1)\<close>.\<close>

definition split_once :: "char \<Rightarrow> string \<Rightarrow> string list" where
  "split_once c s = (case dropWhile (\<lambda>x. x \<noteq> c) s of
      [] \<Rightarrow> [s]
    | _ # r \<Rightarrow> [takeWhile (\<lambda>x. x \<noteq> c) s, r])"

text \<open>\<open>s.rsplit(c, 1)\<close>.\<close>

definition rsplit_once :: "char \<Rightarrow> string \<Rightarrow> string list" where
  "rsplit_once c s = (case dropWhile (\<lambda>x. x \<noteq> c) (rev s) of
      [] \<Rightarrow> [s]
    | _ # r \<Rightarrow> [rev r, rev (takeWhile (\<lambda>x. x \<noteq> c) (rev s))])"

text \<open>\<open>s.split()\<close>: the maximal runs of characters that are not white space.\<close>

fun words_acc :: "string \<Rightarrow> string \<Rightarrow> string list" where
  "words_acc acc [] = (if acc = [] then [] else [rev acc])"
| "words_acc acc (c # cs) =
     (if is_space c then (if acc = [] then words_acc [] cs else rev acc # words_acc [] cs)
      else words_acc (c # acc) cs)"

definition py_words :: "string \<Rightarrow> string list" where
  "py_words s = words_acc [] s"

text \<open>\<open>s.replace(old, new)\<close>, left to right without overlap; an empty \<open>old\<close> matches everywhere.\<close>

function py_replace :: "string \<Rightarrow> string \<Rightarrow> string \<Rightarrow> string" where
  "py_replace old new s =
     (if old = [] then new @ concat (map (\<lambda>c. c # new) s)
      else if s = [] then []
      else if prefix old s then new @ py_replace old new (drop (length old) s)
      else hd s # py_replace old new (tl s))"
  by pat_completeness auto
termination
  by (relation "measure (\<lambda>(old, new, s). length s)") (auto simp: length_greater_0_conv)

declare py_replace.simps [simp del]

text \<open>Iterating over a text file yields its lines with their newline characters.\<close>

fun file_lines_acc :: "string \<Rightarrow> string \<Rightarrow> string list" where
  "file_lines_acc acc [] = (if acc = [] then [] else [rev acc])"
| "file_lines_acc acc (c # cs) =
     (if c = newline then rev (c # acc) # file_lines_acc [] cs else file_lines_acc (c # acc) cs)"

definition file_lines :: "string \<Rightarrow> string list" where
  "file_lines s = file_lines_acc [] s"

lemma file_lines_line: "newline \<notin> set l \<Longrightarrow> file_lines (l @ nl @ s) = (l @ nl) # file_lines s"
proof -
  assume l: "newline \<notin> set l"
  have "file_lines_acc acc (l @ newline # s) = (rev acc @ l @ nl) # file_lines_acc [] s" for acc
    using l by (induction l arbitrary: acc) (auto simp: nl_def)
  from this [of "[]"] show ?thesis by (simp add: file_lines_def nl_def)
qed

lemma concat_file_lines: "concat (file_lines s) = s"
proof -
  have "concat (file_lines_acc acc s) = rev acc @ s" for acc by (induction acc s rule: file_lines_acc.induct) simp_all
  then show ?thesis by (simp add: file_lines_def)
qed

lemma contains_iff_sublist: "contains s n \<longleftrightarrow> sublist n s"
proof (induction s n rule: contains.induct)
  case (3 c cs n ns)
  then show ?case
    by (auto simp: sublist_Cons_right)
qed (simp_all)

lemma contains_Cons_iff: "n \<noteq> [] \<Longrightarrow> contains (c # cs) n \<longleftrightarrow> prefix n (c # cs) \<or> contains cs n"
  by (cases n) simp_all

lemma contains_append: "contains s n \<Longrightarrow> contains (a @ s @ b) n"
  by (auto simp: contains_iff_sublist sublist_def) (metis append.assoc)

lemma split_char_nonempty [simp]: "split_char c s \<noteq> []"
  by (induction s) (auto split: list.splits)

lemma split_char_no_sep: "c \<notin> set s \<Longrightarrow> split_char c s = [s]"
  by (induction s) auto

lemma split_char_parts: "p \<in> set (split_char c s) \<Longrightarrow> c \<notin> set p"
proof (induction s arbitrary: p)
  case (Cons x xs)
  then show ?case
    by (cases "split_char c xs") (auto split: if_splits)
qed simp

lemma split_char_append: "c \<notin> set x \<Longrightarrow> split_char c (x @ c # s) = x # split_char c s"
  by (induction x) auto

lemma split_char_join:
  "xs \<noteq> [] \<Longrightarrow> (\<And>x. x \<in> set xs \<Longrightarrow> c \<notin> set x) \<Longrightarrow> split_char c (py_join [c] xs) = xs"
proof (induction "[c]" xs rule: py_join.induct)
  case (2 x)
  then show ?case by (simp add: split_char_no_sep)
next
  case (3 x y zs)
  then show ?case by (simp add: split_char_append)
qed simp

lemma py_join_Cons: "ys \<noteq> [] \<Longrightarrow> py_join sep (x # ys) = x @ sep @ py_join sep ys"
  by (cases ys) simp_all

lemma join_split_char: "py_join [c] (split_char c s) = s"
proof (induction s)
  case (Cons x xs)
  obtain p ps where p: "split_char c xs = p # ps"
    by (cases "split_char c xs") auto
  show ?case
  proof (cases "x = c")
    case True
    with Cons show ?thesis by (simp add: py_join_Cons)
  next
    case False
    with Cons p show ?thesis by (cases ps) auto
  qed
qed simp

lemma split_once_sep: "c \<notin> set k \<Longrightarrow> split_once c (k @ c # v) = [k, v]"
proof -
  assume "c \<notin> set k"
  then have "dropWhile (\<lambda>x. x \<noteq> c) (k @ c # v) = c # v" "takeWhile (\<lambda>x. x \<noteq> c) (k @ c # v) = k"
    by (induction k) auto
  then show ?thesis by (simp add: split_once_def)
qed

lemma split_once_no_sep: "c \<notin> set s \<Longrightarrow> split_once c s = [s]"
proof -
  assume "c \<notin> set s"
  then have "dropWhile (\<lambda>x. x \<noteq> c) s = []" by (induction s) auto
  then show ?thesis by (simp only: split_once_def list.case)
qed

lemma split_once_cases: "split_once c s = [s] \<or> (\<exists>k v. split_once c s = [k, v] \<and> s = k @ c # v \<and> c \<notin> set k)"
proof (cases "c \<in> set s")
  case True
  then obtain k v where kv: "s = k @ c # v" "c \<notin> set k" by (meson split_list_first)
  then show ?thesis by (auto simp: split_once_sep)
next
  case False
  then show ?thesis by (simp add: split_once_no_sep)
qed

text \<open>A token is what \<open>split()\<close> can return: not empty and free of white space.\<close>

definition is_token :: "string \<Rightarrow> bool" where
  "is_token w = (w \<noteq> [] \<and> list_all (\<lambda>x. \<not> is_space x) w)"

lemma words_acc_nonspace:
  "list_all (\<lambda>x. \<not> is_space x) w \<Longrightarrow> words_acc acc (w @ s) = words_acc (rev w @ acc) s"
  by (induction w arbitrary: acc) auto

lemma words_acc_tokens:
  "list_all (\<lambda>x. \<not> is_space x) acc \<Longrightarrow> list_all is_token (words_acc acc s)"
  by (induction acc s rule: words_acc.induct) (simp_all add: is_token_def)

lemma py_words_tokens: "list_all is_token (py_words s)"
  by (simp add: py_words_def words_acc_tokens)

lemma py_words_join: "list_all is_token ws \<Longrightarrow> py_words (py_join '' '' ws) = ws"
proof (induction "'' ''" ws rule: py_join.induct)
  case (2 x)
  then show ?case
    using words_acc_nonspace [of x "[]" "[]"] by (simp add: py_words_def is_token_def)
next
  case (3 x y zs)
  have "is_space (CHR '' '')" by (simp add: is_space_def)
  moreover have "py_words (py_join '' '' (y # zs)) = y # zs"
    by (rule "3.hyps") (use "3.prems" in simp)
  ultimately show ?case
    using "3.prems" words_acc_nonspace [of x "[]" "'' '' @ py_join '' '' (y # zs)"]
    by (simp add: py_words_def is_token_def)
qed (simp add: py_words_def)

section \<open>State machines\<close>

text \<open>The interface of a component that is a state machine: an invariant of its initial state and its steps.\<close>

locale transition_system =
  fixes step :: "'s \<Rightarrow> 's \<Rightarrow> bool" and init :: 's and inv :: "'s \<Rightarrow> bool"
  assumes inv_init: "inv init"
    and inv_step: "step s t \<Longrightarrow> inv s \<Longrightarrow> inv t"
begin

lemma reachable_inv: "step\<^sup>*\<^sup>* init s \<Longrightarrow> inv s"
proof (induction rule: rtranclp_induct)
  case base
  show ?case by (rule inv_init)
next
  case (step y z)
  from inv_step [OF step(2) step(3)] show ?case .
qed

end

end
