(* ===== verification/Py_Ints.thy ===== *)
theory Py_Ints
  imports Prelude
begin

text \<open>
  Integers as text: \<open>str\<close>, \<open>hex\<close> and zero-padded formatting on one side, \<open>int(s, base)\<close> on the
  other, with the round trip between them. The interface \<open>codec\<close> states what a printer and its
  reader promise; it is used by every component that writes a value another tool reads back.
\<close>

section \<open>Encoders with a partial decoder\<close>

locale codec =
  fixes enc :: "'a \<Rightarrow> 'b"
    and dec :: "'b \<Rightarrow> 'a option"
    and valid :: "'a \<Rightarrow> bool"
  assumes dec_enc: "valid x \<Longrightarrow> dec (enc x) = Some x"
begin

lemma enc_inject: "valid x \<Longrightarrow> valid y \<Longrightarrow> enc x = enc y \<longleftrightarrow> x = y"
  by (metis dec_enc option.inject)

lemma enc_inj_on: "inj_on enc {x. valid x}"
  by (rule inj_onI) (simp add: enc_inject)

lemma map_enc_inject:
  "list_all valid xs \<Longrightarrow> list_all valid ys \<Longrightarrow> map enc xs = map enc ys \<longleftrightarrow> xs = ys"
proof (induction xs arbitrary: ys)
  case (Cons x xs)
  then show ?case by (cases ys) (auto simp: enc_inject)
qed auto

lemma map_dec_map_enc: "list_all valid xs \<Longrightarrow> map dec (map enc xs) = map Some xs"
  by (induction xs) (auto simp: dec_enc)

lemma distinct_map_enc: "list_all valid xs \<Longrightarrow> distinct xs \<Longrightarrow> distinct (map enc xs)"
  by (induction xs) (auto simp: list_all_iff enc_inject)

end

section \<open>Digits\<close>

definition digit_char :: "nat \<Rightarrow> char" where
  "digit_char d = (if d < 10 then char_of (48 + d) else char_of (87 + d))"

definition digit_val :: "char \<Rightarrow> nat option" where
  "digit_val c =
     (let n = of_char c :: nat in
      if 48 \<le> n \<and> n \<le> 57 then Some (n - 48)
      else if 97 \<le> n \<and> n \<le> 122 then Some (n - 87)
      else if 65 \<le> n \<and> n \<le> 90 then Some (n - 55)
      else None)"

text \<open>Most significant digit first, without leading zeros (\<open>0\<close> has one digit).\<close>

function base_digits :: "nat \<Rightarrow> nat \<Rightarrow> nat list" where
  "base_digits b n = (if b < 2 \<or> n < b then [n] else base_digits b (n div b) @ [n mod b])"
  by pat_completeness auto
termination
  by (relation "measure (\<lambda>(b, n). n)") (auto intro: div_less_dividend)

declare base_digits.simps [simp del]

definition nat_str :: "nat \<Rightarrow> string" where
  "nat_str n = map digit_char (base_digits 10 n)"

definition int_str :: "int \<Rightarrow> string" where
  "int_str i = (if i < 0 then CHR ''-'' # nat_str (nat (- i)) else nat_str (nat i))"

text \<open>\<open>'{:x}'.format(n)\<close>, \<open>hex(n)\<close> and \<open>'{:0wx}'.format(n)\<close> on natural numbers.\<close>

definition hex_str :: "nat \<Rightarrow> string" where
  "hex_str n = map digit_char (base_digits 16 n)"

definition py_hex :: "nat \<Rightarrow> string" where
  "py_hex n = ''0x'' @ hex_str n"

definition zfill :: "nat \<Rightarrow> string \<Rightarrow> string" where
  "zfill w s = replicate (w - length s) (CHR ''0'') @ s"

definition hex_pad :: "nat \<Rightarrow> nat \<Rightarrow> string" where
  "hex_pad w n = zfill w (hex_str n)"

text \<open>
  \<open>int(s, b)\<close>: surrounding white space, an optional sign, an optional \<open>0x\<close> prefix in base 16,
  then digits with single underscores between them.
\<close>

fun read_digits :: "nat \<Rightarrow> nat \<Rightarrow> bool \<Rightarrow> string \<Rightarrow> nat option" where
  "read_digits b a after_digit [] = (if after_digit then Some a else None)"
| "read_digits b a after_digit (c # cs) =
     (if c = CHR ''_'' then (if after_digit then read_digits b a False cs else None)
      else (case digit_val c of
              None \<Rightarrow> None
            | Some d \<Rightarrow> if d < b then read_digits b (a * b + d) True cs else None))"

definition read_nat :: "nat \<Rightarrow> string \<Rightarrow> nat option" where
  "read_nat b s =
     (if b = 16 \<and> (prefix ''0x'' s \<or> prefix ''0X'' s)
      then (let r = drop 2 s in read_digits b 0 False (if prefix ''_'' r then tl r else r))
      else read_digits b 0 False s)"

definition py_int :: "nat \<Rightarrow> string \<Rightarrow> int res" where
  "py_int b s =
     (let t = strip s;
          v = (if prefix ''-'' t then map_option (\<lambda>n. - int n) (read_nat b (tl t))
               else if prefix ''+'' t then map_option int (read_nat b (tl t))
               else map_option int (read_nat b t))
      in case v of Some i \<Rightarrow> Inr i
         | None \<Rightarrow> Inl (ValueError (''invalid literal for int() with base '' @ nat_str b @ '': '' @ s)))"

lemma digit_val_char: "d < 36 \<Longrightarrow> digit_val (digit_char d) = Some d"
  by (auto simp: digit_val_def digit_char_def Let_def)

lemma of_char_digit_char:
  "d < 36 \<Longrightarrow> (of_char (digit_char d) :: nat) = (if d < 10 then 48 + d else 87 + d)"
  by (simp add: digit_char_def)

lemma digit_char_not_special:
  assumes "d < 36"
  shows "digit_char d \<noteq> CHR ''_''" and "\<not> is_space (digit_char d)" and "digit_char d \<noteq> CHR ''-''"
    and "digit_char d \<noteq> CHR ''+''" and "digit_char d \<noteq> CHR ''.''" and "digit_char d \<noteq> CHR ''=''"
    and "digit_char d \<noteq> newline"
proof -
  have n: "(of_char (digit_char d) :: nat) = (if d < 10 then 48 + d else 87 + d)"
    by (rule of_char_digit_char) (use assms in simp)
  have "P \<noteq> digit_char d" if "(of_char P :: nat) \<notin> {48..57} \<union> {97..122}" for P
    using that n assms by (auto split: if_splits)
  from this [of "CHR ''_''"] this [of "CHR ''-''"] this [of "CHR ''+''"] this [of "CHR ''.''"]
    this [of "CHR ''=''"] this [of newline]
  show "digit_char d \<noteq> CHR ''_''" "digit_char d \<noteq> CHR ''-''" "digit_char d \<noteq> CHR ''+''"
    "digit_char d \<noteq> CHR ''.''" "digit_char d \<noteq> CHR ''=''" "digit_char d \<noteq> newline"
    by (auto simp: newline_def)
  show "\<not> is_space (digit_char d)"
    using n assms by (auto simp: is_space_def Let_def split: if_splits)
qed

lemma base_digits_bound: "2 \<le> b \<Longrightarrow> d \<in> set (base_digits b n) \<Longrightarrow> d < b"
proof (induction b n rule: base_digits.induct)
  case (1 b n)
  then show ?case
    by (cases "n < b") (auto simp: base_digits.simps [of b n])
qed

lemma base_digits_nonempty [simp]: "base_digits b n \<noteq> []"
  by (subst base_digits.simps) simp

lemma base_digits_value:
  "2 \<le> b \<Longrightarrow> foldl (\<lambda>a d. a * b + d) 0 (base_digits b n) = n"
proof (induction b n rule: base_digits.induct)
  case (1 b n)
  show ?case
  proof (cases "n < b")
    case True
    then show ?thesis by (simp add: base_digits.simps [of b n])
  next
    case False
    with 1 have "foldl (\<lambda>a d. a * b + d) 0 (base_digits b (n div b)) = n div b" by simp
    with False 1(2) show ?thesis by (simp add: base_digits.simps [of b n])
  qed
qed

lemma base_digits_length:
  assumes "2 \<le> b" and "n < b ^ k" and "0 < k"
  shows "length (base_digits b n) \<le> k"
  using assms
proof (induction b n arbitrary: k rule: base_digits.induct)
  case (1 b n)
  show ?case
  proof (cases "n < b")
    case True
    with 1 show ?thesis by (simp add: base_digits.simps [of b n])
  next
    case False
    obtain j where k: "k = Suc j" using 1 by (cases k) auto
    have j: "0 < j" using False "1.prems"(2) k by (cases j) auto
    have "n div b < b ^ j" using "1.prems"(1,2) k by (simp add: less_mult_imp_div_less mult.commute)
    with False 1 j have "length (base_digits b (n div b)) \<le> j" by simp
    with False "1.prems"(1) k show ?thesis by (simp add: base_digits.simps [of b n])
  qed
qed

lemma read_digits_map:
  assumes "b \<le> 36" and "\<And>d. d \<in> set ds \<Longrightarrow> d < b" and "ds \<noteq> [] \<or> f"
  shows "read_digits b a f (map digit_char ds) = Some (foldl (\<lambda>a d. a * b + d) a ds)"
  using assms
proof (induction ds arbitrary: a f)
  case (Cons d ds)
  then have "d < b" "d < 36" by (auto intro: less_le_trans)
  moreover have "read_digits b (a * b + d) True (map digit_char ds)
      = Some (foldl (\<lambda>a d. a * b + d) (a * b + d) ds)"
    by (rule Cons.IH) (use Cons.prems in auto)
  ultimately show ?case
    by (simp add: digit_val_char digit_char_not_special)
qed simp

lemma read_digits_zeros:
  "read_digits b 0 f (replicate k (CHR ''0'') @ s) = read_digits b 0 (f \<or> 0 < k) s"
  if "0 < b"
proof (induction k arbitrary: f)
  case (Suc k)
  have "digit_val (CHR ''0'') = Some 0" by (simp add: digit_val_def)
  with that Suc show ?case by simp
qed simp

lemma hex_str_nonempty [simp]: "hex_str n \<noteq> []" "nat_str n \<noteq> []"
  by (simp_all add: hex_str_def nat_str_def)

lemma nat_str_digits:
  assumes "c \<in> set (nat_str n)" shows "\<exists>d < 10. c = digit_char d"
  using assms base_digits_bound [of 10 _ n] by (auto simp: nat_str_def)

lemma hex_str_digits:
  assumes "c \<in> set (hex_str n)" shows "\<exists>d < 16. c = digit_char d"
  using assms base_digits_bound [of 16 _ n] by (auto simp: hex_str_def)

lemma nat_str_is_digit: "c \<in> set (nat_str n) \<Longrightarrow> is_digit c"
  by (auto dest!: nat_str_digits simp: is_digit_def of_char_digit_char)

lemma nat_str_no_slash: "CHR ''/'' \<notin> set (nat_str k)"
  using nat_str_is_digit [of "CHR ''/''" k] by (auto simp: is_digit_def)

lemma strip_id: "list_all (\<lambda>x. \<not> is_space x) s \<Longrightarrow> strip s = s"
proof -
  assume s: "list_all (\<lambda>x. \<not> is_space x) s"
  then have "lstrip s = s" by (cases s) (auto simp: lstrip_def)
  moreover from s have "dropWhile is_space (rev s) = rev s"
    by (cases "rev s") (auto simp: list_all_iff dest: arg_cong [where f = set])
  ultimately show ?thesis by (simp add: strip_def rstrip_def)
qed

lemma nat_str_nonspace: "list_all (\<lambda>x. \<not> is_space x) (nat_str n)"
proof -
  have "\<not> is_space c" if c: "c \<in> set (nat_str n)" for c
  proof -
    obtain d where "d < 10" "c = digit_char d" using nat_str_digits [OF c] by auto
    then show ?thesis using digit_char_not_special(2) [of d] by simp
  qed
  then show ?thesis by (simp add: list_all_iff)
qed

lemma nat_str_notin:
  assumes "\<not> is_digit c" shows "c \<notin> set (nat_str n)"
  using assms nat_str_is_digit by blast

lemma read_nat_nat_str: "read_nat 10 (nat_str n) = Some n"
  using read_digits_map [of 10 "base_digits 10 n" False 0]
  by (auto simp: read_nat_def nat_str_def base_digits_bound base_digits_value)

text \<open>Reading back what \<open>str\<close> prints.\<close>

lemma py_int_int_str: "py_int 10 (int_str i) = Inr i"
proof (cases "i < 0")
  case True
  have ns: "list_all (\<lambda>x. \<not> is_space x) (int_str i)"
    using True nat_str_nonspace [of "nat (- i)"] by (simp add: int_str_def is_space_def)
  have "strip (int_str i) = int_str i" by (rule strip_id) (rule ns)
  with True show ?thesis by (simp add: py_int_def int_str_def read_nat_nat_str)
next
  case False
  have ns: "list_all (\<lambda>x. \<not> is_space x) (int_str i)"
    using False nat_str_nonspace [of "nat i"] by (simp add: int_str_def)
  have st: "strip (int_str i) = int_str i" by (rule strip_id) (rule ns)
  have "\<not> is_digit (CHR ''-'')" "\<not> is_digit (CHR ''+'')" by (simp_all add: is_digit_def)
  then have "CHR ''-'' \<notin> set (nat_str (nat i))" "CHR ''+'' \<notin> set (nat_str (nat i))"
    by (auto dest: nat_str_is_digit)
  then have "\<not> prefix ''-'' (nat_str (nat i))" "\<not> prefix ''+'' (nat_str (nat i))"
    by (cases "nat_str (nat i)"; auto)+
  with False st show ?thesis by (simp add: py_int_def int_str_def read_nat_nat_str)
qed

lemma int_str_inject: "int_str i = int_str j \<longleftrightarrow> i = j"
  by (metis py_int_int_str sum.inject(2))

lemma nat_str_inject: "nat_str m = nat_str n \<longleftrightarrow> m = n"
  by (metis read_nat_nat_str option.inject)

section \<open>Fixed-width hexadecimal\<close>

definition read_hex :: "string \<Rightarrow> nat option" where
  "read_hex s = read_digits 16 0 False s"

lemma read_hex_pad: "read_hex (hex_pad w n) = Some n"
proof -
  have "read_digits 16 0 f (hex_str n) = Some n" for f
    using read_digits_map [of 16 "base_digits 16 n" f 0]
    by (auto simp: hex_str_def base_digits_bound base_digits_value)
  then show ?thesis
    by (simp add: read_hex_def hex_pad_def zfill_def read_digits_zeros)
qed

lemma hex_pad_length:
  assumes "n < 16 ^ w" and "0 < w"
  shows "length (hex_pad w n) = w"
  using base_digits_length [of 16 n w] assms
  by (simp add: hex_pad_def zfill_def hex_str_def)

lemma hex_pad_no_newline: "newline \<notin> set (hex_pad w n)"
proof -
  have "newline \<notin> set (hex_str n)"
  proof
    assume "newline \<in> set (hex_str n)"
    then obtain d where "d < 16" "newline = digit_char d" using hex_str_digits by blast
    then show False using digit_char_not_special(7) [of d] by simp
  qed
  then show ?thesis
    by (auto simp: hex_pad_def zfill_def newline_def)
qed

text \<open>A number that fits is printed digit by digit, and the digits of a sum of two fields join.\<close>

fun hex_digits :: "nat \<Rightarrow> nat \<Rightarrow> string" where
  "hex_digits 0 n = []"
| "hex_digits (Suc w) n = hex_digits w (n div 16) @ [digit_char (n mod 16)]"

lemma length_hex_digits [simp]: "length (hex_digits w n) = w"
  by (induction w arbitrary: n) simp_all

lemma digit_char_0: "digit_char 0 = CHR ''0''"
  by code_simp

lemma hex_digits_0: "hex_digits w 0 = replicate w (CHR ''0'')"
  by (induction w) (simp_all add: digit_char_0 replicate_append_same)

lemma zfill_snoc: "zfill (Suc w) (s @ [c]) = zfill w s @ [c]"
  by (simp add: zfill_def)

lemma hex_pad_digits: "n < 16 ^ Suc w \<Longrightarrow> hex_pad (Suc w) n = hex_digits (Suc w) n"
proof (induction w arbitrary: n)
  case 0
  then show ?case by (simp add: hex_pad_def hex_str_def base_digits.simps zfill_def)
next
  case (Suc w)
  show ?case
  proof (cases "n < 16")
    case True
    then have "hex_str n = [] @ [digit_char n]" by (simp add: hex_str_def base_digits.simps)
    then have "hex_pad (Suc (Suc w)) n = zfill (Suc w) [] @ [digit_char n]"
      by (simp only: hex_pad_def zfill_snoc)
    also have "zfill (Suc w) [] = hex_digits (Suc w) 0"
      by (simp only: hex_digits_0) (simp add: zfill_def)
    finally show ?thesis using True by (simp add: hex_digits.simps(2) [of "Suc w" n] del: hex_digits.simps)
  next
    case False
    then have "hex_str n = hex_str (n div 16) @ [digit_char (n mod 16)]"
      by (simp add: hex_str_def base_digits.simps [of 16 n])
    then have "hex_pad (Suc (Suc w)) n = hex_pad (Suc w) (n div 16) @ [digit_char (n mod 16)]"
      by (simp only: hex_pad_def zfill_snoc)
    moreover have "n div 16 < 16 ^ Suc w" using Suc.prems by (simp add: less_mult_imp_div_less)
    ultimately show ?thesis using Suc.IH [of "n div 16"] by simp
  qed
qed

lemma hex_digits_join:
  "b < 16 ^ w \<Longrightarrow> hex_digits (v + w) (a * 16 ^ w + b) = hex_digits v a @ hex_digits w b"
proof (induction w arbitrary: b)
  case (Suc w)
  have "(a * 16 ^ Suc w + b) div 16 = a * 16 ^ w + b div 16" by simp
  moreover have "(a * 16 ^ Suc w + b) mod 16 = b mod 16" by (simp add: mod_add_left_eq [symmetric])
  moreover have "b div 16 < 16 ^ w" using Suc.prems by (simp add: less_mult_imp_div_less)
  ultimately show ?case using Suc.IH [of "b div 16"] by simp
qed simp

lemma read_hex_digits: "0 < w \<Longrightarrow> n < 16 ^ w \<Longrightarrow> read_hex (hex_digits w n) = Some n"
  by (cases w) (auto simp: hex_pad_digits [symmetric] read_hex_pad simp del: hex_digits.simps)

interpretation dec_int: codec int_str "\<lambda>s. case py_int 10 s of Inl _ \<Rightarrow> None | Inr i \<Rightarrow> Some i" "\<lambda>_. True"
  by unfold_locales (simp add: py_int_int_str)

interpretation hex_word: codec "hex_pad w" read_hex "\<lambda>_. True" for w
  by unfold_locales (simp add: read_hex_pad)

section \<open>Reading hexadecimal with int(s, 16)\<close>

lemma hex_pad_chars: "c \<in> set (hex_pad w n) \<Longrightarrow> \<exists>d < 16. c = digit_char d"
  using hex_str_digits [of c n] digit_char_0
  by (auto simp: hex_pad_def zfill_def split: if_splits intro: exI [of _ 0])

definition plain_hex_char :: "char \<Rightarrow> bool" where
  "plain_hex_char x = (\<not> is_space x \<and> x \<notin> set ''-+,xX_'')"

lemma hex_pad_plain: "c \<in> set (hex_pad w n) \<Longrightarrow> plain_hex_char c"
proof -
  assume "c \<in> set (hex_pad w n)"
  then obtain d where d: "d < 16" "c = digit_char d" using hex_pad_chars by blast
  have n: "(of_char c :: nat) = (if d < 10 then 48 + d else 87 + d)"
    using of_char_digit_char [of d] d by simp
  have "c \<noteq> P" if "(of_char P :: nat) \<notin> {48..57} \<union> {97..102}" for P
    using that n d(1) by (auto split: if_splits)
  from this [of "CHR '',''"] this [of "CHR ''x''"] this [of "CHR ''X''"]
  show ?thesis using digit_char_not_special [of d] d by (simp add: plain_hex_char_def)
qed

lemma hex_pad_prefix: "\<not> plain_hex_char c \<Longrightarrow> c \<in> set q \<Longrightarrow> \<not> prefix q (hex_pad w n)"
  using hex_pad_plain set_mono_prefix by blast

lemma hex_pad_prefixes [simp]:
  "\<not> prefix ''0x'' (hex_pad w n)" "\<not> prefix ''0X'' (hex_pad w n)" "\<not> prefix ''-'' (hex_pad w n)"
  "\<not> prefix ''+'' (hex_pad w n)" "\<not> prefix ''_'' (hex_pad w n)"
  by (rule hex_pad_prefix [of "CHR ''x''"] hex_pad_prefix [of "CHR ''X''"] hex_pad_prefix [of "CHR ''-''"]
      hex_pad_prefix [of "CHR ''+''"] hex_pad_prefix [of "CHR ''_''"]; simp add: plain_hex_char_def)+

lemma hex_pad_nonspace: "list_all (\<lambda>x. \<not> is_space x) (hex_pad w n)"
  using hex_pad_plain by (auto simp: list_all_iff plain_hex_char_def)

lemma py_int_hex_pad: "py_int 16 (hex_pad w n) = Inr (int n)"
proof -
  have "read_nat 16 (hex_pad w n) = Some n"
    using read_hex_pad [of w n] by (simp add: read_nat_def read_hex_def)
  then show ?thesis by (simp add: py_int_def strip_id [OF hex_pad_nonspace])
qed

lemma py_int_py_hex: "py_int 16 (py_hex n) = Inr (int n)"
proof -
  have h: "py_hex n = ''0x'' @ hex_pad 0 n" by (simp add: py_hex_def hex_pad_def zfill_def)
  have "\<not> is_space (CHR ''0'')" "\<not> is_space (CHR ''x'')" by (simp_all add: is_space_def)
  then have st: "strip (py_hex n) = py_hex n"
    unfolding h by (intro strip_id) (simp add: hex_pad_nonspace)
  have "read_nat 16 (py_hex n) = Some n"
    using read_hex_pad [of 0 n] by (simp add: read_nat_def h read_hex_def)
  with st show ?thesis by (simp add: py_int_def h)
qed

end
