(* ===== verification/Firmware_Image.thy ===== *)
theory Firmware_Image
  imports Py_Ints "HOL-Library.Word"
begin

text \<open>
  The image converters of the SoC: \<open>software/bin2hex.py\<close> (flat binary to a \<open>$readmemh\<close> file),
  \<open>rtl/crypto/scripts/sign_firmware.py\<close> and \<open>build_mem.py\<close> (signed flash image), and
  \<open>rtl/riscv-dbg/debug_rom/gen_rom.py\<close> (debug ROM as a C array and as SystemVerilog).
  A byte is an \<open>8 word\<close>; the file system is a map from paths to binary or text contents. The
  lemmas show that each generated text, read back, is the padded input.
\<close>

type_synonym bytes = "8 word list"

datatype fcontent = Bin bytes | Txt string

type_synonym fs = "string \<rightharpoonup> fcontent"

definition read_binary :: "fs \<Rightarrow> string \<Rightarrow> bytes res" where
  "read_binary fs p = (case fs p of Some (Bin b) \<Rightarrow> Inr b | _ \<Rightarrow> Inl (OSError p))"

text \<open>The unsigned value of a run of bytes, in either byte order (\<open>struct\<close> formats \<open><I\<close>, \<open>>I\<close>).\<close>

fun le_nat :: "bytes \<Rightarrow> nat" where
  "le_nat [] = 0"
| "le_nat (b # bs) = unat b + 256 * le_nat bs"

definition be_nat :: "bytes \<Rightarrow> nat" where
  "be_nat bs = foldl (\<lambda>a b. a * 256 + unat b) 0 bs"

fun words4 :: "(bytes \<Rightarrow> nat) \<Rightarrow> bytes \<Rightarrow> nat list" where
  "words4 f (a # b # c # d # r) = f [a, b, c, d] # words4 f r"
| "words4 f _ = []"

section \<open>bin2hex.py\<close>

definition pad_word :: "bytes \<Rightarrow> bytes" where
  "pad_word data =
     (let remainder = length data mod 4
      in if remainder \<noteq> 0 then data @ replicate (4 - remainder) 0 else data)"

text \<open>\<open>f.write(f'{w:08x}\\n')\<close> for every word.\<close>

definition mem_text :: "nat list \<Rightarrow> string" where
  "mem_text ws = concat (map (\<lambda>w. hex_pad 8 w @ nl) ws)"

definition bin2hex_words :: "bytes \<Rightarrow> nat list" where
  "bin2hex_words data = words4 le_nat (pad_word data)"

definition bin2hex_main :: "string list \<Rightarrow> fs \<Rightarrow> (fs \<times> string) res" where
  "bin2hex_main argv fs =
     (case argv of
        [prog, in_path, out_path] \<Rightarrow>
          rbind (read_binary fs in_path) (\<lambda>data.
            let words = bin2hex_words data;
                num_words = length (pad_word data) div 4
            in Inr (fs(out_path \<mapsto> Txt (mem_text words)),
                    ''[bin2hex] Wrote '' @ nat_str num_words @ '' words to '' @ out_path))
      | _ \<Rightarrow> Inl (SystemExit 1))"

section \<open>sign\_firmware.py\<close>

definition TARGET_SIZE :: nat where "TARGET_SIZE = 512 * 1024"

definition filler_byte :: "nat \<Rightarrow> 8 word" where
  "filler_byte i = of_nat ((i * 2654435761) mod 256)"

text \<open>
  The key pair of the \<open>cryptography\<close> package is a parameter: the raw public key and the signature
  of a message. The target size is an argument so that small instances can be evaluated.
\<close>

definition padded_firmware :: "nat \<Rightarrow> bytes \<Rightarrow> bytes res" where
  "padded_firmware target code =
     (if length code > target then Inl (SystemExit 1)
      else let firmware = code @ map filler_byte [0..<target - length code]
           in Inr (if length firmware mod 4 \<noteq> 0
                   then firmware @ replicate (4 - length firmware mod 4) 0 else firmware))"

definition bins_dir :: string where "bins_dir = ''rtl/crypto/scripts/bins/''"

definition mems_dir :: string where "mems_dir = ''rtl/crypto/scripts/mems/''"

definition sign_firmware :: "nat \<Rightarrow> bytes \<Rightarrow> (bytes \<Rightarrow> bytes) \<Rightarrow> fs \<Rightarrow> fs res" where
  "sign_firmware target public_bytes sign fs =
     rbind (read_binary fs (bins_dir @ ''firmware_code.bin'')) (\<lambda>code.
     rbind (padded_firmware target code) (\<lambda>firmware.
       let sig = sign firmware
       in Inr (fs(bins_dir @ ''firmware.bin'' \<mapsto> Bin firmware,
                  bins_dir @ ''pubkey.bin'' \<mapsto> Bin public_bytes,
                  bins_dir @ ''sig_R.bin'' \<mapsto> Bin (take 32 sig),
                  bins_dir @ ''sig_S.bin'' \<mapsto> Bin (drop 32 sig)))))"

section \<open>build\_mem.py\<close>

definition be_words :: "bytes \<Rightarrow> nat list res" where
  "be_words data =
     (if length data mod 4 = 0 then Inr (words4 be_nat data)
      else Inl (AssertionError ''len(data) % 4 == 0''))"

definition flash_words :: "nat list \<Rightarrow> nat list \<Rightarrow> nat list \<Rightarrow> nat list" where
  "flash_words r_words s_words msg_words =
     [8 + 8 + length msg_words] @ r_words @ s_words @ msg_words"

definition build_mem :: "fs \<Rightarrow> fs res" where
  "build_mem fs =
     rbind (read_binary fs (bins_dir @ ''firmware.bin'')) (\<lambda>firmware.
     rbind (read_binary fs (bins_dir @ ''pubkey.bin'')) (\<lambda>pubkey.
     rbind (read_binary fs (bins_dir @ ''sig_R.bin'')) (\<lambda>R.
     rbind (read_binary fs (bins_dir @ ''sig_S.bin'')) (\<lambda>S.
     rbind (be_words R) (\<lambda>r_words.
     rbind (be_words S) (\<lambda>s_words.
     rbind (be_words firmware) (\<lambda>msg_words.
     rbind (be_words pubkey) (\<lambda>pub_words.
       Inr (fs(mems_dir @ ''flash.mem'' \<mapsto> Txt (mem_text (flash_words r_words s_words msg_words)),
               mems_dir @ ''pubkey.mem'' \<mapsto> Txt (mem_text pub_words)))))))))))"

section \<open>gen\_rom.py\<close>

text \<open>\<open>bytes.hex\<close> followed by \<open>zip(rom[::2], rom[1::2])\<close>: one two-digit string per byte.\<close>

definition bytes_hex :: "bytes \<Rightarrow> string" where
  "bytes_hex bs = concat (map (\<lambda>b. hex_pad 2 (unat b)) bs)"

fun char_pairs :: "string \<Rightarrow> string list" where
  "char_pairs (a # b # r) = [a, b] # char_pairs r"
| "char_pairs _ = []"

definition read_bin :: "bytes \<Rightarrow> string list" where
  "read_bin img =
     (let rom = char_pairs (bytes_hex img);
          align = (length rom + 7) div 8 * 8
      in rom @ replicate (align - length rom) ''00'')"

text \<open>\<open>"".join(rom[i:j][::-1])\<close>\<close>

definition rom_slice :: "string list \<Rightarrow> nat \<Rightarrow> nat \<Rightarrow> string" where
  "rom_slice rom i j = concat (rev (take (j - i) (drop i rom)))"

definition rom_content_h :: "string list \<Rightarrow> string" where
  "rom_content_h rom =
     (let rom_str = concat (map (\<lambda>i. ''    0x'' @ rom_slice rom (i * 4) (i * 4 + 4) @ '','' @ nl)
                              [0..<length rom div 4])
      in take (length rom_str - 2) rom_str)"

definition rom_content_sv :: "string list \<Rightarrow> string" where
  "rom_content_sv rom =
     (let rom_str = concat (map (\<lambda>i. ''    64'h'' @ rom_slice rom (i * 8 + 4) (i * 8 + 8) @ ''_''
                                 @ rom_slice rom (i * 8) (i * 8 + 4) @ '','' @ nl)
                              (rev [0..<length rom div 8]))
      in take (length rom_str - 2) rom_str)"

text \<open>
  \<open>string.Template.substitute\<close>: \<open>$$\<close> is a dollar sign, \<open>$name\<close> is replaced by the value of
  \<open>name\<close> (\<open>KeyError\<close> when there is none); any other \<open>$\<close> is a \<open>ValueError\<close>. The braced form does
  not occur in the templates.
\<close>

definition ident_start :: "char \<Rightarrow> bool" where
  "ident_start c = (c = CHR ''_'' \<or> is_upper c \<or> is_lower c)"

function template_subst :: "(string \<times> string) list \<Rightarrow> string \<Rightarrow> string res" where
  "template_subst vals [] = Inr []"
| "template_subst vals (c # cs) =
     (if c \<noteq> CHR ''$'' then rbind (template_subst vals cs) (\<lambda>t. Inr (c # t))
      else if prefix ''$'' cs then rbind (template_subst vals (tl cs)) (\<lambda>t. Inr (CHR ''$'' # t))
      else if cs \<noteq> [] \<and> ident_start (hd cs) then
        (case map_of vals (takeWhile is_word cs) of
           None \<Rightarrow> Inl (KeyError (takeWhile is_word cs))
         | Some v \<Rightarrow> rbind (template_subst vals (dropWhile is_word cs)) (\<lambda>t. Inr (v @ t)))
      else Inl (ValueError ''Invalid placeholder in string''))"
  by pat_completeness auto
termination
  by (relation "measure (\<lambda>(vals, s). length s)")
    (auto simp: le_imp_less_Suc length_dropWhile_le prefix_def)

definition c_var :: string where
  "c_var = py_join nl
     [''// Auto-generated code'', '''', ''const int reset_vec_size = $size;'', '''',
      ''uint32_t reset_vec[reset_vec_size] = {'', ''$content'', ''};'', '''']"

definition sv_module :: string where
  "sv_module = py_join nl
     [''module $filename ('',
      ''  input  logic         clk_i,'',
      ''  input  logic         rst_ni,'',
      ''  input  logic         req_i,'',
      ''  input  logic [63:0]  addr_i,'',
      ''  output logic [63:0]  rdata_o'',
      '');'', '''',
      ''  localparam int unsigned RomSize = $size;'', '''',
      ''  logic [RomSize-1:0][63:0] mem;'',
      ''  assign mem = {'',
      ''$content'',
      ''  };'', '''',
      ''  logic [$$clog2(RomSize)-1:0] addr_d, addr_q;'', '''',
      ''  assign addr_d = req_i ? addr_i[$$clog2(RomSize)-1+3:3] : addr_q;'', '''',
      ''  always_ff @(posedge clk_i or negedge rst_ni) begin'',
      ''    if (!rst_ni) begin'',
      ''      addr_q <= '0;'',
      ''    end else begin'',
      ''      addr_q <= addr_d;'',
      ''    end'',
      ''  end'', '''',
      ''  // this prevents spurious Xes from propagating into'',
      ''  // the speculative fetch stage of the core'',
      ''  always_comb begin : p_outmux'',
      ''    rdata_o = '0;'',
      ''    if (addr_q < $$clog2(RomSize)'(RomSize)) begin'',
      ''      rdata_o = mem[addr_q];'',
      ''    end'',
      ''  end'', '''',
      ''endmodule'', '''']"

definition rom_license :: string where
  "rom_license = py_join nl
     [''/* Copyright 2018 ETH Zurich and University of Bologna.'',
      '' * Copyright and related rights are licensed under the Solderpad Hardware'',
      '' * License, Version 0.51 (the \"License\"); you may not use this file except in'',
      '' * compliance with the License.  You may obtain a copy of the License at'',
      '' * http://solderpad.org/licenses/SHL-0.51. Unless required by applicable law'',
      '' * or agreed to in writing, software, hardware and materials distributed under'',
      '' * this License is distributed on an \"AS IS\" BASIS, WITHOUT WARRANTIES OR'',
      '' * CONDITIONS OF ANY KIND, either express or implied. See the License for the'',
      '' * specific language governing permissions and limitations under the License.'',
      '' *'',
      '' * File: $filename.v'',
      '' *'',
      '' * Description: Auto-generated bootrom'',
      '' */'', '''',
      ''// Auto-generated code'', '''']"

text \<open>
  The whole script for an existing input file, whose name without its extension is \<open>filename\<close>.
  When the input does not exist the script formats \<open>filename\<close> before assigning it.
\<close>

definition gen_rom :: "string \<Rightarrow> string \<Rightarrow> fs \<Rightarrow> fs res" where
  "gen_rom file filename fs =
     (if fs file = None then Inl (NameError ''filename'')
      else rbind (read_binary fs (filename @ ''.img'')) (\<lambda>img.
        let rom = read_bin img in
        rbind (template_subst [(''filename'', filename), (''size'', nat_str (length rom div 4)),
                 (''content'', rom_content_h rom)] c_var) (\<lambda>h.
        rbind (template_subst [(''filename'', filename), (''size'', nat_str (length rom div 8)),
                 (''content'', rom_content_sv rom)] sv_module) (\<lambda>sv.
          Inr (fs(filename @ ''.h'' \<mapsto> Txt h, filename @ ''.sv'' \<mapsto> Txt (rom_license @ sv)))))))"

section \<open>Byte order\<close>

definition le_bytes4 :: "nat \<Rightarrow> bytes" where
  "le_bytes4 n = [of_nat n, of_nat (n div 256), of_nat (n div 256 div 256), of_nat (n div 256 div 256 div 256)]"

definition be_bytes4 :: "nat \<Rightarrow> bytes" where
  "be_bytes4 n = rev (le_bytes4 n)"

lemma unat_byte_bound: "unat (b :: 8 word) < 256"
  using unsigned_less [of b] by simp

lemma byte_256: "(256 :: 8 word) = 0"
  by simp

lemma byte_of_nat_add: "(of_nat (unat b + 256 * m) :: 8 word) = b"
  by (simp add: byte_256 del: numeral_eq_iff)

lemma byte_div: "(unat (b :: 8 word) + 256 * m) div 256 = m"
  using unat_byte_bound [of b] by simp

lemma le_bytes4_le_nat: "le_bytes4 (le_nat [a, b, c, d]) = [a, b, c, d]"
  unfolding le_bytes4_def le_nat.simps by (simp only: byte_of_nat_add byte_div mult_0_right add_0_right)
    (simp add: byte_div)

lemma be_nat_le_nat: "be_nat (rev bs) = le_nat bs"
  unfolding be_nat_def by (induction bs) auto

lemma be_bytes4_be_nat: "be_bytes4 (be_nat [a, b, c, d]) = [a, b, c, d]"
  using be_nat_le_nat [of "[d, c, b, a]"] le_bytes4_le_nat [of d c b a]
  by (simp add: be_bytes4_def)

lemma le_nat_bound: "le_nat bs < 256 ^ length bs"
proof (induction bs)
  case (Cons b bs)
  then have "256 * le_nat bs + 256 \<le> 256 ^ length (b # bs)" by simp
  with unat_byte_bound [of b] show ?case by simp
qed simp

lemma words4_bytes:
  assumes "\<And>a b c d. g (f [a, b, c, d]) = [a, b, c, d]" and "length bs mod 4 = 0"
  shows "concat (map g (words4 f bs)) = bs"
  using assms by (induction f bs rule: words4.induct) auto

lemma length_words4: "length (words4 f bs) = length bs div 4"
  by (induction f bs rule: words4.induct) simp_all

lemma words4_append:
  "length xs mod 4 = 0 \<Longrightarrow> words4 f (xs @ ys) = words4 f xs @ words4 f ys"
  by (induction f xs rule: words4.induct) auto

text \<open>A \<open>$readmemh\<close> file with one word per line: the reader's view of \<open>mem_text\<close>.\<close>

definition readmemh :: "string \<Rightarrow> nat list option" where
  "readmemh s = those (map read_hex (filter (\<lambda>l. l \<noteq> []) (split_char newline s)))"

lemma split_mem_text: "split_char newline (mem_text ws) = map (hex_pad 8) ws @ [[]]"
  by (induction ws) (simp_all add: mem_text_def nl_def split_char_append hex_pad_no_newline)

lemma hex_pad_nonempty [simp]: "hex_pad w n \<noteq> []"
  by (simp add: hex_pad_def zfill_def)

lemma those_map_Some: "those (map Some xs) = Some xs"
  by (induction xs) simp_all

interpretation mem_file: codec mem_text readmemh "\<lambda>_. True"
proof
  fix ws :: "nat list"
  have "filter (\<lambda>l. l \<noteq> []) (map (hex_pad 8) ws) = map (hex_pad 8) ws"
    by (simp add: filter_id_conv)
  moreover have "map read_hex (map (hex_pad 8) ws) = map Some ws"
    by (rule hex_word.map_dec_map_enc) (simp add: list_all_iff)
  ultimately show "readmemh (mem_text ws) = Some ws"
    by (simp add: readmemh_def split_mem_text those_map_Some del: map_map)
qed

lemma pad_word_length: "length (pad_word data) mod 4 = 0"
  by (auto simp: pad_word_def Let_def) presburger

lemma pad_word_extends: "\<exists>k < 4. pad_word data = data @ replicate k 0"
  by (auto simp: pad_word_def Let_def intro: exI [of _ 0])

text \<open>
  C17. \<open>bin2hex.py\<close> on an existing input writes only the output file, and a \<open>$readmemh\<close> reader that
  stores each line little-endian gets back the input followed by at most three zero bytes, up to a
  multiple of four.
\<close>

theorem bin2hex_roundtrip:
  assumes "fs in_path = Some (Bin data)"
  shows "\<exists>text msg words k. bin2hex_main [prog, in_path, out_path] fs = Inr (fs(out_path \<mapsto> Txt text), msg)
    \<and> readmemh text = Some words
    \<and> concat (map le_bytes4 words) = data @ replicate k 0
    \<and> k < 4 \<and> (length data + k) mod 4 = 0 \<and> 4 * length words = length data + k"
proof -
  obtain k where k: "k < 4" "pad_word data = data @ replicate k 0"
    using pad_word_extends by blast
  have m: "(length data + k) mod 4 = 0" using pad_word_length [of data] k(2) by simp
  have "concat (map le_bytes4 (bin2hex_words data)) = data @ replicate k 0"
    unfolding bin2hex_words_def k(2)
    by (rule words4_bytes) (simp_all add: le_bytes4_le_nat m del: le_nat.simps)
  moreover have "4 * length (bin2hex_words data) = length data + k"
    using m by (simp add: bin2hex_words_def length_words4 k(2)) presburger
  ultimately show ?thesis
    using assms k(1) m mem_file.dec_enc [of "bin2hex_words data"]
    by (auto simp: bin2hex_main_def read_binary_def Let_def)
qed

theorem bin2hex_roundtrip_witness:
  "\<exists>text msg words k. bin2hex_main [''bin2hex.py'', ''a.bin'', ''a.hex''] [''a.bin'' \<mapsto> Bin [1, 2, 3, 4, 5]]
      = Inr ([''a.bin'' \<mapsto> Bin [1, 2, 3, 4, 5], ''a.hex'' \<mapsto> Txt text], msg)
    \<and> readmemh text = Some words
    \<and> concat (map le_bytes4 words) = [1, 2, 3, 4, 5] @ replicate k 0
    \<and> k < 4 \<and> (length [1, 2, 3, 4, 5 :: 8 word] + k) mod 4 = 0
    \<and> 4 * length words = length [1, 2, 3, 4, 5 :: 8 word] + k"
  by (rule bin2hex_roundtrip) simp

section \<open>The signed flash image\<close>

lemma padded_firmware_ok:
  assumes "length code \<le> target"
  shows "\<exists>pad. padded_firmware target code = Inr (code @ pad) \<and> length (code @ pad) mod 4 = 0
    \<and> target \<le> length (code @ pad) \<and> length (code @ pad) < target + 4"
proof -
  let ?fw = "code @ map filler_byte [0..<target - length code]"
  let ?k = "if length ?fw mod 4 \<noteq> 0 then 4 - length ?fw mod 4 else 0"
  have l: "length ?fw = target" using assms by simp
  have "padded_firmware target code = Inr (?fw @ replicate ?k 0)"
    using assms by (simp add: padded_firmware_def Let_def)
  moreover have "(length ?fw + ?k) mod 4 = 0" unfolding l by presburger
  moreover have "?k < 4" by simp
  ultimately show ?thesis using l
    by (intro exI [of _ "map filler_byte [0..<target - length code] @ replicate ?k 0"]) simp
qed

lemma be_words_ok: "length bs mod 4 = 0 \<Longrightarrow> be_words bs = Inr (words4 be_nat bs)"
  by (simp add: be_words_def)

lemma be_words_bytes: "length bs mod 4 = 0 \<Longrightarrow> concat (map be_bytes4 (words4 be_nat bs)) = bs"
  by (rule words4_bytes) (simp_all add: be_bytes4_be_nat)

lemma paths_distinct [simp]:
  "bins_dir @ ''firmware.bin'' \<noteq> bins_dir @ ''pubkey.bin''"
  "mems_dir @ x \<noteq> bins_dir @ y"
  by (simp_all add: bins_dir_def mems_dir_def)

text \<open>
  C16. Signing and then building the memories gives a flash image whose first word is the word count
  of R, the public key and the message, followed big-endian by the whole signature and by a
  firmware that begins with the input code and has exactly the announced length; the public-key
  memory holds the public key. The key pair is a parameter, with the sizes Ed25519 fixes.
\<close>

theorem flash_image_correct:
  assumes code: "fs (bins_dir @ ''firmware_code.bin'') = Some (Bin code)"
    and fits: "length code \<le> target"
    and pub: "length public_bytes = 32"
    and sig: "\<And>m. length (sign m) = 64"
  shows "\<exists>fs1 fs2 flash pk fw words pkw.
      sign_firmware target public_bytes sign fs = Inr fs1 \<and> build_mem fs1 = Inr fs2
    \<and> fs2 (mems_dir @ ''flash.mem'') = Some (Txt flash) \<and> readmemh flash = Some words
    \<and> fs2 (mems_dir @ ''pubkey.mem'') = Some (Txt pk) \<and> readmemh pk = Some pkw
    \<and> concat (map be_bytes4 (tl words)) = sign fw @ fw
    \<and> hd words = length (take 32 (sign fw) @ public_bytes @ fw) div 4
    \<and> prefix code fw \<and> target \<le> length fw \<and> length fw mod 4 = 0
    \<and> concat (map be_bytes4 pkw) = public_bytes"
proof -
  obtain pad where pad: "padded_firmware target code = Inr (code @ pad)" "length (code @ pad) mod 4 = 0"
    "target \<le> length (code @ pad)"
    using padded_firmware_ok [OF fits] by metis
  define fw where "fw = code @ pad"
  define fs1 where "fs1 = fs(bins_dir @ ''firmware.bin'' \<mapsto> Bin fw, bins_dir @ ''pubkey.bin'' \<mapsto> Bin public_bytes,
      bins_dir @ ''sig_R.bin'' \<mapsto> Bin (take 32 (sign fw)), bins_dir @ ''sig_S.bin'' \<mapsto> Bin (drop 32 (sign fw)))"
  define r s m pkw where
    "r = words4 be_nat (take 32 (sign fw))" and "s = words4 be_nat (drop 32 (sign fw))"
    and "m = words4 be_nat fw" and "pkw = words4 be_nat public_bytes"
  have 1: "sign_firmware target public_bytes sign fs = Inr fs1"
    using code pad(1) by (simp add: sign_firmware_def read_binary_def fs1_def fw_def Let_def)
  have lens: "length fw mod 4 = 0" "length (take 32 (sign fw)) mod 4 = 0" "length (drop 32 (sign fw)) mod 4 = 0"
    "length public_bytes mod 4 = 0"
    using pad(2) by (simp_all add: fw_def sig pub)
  define fs2 where "fs2 = fs1(mems_dir @ ''flash.mem'' \<mapsto> Txt (mem_text (flash_words r s m)),
      mems_dir @ ''pubkey.mem'' \<mapsto> Txt (mem_text pkw))"
  have 2: "build_mem fs1 = Inr fs2"
    using lens by (simp add: build_mem_def read_binary_def fs1_def be_words_ok r_def s_def m_def pkw_def fs2_def)
  have bytes: "concat (map be_bytes4 r) = take 32 (sign fw)" "concat (map be_bytes4 s) = drop 32 (sign fw)"
    "concat (map be_bytes4 m) = fw" "concat (map be_bytes4 pkw) = public_bytes"
    using lens by (simp_all add: be_words_bytes r_def s_def m_def pkw_def)
  have "concat (map be_bytes4 (tl (flash_words r s m))) = sign fw @ fw"
    by (simp add: flash_words_def bytes)
  moreover have "hd (flash_words r s m) = length (take 32 (sign fw) @ public_bytes @ fw) div 4"
    by (simp add: flash_words_def m_def length_words4 sig pub)
  moreover have "fs2 (mems_dir @ ''flash.mem'') = Some (Txt (mem_text (flash_words r s m)))"
    "fs2 (mems_dir @ ''pubkey.mem'') = Some (Txt (mem_text pkw))"
    by (simp_all add: fs2_def)
  ultimately show ?thesis
    using 1 2 bytes(4) lens(1) pad(3) mem_file.dec_enc [of "flash_words r s m"] mem_file.dec_enc [of pkw]
    by (auto simp: fw_def intro!: exI)
qed

text \<open>The hypotheses hold for a three-byte code image and a constant key and signature of the right sizes.\<close>

theorem flash_image_correct_witness:
  "\<exists>fs1 fs2 flash pk fw words pkw.
      sign_firmware 8 (replicate 32 7) (\<lambda>m. replicate 64 9)
        [bins_dir @ ''firmware_code.bin'' \<mapsto> Bin [1, 2, 3]] = Inr fs1 \<and> build_mem fs1 = Inr fs2
    \<and> fs2 (mems_dir @ ''flash.mem'') = Some (Txt flash) \<and> readmemh flash = Some words
    \<and> fs2 (mems_dir @ ''pubkey.mem'') = Some (Txt pk) \<and> readmemh pk = Some pkw
    \<and> concat (map be_bytes4 (tl words)) = (\<lambda>m. replicate 64 9) fw @ fw
    \<and> hd words = length (take 32 ((\<lambda>m. replicate 64 (9 :: 8 word)) fw) @ replicate 32 7 @ fw) div 4
    \<and> prefix [1, 2, 3] fw \<and> 8 \<le> length fw \<and> length fw mod 4 = 0
    \<and> concat (map be_bytes4 pkw) = replicate 32 7"
  by (rule flash_image_correct) simp_all

section \<open>The debug ROM\<close>

text \<open>The image as the ROM holds it: zero bytes up to a multiple of eight.\<close>

definition rom_image :: "bytes \<Rightarrow> bytes" where
  "rom_image img = img @ replicate ((length img + 7) div 8 * 8 - length img) 0"

lemma byte_hex: "hex_pad 2 (unat (b :: 8 word)) = hex_digits 2 (unat b)"
  using hex_pad_digits [of "unat b" 1] unat_byte_bound [of b] by (simp add: numeral_2_eq_2)

lemma char_pairs_bytes_hex: "char_pairs (bytes_hex bs) = map (\<lambda>b. hex_digits 2 (unat b)) bs"
proof (induction bs)
  case (Cons b bs)
  obtain x y where "hex_digits 2 (unat b) = [x, y]"
    using length_hex_digits [of 2 "unat b"] by (auto simp: numeral_2_eq_2 length_Suc_conv)
  with Cons show ?case by (simp add: bytes_hex_def byte_hex)
qed (simp add: bytes_hex_def)

lemma read_bin_image: "read_bin img = map (\<lambda>b. hex_digits 2 (unat b)) (rom_image img)"
proof -
  have "hex_digits 2 (unat (0 :: 8 word)) = ''00''"
    by (simp add: numeral_2_eq_2 digit_char_0)
  then show ?thesis
    by (simp add: read_bin_def rom_image_def char_pairs_bytes_hex Let_def)
qed

lemma rom_image_length: "length (rom_image img) mod 8 = 0"
  by (simp add: rom_image_def)

lemma concat_rev_hex: "concat (rev (map (\<lambda>b. hex_digits 2 (unat b)) bs)) = hex_digits (2 * length bs) (le_nat bs)"
proof (induction bs)
  case (Cons b bs)
  have "hex_digits (2 * length bs + 2) (le_nat bs * 16 ^ 2 + unat b)
      = hex_digits (2 * length bs) (le_nat bs) @ hex_digits 2 (unat b)"
    by (rule hex_digits_join) (use unat_byte_bound [of b] in simp)
  with Cons show ?case by (simp add: algebra_simps del: hex_digits.simps)
qed simp

lemma rom_slice_word:
  assumes "i + 4 \<le> length bs"
  shows "rom_slice (map (\<lambda>b. hex_digits 2 (unat b)) bs) i (i + 4) = hex_digits 8 (le_nat (take 4 (drop i bs)))"
proof -
  have "rom_slice (map (\<lambda>b. hex_digits 2 (unat b)) bs) i (i + 4)
      = concat (rev (map (\<lambda>b. hex_digits 2 (unat b)) (take 4 (drop i bs))))"
    by (simp add: rom_slice_def take_map drop_map)
  also have "\<dots> = hex_digits 8 (le_nat (take 4 (drop i bs)))"
    using assms by (simp add: concat_rev_hex)
  finally show ?thesis .
qed

lemma words4_nth: "i < length bs div 4 \<Longrightarrow> words4 f bs ! i = f (take 4 (drop (i * 4) bs))"
proof (induction f bs arbitrary: i rule: words4.induct)
  case (1 f a b c d r)
  show ?case
  proof (cases i)
    case (Suc j)
    have "drop (i * 4) (a # b # c # d # r) = drop (j * 4) (drop 4 (a # b # c # d # r))"
      by (simp only: Suc drop_drop) (simp add: add.commute)
    with 1 Suc show ?thesis by simp
  qed simp
qed simp_all

lemma rom_words:
  assumes "i < length bs div 4"
  shows "rom_slice (map (\<lambda>b. hex_digits 2 (unat b)) bs) (i * 4) (i * 4 + 4) = hex_digits 8 (words4 le_nat bs ! i)"
  using assms by (subst rom_slice_word) (auto simp: words4_nth simp del: hex_digits.simps)

text \<open>Joining lines with a separator is appending it to each and dropping the last one.\<close>

lemma take_concat_join:
  "concat (map (\<lambda>x. f x @ sep) xs) = (if xs = [] then [] else py_join sep (map f xs) @ sep)"
proof (induction xs)
  case (Cons x xs)
  then show ?case by (cases xs) auto
qed simp

lemma butlast_join:
  "take (length (concat (map (\<lambda>x. f x @ sep) xs)) - length sep) (concat (map (\<lambda>x. f x @ sep) xs))
     = py_join sep (map f xs)"
  by (simp add: take_concat_join)

lemma rom_content_h_lines:
  "rom_content_h (read_bin img) = py_join ('','' @ nl)
     (map (\<lambda>w. ''    0x'' @ hex_digits 8 w) (words4 le_nat (rom_image img)))"
proof -
  let ?rom = "read_bin img" and ?bs = "rom_image img"
  let ?line = "\<lambda>i. ''    0x'' @ rom_slice ?rom (i * 4) (i * 4 + 4)"
  have "rom_content_h ?rom = py_join ('','' @ nl) (map ?line [0..<length ?rom div 4])"
    unfolding rom_content_h_def Let_def butlast_join [symmetric]
    by (simp add: nl_def numeral_2_eq_2)
  also have "map ?line [0..<length ?rom div 4]
      = map (\<lambda>i. ''    0x'' @ hex_digits 8 (words4 le_nat ?bs ! i)) [0..<length ?bs div 4]"
    by (simp add: read_bin_image rom_words cong: map_cong del: hex_digits.simps)
  also have "\<dots> = map (\<lambda>w. ''    0x'' @ hex_digits 8 w) (words4 le_nat ?bs)"
    by (rule nth_equalityI) (simp_all add: length_words4 del: hex_digits.simps)
  finally show ?thesis .
qed

text \<open>
  C21. The C array and the SystemVerilog array describe the same padded image: the C initialiser lists
  its little-endian 32-bit words in order, and the SystemVerilog one lists, from the highest address
  down, each pair of consecutive words as \<open>high_low\<close>.
\<close>

theorem gen_rom_arrays_agree:
  "rom_content_h (read_bin img) = py_join ('','' @ nl)
     (map (\<lambda>w. ''    0x'' @ hex_digits 8 w) (words4 le_nat (rom_image img)))
   \<and> rom_content_sv (read_bin img) = py_join ('','' @ nl)
     (map (\<lambda>i. ''    64'h'' @ hex_digits 8 (words4 le_nat (rom_image img) ! (2 * i + 1)) @ ''_''
               @ hex_digits 8 (words4 le_nat (rom_image img) ! (2 * i)))
       (rev [0..<length (rom_image img) div 8]))"
proof
  show "rom_content_h (read_bin img) = py_join ('','' @ nl)
     (map (\<lambda>w. ''    0x'' @ hex_digits 8 w) (words4 le_nat (rom_image img)))"
    by (rule rom_content_h_lines)
next
  let ?rom = "read_bin img" and ?bs = "rom_image img"
  let ?line = "\<lambda>i. ''    64'h'' @ rom_slice ?rom (i * 8 + 4) (i * 8 + 8) @ ''_'' @ rom_slice ?rom (i * 8) (i * 8 + 4)"
  have "rom_content_sv ?rom = py_join ('','' @ nl) (map ?line (rev [0..<length ?rom div 8]))"
    unfolding rom_content_sv_def Let_def butlast_join [symmetric]
    by (simp add: nl_def numeral_2_eq_2)
  moreover have "rom_slice ?rom (i * 8 + 4) (i * 8 + 8) = hex_digits 8 (words4 le_nat ?bs ! (2 * i + 1))
      \<and> rom_slice ?rom (i * 8) (i * 8 + 4) = hex_digits 8 (words4 le_nat ?bs ! (2 * i))"
    if "i < length ?bs div 8" for i
  proof -
    have b: "2 * i + 1 < length ?bs div 4" "2 * i < length ?bs div 4" using that by linarith+
    have e: "(2 * i + 1) * 4 = i * 8 + 4" "(2 * i + 1) * 4 + 4 = i * 8 + 8" "2 * i * 4 = i * 8" by simp_all
    show ?thesis
      using rom_words [OF b(1)] rom_words [OF b(2)] unfolding e read_bin_image by (simp add: add.commute)
  qed
  ultimately have "rom_content_sv ?rom = py_join ('','' @ nl) (map ?line (rev [0..<length ?bs div 8]))"
    and eq: "\<And>i. i < length ?bs div 8 \<Longrightarrow>
      ?line i = ''    64'h'' @ hex_digits 8 (words4 le_nat ?bs ! (2 * i + 1)) @ ''_''
               @ hex_digits 8 (words4 le_nat ?bs ! (2 * i))"
    by (simp_all add: read_bin_image del: hex_digits.simps)
  note this(1)
  also have "map ?line (rev [0..<length ?bs div 8]) =
     map (\<lambda>i. ''    64'h'' @ hex_digits 8 (words4 le_nat ?bs ! (2 * i + 1)) @ ''_''
               @ hex_digits 8 (words4 le_nat ?bs ! (2 * i))) (rev [0..<length ?bs div 8])"
    by (rule map_cong [OF refl]) (rule eq, simp)
  finally show "rom_content_sv ?rom = py_join ('','' @ nl)
     (map (\<lambda>i. ''    64'h'' @ hex_digits 8 (words4 le_nat ?bs ! (2 * i + 1)) @ ''_''
               @ hex_digits 8 (words4 le_nat ?bs ! (2 * i))) (rev [0..<length ?bs div 8]))" .
qed

end
