(* ===== verification/Py_Data.thy ===== *)
theory Py_Data
  imports Py_Ints
begin

text \<open>
  Dictionaries and dynamically typed values. The locale \<open>py_dict\<close> is the contract of a Python
  \<open>dict\<close> (lookup after store, keys in order of first insertion); it is interpreted on association
  lists. The type \<open>pyval\<close> holds what YAML and JSON files give the scripts, with Python's
  \<open>==\<close>, \<open>str\<close> and truth value.
\<close>

section \<open>Dictionaries\<close>

locale py_dict =
  fixes empty :: 'd
    and get :: "'d \<Rightarrow> 'k \<Rightarrow> 'v option"
    and put :: "'k \<Rightarrow> 'v \<Rightarrow> 'd \<Rightarrow> 'd"
    and keys :: "'d \<Rightarrow> 'k list"
  assumes get_empty: "get empty k = None"
    and get_put: "get (put k v d) = (get d)(k \<mapsto> v)"
    and keys_empty: "keys empty = []"
    and keys_put: "keys (put k v d) = (if get d k = None then keys d @ [k] else keys d)"
    and keys_get: "set (keys d) = dom (get d)"
begin

text \<open>A loop of stores.\<close>

definition put_all :: "('k \<times> 'v) list \<Rightarrow> 'd \<Rightarrow> 'd" where
  "put_all kvs d = fold (\<lambda>(k, v). put k v) kvs d"

lemma get_put_all: "get (put_all kvs d) = get d ++ map_of (rev kvs)"
  unfolding put_all_def
  by (induction kvs arbitrary: d) (auto simp: get_put map_add_def fun_eq_iff split: option.splits)

lemma get_put_all_distinct:
  assumes "distinct (map fst kvs)" and "(k, v) \<in> set kvs"
  shows "get (put_all kvs d) k = Some v"
proof -
  from assms have "map_of (rev kvs) k = Some v"
    by (simp add: rev_map [symmetric])
  then show ?thesis by (simp add: get_put_all)
qed

lemma distinct_keys_put: "distinct (keys d) \<Longrightarrow> distinct (keys (put k v d))"
  using keys_get [of d] by (auto simp: keys_put domIff)

lemma distinct_keys_put_all: "distinct (keys d) \<Longrightarrow> distinct (keys (put_all kvs d))"
  unfolding put_all_def
  by (induction kvs arbitrary: d) (auto simp: distinct_keys_put)

lemma set_keys_put_all: "set (keys (put_all kvs d)) = set (keys d) \<union> fst ` set kvs"
  unfolding put_all_def
  by (induction kvs arbitrary: d) (auto simp: keys_get get_put)

end

lemma map_fst_update:
  "map fst (AList.update k v d) = (if map_of d k = None then map fst d @ [k] else map fst d)"
proof (induction d)
  case (Cons p d)
  then show ?case by (cases p) auto
qed simp

interpretation ad: py_dict "[] :: ('k \<times> 'v) list" map_of AList.update "map fst"
  by unfold_locales
    (auto simp: AList.update_conv' map_fst_update dom_map_of_conv_image_fst)

text \<open>\<open>dict(**a, **b)\<close>: the entries of \<open>b\<close> win, the keys of \<open>a\<close> come first.\<close>

definition dict_merge :: "('k \<times> 'v) list \<Rightarrow> ('k \<times> 'v) list \<Rightarrow> ('k \<times> 'v) list" where
  "dict_merge a b = fold (\<lambda>(k, v). AList.update k v) b a"

lemma dict_merge_get: "map_of (dict_merge a b) = map_of a ++ map_of (rev b)"
  using ad.get_put_all [of b a] by (simp add: ad.put_all_def dict_merge_def)

lemma map_of_rev_distinct: "distinct (map fst b) \<Longrightarrow> map_of (rev b) = map_of b"
  by (intro map_of_eqI) (auto simp: rev_map [symmetric])

lemma dict_merge_get_distinct:
  "distinct (map fst b) \<Longrightarrow> map_of (dict_merge a b) = map_of a ++ map_of b"
  by (simp add: dict_merge_get map_of_rev_distinct)

section \<open>Values\<close>

text \<open>\<open>PObj r\<close> stands for an object of any other class, known by its \<open>repr\<close> only.\<close>

datatype pyval =
    PNone
  | PBool bool
  | PInt int
  | PStr string
  | PPath string
  | PList "pyval list"
  | PDict "(pyval \<times> pyval) list"
  | PObj string

type_synonym pydict = "(string \<times> pyval) list"

text \<open>\<open>True == 1\<close> and \<open>False == 0\<close> in Python, also inside containers.\<close>

fun num_norm :: "pyval \<Rightarrow> pyval" where
  "num_norm (PBool b) = PInt (if b then 1 else 0)"
| "num_norm (PList xs) = PList (map num_norm xs)"
| "num_norm (PDict kvs) = PDict (map (\<lambda>(k, v). (num_norm k, num_norm v)) kvs)"
| "num_norm v = v"

definition py_eq :: "pyval \<Rightarrow> pyval \<Rightarrow> bool" where
  "py_eq x y = (num_norm x = num_norm y)"

text \<open>Python's \<open>v in xs\<close> on a list.\<close>

definition py_in :: "pyval \<Rightarrow> pyval list \<Rightarrow> bool" where
  "py_in v xs = list_ex (py_eq v) xs"

definition is_int_val :: "pyval \<Rightarrow> bool" where
  \<comment> \<open>\<open>isinstance(v, int)\<close>: \<open>bool\<close> is a subclass of \<open>int\<close>\<close>
  "is_int_val v = (case v of PInt _ \<Rightarrow> True | PBool _ \<Rightarrow> True | _ \<Rightarrow> False)"

definition is_str_val :: "pyval \<Rightarrow> bool" where
  "is_str_val v = (case v of PStr _ \<Rightarrow> True | _ \<Rightarrow> False)"

fun truthy :: "pyval \<Rightarrow> bool" where
  "truthy PNone = False"
| "truthy (PBool b) = b"
| "truthy (PInt i) = (i \<noteq> 0)"
| "truthy (PStr s) = (s \<noteq> [])"
| "truthy (PList xs) = (xs \<noteq> [])"
| "truthy (PDict kvs) = (kvs \<noteq> [])"
| "truthy (PPath p) = True"
| "truthy (PObj r) = True"

text \<open>\<open>repr\<close> of a string: single quotes unless the text has one and no double quote.\<close>

definition repr_char :: "char \<Rightarrow> char \<Rightarrow> string" where
  "repr_char q c =
     (let n = of_char c :: nat in
      if c = q \<or> n = 92 then [CHR 92, c]
      else if n = 10 then [CHR 92, CHR ''n'']
      else if n = 13 then [CHR 92, CHR ''r'']
      else if n = 9 then [CHR 92, CHR ''t'']
      else if n < 32 \<or> n = 127 then [CHR 92, CHR ''x''] @ hex_pad 2 n
      else [c])"

definition repr_str :: "string \<Rightarrow> string" where
  "repr_str s =
     (let q = (if CHR 39 \<in> set s \<and> CHR 34 \<notin> set s then CHR 34 else CHR 39)
      in [q] @ concat (map (repr_char q) s) @ [q])"

definition bool_str :: "bool \<Rightarrow> string" where
  "bool_str b = (if b then ''True'' else ''False'')"

fun py_repr :: "pyval \<Rightarrow> string" where
  "py_repr PNone = ''None''"
| "py_repr (PBool b) = bool_str b"
| "py_repr (PInt i) = int_str i"
| "py_repr (PStr s) = repr_str s"
| "py_repr (PPath p) = ''PosixPath('' @ repr_str p @ '')''"
| "py_repr (PList xs) = ''['' @ py_join '', '' (map py_repr xs) @ '']''"
| "py_repr (PDict kvs) =
     ''{'' @ py_join '', '' (map (\<lambda>(k, v). py_repr k @ '': '' @ py_repr v) kvs) @ ''}''"
| "py_repr (PObj r) = r"

definition py_str :: "pyval \<Rightarrow> string" where
  "py_str v = (case v of PStr s \<Rightarrow> s | PPath p \<Rightarrow> p | _ \<Rightarrow> py_repr v)"

lemma py_eq_refl [simp]: "py_eq x x"
  by (simp add: py_eq_def)

lemma py_eq_sym: "py_eq x y \<longleftrightarrow> py_eq y x"
  by (auto simp: py_eq_def)

lemma py_eq_trans: "py_eq x y \<Longrightarrow> py_eq y z \<Longrightarrow> py_eq x z"
  by (simp add: py_eq_def)

lemma py_in_iff: "py_in v xs \<longleftrightarrow> (\<exists>x \<in> set xs. py_eq v x)"
  by (simp add: py_in_def list_ex_iff)

end
