(* ===== verification/Plic_Addrmap.thy ===== *)
theory Plic_Addrmap
  imports Py_Data
begin

text \<open>
  \<open>rtl/Interrupts/plic/gen_plic_addrmap.py\<close>: the generator of the PLIC register file. The model has
  the address map object, the construction of the PLIC map from the three command-line numbers, and
  the Verilog text. The lemmas show that the decoder it emits is sound: no two registers share an
  address, every register is aligned and fits the access width, and every port index is in range.
\<close>

definition MAX_DEVICES :: nat where "MAX_DEVICES = 1023"

text \<open>
  \<open>ceil(log(x, 2))\<close>: the least \<open>k\<close> with \<open>x \<le> 2 ^ k\<close>. Python's floating-point logarithm gives this
  value for the arguments in use (it first rounds wrongly at \<open>x = 2 ^ 29\<close>).
\<close>

fun clog2_up :: "nat \<Rightarrow> nat \<Rightarrow> nat \<Rightarrow> nat" where
  "clog2_up 0 k x = k"
| "clog2_up (Suc n) k x = (if x \<le> 2 ^ k then k else clog2_up n (Suc k) x)"

definition clog2 :: "int \<Rightarrow> int res" where
  "clog2 x = (if x \<le> 0 then Inl (ValueError ''math domain error'')
              else Inr (int (clog2_up (nat x) 0 (nat x))))"

datatype Access = RO | RW

record AddrMapEntry =
  e_addr :: nat
  e_name :: string
  e_description :: string
  e_access :: Access
  e_width :: int

record AddrMap =
  access_width :: int
  am_name :: string
  am_description :: string
  addrmap :: "AddrMapEntry list"
  ports :: "(string \<times> int \<times> int \<times> Access) list"

definition AddrMap_init :: "string \<Rightarrow> string \<Rightarrow> AddrMap" where
  "AddrMap_init name description =
     \<lparr>access_width = 32, am_name = name, am_description = description, addrmap = [], ports = []\<rparr>"

definition access_str :: "Access \<Rightarrow> string" where
  "access_str a = (case a of RO \<Rightarrow> ''Access.RO'' | RW \<Rightarrow> ''Access.RW'')"

definition entry_str :: "AddrMapEntry \<Rightarrow> string" where
  "entry_str e = py_hex (e_addr e) @ '' | '' @ int_str (e_width e) @ '' | '' @ access_str (e_access e)
     @ '' | '' @ e_description e"

text \<open>\<open>description.format(i)\<close>: the descriptions have at most one \<open>{}\<close>.\<close>

definition fmt1 :: "string \<Rightarrow> nat \<Rightarrow> string" where
  "fmt1 d i = py_replace ''{}'' (nat_str i) d"

text \<open>The entries of one register: one per access-width slice when it is wider than the bus.\<close>

definition split_entries :: "int \<Rightarrow> nat \<Rightarrow> nat \<Rightarrow> string \<Rightarrow> string \<Rightarrow> Access \<Rightarrow> int \<Rightarrow> AddrMapEntry list" where
  "split_entries aw i effect_addr name description access width =
     (if width > aw then
        map (\<lambda>j. \<lparr>e_addr = effect_addr + nat (aw div 8) * j, e_name = name,
                  e_description = fmt1 description j, e_access = access,
                  e_width = (if width - aw * int j < aw then width - aw * int j else aw)\<rparr>)
          [0..<nat ((width + aw - 1) div aw)]
      else [\<lparr>e_addr = effect_addr, e_name = name, e_description = fmt1 description i,
             e_access = access, e_width = width\<rparr>])"

definition addEntries :: "int \<Rightarrow> (nat \<Rightarrow> nat) \<Rightarrow> string \<Rightarrow> string \<Rightarrow> Access \<Rightarrow> int \<Rightarrow> AddrMap \<Rightarrow> AddrMap" where
  "addEntries num addr name description access width am =
     am\<lparr>ports := ports am @ [(name, num, width, access)],
        addrmap := addrmap am @
          concat (map (\<lambda>i. split_entries (access_width am) i (addr i) name description access width)
            [0..<nat num])\<rparr>"

definition addEntry :: "(nat \<Rightarrow> nat) \<Rightarrow> string \<Rightarrow> string \<Rightarrow> Access \<Rightarrow> int \<Rightarrow> AddrMap \<Rightarrow> AddrMap" where
  "addEntry addr name description access width am = addEntries 1 addr name description access width am"

section \<open>The Verilog text\<close>

text \<open>
  The counter \<open>j\<close> of the case items: it restarts when the register name changes. The write decoder
  skips read-only entries without looking at their names.
\<close>

fun item_indices :: "string \<Rightarrow> nat \<Rightarrow> AddrMapEntry list \<Rightarrow> (AddrMapEntry \<times> nat) list" where
  "item_indices last_name j [] = []"
| "item_indices last_name j (e # es) =
     (let j' = (if last_name \<noteq> e_name e then 0 else j)
      in (e, j') # item_indices (e_name e) (Suc j') es)"

definition read_items :: "AddrMap \<Rightarrow> (AddrMapEntry \<times> nat) list" where
  "read_items am = item_indices [] 0 (addrmap am)"

definition write_items :: "AddrMap \<Rightarrow> (AddrMapEntry \<times> nat) list" where
  "write_items am = item_indices [] 0 (filter (\<lambda>e. e_access e \<noteq> RO) (addrmap am))"

definition port_decl :: "string \<times> int \<times> int \<times> Access \<Rightarrow> string" where
  "port_decl p = (case p of (name, num, width, access) \<Rightarrow>
     (let dims = ''['' @ int_str (num - 1) @ '':0]['' @ int_str (width - 1) @ '':0] '' @ name;
          bits = ''['' @ int_str (num - 1) @ '':0] '' @ name
      in case access of
           RO \<Rightarrow> ''  input logic '' @ dims @ ''_i,'' @ nl @ ''  output logic '' @ bits @ ''_re_o,'' @ nl
         | RW \<Rightarrow> ''  input logic '' @ dims @ ''_i,'' @ nl @ ''  output logic '' @ dims @ ''_o,'' @ nl
             @ ''  output logic '' @ bits @ ''_we_o,'' @ nl @ ''  output logic '' @ bits @ ''_re_o,'' @ nl))"

definition port_default :: "string \<times> int \<times> int \<times> Access \<Rightarrow> string" where
  "port_default p = (case p of (name, num, width, access) \<Rightarrow>
     if access \<noteq> RO then ''  '' @ name @ ''_o = '0;'' @ nl @ ''  '' @ name @ ''_we_o = '0;'' @ nl
       @ ''  '' @ name @ ''_re_o = '0;'' @ nl
     else [])"

definition write_item :: "int \<Rightarrow> AddrMapEntry \<times> nat \<Rightarrow> string" where
  "write_item aw ej = (case ej of (e, j) \<Rightarrow>
     (let w = int_str (e_width e - 1) in
      ''        '' @ int_str aw @ '''h'' @ hex_str (e_addr e) @ '': begin'' @ nl
      @ ''          '' @ e_name e @ ''_o['' @ nat_str j @ '']['' @ w @ '':0] = req_i.wdata['' @ w @ '':0];'' @ nl
      @ ''          '' @ e_name e @ ''_we_o['' @ nat_str j @ ''] = 1'b1;'' @ nl
      @ ''        end'' @ nl))"

definition read_item :: "int \<Rightarrow> AddrMapEntry \<times> nat \<Rightarrow> string" where
  "read_item aw ej = (case ej of (e, j) \<Rightarrow>
     (let w = int_str (e_width e - 1) in
      ''        '' @ int_str aw @ '''h'' @ hex_str (e_addr e) @ '': begin'' @ nl
      @ ''          resp_o.rdata['' @ w @ '':0] = '' @ e_name e @ ''_i['' @ nat_str j @ '']['' @ w @ '':0];'' @ nl
      @ ''          '' @ e_name e @ ''_re_o['' @ nat_str j @ ''] = 1'b1;'' @ nl
      @ ''        end'' @ nl))"

definition emit_verilog :: "AddrMap \<Rightarrow> string" where
  "emit_verilog am =
     ''// Do not edit - auto-generated'' @ nl
     @ ''module '' @ am_name am @ '' #('' @ nl
     @ ''  parameter type reg_req_t  = logic,'' @ nl
     @ ''  parameter type reg_rsp_t  = logic'' @ nl @ '')('' @ nl
     @ concat (map port_decl (ports am))
     @ ''  // Bus Interface'' @ nl
     @ ''  input  reg_req_t req_i,'' @ nl
     @ ''  output reg_rsp_t resp_o'' @ nl
     @ '');'' @ nl
     @ ''always_comb begin'' @ nl
     @ ''  resp_o.ready = 1'b1;'' @ nl
     @ ''  resp_o.rdata = '0;'' @ nl
     @ ''  resp_o.error = '0;'' @ nl
     @ concat (map port_default (ports am))
     @ ''  if (req_i.valid) begin'' @ nl
     @ ''    if (req_i.write) begin'' @ nl
     @ ''      unique case(req_i.addr)'' @ nl
     @ concat (map (write_item (access_width am)) (write_items am))
     @ ''        default: resp_o.error = 1'b1;'' @ nl
     @ ''      endcase'' @ nl
     @ ''    end else begin'' @ nl
     @ ''      unique case(req_i.addr)'' @ nl
     @ concat (map (read_item (access_width am)) (read_items am))
     @ ''        default: resp_o.error = 1'b1;'' @ nl
     @ ''      endcase'' @ nl
     @ ''    end'' @ nl
     @ ''  end'' @ nl
     @ ''end'' @ nl
     @ ''endmodule'' @ nl"

section \<open>The PLIC map\<close>

definition plic_base :: nat where "plic_base = 0xC000000"

definition priorityAddr :: "nat \<Rightarrow> nat" where "priorityAddr i = plic_base + i * 4"

definition pendingAddr :: "nat \<Rightarrow> nat" where "pendingAddr i = plic_base + 0x1000"

definition enableOffset :: "nat \<Rightarrow> nat" where "enableOffset i = i * ((MAX_DEVICES + 7) div 8)"

definition enableAddr :: "nat \<Rightarrow> nat" where "enableAddr i = enableOffset i + (plic_base + 0x2000)"

definition hartAddr :: "nat \<Rightarrow> nat" where "hartAddr i = i * 0x1000 + (plic_base + 0x200000)"

definition hartCC :: "nat \<Rightarrow> nat" where "hartCC i = hartAddr i + 4"

definition plic_map :: "int \<Rightarrow> int \<Rightarrow> int \<Rightarrow> int \<Rightarrow> AddrMap" where
  "plic_map nr_target nr_src_eff priority_width source_width =
     addEntries nr_target hartCC ''cc'' ''Hart {} claim/complete'' RW source_width
     (addEntries nr_target hartAddr ''threshold'' ''Hart {}  priority threshold'' RW priority_width
     (addEntries nr_target enableAddr ''ie'' ''Target {} interrupt enable'' RW nr_src_eff
     (addEntry pendingAddr ''ip'' ''pending array'' RO nr_src_eff
     (addEntries nr_src_eff priorityAddr ''prio'' ''source {} priority'' RW priority_width
     (AddrMap_init ''plic_regs'' ''PLIC Address Map'')))))"

text \<open>
  A command-line value is the integer default or the text the user gave; a value that is not true
  (an empty text, or the integer 0) leaves its variable unassigned, and the first use of the variable
  then fails.
\<close>

definition arg_int :: "pyval \<Rightarrow> int option res" where
  "arg_int v =
     (if \<not> truthy v then Inr None
      else case v of PInt i \<Rightarrow> Inr (Some i)
           | PStr s \<Rightarrow> rbind (py_int 10 s) (\<lambda>i. Inr (Some i))
           | _ \<Rightarrow> Inl (TypeError ''int()''))"

definition bound_var :: "string \<Rightarrow> int option \<Rightarrow> int res" where
  "bound_var var v = (case v of None \<Rightarrow> Inl (NameError var) | Some i \<Rightarrow> Inr i)"

definition build_plic_map :: "pyval \<Rightarrow> pyval \<Rightarrow> pyval \<Rightarrow> AddrMap res" where
  "build_plic_map nr_targets nr_sources max_priority =
     rbind (arg_int nr_targets) (\<lambda>t.
     rbind (arg_int nr_sources) (\<lambda>s.
     rbind (arg_int max_priority) (\<lambda>p.
     rbind (bound_var ''max_prio'' p) (\<lambda>max_prio.
     rbind (clog2 (max_prio + 1)) (\<lambda>priority_width.
     rbind (bound_var ''nr_src'' s) (\<lambda>nr_src.
     rbind (clog2 (nr_src + 1)) (\<lambda>source_width.
       if \<not> nr_src \<le> 31 then
         Inl (AssertionError ''Not more than 31 interrupt sources are supported at the moment'')
       else rbind (bound_var ''nr_target'' t) (\<lambda>nr_target.
         if \<not> nr_target \<le> int MAX_DEVICES then
           Inl (AssertionError (''Maximum allowed targets are '' @ nat_str MAX_DEVICES))
         else Inr (plic_map nr_target (nr_src + 1) priority_width source_width)))))))))"

definition plic_main :: "pyval \<Rightarrow> pyval \<Rightarrow> pyval \<Rightarrow> string res" where
  "plic_main nr_targets nr_sources max_priority =
     rbind (build_plic_map nr_targets nr_sources max_priority) (\<lambda>am. Inr (emit_verilog am @ nl))"

section \<open>The logarithm\<close>

lemma clog2_up_bounds:
  "x \<le> 2 ^ (k + n) \<Longrightarrow> (k = 0 \<or> 2 ^ (k - 1) < x) \<Longrightarrow>
   x \<le> 2 ^ clog2_up n k x \<and> (clog2_up n k x = 0 \<or> 2 ^ (clog2_up n k x - 1) < x)"
proof (induction n arbitrary: k)
  case (Suc n)
  then show ?case using Suc.IH [of "Suc k"] by auto
qed auto

lemma clog2_Inr:
  assumes "clog2 x = Inr w"
  shows "0 < x \<and> 0 \<le> w \<and> x \<le> 2 ^ nat w \<and> (w = 0 \<or> 2 ^ (nat w - 1) < x)"
proof -
  have x: "0 < x" using assms by (auto simp: clog2_def split: if_splits)
  have "nat x \<le> 2 ^ (0 + nat x)" using less_imp_le [OF less_exp [of "nat x"]] by (simp only: add_0)
  then have b: "nat x \<le> 2 ^ clog2_up (nat x) 0 (nat x) \<and>
      (clog2_up (nat x) 0 (nat x) = 0 \<or> 2 ^ (clog2_up (nat x) 0 (nat x) - 1) < nat x)"
    by (rule clog2_up_bounds) simp
  have w: "w = int (clog2_up (nat x) 0 (nat x))" using assms x by (simp add: clog2_def)
  from b have "int (nat x) \<le> int (2 ^ nat w)" "w = 0 \<or> int (2 ^ (nat w - 1)) < int (nat x)"
    unfolding w by (simp_all only: nat_int of_nat_le_iff of_nat_less_iff of_nat_eq_0_iff)
  with x w show ?thesis by simp
qed

lemma clog2_width:
  assumes "clog2 x = Inr w" and "x \<le> 2 ^ k"
  shows "0 \<le> w \<and> w \<le> int k"
proof -
  from clog2_Inr [OF assms(1)] have w: "0 \<le> w" "w = 0 \<or> 2 ^ (nat w - 1) < x" by simp_all
  have "nat w - 1 < k" if "w \<noteq> 0"
  proof -
    have "2 ^ (nat w - 1) < x" using w(2) that by blast
    then have "(2 :: int) ^ (nat w - 1) < 2 ^ k" using assms(2) by (rule less_le_trans)
    then show ?thesis by (rule power_less_imp_less_exp [rotated]) simp
  qed
  with w(1) show ?thesis by linarith
qed

section \<open>Registers that fit the bus\<close>

definition single_entry :: "string \<Rightarrow> string \<Rightarrow> Access \<Rightarrow> int \<Rightarrow> (nat \<Rightarrow> nat) \<Rightarrow> nat \<Rightarrow> AddrMapEntry" where
  "single_entry name description access width addr i =
     \<lparr>e_addr = addr i, e_name = name, e_description = fmt1 description i, e_access = access, e_width = width\<rparr>"

lemma single_entry_sel [simp]:
  "e_addr (single_entry n d a w f i) = f i" "e_name (single_entry n d a w f i) = n"
  "e_access (single_entry n d a w f i) = a" "e_width (single_entry n d a w f i) = w"
  by (simp_all add: single_entry_def)

lemma addEntries_narrow:
  assumes "width \<le> access_width am"
  shows "addEntries num addr name description access width am =
    am\<lparr>ports := ports am @ [(name, num, width, access)],
       addrmap := addrmap am @ map (single_entry name description access width addr) [0..<nat num]\<rparr>"
proof -
  have "concat (map (\<lambda>i. [f i]) xs) = map f xs" for f :: "nat \<Rightarrow> AddrMapEntry" and xs
    by (induction xs) simp_all
  with assms show ?thesis
    by (simp add: addEntries_def split_entries_def single_entry_def [abs_def])
qed

text \<open>
  The parameters under which the generator's assertions hold. Everything below is proved once for
  such parameters.
\<close>

locale plic_params =
  fixes t ns pw sw :: int
  assumes ns: "1 \<le> ns" "ns \<le> 32"
    and t: "t \<le> 1023"
    and pw: "0 \<le> pw" "pw \<le> 32"
    and sw: "0 \<le> sw" "sw \<le> 32"
begin

abbreviation "prio_regs \<equiv> map (single_entry ''prio'' ''source {} priority'' RW pw priorityAddr) [0..<nat ns]"
abbreviation "ip_regs \<equiv> map (single_entry ''ip'' ''pending array'' RO ns pendingAddr) [0..<1]"
abbreviation "ie_regs \<equiv> map (single_entry ''ie'' ''Target {} interrupt enable'' RW ns enableAddr) [0..<nat t]"
abbreviation "th_regs \<equiv> map (single_entry ''threshold'' ''Hart {}  priority threshold'' RW pw hartAddr) [0..<nat t]"
abbreviation "cc_regs \<equiv> map (single_entry ''cc'' ''Hart {} claim/complete'' RW sw hartCC) [0..<nat t]"

lemma plic_map_eq:
  "addrmap (plic_map t ns pw sw) = prio_regs @ ip_regs @ ie_regs @ th_regs @ cc_regs"
  "ports (plic_map t ns pw sw) =
     [(''prio'', ns, pw, RW), (''ip'', 1, ns, RO), (''ie'', t, ns, RW), (''threshold'', t, pw, RW), (''cc'', t, sw, RW)]"
  using ns pw sw by (simp_all add: plic_map_def addEntry_def addEntries_narrow AddrMap_init_def)

lemma addr_bounds:
  "i < nat ns \<Longrightarrow> priorityAddr i < plic_base + 0x80"
  "i < nat t \<Longrightarrow> plic_base + 0x2000 \<le> enableAddr i \<and> enableAddr i < plic_base + 0x22000"
  "i < nat t \<Longrightarrow> plic_base + 0x200000 \<le> hartAddr i \<and> hartAddr i < plic_base + 0x600000"
  using ns t by (auto simp: priorityAddr_def enableAddr_def enableOffset_def hartAddr_def MAX_DEVICES_def)

lemma distinct_addresses: "distinct (map e_addr (addrmap (plic_map t ns pw sw)))"
proof -
  have inj: "inj priorityAddr" "inj enableAddr" "inj hartAddr" "inj hartCC"
    by (auto simp: inj_def priorityAddr_def enableAddr_def enableOffset_def hartAddr_def hartCC_def MAX_DEVICES_def)
  have sep: "hartAddr i \<noteq> hartCC j" for i j
  proof
    assume "hartAddr i = hartCC j"
    then have "i * 0x1000 = j * 0x1000 + 4" by (simp add: hartAddr_def hartCC_def)
    then have "i * 0x1000 mod 0x1000 = (j * 0x1000 + 4) mod 0x1000" by simp
    then show False by simp
  qed
  let ?P = "map priorityAddr [0..<nat ns]" and ?E = "map enableAddr [0..<nat t]"
    and ?H = "map hartAddr [0..<nat t]" and ?C = "map hartCC [0..<nat t]"
  have eq: "map e_addr (addrmap (plic_map t ns pw sw)) = ?P @ [pendingAddr 0] @ ?E @ ?H @ ?C"
    by (simp add: plic_map_eq)
  have "distinct (map f [0..<n])" if "inj f" for f :: "nat \<Rightarrow> nat" and n
    unfolding distinct_map using inj_on_subset [OF that subset_UNIV] by simp
  then have dist: "distinct ?P" "distinct ?E" "distinct ?H" "distinct ?C"
    using inj by blast+
  have P: "x < plic_base + 0x80" if "x \<in> set ?P" for x
    using that addr_bounds(1) by auto
  have E: "plic_base + 0x2000 \<le> x \<and> x < plic_base + 0x22000" if "x \<in> set ?E" for x
    using that addr_bounds(2) by auto
  have H: "plic_base + 0x200000 \<le> x" if "x \<in> set (?H @ ?C)" for x
    using that addr_bounds(3) by (fastforce simp: hartCC_def)
  have "set ?H \<inter> set ?C = {}" using sep by auto
  then have HC: "distinct (?H @ ?C)" using dist(3,4) by simp
  have "set ?E \<inter> set (?H @ ?C) = {}" using E H by fastforce
  with HC dist(2) have EHC: "distinct (?E @ ?H @ ?C)" by (simp only: distinct_append)
  have "pendingAddr 0 \<notin> set (?E @ ?H @ ?C)"
    using E [of "pendingAddr 0"] H [of "pendingAddr 0"] by (auto simp: pendingAddr_def)
  with EHC have "distinct ([pendingAddr 0] @ ?E @ ?H @ ?C)" by simp
  moreover have "set ?P \<inter> set ([pendingAddr 0] @ ?E @ ?H @ ?C) = {}"
    using P E H by (fastforce simp: pendingAddr_def)
  ultimately show ?thesis
    using dist(1) unfolding eq by (simp only: distinct_append)
qed

lemma register_bounds:
  assumes "e \<in> set (addrmap (plic_map t ns pw sw))"
  shows "e_addr e mod 4 = 0 \<and> plic_base \<le> e_addr e \<and> e_addr e < plic_base + 0x600000
    \<and> 0 \<le> e_width e \<and> e_width e \<le> 32"
proof -
  have al: "priorityAddr i mod 4 = 0" "pendingAddr i mod 4 = 0" "enableAddr i mod 4 = 0" "hartAddr i mod 4 = 0"
    "hartCC i mod 4 = 0" for i
    unfolding priorityAddr_def pendingAddr_def enableAddr_def enableOffset_def hartAddr_def hartCC_def
      MAX_DEVICES_def plic_base_def dvd_eq_mod_eq_0 [symmetric]
    by (auto intro!: dvd_add dvd_mult)
  have hc: "hartCC i < plic_base + 0x600000" if "i < nat t" for i
    using that t by (auto simp: hartCC_def hartAddr_def)
  from assms show ?thesis
    unfolding plic_map_eq using al ns pw sw addr_bounds hc
    by (fastforce simp: pendingAddr_def priorityAddr_def hartCC_def)
qed

end

section \<open>Case items\<close>

text \<open>Within a block of entries of one name the counter runs from 0.\<close>

lemma item_indices_same:
  "(\<And>e. e \<in> set es \<Longrightarrow> e_name e = n) \<Longrightarrow>
   item_indices n j (es @ rest) = zip es [j..<j + length es] @ item_indices n (j + length es) rest"
proof (induction es arbitrary: j)
  case (Cons e es)
  then show ?case by (simp add: upt_conv_Cons del: upt_Suc)
qed simp

lemma item_indices_block:
  assumes "\<And>e. e \<in> set es \<Longrightarrow> e_name e = n" and "ln \<noteq> n"
  shows "item_indices ln j (es @ rest) = zip es [0..<length es] @
    (if es = [] then item_indices ln j rest else item_indices n (length es) rest)"
proof (cases es)
  case (Cons e es')
  then have "item_indices n 1 (es' @ rest) = zip es' [1..<1 + length es'] @ item_indices n (1 + length es') rest"
    using assms(1) by (intro item_indices_same) auto
  with Cons assms show ?thesis by (simp add: upt_conv_Cons del: upt_Suc)
qed simp

lemma item_indices_blocks:
  "distinct (map fst bs) \<Longrightarrow> ln \<notin> set (map fst bs) \<Longrightarrow>
   (\<And>n es e. (n, es) \<in> set bs \<Longrightarrow> e \<in> set es \<Longrightarrow> e_name e = n) \<Longrightarrow>
   item_indices ln j (concat (map snd bs)) = concat (map (\<lambda>(n, es). zip es [0..<length es]) bs)"
proof (induction bs arbitrary: ln j)
  case (Cons b bs)
  obtain n es where b: "b = (n, es)" by (cases b)
  have 1: "item_indices ln j (es @ concat (map snd bs)) = zip es [0..<length es] @
     (if es = [] then item_indices ln j (concat (map snd bs))
      else item_indices n (length es) (concat (map snd bs)))"
    by (rule item_indices_block) (use Cons.prems b in auto)
  have 2: "item_indices l k (concat (map snd bs)) = concat (map (\<lambda>(n, es). zip es [0..<length es]) bs)"
    if "l = ln \<or> l = n" for l k
    by (rule Cons.IH) (use Cons.prems b that in auto)
  show ?case using 1 2 by (simp add: b)
qed simp

lemma zip_map_upt: "zip (map f [0..<n]) [0..<n] = map (\<lambda>i. (f i, i)) [0..<n]"
  by (simp add: zip_map1 zip_same_conv_map)

text \<open>What an emitted case item relies on: the port it selects has that index and width.\<close>

definition item_in_port :: "AddrMap \<Rightarrow> AddrMapEntry \<times> nat \<Rightarrow> bool" where
  "item_in_port am ej = list_ex (\<lambda>(name, num, width, access).
     name = e_name (fst ej) \<and> int (snd ej) < num \<and> e_width (fst ej) = width \<and> e_access (fst ej) = access) (ports am)"

text \<open>The decoder that the case statement describes: the item whose label is the address.\<close>

definition decode :: "(AddrMapEntry \<times> nat) list \<Rightarrow> nat \<Rightarrow> (AddrMapEntry \<times> nat) option" where
  "decode items a = find (\<lambda>ej. e_addr (fst ej) = a) items"

lemma map_fst_item_indices: "map fst (item_indices ln j es) = es"
  by (induction es arbitrary: ln j) (simp_all add: Let_def)

lemma decode_distinct:
  assumes "distinct (map (\<lambda>ej. e_addr (fst ej)) items)" and "ej \<in> set items"
  shows "decode items (e_addr (fst ej)) = Some ej"
  using assms unfolding decode_def
proof (induction items)
  case (Cons x items)
  then show ?case by (cases "x = ej") (auto simp: rev_image_eqI)
qed simp

context plic_params
begin

lemma items_eq:
  "read_items (plic_map t ns pw sw) = zip prio_regs [0..<nat ns] @ zip ip_regs [0..<1] @ zip ie_regs [0..<nat t]
     @ zip th_regs [0..<nat t] @ zip cc_regs [0..<nat t]"
  "write_items (plic_map t ns pw sw) = zip prio_regs [0..<nat ns] @ zip ie_regs [0..<nat t]
     @ zip th_regs [0..<nat t] @ zip cc_regs [0..<nat t]"
proof -
  have w: "filter (\<lambda>e. e_access e \<noteq> RO) (addrmap (plic_map t ns pw sw)) = prio_regs @ ie_regs @ th_regs @ cc_regs"
    by (simp add: plic_map_eq filter_map comp_def)
  have "item_indices [] 0 (concat (map snd [(''prio'', prio_regs), (''ip'', ip_regs), (''ie'', ie_regs),
      (''threshold'', th_regs), (''cc'', cc_regs)]))
    = concat (map (\<lambda>(n, es). zip es [0..<length es]) [(''prio'', prio_regs), (''ip'', ip_regs), (''ie'', ie_regs),
      (''threshold'', th_regs), (''cc'', cc_regs)])"
    by (rule item_indices_blocks) auto
  then show "read_items (plic_map t ns pw sw) = zip prio_regs [0..<nat ns] @ zip ip_regs [0..<1] @ zip ie_regs [0..<nat t]
     @ zip th_regs [0..<nat t] @ zip cc_regs [0..<nat t]"
    by (simp add: read_items_def plic_map_eq)
  have "item_indices [] 0 (concat (map snd [(''prio'', prio_regs), (''ie'', ie_regs),
      (''threshold'', th_regs), (''cc'', cc_regs)]))
    = concat (map (\<lambda>(n, es). zip es [0..<length es]) [(''prio'', prio_regs), (''ie'', ie_regs),
      (''threshold'', th_regs), (''cc'', cc_regs)])"
    by (rule item_indices_blocks) auto
  then show "write_items (plic_map t ns pw sw) = zip prio_regs [0..<nat ns] @ zip ie_regs [0..<nat t]
     @ zip th_regs [0..<nat t] @ zip cc_regs [0..<nat t]"
    by (simp add: write_items_def w)
qed

lemma block_in_port:
  assumes "ej \<in> set (zip (map (single_entry n d a w f) [0..<nat k]) [0..<nat k])"
    and "(n, k, w, a) \<in> set (ports (plic_map t ns pw sw))"
  shows "item_in_port (plic_map t ns pw sw) ej"
proof -
  from assms(1) obtain i where "i < nat k" "ej = (single_entry n d a w f i, i)"
    unfolding zip_map_upt by auto
  with assms(2) show ?thesis
    unfolding item_in_port_def list_ex_iff by (intro bexI [of _ "(n, k, w, a)"]) auto
qed

lemma items_in_ports:
  "ej \<in> set (read_items (plic_map t ns pw sw)) \<union> set (write_items (plic_map t ns pw sw))
   \<Longrightarrow> item_in_port (plic_map t ns pw sw) ej"
proof -
  assume "ej \<in> set (read_items (plic_map t ns pw sw)) \<union> set (write_items (plic_map t ns pw sw))"
  then have "ej \<in> set (zip prio_regs [0..<nat ns])
      \<or> ej \<in> set (zip (map (single_entry ''ip'' ''pending array'' RO ns pendingAddr) [0..<nat 1]) [0..<nat 1])
      \<or> ej \<in> set (zip ie_regs [0..<nat t]) \<or> ej \<in> set (zip th_regs [0..<nat t])
      \<or> ej \<in> set (zip cc_regs [0..<nat t])"
    unfolding items_eq set_append nat_1 One_nat_def by (simp only: Un_iff) blast
  then show ?thesis
    by (elim disjE; elim block_in_port) (simp_all add: plic_map_eq)
qed

lemma items_decode:
  "ej \<in> set (read_items (plic_map t ns pw sw)) \<Longrightarrow>
     decode (read_items (plic_map t ns pw sw)) (e_addr (fst ej)) = Some ej"
  "ej \<in> set (write_items (plic_map t ns pw sw)) \<Longrightarrow>
     decode (write_items (plic_map t ns pw sw)) (e_addr (fst ej)) = Some ej"
proof -
  have "map (\<lambda>ej. e_addr (fst ej)) (item_indices [] 0 es) = map e_addr es" for es
    using arg_cong [OF map_fst_item_indices [of "[]" 0 es], of "map e_addr"] by (simp add: comp_def)
  moreover have "distinct (map e_addr (filter (\<lambda>e. e_access e \<noteq> RO) (addrmap (plic_map t ns pw sw))))"
    using distinct_addresses by (rule distinct_map_filter)
  ultimately have "distinct (map (\<lambda>ej. e_addr (fst ej)) (read_items (plic_map t ns pw sw)))"
    "distinct (map (\<lambda>ej. e_addr (fst ej)) (write_items (plic_map t ns pw sw)))"
    using distinct_addresses by (simp_all add: read_items_def write_items_def)
  then show "ej \<in> set (read_items (plic_map t ns pw sw)) \<Longrightarrow>
     decode (read_items (plic_map t ns pw sw)) (e_addr (fst ej)) = Some ej"
    "ej \<in> set (write_items (plic_map t ns pw sw)) \<Longrightarrow>
     decode (write_items (plic_map t ns pw sw)) (e_addr (fst ej)) = Some ej"
    by (simp_all add: decode_distinct)
qed

end

text \<open>The default configuration of the script: 2 targets, 30 sources, priorities up to 7.\<close>

interpretation default_plic: plic_params 2 31 3 5
  by unfold_locales simp_all

lemma build_plic_map_params:
  assumes "build_plic_map nr_targets nr_sources max_priority = Inr am"
    and "arg_int max_priority = Inr (Some p)" and "p < 2 ^ 29"
  shows "\<exists>t ns pw sw. am = plic_map t ns pw sw \<and> plic_params t ns pw sw"
proof -
  from assms(1,2) obtain t s pw sw where
    *: "clog2 (p + 1) = Inr pw" "clog2 (s + 1) = Inr sw" "s \<le> 31" "t \<le> int MAX_DEVICES"
      "am = plic_map t (s + 1) pw sw"
    by (auto simp: build_plic_map_def rbind_Inr_iff bound_var_def split: option.splits if_splits)
  have "0 \<le> pw \<and> pw \<le> int 29" by (rule clog2_width [OF *(1)]) (use assms(3) in simp)
  moreover have "0 \<le> sw \<and> sw \<le> int 5" by (rule clog2_width [OF *(2)]) (use *(3) in simp)
  moreover have "0 \<le> s" using clog2_Inr [OF *(2)] by simp
  ultimately have "plic_params t (s + 1) pw sw"
    using * by (intro plic_params.intro) (simp_all add: MAX_DEVICES_def)
  with *(5) show ?thesis by blast
qed

text \<open>
  C22. Whenever the generator accepts its arguments (with a maximum priority below \<open>2 ^ 29\<close>), the registers of the
  map have pairwise different addresses, are word aligned, lie in the PLIC window and are no wider than
  the bus, so the \<open>unique case\<close> labels of the emitted decoder are distinct and each item selects its own register.
\<close>

theorem plic_map_decodes:
  assumes "build_plic_map nr_targets nr_sources max_priority = Inr am"
    and "arg_int max_priority = Inr (Some p)" and "p < 2 ^ 29"
  shows "distinct (map e_addr (addrmap am))
    \<and> (\<forall>e \<in> set (addrmap am). e_addr e mod 4 = 0 \<and> plic_base \<le> e_addr e \<and> e_addr e < plic_base + 0x600000
         \<and> 0 \<le> e_width e \<and> e_width e \<le> 32)
    \<and> (\<forall>ej \<in> set (read_items am). decode (read_items am) (e_addr (fst ej)) = Some ej)
    \<and> (\<forall>ej \<in> set (write_items am). decode (write_items am) (e_addr (fst ej)) = Some ej)"
proof -
  obtain t ns pw sw where am: "am = plic_map t ns pw sw" and pp: "plic_params t ns pw sw"
    using build_plic_map_params [OF assms] by blast
  show ?thesis
    unfolding am
    using plic_params.distinct_addresses [OF pp] plic_params.register_bounds [OF pp]
      plic_params.items_decode [OF pp]
    by blast
qed

theorem plic_map_decodes_witness:
  "\<exists>am. build_plic_map (PInt 2) (PInt 30) (PStr ''7'') = Inr am \<and> distinct (map e_addr (addrmap am))"
proof -
  have 1: "arg_int (PStr ''7'') = Inr (Some 7)" by code_simp
  have c: "clog2 8 = Inr 3" "clog2 31 = Inr 5" by code_simp+
  have "build_plic_map (PInt 2) (PInt 30) (PStr ''7'') = Inr (plic_map 2 31 3 5)"
    using 1 c by (simp add: build_plic_map_def bound_var_def arg_int_def [of "PInt _"] MAX_DEVICES_def)
  with plic_map_decodes [OF this 1] show ?thesis by simp
qed

text \<open>
  C23. Every case item of the emitted decoders indexes inside the port it names: the index is below the
  declared number of instances and the item has the declared width and access.
\<close>

theorem plic_items_in_range:
  assumes "build_plic_map nr_targets nr_sources max_priority = Inr am"
    and "arg_int max_priority = Inr (Some p)" and "p < 2 ^ 29"
  shows "list_all (item_in_port am) (read_items am @ write_items am)"
proof -
  obtain t ns pw sw where am: "am = plic_map t ns pw sw" and pp: "plic_params t ns pw sw"
    using build_plic_map_params [OF assms] by blast
  show ?thesis
    unfolding am using plic_params.items_in_ports [OF pp] by (auto simp: list_all_iff)
qed

theorem plic_items_in_range_witness:
  "\<exists>am. build_plic_map (PInt 2) (PInt 30) (PInt 7) = Inr am \<and> list_all (item_in_port am) (read_items am @ write_items am)"
proof -
  have 1: "arg_int (PInt 7) = Inr (Some 7)" by code_simp
  have c: "clog2 8 = Inr 3" "clog2 31 = Inr 5" by code_simp+
  have "build_plic_map (PInt 2) (PInt 30) (PInt 7) = Inr (plic_map 2 31 3 5)"
    using c by (simp add: build_plic_map_def bound_var_def arg_int_def MAX_DEVICES_def)
  with plic_items_in_range [OF this 1] show ?thesis by simp
qed

end
