(* ===== verification/Py_Regex.thy ===== *)
theory Py_Regex
  imports Py_Ints
begin

text \<open>
  The fragment of Python's \<open>re\<close> module that the scripts use, as a backtracking matcher. A match
  state holds the text before the current position (reversed), the text after it, and the groups
  captured so far. \<open>rx_run r st\<close> lists the states in which a match of \<open>r\<close> from \<open>st\<close> can end, in
  the order in which Python tries them, so the head of the list is the match Python reports.
\<close>

datatype rx =
    REps
  | RSet "char \<Rightarrow> bool"
  | RSeq rx rx
  | RAlt rx rx
  | RStar rx
  | RLazy rx
  | RGroup nat rx
  | REos

text \<open>\<open>REos\<close> is \<open>$\<close>: the end of the text, or just before a newline that ends it.\<close>

type_synonym caps = "(nat \<times> string) list"

datatype mstate = MState (m_pre: string) (m_rest: string) (m_caps: caps)

text \<open>
  Iteration of a match function: every further iteration consumes at least one character, so
  \<open>length (m_rest st)\<close> rounds are enough. Greedy repetition tries to go on before it stops,
  lazy repetition after.
\<close>

fun iter_run :: "bool \<Rightarrow> nat \<Rightarrow> (mstate \<Rightarrow> mstate list) \<Rightarrow> mstate \<Rightarrow> mstate list" where
  "iter_run greedy 0 f st = [st]"
| "iter_run greedy (Suc n) f st =
     (let more = concat (map (\<lambda>st'. if length (m_rest st') < length (m_rest st)
                                    then iter_run greedy n f st' else []) (f st))
      in if greedy then more @ [st] else st # more)"

primrec rx_run :: "rx \<Rightarrow> mstate \<Rightarrow> mstate list" where
  "rx_run REps = (\<lambda>st. [st])"
| "rx_run (RSet P) = (\<lambda>st. case m_rest st of
      [] \<Rightarrow> []
    | c # cs \<Rightarrow> if P c then [MState (c # m_pre st) cs (m_caps st)] else [])"
| "rx_run (RSeq a b) = (\<lambda>st. concat (map (rx_run b) (rx_run a st)))"
| "rx_run (RAlt a b) = (\<lambda>st. rx_run a st @ rx_run b st)"
| "rx_run (RStar a) = (\<lambda>st. iter_run True (length (m_rest st)) (rx_run a) st)"
| "rx_run (RLazy a) = (\<lambda>st. iter_run False (length (m_rest st)) (rx_run a) st)"
| "rx_run (RGroup i a) = (\<lambda>st. map (\<lambda>st'.
      MState (m_pre st') (m_rest st')
        (AList.update i (rev (take (length (m_pre st') - length (m_pre st)) (m_pre st')))
          (m_caps st'))) (rx_run a st))"
| "rx_run REos = (\<lambda>st. if m_rest st = [] \<or> m_rest st = nl then [st] else [])"

section \<open>Entry points\<close>

definition start_at :: "string \<Rightarrow> string \<Rightarrow> mstate" where
  "start_at pre s = MState pre s []"

definition first_of :: "'a list \<Rightarrow> 'a option" where
  "first_of xs = (case xs of [] \<Rightarrow> None | x # _ \<Rightarrow> Some x)"

definition re_match :: "rx \<Rightarrow> string \<Rightarrow> mstate option" where
  "re_match r s = first_of (rx_run r (start_at [] s))"

definition re_fullmatch :: "rx \<Rightarrow> string \<Rightarrow> mstate option" where
  "re_fullmatch r s = first_of (filter (\<lambda>st. m_rest st = []) (rx_run r (start_at [] s)))"

text \<open>\<open>search\<close> tries every start; its result comes with the text before the match.\<close>

fun search_from :: "rx \<Rightarrow> string \<Rightarrow> string \<Rightarrow> (string \<times> mstate) option" where
  "search_from r pre [] = map_option (Pair pre) (first_of (rx_run r (start_at pre [])))"
| "search_from r pre (c # cs) =
     (case first_of (rx_run r (start_at pre (c # cs))) of
        Some st \<Rightarrow> Some (pre, st)
      | None \<Rightarrow> search_from r (c # pre) cs)"

definition re_search :: "rx \<Rightarrow> string \<Rightarrow> mstate option" where
  "re_search r s = map_option snd (search_from r [] s)"

definition group :: "mstate \<Rightarrow> nat \<Rightarrow> string option" where
  "group st i = map_of (m_caps st) i"

text \<open>The text of a group that is part of every match.\<close>

definition group_str :: "mstate \<Rightarrow> nat \<Rightarrow> string" where
  "group_str st i = (case group st i of None \<Rightarrow> [] | Some t \<Rightarrow> t)"

text \<open>
  \<open>finditer\<close>: the matches from left to right; a search goes on at the end of the last match, and
  one character further when that match was empty.
\<close>

fun finditer_fuel :: "nat \<Rightarrow> rx \<Rightarrow> string \<Rightarrow> string \<Rightarrow> (string \<times> mstate) list" where
  "finditer_fuel 0 r pre s = []"
| "finditer_fuel (Suc n) r pre s =
     (case search_from r pre s of
        None \<Rightarrow> []
      | Some (p, st) \<Rightarrow>
          (p, st) #
          (if length (m_pre st) > length p then finditer_fuel n r (m_pre st) (m_rest st)
           else (case m_rest st of
                   [] \<Rightarrow> []
                 | c # cs \<Rightarrow> finditer_fuel n r (c # m_pre st) cs)))"

definition re_finditer :: "rx \<Rightarrow> string \<Rightarrow> (string \<times> mstate) list" where
  "re_finditer r s = finditer_fuel (Suc (length s)) r [] s"

text \<open>\<open>re.split\<close> for a pattern with groups \<open>1 .. n\<close> that never matches the empty text.\<close>

fun split_between :: "nat \<Rightarrow> string \<Rightarrow> (string \<times> mstate) list \<Rightarrow> string \<Rightarrow> string option list" where
  "split_between n last_pre [] s = [Some (drop (length last_pre) s)]"
| "split_between n last_pre ((p, st) # ms) s =
     Some (rev (take (length p - length last_pre) p)) #
     map (group st) [1..<Suc n] @ split_between n (m_pre st) ms s"

definition re_split :: "nat \<Rightarrow> rx \<Rightarrow> string \<Rightarrow> string option list" where
  "re_split n r s = split_between n [] (re_finditer r s) s"

section \<open>Building patterns\<close>

definition rlit :: "char \<Rightarrow> rx" where "rlit c = RSet (\<lambda>x. x = c)"

definition rany :: rx where "rany = RSet (\<lambda>x. x \<noteq> newline)"

definition rplus :: "rx \<Rightarrow> rx" where "rplus r = RSeq r (RStar r)"

definition rplus_lazy :: "rx \<Rightarrow> rx" where "rplus_lazy r = RSeq r (RLazy r)"

definition ropt :: "rx \<Rightarrow> rx" where "ropt r = RAlt r REps"

fun rstr :: "string \<Rightarrow> rx" where
  "rstr [] = REps"
| "rstr [c] = rlit c"
| "rstr (c # d # cs) = RSeq (rlit c) (rstr (d # cs))"

fun rseq :: "rx list \<Rightarrow> rx" where
  "rseq [] = REps"
| "rseq [r] = r"
| "rseq (r # q # rs) = RSeq r (rseq (q # rs))"

definition is_hex_lower :: "char \<Rightarrow> bool" where
  "is_hex_lower c = (is_digit c \<or> c \<in> set ''abcdef'')"

section \<open>What a match is\<close>

text \<open>Every match splits the text at the position it reached: nothing is lost or invented.\<close>

definition same_text :: "mstate \<Rightarrow> mstate \<Rightarrow> bool" where
  "same_text a b = (rev (m_pre a) @ m_rest a = rev (m_pre b) @ m_rest b
     \<and> length (m_rest b) \<le> length (m_rest a))"

lemma same_text_refl: "same_text a a"
  by (simp add: same_text_def)

lemma same_text_trans: "same_text a b \<Longrightarrow> same_text b c \<Longrightarrow> same_text a c"
  by (auto simp: same_text_def)

lemma iter_run_same_text:
  assumes "\<And>st st'. st' \<in> set (f st) \<Longrightarrow> same_text st st'"
  shows "st' \<in> set (iter_run g n f st) \<Longrightarrow> same_text st st'"
proof (induction n arbitrary: st)
  case (Suc n)
  then show ?case
    by (auto simp: Let_def same_text_refl split: if_splits)
      (meson assms same_text_trans)+
qed (simp add: same_text_refl)

lemma rx_run_same_text: "st' \<in> set (rx_run r st) \<Longrightarrow> same_text st st'"
proof (induction r arbitrary: st st')
  case (RSet P)
  then show ?case by (cases "m_rest st") (auto simp: same_text_def split: if_splits)
next
  case (RSeq a b)
  then obtain x where "x \<in> set (rx_run a st)" "st' \<in> set (rx_run b x)" by auto
  with RSeq.IH show ?case by (blast intro: same_text_trans)
next
  case (RGroup i r)
  then obtain st1 where "st1 \<in> set (rx_run r st)" "m_pre st' = m_pre st1" "m_rest st' = m_rest st1"
    by auto
  with RGroup.IH show ?case by (auto simp: same_text_def)
next
  case (RStar r)
  then show ?case using iter_run_same_text [of "rx_run r"] by auto
next
  case (RLazy r)
  then show ?case using iter_run_same_text [of "rx_run r"] by auto
qed (auto simp: same_text_refl split: if_splits)

lemma first_of_mem: "first_of xs = Some x \<Longrightarrow> x \<in> set xs"
  by (cases xs) (simp_all add: first_of_def)

lemma re_match_text: "re_match r s = Some st \<Longrightarrow> rev (m_pre st) @ m_rest st = s"
  by (auto simp: re_match_def start_at_def same_text_def dest!: first_of_mem rx_run_same_text)

section \<open>Runs of a character class\<close>

text \<open>A greedy run of a class can stop after each of its characters; it tries the longest first.\<close>

lemma iter_run_set:
  assumes "length s \<le> n"
  shows "iter_run True n (rx_run (RSet P)) (MState p s cp) =
     map (\<lambda>k. MState (rev (take k s) @ p) (drop k s) cp)
       (rev [0..<Suc (length (takeWhile P s))])"
  using assms
proof (induction n arbitrary: s p)
  case 0
  then show ?case by simp
next
  case (Suc n)
  show ?case
  proof (cases s)
    case Nil
    then show ?thesis by simp
  next
    case (Cons c cs)
    have up: "[0..<Suc (Suc m)] = 0 # map Suc [0..<Suc m]" for m
      by (simp add: map_Suc_upt upt_conv_Cons del: upt_Suc)
    show ?thesis
    proof (cases "P c")
      case True
      have "iter_run True n (rx_run (RSet P)) (MState (c # p) cs cp) =
         map (\<lambda>k. MState (rev (take k cs) @ c # p) (drop k cs) cp)
           (rev [0..<Suc (length (takeWhile P cs))])"
        by (rule Suc.IH) (use Suc.prems Cons in simp)
      with True Cons show ?thesis
        by (simp add: up rev_map comp_def del: upt_Suc)
    next
      case False
      with Cons show ?thesis by simp
    qed
  qed
qed

text \<open>
  A class run that must be followed by something that cannot start inside the run: only the longest
  run can succeed. This is the case of every field separator in the scripts' patterns.
\<close>

lemma concat_map_singleton:
  assumes "\<And>k. k < n \<Longrightarrow> f k = []"
  shows "concat (map f (rev [0..<Suc n])) = f n"
proof -
  have "concat (map f (rev [0..<n])) = []" using assms by auto
  then show ?thesis by simp
qed

lemma star_set_then:
  assumes "\<And>k. k < length (takeWhile P s) \<Longrightarrow> rx_run r (MState (rev (take k s) @ p) (drop k s) cp) = []"
  shows "rx_run (RSeq (RStar (RSet P)) r) (MState p s cp) =
    rx_run r (MState (rev (takeWhile P s) @ p) (dropWhile P s) cp)"
proof -
  let ?n = "length (takeWhile P s)"
  have "rx_run (RSeq (RStar (RSet P)) r) (MState p s cp) =
      concat (map (\<lambda>k. rx_run r (MState (rev (take k s) @ p) (drop k s) cp)) (rev [0..<Suc ?n]))"
    by (simp only: rx_run.simps(3,5) mstate.sel iter_run_set [OF order_refl] map_map comp_def)
  also have "\<dots> = rx_run r (MState (rev (take ?n s) @ p) (drop ?n s) cp)"
    by (rule concat_map_singleton) (rule assms)
  finally show ?thesis
    by (simp add: takeWhile_eq_take [symmetric] dropWhile_eq_drop [symmetric])
qed

text \<open>The same for a captured, non-empty run: the usual field of a pattern.\<close>

lemma group_plus_then:
  assumes w: "w \<noteq> []" "list_all P w" and rest: "rest = [] \<or> \<not> P (hd rest)"
    and r: "\<And>c cs p cp. P c \<Longrightarrow> rx_run r (MState p (c # cs) cp) = []"
  shows "rx_run (RSeq (RGroup i (rplus (RSet P))) r) (MState p (w @ rest) cp) =
    rx_run r (MState (rev w @ p) rest (AList.update i w cp))"
proof -
  obtain c v where cv: "w = c # v" "P c" "list_all P v" using w by (cases w) auto
  have tw: "takeWhile P (v @ rest) = v"
    using cv(3) rest by (cases rest) (auto simp: list_all_iff takeWhile_append)
  let ?st = "\<lambda>k. MState (rev (take k (v @ rest)) @ c # p) (drop k (v @ rest)) cp"
  let ?g = "\<lambda>st'. MState (m_pre st') (m_rest st')
        (AList.update i (rev (take (length (m_pre st') - length p) (m_pre st'))) (m_caps st'))"
  have star: "rx_run (RStar (RSet P)) (MState (c # p) (v @ rest) cp) = map ?st (rev [0..<Suc (length v)])"
    by (simp only: rx_run.simps(5) mstate.sel iter_run_set [OF order_refl] tw)
  have "rx_run (rplus (RSet P)) (MState p (w @ rest) cp) = rx_run (RStar (RSet P)) (MState (c # p) (v @ rest) cp)"
    using cv by (simp add: rplus_def)
  then have "rx_run (RSeq (RGroup i (rplus (RSet P))) r) (MState p (w @ rest) cp) =
      concat (map (\<lambda>k. rx_run r (?g (?st k))) (rev [0..<Suc (length v)]))"
    unfolding rx_run.simps(3,7) star by (simp only: map_map comp_def mstate.sel)
  also have "\<dots> = rx_run r (?g (?st (length v)))"
  proof (rule concat_map_singleton)
    fix k assume k: "k < length v"
    then have "drop k (v @ rest) = v ! k # drop (Suc k) v @ rest" by (simp add: Cons_nth_drop_Suc)
    moreover have "P (v ! k)" using cv(3) k by (simp add: list_all_length)
    ultimately show "rx_run r (?g (?st k)) = []" by (simp add: r)
  qed
  also have "?g (?st (length v)) = MState (rev w @ p) rest (AList.update i w cp)"
    using cv(1) by simp
  finally show ?thesis .
qed

lemma rlit_run: "rx_run (RSeq (rlit c) r) (MState p (c # s) cp) = rx_run r (MState (c # p) s cp)"
  "d \<noteq> c \<Longrightarrow> rx_run (RSeq (rlit c) r) (MState p (d # s) cp) = []"
  by (simp_all add: rlit_def)

end
