(* ===== verification/Py_Shlex.thy ===== *)
theory Py_Shlex
  imports Py_Data
begin

text \<open>
  The two functions of Python's \<open>shlex\<close> module that every command-building script uses:
  \<open>quote\<close>, and \<open>split\<close> in POSIX mode with white-space splitting and no comments. The state
  machine of \<open>split\<close> follows \<open>shlex.read_token\<close>. The theorem is the one the scripts rely on:
  splitting a line of quoted words gives the words back.
\<close>

definition shell_safe :: "char \<Rightarrow> bool" where
  "shell_safe c = (is_word c \<or> c \<in> set ''@%+=:,./-'')"

definition shlex_quote :: "string \<Rightarrow> string" where
  "shlex_quote s =
     (if s = [] then [CHR 39, CHR 39]
      else if list_all shell_safe s then s
      else [CHR 39] @ py_replace [CHR 39] [CHR 39, CHR 34, CHR 39, CHR 34, CHR 39] s @ [CHR 39])"

definition shlex_space :: "char \<Rightarrow> bool" where
  "shlex_space c = (c = CHR '' '' \<or> c = CHR 9 \<or> c = CHR 13 \<or> c = CHR 10)"

text \<open>
  \<open>SBlank\<close> is between tokens, \<open>SWord\<close> inside one, \<open>SQuote q\<close> inside quotes \<open>q\<close>, and \<open>SEsc\<close> just
  after a backslash, with the state to go back to (\<open>None\<close> for a word, \<open>Some q\<close> for quotes).
\<close>

datatype shlex_state = SBlank | SWord | SQuote char | SEsc "char option"

fun split_run :: "shlex_state \<Rightarrow> string \<Rightarrow> bool \<Rightarrow> string \<Rightarrow> string list res" where
  "split_run st tok quoted [] =
     (case st of
        SQuote q \<Rightarrow> Inl (ValueError ''No closing quotation'')
      | SEsc _ \<Rightarrow> Inl (ValueError ''No escaped character'')
      | _ \<Rightarrow> Inr (if tok \<noteq> [] \<or> quoted then [rev tok] else []))"
| "split_run st tok quoted (c # cs) =
     (case st of
        SBlank \<Rightarrow>
          (if shlex_space c then split_run SBlank tok quoted cs
           else if c = CHR 92 then split_run (SEsc None) tok quoted cs
           else if c = CHR 39 \<or> c = CHR 34 then split_run (SQuote c) tok quoted cs
           else split_run SWord [c] quoted cs)
      | SWord \<Rightarrow>
          (if shlex_space c then
             (if tok \<noteq> [] \<or> quoted
              then rbind (split_run SBlank [] False cs) (\<lambda>ws. Inr (rev tok # ws))
              else split_run SBlank tok quoted cs)
           else if c = CHR 39 \<or> c = CHR 34 then split_run (SQuote c) tok quoted cs
           else if c = CHR 92 then split_run (SEsc None) tok quoted cs
           else split_run SWord (c # tok) quoted cs)
      | SQuote q \<Rightarrow>
          (if c = q then split_run SWord tok True cs
           else if c = CHR 92 \<and> q = CHR 34 then split_run (SEsc (Some q)) tok True cs
           else split_run (SQuote q) (c # tok) True cs)
      | SEsc back \<Rightarrow>
          (case back of
             None \<Rightarrow> split_run SWord (c # tok) quoted cs
           | Some q \<Rightarrow>
               split_run (SQuote q) (if c \<noteq> CHR 92 \<and> c \<noteq> q then c # CHR 92 # tok else c # tok)
                 quoted cs))"

definition shlex_split :: "string \<Rightarrow> string list res" where
  "shlex_split s = split_run SBlank [] False s"

section \<open>Splitting a line of quoted words\<close>

lemma shell_safe_plain:
  assumes "shell_safe c"
  shows "\<not> shlex_space c" and "c \<noteq> CHR 39" and "c \<noteq> CHR 34" and "c \<noteq> CHR 92"
proof -
  let ?n = "of_char c :: nat"
  from assms have n: "48 \<le> ?n \<and> ?n \<le> 57 \<or> 65 \<le> ?n \<and> ?n \<le> 90 \<or> 97 \<le> ?n \<and> ?n \<le> 122
      \<or> ?n \<in> {95, 64, 37, 43, 61, 58, 44, 46, 47, 45}"
    by (auto simp: shell_safe_def is_word_def is_digit_def is_upper_def is_lower_def Let_def)
  show "\<not> shlex_space c" "c \<noteq> CHR 39" "c \<noteq> CHR 34" "c \<noteq> CHR 92"
    using n by (auto simp: shlex_space_def)
qed

text \<open>What follows a word on the line: nothing, or a blank and the other words.\<close>

lemma split_run_word_end:
  "split_run SWord tok quoted [] = Inr [rev tok]"
  "split_run SWord tok quoted (CHR '' '' # rest)
     = rbind (shlex_split rest) (\<lambda>ws. Inr (rev tok # ws))"
  if "tok \<noteq> [] \<or> quoted"
  using that by (auto simp: shlex_space_def shlex_split_def)

lemma split_run_safe:
  "list_all shell_safe w \<Longrightarrow>
   split_run SWord tok quoted (w @ rest) = split_run SWord (rev w @ tok) quoted rest"
  by (induction w arbitrary: tok) (auto simp: shell_safe_plain)

abbreviation sq_body :: "string \<Rightarrow> string" where
  "sq_body s \<equiv> py_replace [CHR 39] [CHR 39, CHR 34, CHR 39, CHR 34, CHR 39] s"

lemma sq_body_simps [simp]:
  "sq_body [] = []"
  "sq_body (c # cs) =
     (if c = CHR 39 then [CHR 39, CHR 34, CHR 39, CHR 34, CHR 39] @ sq_body cs else c # sq_body cs)"
  by (simp_all add: py_replace.simps [of "[CHR 39]" _ "[]"] py_replace.simps [of "[CHR 39]" _ "c # cs"])

lemma split_run_quoted:
  "split_run (SQuote (CHR 39)) tok q (sq_body s @ CHR 39 # rest)
     = split_run SWord (rev s @ tok) True rest"
  by (induction s arbitrary: tok q) (auto simp: shlex_space_def)

lemma split_run_quote_word:
  "split_run SBlank [] False (shlex_quote w @ rest) =
     (if w = [] then split_run SWord [] True rest
      else split_run SWord (rev w) (\<not> list_all shell_safe w) rest)"
proof (cases "list_all shell_safe w")
  case True
  show ?thesis
  proof (cases w)
    case Nil
    then show ?thesis by (simp add: shlex_quote_def shlex_space_def)
  next
    case (Cons c cs)
    with True show ?thesis
      using split_run_safe [of cs "[c]" False rest]
      by (simp add: shlex_quote_def shell_safe_plain)
  qed
next
  case False
  then have "w \<noteq> []" by auto
  with False show ?thesis
    using split_run_quoted [of "[]" False w rest]
    by (simp add: shlex_quote_def shlex_space_def)
qed

theorem shlex_split_quote:
  "shlex_split (py_join '' '' (map shlex_quote ws)) = Inr ws"
proof (induction ws rule: induct_list012)
  case 1
  show ?case by (simp add: shlex_split_def)
next
  case (2 w)
  show ?case
    using split_run_quote_word [of w "[]"]
    by (auto simp: shlex_split_def split_run_word_end)
next
  case (3 w v ws)
  let ?rest = "CHR '' '' # py_join '' '' (map shlex_quote (v # ws))"
  have "shlex_split (py_join '' '' (map shlex_quote (w # v # ws)))
      = split_run SBlank [] False (shlex_quote w @ ?rest)"
    by (simp add: shlex_split_def)
  also have "\<dots> = rbind (shlex_split (py_join '' '' (map shlex_quote (v # ws)))) (\<lambda>ws. Inr (w # ws))"
    using split_run_quote_word [of w ?rest] split_run_word_end(2)
    by (auto split: if_splits)
  finally show ?case using "3.IH"(2) by simp
qed

end
