(* ===== verification/Tool_Req.thy ===== *)
theory Tool_Req
  imports Py_Regex Py_Shlex
begin

text \<open>
  \<open>util/check_tool_requirements.py\<close>: the \<open>ToolReq\<close> class and its subclasses (how a version is
  obtained, parsed and turned into a semantic version), the reader of the requirements and \<open>main\<close>;
  and the table \<open>util/tool_requirements.py\<close> that it reads.
  Running a tool, importing a module, executing the requirements file and the class
  \<open>packaging.version.Version\<close> are parameters, in the record \<open>tool_world\<close>.
\<close>

section \<open>Class ToolReq and its subclasses\<close>

datatype tool_class =
  BaseReq | VerilatorToolReq | VeribleToolReq | VivadoToolReq | VcsToolReq | NinjaToolReq | EdalizeToolReq

record ToolReq =
  cls :: tool_class
  tool :: string
  min_version :: string
  as_needed :: bool

text \<open>
  \<open>run_tool cmd overrides\<close> is the standard output of a command that ends with status 0, or the text
  of the \<open>CalledProcessError\<close> or \<open>FileNotFoundError\<close>; \<open>run_shell\<close> is the same through a shell;
  \<open>module_version\<close> is \<open>None\<close> when the module is not found; \<open>Version\<close> is the constructor, whose
  \<open>InvalidVersion\<close> is a \<open>ValueError\<close>, and \<open>ver_less\<close> its \<open>__lt__\<close>.
\<close>

record 'v tool_world =
  run_tool :: "string list \<Rightarrow> (string \<times> string) list option \<Rightarrow> string + string"
  run_shell :: "string \<Rightarrow> string + string"
  module_version :: "string \<Rightarrow> string option"
  Version :: "string \<Rightarrow> string + 'v"
  ver_less :: "'v \<Rightarrow> 'v \<Rightarrow> bool"

definition tool_cmd :: "tool_class \<Rightarrow> string list option" where
  "tool_cmd c = (case c of
     VeribleToolReq \<Rightarrow> Some [''verible-verilog-lint'', ''--version'']
   | VivadoToolReq \<Rightarrow> Some [''vivado'', ''-version'']
   | VcsToolReq \<Rightarrow> Some [''vcs'', ''-full64'', ''-ID'']
   | NinjaToolReq \<Rightarrow> Some [''ninja'', ''--version'']
   | _ \<Rightarrow> None)"

definition tool_env :: "tool_class \<Rightarrow> (string \<times> string) list option" where
  "tool_env c = (if c = VcsToolReq then Some [(''VCS_ARCH_OVERRIDE'', ''linux'')] else None)"

definition rspace :: rx where "rspace = RSet is_space"
definition rdigits :: rx where "rdigits = rplus (RSet is_digit)"

definition version_regex :: "tool_class \<Rightarrow> rx option" where
  "version_regex c = (case c of
     VivadoToolReq \<Rightarrow> Some (rseq [rstr ''Vivado v'', RGroup 1 (RStar rany), rspace])
   | VcsToolReq \<Rightarrow> Some (rseq [rstr ''Compiler version = VCS '', RSet is_upper, rlit (CHR ''-''), RGroup 1 (RStar rany)])
   | _ \<Rightarrow> None)"

definition get_tool_cmd :: "ToolReq \<Rightarrow> string list" where
  "get_tool_cmd r = (case tool_cmd (cls r) of Some c \<Rightarrow> c | None \<Rightarrow> [tool r, ''--version''])"

fun first_regex_line :: "rx \<Rightarrow> string list \<Rightarrow> string res" where
  "first_regex_line rg [] = Inl (ValueError ''No line matched version regex.'')"
| "first_regex_line rg (line # ls) =
     (case re_match rg (rstrip line) of
        Some m \<Rightarrow> Inr (group_str m 1)
      | None \<Rightarrow> first_regex_line rg ls)"

definition parse_version_output :: "ToolReq \<Rightarrow> string \<Rightarrow> string res" where
  "parse_version_output r stdout = (case version_regex (cls r) of
     None \<Rightarrow>
       (let line0 = hd (split_char newline stdout); words = py_words line0
        in if words = [] then Inl (ValueError ''Empty first line.'') else Inr (last words))
   | Some rg \<Rightarrow> first_regex_line rg (split_char newline stdout))"

definition base_get_version :: "'v tool_world \<Rightarrow> ToolReq \<Rightarrow> string res" where
  "base_get_version w r =
     (let cmd = get_tool_cmd r; cmd_txt = py_join '' '' (map shlex_quote cmd)
      in case run_tool w cmd (tool_env (cls r)) of
           Inl err \<Rightarrow>
             (let env_msg = (case tool_env (cls r) of
                    None \<Rightarrow> [] | Some [] \<Rightarrow> []
                  | Some kvs \<Rightarrow> '' (with environment overrides: '' @
                                py_join '', '' (map (\<lambda>(k, v). k @ ''='' @ v) kvs) @ '')'')
              in Inl (RuntimeError (''Failed to run '' @ repr_str cmd_txt @ env_msg @ '' to check version: '' @ err)))
         | Inr stdout \<Rightarrow>
             if stdout = [] then
               Inl (RuntimeError (''No output from running '' @ repr_str cmd_txt @ '' to check version.''))
             else except_value (parse_version_output r stdout) (\<lambda>err.
               Inl (RuntimeError (''Bad output from running '' @ repr_str cmd_txt @ '' to check version: '' @ err))))"

definition get_version :: "'v tool_world \<Rightarrow> ToolReq \<Rightarrow> string res" where
  "get_version w r = (case cls r of
     VerilatorToolReq \<Rightarrow>
       (case run_shell w ''verilator --version'' of
          Inl err \<Rightarrow> Inl (RuntimeError (''Unable to call Verilator to check version: '' @ err))
        | Inr stdout \<Rightarrow>
            (case split_char (CHR '' '') stdout of
               _ # x # _ \<Rightarrow> Inr (strip x)
             | _ \<Rightarrow> Inl (IndexError ''list index out of range'')))
   | EdalizeToolReq \<Rightarrow>
       (case module_version w (tool r @ ''.version'') of
          None \<Rightarrow> Inl (RuntimeError (''Unable to import '' @ tool r @ '' to check version''))
        | Some v \<Rightarrow> Inr v)
   | _ \<Rightarrow> base_get_version w r)"

definition verible_rx :: rx where
  "verible_rx = rseq [rlit (CHR ''v''), RGroup 1 rdigits, rlit (CHR ''.''), RGroup 2 rdigits, rlit (CHR ''-''),
     RGroup 3 rdigits, rlit (CHR ''-''), rlit (CHR ''g''), rplus (RSet is_hex_lower), REos]"

definition vivado_rx :: rx where
  "vivado_rx = rseq [RGroup 1 rdigits, rlit (CHR ''.''), RGroup 2 rdigits,
     ropt (RSeq (rlit (CHR ''.'')) (RGroup 3 rdigits))]"

definition ninja_rx :: rx where
  "ninja_rx = rseq [RGroup 1 rdigits, rlit (CHR ''.''), RGroup 2 rdigits, rlit (CHR ''.''), RGroup 3 rdigits]"

text \<open>The dot between the first two groups is not escaped in the source: it matches any character.\<close>

definition vcs_rx :: "bool \<Rightarrow> rx" where
  "vcs_rx from_req = rseq [RGroup 1 rdigits, rany, RGroup 2 rdigits,
     ropt (RSeq (rstr ''-SP'') (RGroup 3 rdigits)), ropt (RSeq (rlit (CHR ''-'')) (RGroup 4 rdigits)),
     (if from_req then REos else REps)]"

definition join3 :: "mstate \<Rightarrow> string" where
  "join3 m = py_join ''.'' [group_str m 1, group_str m 2, group_str m 3]"

definition group_or :: "mstate \<Rightarrow> nat \<Rightarrow> string \<Rightarrow> string" where
  \<comment> \<open>\<open>m.group(i) or d\<close>\<close>
  "group_or m i d = (case group m i of None \<Rightarrow> d | Some t \<Rightarrow> if t = [] then d else t)"

definition bad_version :: "string \<Rightarrow> py_exc" where
  "bad_version version = ValueError (version @ '' has invalid version string format.'')"

definition verible_semver :: "string \<Rightarrow> string res" where
  "verible_semver version = (case re_fullmatch verible_rx version of
     None \<Rightarrow> Inl (bad_version version) | Some m \<Rightarrow> Inr (join3 m))"

definition vivado_semver :: "string \<Rightarrow> string res" where
  "vivado_semver version = (case re_fullmatch vivado_rx version of
     None \<Rightarrow> Inl (bad_version version)
   | Some m \<Rightarrow> Inr (py_join ''.'' [group_str m 1, group_str m 2, group_or m 3 ''0'']))"

definition vcs_semver :: "string \<Rightarrow> bool \<Rightarrow> string res" where
  "vcs_semver version from_req = (case re_match (vcs_rx from_req) version of
     None \<Rightarrow> Inl (ValueError (repr_str version @ '' is not a recognised VCS version string.''))
   | Some m \<Rightarrow>
       rbind (py_int 10 (group_or m 3 ''0'')) (\<lambda>sp.
       rbind (py_int 10 (group_or m 4 ''0'')) (\<lambda>patch.
       Inr (group_str m 1 @ ''.'' @ group_str m 2 @ int_str (sp * 100 + patch)))))"

definition ninja_semver :: "string \<Rightarrow> string res" where
  "ninja_semver version = (case re_match ninja_rx version of
     None \<Rightarrow> Inl (bad_version version) | Some m \<Rightarrow> Inr (join3 m))"

definition to_semver :: "tool_class \<Rightarrow> string \<Rightarrow> bool \<Rightarrow> string res" where
  "to_semver c version from_req = (case c of
     VeribleToolReq \<Rightarrow> verible_semver version
   | VivadoToolReq \<Rightarrow> vivado_semver version
   | VcsToolReq \<Rightarrow> vcs_semver version from_req
   | NinjaToolReq \<Rightarrow> ninja_semver version
   | _ \<Rightarrow> Inr version)"

definition semver_of :: "'v tool_world \<Rightarrow> tool_class \<Rightarrow> string \<Rightarrow> bool \<Rightarrow> string \<Rightarrow> string \<Rightarrow> string + 'v res" where
  "semver_of w c version from_req conv_msg bad_msg =
     (case to_semver c version from_req of
        Inl (ValueError err) \<Rightarrow> Inl (conv_msg @ err)
      | Inl e \<Rightarrow> Inr (Inl e)
      | Inr sv \<Rightarrow>
          (case Version w sv of
             Inl err \<Rightarrow> Inl (bad_msg @ '' ('' @ sv @ ''): '' @ err)
           | Inr v \<Rightarrow> Inr (Inr v)))"

definition check :: "'v tool_world \<Rightarrow> ToolReq \<Rightarrow> (bool \<times> string) res" where
  "check w r =
     (case semver_of w (cls r) (min_version r) True
             ''Failed to convert requirement to semantic version: ''
             ''Bad semver inferred from required version'' of
        Inl msg \<Rightarrow> Inr (False, msg)
      | Inr (Inl e) \<Rightarrow> Inl e
      | Inr (Inr min_sv) \<Rightarrow>
     (case get_version w r of
        Inl (RuntimeError err) \<Rightarrow> Inr (False, err)
      | Inl e \<Rightarrow> Inl e
      | Inr actual_version \<Rightarrow>
     (case semver_of w (cls r) actual_version False
             ''Failed to convert installed to semantic version: ''
             ''Bad semver inferred from installed version'' of
        Inl msg \<Rightarrow> Inr (False, msg)
      | Inr (Inl e) \<Rightarrow> Inl e
      | Inr (Inr actual_sv) \<Rightarrow>
          if ver_less w actual_sv min_sv then
            Inr (False, ''Installed version is too old: found version '' @ actual_version @
                        '', but need at least '' @ min_version r)
          else
            Inr (True, ''Sufficiently recent version (found '' @ actual_version @ ''; needed '' @
                       min_version r @ '')''))))"

section \<open>Reading the requirements\<close>

definition tool_classes :: "(string \<times> tool_class) list" where
  "tool_classes = [
     (''edalize'', EdalizeToolReq),
     (''vcs'', VcsToolReq),
     (''verible'', VeribleToolReq),
     (''verilator'', VerilatorToolReq),
     (''vivado'', VivadoToolReq),
     (''ninja'', NinjaToolReq)]"

definition key_str :: "pyval \<Rightarrow> string res" where
  "key_str k = (case k of PStr s \<Rightarrow> Inr s | _ \<Rightarrow> Inl (TypeError ''sequence item: expected str instance''))"

definition dict_to_tool_req :: "string \<Rightarrow> string \<Rightarrow> (pyval \<times> pyval) list \<Rightarrow> ToolReq res" where
  "dict_to_tool_req path tname raw =
     (let where_msg = ''Dict for '' @ tname @ '' in __TOOL_REQUIREMENTS__'' in
      case map_of raw (PStr ''min_version'') of
        None \<Rightarrow> Inl (ReqErr path (where_msg @ '' is missing required key: '' @ [CHR 34] @ ''min_version'' @ [CHR 34] @ ''.''))
      | Some (PStr mv) \<Rightarrow>
          (let raw = AList.delete (PStr ''min_version'') raw in
           rbind (case map_of raw (PStr ''as_needed'') of
                    None \<Rightarrow> Inr False
                  | Some (PBool b) \<Rightarrow> Inr b
                  | Some _ \<Rightarrow> Inl (ReqErr path (where_msg @ '' has as_needed that is not a bool.'')))
             (\<lambda>need.
               let raw = AList.delete (PStr ''as_needed'') raw in
               if raw \<noteq> [] then
                 rbind (rmap key_str (map fst raw)) (\<lambda>ks.
                   Inl (ReqErr path (where_msg @ '' has unexpected keys: '' @ py_join '', '' ks @ ''.'')))
               else
                 Inr \<lparr>cls = (case map_of tool_classes tname of None \<Rightarrow> BaseReq | Some c \<Rightarrow> c),
                      tool = tname, min_version = mv, as_needed = need\<rparr>))
      | Some _ \<Rightarrow> Inl (ReqErr path (where_msg @ '' has min_version that is not a string.'')))"

definition read_one_req ::
  "string \<Rightarrow> (string \<times> ToolReq) list \<Rightarrow> pyval \<times> pyval \<Rightarrow> (string \<times> ToolReq) list res" where
  "read_one_req path reqs kv = (case fst kv of
     PStr tname \<Rightarrow>
       (case (case snd kv of PStr s \<Rightarrow> PDict [(PStr ''min_version'', PStr s)] | v \<Rightarrow> v) of
          PDict raw \<Rightarrow> rbind (dict_to_tool_req path tname raw) (\<lambda>r. Inr (AList.update tname r reqs))
        | _ \<Rightarrow> Inl (ReqErr path (''Value for '' @ tname @ '' in __TOOL_REQUIREMENTS__ is not a string or dict.'')))
   | k \<Rightarrow> Inl (ReqErr path (''Invalid key in __TOOL_REQUIREMENTS__: '' @ py_repr k)))"

text \<open>\<open>exec_file path\<close> gives the globals that executing the Python file defines.\<close>

definition read_tool_requirements :: "(string \<Rightarrow> pydict res) \<Rightarrow> string \<Rightarrow> (string \<times> ToolReq) list res" where
  "read_tool_requirements exec_file path =
     rbind (exec_file path) (\<lambda>globs.
       case map_of globs ''__TOOL_REQUIREMENTS__'' of
         Some (PDict raw) \<Rightarrow> rfold (read_one_req path) [] raw
       | Some PNone \<Rightarrow> Inl (ReqErr path ''The Python file at did not define __TOOL_REQUIREMENTS__.'')
       | None \<Rightarrow> Inl (ReqErr path ''The Python file at did not define __TOOL_REQUIREMENTS__.'')
       | Some _ \<Rightarrow> Inl (ReqErr path ''__TOOL_REQUIREMENTS__ is not a dict.''))"

section \<open>main\<close>

record check_state =
  pending_tools :: "string list"
  missing_tools :: "string list"

definition check_one :: "'v tool_world \<Rightarrow> check_state \<Rightarrow> string \<times> ToolReq \<Rightarrow> check_state res" where
  "check_one w st tr = (case tr of (tname, req) \<Rightarrow>
     if as_needed req \<and> tname \<notin> set (pending_tools st) then Inr st
     else
       (let st = st\<lparr>pending_tools := removeAll tname (pending_tools st)\<rparr> in
        rbind (check w req) (\<lambda>(good, msg).
          if \<not> good then Inr (st\<lparr>missing_tools := missing_tools st @ [tname]\<rparr>) else Inr st)))"

text \<open>The exit status, with the tools that are reported; log lines are not modelled.\<close>

definition tool_main :: "'v tool_world \<Rightarrow> (string \<Rightarrow> pydict res) \<Rightarrow> string \<Rightarrow> string list \<Rightarrow> (int \<times> check_state) res" where
  "tool_main w exec_file path args_tool =
     (case read_tool_requirements exec_file path of
        Inl (ReqErr p m) \<Rightarrow> Inr (1, \<lparr>pending_tools = [], missing_tools = []\<rparr>)
      | Inl e \<Rightarrow> Inl e
      | Inr reqs \<Rightarrow>
          rbind (rfold (check_one w) \<lparr>pending_tools = remdups args_tool, missing_tools = []\<rparr> reqs) (\<lambda>st.
            Inr (if missing_tools st = [] \<and> pending_tools st = [] then 0 else 1, st)))"

section \<open>Semantic versions\<close>

lemma lit_sep_digit: "is_digit c \<Longrightarrow> d \<in> {CHR ''.'', CHR ''-''} \<Longrightarrow> rx_run (RSeq (rlit d) r) (MState p (c # cs) cp) = []"
  by (intro rlit_run) (auto simp: is_digit_def)

lemma hex_eos:
  assumes "h \<noteq> []" "list_all is_hex_lower h"
  shows "rx_run (RSeq (rplus (RSet is_hex_lower)) REos) (MState p h cp) = [MState (rev h @ p) [] cp]"
proof -
  obtain c v where cv: "h = c # v" "is_hex_lower c" "list_all is_hex_lower v" using assms by (cases h) auto
  have tw: "takeWhile is_hex_lower v = v" "dropWhile is_hex_lower v = []" using cv(3) by (simp_all add: list_all_iff)
  have "rx_run (RSeq (RStar (RSet is_hex_lower)) REos) (MState (c # p) v cp)
      = rx_run REos (MState (rev (takeWhile is_hex_lower v) @ c # p) (dropWhile is_hex_lower v) cp)"
  proof (rule star_set_then)
    fix k assume "k < length (takeWhile is_hex_lower v)"
    then have k: "k < length v" by (simp add: tw)
    then have "drop k v = v ! k # drop (Suc k) v" by (simp add: Cons_nth_drop_Suc)
    moreover have "v ! k \<noteq> newline"
      using cv(3) k by (auto simp: list_all_length is_hex_lower_def is_digit_def newline_def)
    ultimately show "rx_run REos (MState (rev (take k v) @ c # p) (drop k v) cp) = []"
      by (simp add: nl_def)
  qed
  with cv show ?thesis by (simp add: rplus_def tw)
qed

definition all_digits :: "string \<Rightarrow> bool" where
  "all_digits s = (s \<noteq> [] \<and> list_all is_digit s)"

text \<open>
  A Verible version \<open>v<a>.<b>-<c>-g<hash>\<close> becomes the semantic version \<open><a>.<b>.<c>\<close>, for any digit strings
  and any lower-case hexadecimal hash.
\<close>

theorem verible_semver_correct:
  assumes "all_digits a" "all_digits b" "all_digits c" "h \<noteq> []" "list_all is_hex_lower h"
  shows "to_semver VeribleToolReq (''v'' @ a @ ''.'' @ b @ ''-'' @ c @ ''-g'' @ h) from_req = Inr (a @ ''.'' @ b @ ''.'' @ c)"
proof -
  note d = assms(1-3) [unfolded all_digits_def]
  have nd: "\<not> is_digit (CHR ''.'')" "\<not> is_digit (CHR ''-'')" by (simp_all add: is_digit_def)
  have "rx_run verible_rx (MState [] (CHR ''v'' # a @ CHR ''.'' # b @ CHR ''-'' # c @ CHR ''-'' # CHR ''g'' # h) [])
      = [MState (rev h @ ''g-'' @ rev c @ ''-'' @ rev b @ ''.'' @ rev a @ ''v'') [] [(1, a), (2, b), (3, c)]]"
    unfolding verible_rx_def rdigits_def rseq.simps
    using d nd
    by (simp only: rlit_run group_plus_then lit_sep_digit hex_eos [OF assms(4,5)] insert_iff simp_thms list.sel)
      simp
  then show ?thesis
    by (simp add: to_semver_def verible_semver_def re_fullmatch_def start_at_def first_of_def join3_def group_str_def group_def)
qed

theorem verible_semver_correct_witness:
  "to_semver VeribleToolReq (''v'' @ ''0'' @ ''.'' @ ''0'' @ ''-'' @ ''808'' @ ''-g'' @ ''1e17daa'') True = Inr (''0'' @ ''.'' @ ''0'' @ ''.'' @ ''808'')"
  by (rule verible_semver_correct) (simp_all add: all_digits_def is_digit_def is_hex_lower_def)

text \<open>
  The release segment of a version made of dotted numbers, which \<open>packaging.version\<close> compares
  number by number.
\<close>

definition release :: "string \<Rightarrow> nat list" where
  "release s = map (\<lambda>p. case read_nat 10 p of None \<Rightarrow> 0 | Some n \<Rightarrow> n) (split_char (CHR ''.'') s)"

fun nats_less :: "nat list \<Rightarrow> nat list \<Rightarrow> bool" where
  "nats_less [] ys = (ys \<noteq> [] \<and> list_ex (\<lambda>y. 0 < y) ys)"
| "nats_less (x # xs) [] = False"
| "nats_less (x # xs) (y # ys) = (x < y \<or> x = y \<and> nats_less xs ys)"

text \<open>
  The conversion of VCS versions does not keep their order: \<open>2020.12\<close> becomes \<open>2020.120\<close>, and the required
  \<open>2020.03-SP2\<close> becomes \<open>2020.03200\<close>, that is minor version 3200. With versions compared by their release
  numbers, an installed VCS 2020.12 is rejected as older than 2020.03-SP2.
\<close>

theorem vcs_semver_misorders:
  assumes "\<And>s. Version w s = Inr s" and "\<And>a b. ver_less w a b = nats_less (release a) (release b)"
    and "run_tool w [''vcs'', ''-full64'', ''-ID''] (Some [(''VCS_ARCH_OVERRIDE'', ''linux'')]) =
      Inr ''Compiler version = VCS R-2020.12''"
  shows "check w \<lparr>cls = VcsToolReq, tool = ''vcs'', min_version = ''2020.03-SP2'', as_needed = True\<rparr> =
    Inr (False, ''Installed version is too old: found version 2020.12, but need at least 2020.03-SP2'')"
proof -
  have 1: "vcs_semver ''2020.03-SP2'' True = Inr ''2020.03200''" by code_simp
  have 2: "vcs_semver ''2020.12'' False = Inr ''2020.120''" by code_simp
  have 3: "nats_less (release ''2020.120'') (release ''2020.03200'')" by code_simp
  have 4: "parse_version_output \<lparr>cls = VcsToolReq, tool = ''vcs'', min_version = ''2020.03-SP2'', as_needed = True\<rparr>
      ''Compiler version = VCS R-2020.12'' = Inr ''2020.12''" by code_simp
  show ?thesis
    using 1 2 3 4
    by (simp add: check_def semver_of_def to_semver_def assms get_version_def base_get_version_def
        get_tool_cmd_def tool_cmd_def tool_env_def)
qed

definition demo_world :: "string tool_world" where
  "demo_world = \<lparr>run_tool = (\<lambda>_ _. Inr ''Compiler version = VCS R-2020.12''), run_shell = (\<lambda>_. Inr []),
     module_version = (\<lambda>_. None), Version = Inr, ver_less = (\<lambda>a b. nats_less (release a) (release b))\<rparr>"

theorem vcs_semver_misorders_witness:
  "check demo_world \<lparr>cls = VcsToolReq, tool = ''vcs'', min_version = ''2020.03-SP2'', as_needed = True\<rparr> =
    Inr (False, ''Installed version is too old: found version 2020.12, but need at least 2020.03-SP2'')"
  by (rule vcs_semver_misorders) (simp_all add: demo_world_def)

section \<open>The verdict\<close>

definition good :: "'v tool_world \<Rightarrow> ToolReq \<Rightarrow> bool" where
  "good w r = (case check w r of Inr (b, _) \<Rightarrow> b | Inl _ \<Rightarrow> False)"

lemma semver_of_ok:
  "semver_of w c v f m1 m2 = Inr (Inr x) \<longleftrightarrow> (\<exists>sv. to_semver c v f = Inr sv \<and> Version w sv = Inr x)"
  by (auto simp: semver_of_def split: sum.splits py_exc.splits)

text \<open>
  A requirement is reported as met exactly when the required and the installed version can both be obtained
  and converted, and the installed one is not less than the required one.
\<close>

theorem check_good_iff:
  "good w r \<longleftrightarrow> (\<exists>ms mv a as av. to_semver (cls r) (min_version r) True = Inr ms \<and> Version w ms = Inr mv
     \<and> get_version w r = Inr a \<and> to_semver (cls r) a False = Inr as \<and> Version w as = Inr av
     \<and> \<not> ver_less w av mv)" (is "_ \<longleftrightarrow> ?R")
proof -
  have "good w r \<longleftrightarrow> (\<exists>mv a av.
      semver_of w (cls r) (min_version r) True ''Failed to convert requirement to semantic version: ''
         ''Bad semver inferred from required version'' = Inr (Inr mv)
      \<and> get_version w r = Inr a
      \<and> semver_of w (cls r) a False ''Failed to convert installed to semantic version: ''
         ''Bad semver inferred from installed version'' = Inr (Inr av) \<and> \<not> ver_less w av mv)"
    by (auto simp: good_def check_def split: sum.splits py_exc.splits prod.splits if_splits)
  also have "\<dots> \<longleftrightarrow> ?R" by (auto simp: semver_of_ok)
  finally show ?thesis .
qed

lemma check_one_step:
  assumes "check_one w st (t, r) = Inr st'"
  shows "pending_tools st' = removeAll t (pending_tools st)"
    and "missing_tools st' = missing_tools st @
      (if (as_needed r \<longrightarrow> t \<in> set (pending_tools st)) \<and> \<not> good w r then [t] else [])"
  using assms
  by (auto simp: check_one_def Let_def rbind_Inr_iff good_def removeAll_id split: if_splits prod.splits)

lemma check_loop:
  assumes "rfold (check_one w) st reqs = Inr st'" and "distinct (map fst reqs)"
  shows "set (pending_tools st') = set (pending_tools st) - fst ` set reqs \<and>
    missing_tools st' = missing_tools st @
      map fst (filter (\<lambda>(t, r). (as_needed r \<longrightarrow> t \<in> set (pending_tools st)) \<and> \<not> good w r) reqs)"
  using assms
proof (induction reqs arbitrary: st)
  case (Cons tr reqs)
  obtain t r where tr: "tr = (t, r)" by (cases tr)
  from Cons.prems(1) obtain s1 where s1: "check_one w st (t, r) = Inr s1" "rfold (check_one w) s1 reqs = Inr st'"
    by (auto simp: tr rbind_Inr_iff)
  have "filter (\<lambda>(t, r). (as_needed r \<longrightarrow> t \<in> set (pending_tools s1)) \<and> \<not> good w r) reqs
      = filter (\<lambda>(t, r). (as_needed r \<longrightarrow> t \<in> set (pending_tools st)) \<and> \<not> good w r) reqs"
    using Cons.prems(2) check_one_step(1) [OF s1(1)]
    by (intro filter_cong) (auto simp: tr rev_image_eqI)
  with Cons.IH [OF s1(2)] Cons.prems(2) check_one_step [OF s1(1)] show ?case
    by (auto simp: tr)
qed simp

lemma read_tool_requirements_distinct:
  assumes "read_tool_requirements ef path = Inr reqs"
  shows "distinct (map fst reqs)"
proof -
  from assms obtain globs where "(case map_of globs ''__TOOL_REQUIREMENTS__'' of
         Some (PDict raw) \<Rightarrow> rfold (read_one_req path) [] raw
       | Some PNone \<Rightarrow> Inl (ReqErr path ''The Python file at did not define __TOOL_REQUIREMENTS__.'')
       | None \<Rightarrow> Inl (ReqErr path ''The Python file at did not define __TOOL_REQUIREMENTS__.'')
       | Some _ \<Rightarrow> Inl (ReqErr path ''__TOOL_REQUIREMENTS__ is not a dict.'')) = Inr reqs"
    unfolding read_tool_requirements_def rbind_Inr_iff by blast
  then obtain raw where "rfold (read_one_req path) [] raw = Inr reqs"
    by (simp split: option.split_asm pyval.split_asm)
  then show ?thesis
    by (rule rfold_invariant)
      (auto simp: read_one_req_def rbind_Inr_iff distinct_update split: pyval.splits)
qed

text \<open>
  C29. The verdict of the whole check: the tools reported missing are, in the order of the requirements, those that
  are not optional or were asked for and whose requirement is not met; the tools left over are
  those asked for that have no requirement; and the exit status is 0 exactly when both are empty.
\<close>

theorem tool_main_verdict:
  assumes "tool_main w exec_file path args_tool = Inr (code, st)"
    and "read_tool_requirements exec_file path = Inr reqs"
  shows "missing_tools st =
      map fst (filter (\<lambda>(t, r). (as_needed r \<longrightarrow> t \<in> set args_tool) \<and> \<not> good w r) reqs)
    \<and> set (pending_tools st) = set args_tool - fst ` set reqs
    \<and> (code = 0 \<longleftrightarrow> missing_tools st = [] \<and> set args_tool \<subseteq> fst ` set reqs)"
proof -
  have st: "rfold (check_one w) \<lparr>pending_tools = remdups args_tool, missing_tools = []\<rparr> reqs = Inr st"
    and code: "code = (if missing_tools st = [] \<and> pending_tools st = [] then 0 else 1)"
    using assms by (auto simp: tool_main_def rbind_Inr_iff)
  note loop = check_loop [OF st read_tool_requirements_distinct [OF assms(2)]]
  have "pending_tools st = [] \<longleftrightarrow> set (pending_tools st) = {}" by simp
  with loop code show ?thesis by auto
qed

definition demo_exec :: "string \<Rightarrow> pydict res" where
  "demo_exec path = Inr [(''__TOOL_REQUIREMENTS__'', PDict [
     (PStr ''vcs'', PDict [(PStr ''min_version'', PStr ''2020.03-SP2''), (PStr ''as_needed'', PBool True)])])]"

theorem tool_main_verdict_witness:
  "\<exists>code st reqs. tool_main demo_world demo_exec [] [''gcc''] = Inr (code, st)
     \<and> read_tool_requirements demo_exec [] = Inr reqs
     \<and> set (pending_tools st) = set [''gcc''] - fst ` set reqs"
proof -
  let ?r = "\<lparr>cls = VcsToolReq, tool = ''vcs'', min_version = ''2020.03-SP2'', as_needed = True\<rparr>"
  have r: "read_tool_requirements demo_exec [] = Inr [(''vcs'', ?r)]"
    by (simp add: read_tool_requirements_def demo_exec_def read_one_req_def dict_to_tool_req_def Let_def tool_classes_def)
  have m: "tool_main demo_world demo_exec [] [''gcc''] = Inr (1, \<lparr>pending_tools = [''gcc''], missing_tools = []\<rparr>)"
    by (simp add: tool_main_def r check_one_def)
  from tool_main_verdict [OF m r] m r show ?thesis by blast
qed

section \<open>tool\_requirements.py\<close>

definition TOOL_REQUIREMENTS :: pyval where
  "TOOL_REQUIREMENTS = PDict [
     (PStr ''verilator'', PStr ''4.210''),
     (PStr ''edalize'', PStr ''0.2.0''),
     (PStr ''vcs'', PDict [(PStr ''min_version'', PStr ''2020.03-SP2''), (PStr ''as_needed'', PBool True)]),
     (PStr ''vivado'', PDict [(PStr ''min_version'', PStr ''2020.2''), (PStr ''as_needed'', PBool True)])]"

definition tool_requirements_exec :: "string \<Rightarrow> pydict res" where
  "tool_requirements_exec path = Inr [(''__TOOL_REQUIREMENTS__'', TOOL_REQUIREMENTS)]"

lemma shipped_requirements:
  "read_tool_requirements tool_requirements_exec path = Inr
     [(''verilator'', \<lparr>cls = VerilatorToolReq, tool = ''verilator'', min_version = ''4.210'', as_needed = False\<rparr>),
      (''edalize'', \<lparr>cls = EdalizeToolReq, tool = ''edalize'', min_version = ''0.2.0'', as_needed = False\<rparr>),
      (''vcs'', \<lparr>cls = VcsToolReq, tool = ''vcs'', min_version = ''2020.03-SP2'', as_needed = True\<rparr>),
      (''vivado'', \<lparr>cls = VivadoToolReq, tool = ''vivado'', min_version = ''2020.2'', as_needed = True\<rparr>)]"
  by (simp add: read_tool_requirements_def tool_requirements_exec_def TOOL_REQUIREMENTS_def read_one_req_def dict_to_tool_req_def
      Let_def tool_classes_def)

text \<open>
  With the table of the repository and no tool named on the command line, the check is about Verilator and edalize only;
  a tool that the table does not list is never accepted.
\<close>

lemma shipped_check:
  assumes "tool_main w tool_requirements_exec path args_tool = Inr (code, st)"
  shows "set (missing_tools st) \<subseteq> {''verilator'', ''edalize''} \<union> set args_tool"
    and "t \<in> set args_tool \<Longrightarrow> t \<notin> {''verilator'', ''edalize'', ''vcs'', ''vivado''} \<Longrightarrow> code \<noteq> 0"
proof -
  obtain reqs where reqs: "read_tool_requirements tool_requirements_exec path = Inr reqs" "map fst reqs = [''verilator'', ''edalize'', ''vcs'', ''vivado'']"
    "\<And>t r. (t, r) \<in> set reqs \<Longrightarrow> t \<notin> {''verilator'', ''edalize''} \<Longrightarrow> as_needed r"
    by (rule that [OF shipped_requirements]) auto
  have st: "rfold (check_one w) \<lparr>pending_tools = remdups args_tool, missing_tools = []\<rparr> reqs = Inr st"
    and code: "code = (if missing_tools st = [] \<and> pending_tools st = [] then 0 else 1)"
    using assms by (auto simp: tool_main_def rbind_Inr_iff reqs(1))
  note loop = check_loop [OF st read_tool_requirements_distinct [OF reqs(1)]]
  show "set (missing_tools st) \<subseteq> {''verilator'', ''edalize''} \<union> set args_tool"
    using loop reqs(3) by fastforce
  have "fst ` set reqs = {''verilator'', ''edalize'', ''vcs'', ''vivado''}" using arg_cong [OF reqs(2), of set] by simp
  then show "t \<in> set args_tool \<Longrightarrow> t \<notin> {''verilator'', ''edalize'', ''vcs'', ''vivado''} \<Longrightarrow> code \<noteq> 0"
    using loop code by (auto split: if_splits)
qed

section \<open>The versions in the documentation\<close>

text \<open>The last part of \<open>doc/conf.py\<close>: a substitution for every tool of the table.\<close>

definition rst_epilog :: "(string \<times> ToolReq) list \<Rightarrow> string" where
  "rst_epilog tool_reqs =
     concat (map (\<lambda>(tool1, req). ''.. |tool_requirements.'' @ tool1 @ ''| replace:: '' @ min_version req @ [newline]) tool_reqs)"

definition conf_rst_epilog :: "(string \<Rightarrow> pydict res) \<Rightarrow> string \<Rightarrow> string res" where
  "conf_rst_epilog exec_file path = rbind (read_tool_requirements exec_file path) (\<lambda>tool_reqs. Inr (rst_epilog tool_reqs))"

lemma shipped_epilog:
  "conf_rst_epilog tool_requirements_exec path = Inr (concat (map (\<lambda>(t, v). ''.. |tool_requirements.'' @ t @ ''| replace:: '' @ v @ [newline])
     [(''verilator'', ''4.210''), (''edalize'', ''0.2.0''), (''vcs'', ''2020.03-SP2''), (''vivado'', ''2020.2'')]))"
  by (simp add: conf_rst_epilog_def rst_epilog_def shipped_requirements)

end
