(* ===== verification/Conductor.thy ===== *)
theory Conductor
  imports Py_Ints Complex_Main "HOL-Library.Multiset"
begin

text \<open>
  The first half of \<open>dv/formal/conductor.py\<close>, which schedules the proof processes of the formal flow: processes
  and the process runner, a state machine that is polled. Memory sizes and times are rational numbers
  (the program has floats); the clock, the memory of the machine and the exit codes of processes are
  inputs. Log output is left out, but for the verdicts of proofs (\<open>Conductor_Log\<close>). The second half is in \<open>Proof_Strategy\<close>.
\<close>

section \<open>Processes\<close>

type_synonym quant = rat

record ProcessResult =
  code :: "int option"
  reason :: string
  max_mem :: quant
  dt :: quant
  stdout :: "string option"
  stderr :: "string option"

datatype kill_request = Kill | Restart

text \<open>
  \<open>pid\<close> tells the processes apart; \<open>cancelled\<close> and \<open>result\<close> are the state of the future;
  \<open>live\<close> says that an operating system process is attached and has not been killed.
\<close>

record Process =
  pid :: nat
  cmd :: string
  expected_memory :: quant
  expected_time :: quant
  timeout :: "quant option"
  kill_req :: "kill_request option"
  debug_slow_count :: int
  max_memory :: quant
  start_time :: quant
  live :: bool
  cancelled :: bool
  result :: "ProcessResult option"

definition new_process :: "nat \<Rightarrow> string \<Rightarrow> quant \<Rightarrow> quant option \<Rightarrow> Process" where
  "new_process n c mem tmo = \<lparr>pid = n, cmd = c, expected_memory = mem, expected_time = 0, timeout = tmo, kill_req = None,
     debug_slow_count = 0, max_memory = 0, start_time = 0, live = False, cancelled = False, result = None\<rparr>"

text \<open>What a poll observes of the system.\<close>

record observation =
  now :: quant
  mem_free :: quant
  rss :: "nat \<Rightarrow> quant"
  exit_code :: "nat \<Rightarrow> int option"
  out_text :: "nat \<Rightarrow> string"
  err_text :: "nat \<Rightarrow> string"

definition start :: "observation \<Rightarrow> Process \<Rightarrow> Process" where
  "start ob p = p\<lparr>live := True, start_time := now ob, max_memory := 0, debug_slow_count := 0\<rparr>"

definition kill :: "Process \<Rightarrow> Process" where "kill p = p\<lparr>kill_req := Some Kill\<rparr>"

definition kill_restart :: "Process \<Rightarrow> Process" where "kill_restart p = p\<lparr>kill_req := Some Restart\<rparr>"

text \<open>\<open>ProcessFuture.cancel\<close>; a future that is done is not cancelled any more.\<close>

definition cancel :: "Process \<Rightarrow> Process" where
  "cancel p = (kill p)\<lparr>cancelled := (cancelled p \<or> result p = None)\<rparr>"

definition set_result :: "observation \<Rightarrow> Process \<Rightarrow> int option \<Rightarrow> string \<Rightarrow> quant \<Rightarrow> Process" where
  "set_result ob p c why d =
     (if cancelled p then p
      else p\<lparr>result := Some \<lparr>code = c, reason = why, max_mem = max_memory p, dt = d,
             stdout = Some (out_text ob (pid p)), stderr = Some (err_text ob (pid p))\<rparr>\<rparr>)"

text \<open>\<open>Process.poll\<close>: is the process finished, and its new state.\<close>

definition poll :: "observation \<Rightarrow> Process \<Rightarrow> bool \<times> Process" where
  "poll ob p0 =
     (let p = p0\<lparr>max_memory := max (rss ob (pid p0)) (max_memory p0)\<rparr>;
          d = now ob - start_time p;
          c = exit_code ob (pid p)
      in if c \<noteq> None \<and> kill_req p = None then (True, set_result ob (p\<lparr>live := False\<rparr>) c ''OK'' d)
         else if kill_req p = Some Restart then
           (True, p\<lparr>live := False, kill_req := None, expected_memory := max (expected_memory p) (max_memory p),
                    expected_time := max (expected_time p) d\<rparr>)
         else if (case timeout p of Some t \<Rightarrow> d > t | None \<Rightarrow> False) then
           (True, set_result ob (p\<lparr>live := False\<rparr>) None ''TIMEOUT'' d)
         else if kill_req p = Some Kill then
           (True, set_result ob (p\<lparr>live := False\<rparr>) None ''UNINTERESTED'' d)
         else (False, p\<lparr>debug_slow_count := max (debug_slow_count p) \<lfloor>d / 60\<rfloor>\<rparr>))"

section \<open>The process runner\<close>

record runner_args =
  a_max_mem :: quant
  a_no_kill :: bool
  a_max_running :: int

definition GLOBAL_MEMORY_BUFFER :: quant where "GLOBAL_MEMORY_BUFFER = 5"

text \<open>\<open>(psutil.cpu_count() or 8) - 2\<close>.\<close>

definition MAX_RUNNING :: "int option \<Rightarrow> int" where
  "MAX_RUNNING cpu_count = (case cpu_count of None \<Rightarrow> 8 | Some n \<Rightarrow> if n = 0 then 8 else n) - 2"

text \<open>The last element of both lists is their top, as in the source. \<open>finished\<close> collects the processes dropped.\<close>

record ProcessRunner =
  pending :: "Process list"
  running :: "Process list"
  finished :: "Process list"

definition runner_init :: ProcessRunner where
  "runner_init = \<lparr>pending = [], running = [], finished = []\<rparr>"

definition append_proc :: "Process \<Rightarrow> ProcessRunner \<Rightarrow> ProcessRunner" where
  "append_proc p r = r\<lparr>pending := p # pending r\<rparr>"

definition children_used_mem :: "ProcessRunner \<Rightarrow> quant" where
  "children_used_mem r = sum_list (map max_memory (running r))"

definition mem_avail :: "runner_args \<Rightarrow> observation \<Rightarrow> ProcessRunner \<Rightarrow> quant" where
  "mem_avail args ob r =
     (if a_max_mem args = 0 then mem_free ob
      else min (mem_free ob) (max (a_max_mem args - children_used_mem r) 0))"

text \<open>The three loops of \<open>ProcessRunner.poll\<close>, on the lists and the free memory.\<close>

function kill_loop :: "runner_args \<Rightarrow> observation \<Rightarrow> quant \<Rightarrow> Process list \<Rightarrow> Process list \<Rightarrow> quant \<times> Process list \<times> Process list" where
  "kill_loop args ob free run pend =
     (if \<not> a_no_kill args \<and> free < GLOBAL_MEMORY_BUFFER \<and> length run > 1 then
        (let l = kill_restart (last run);
             free = free + max (max_memory l) 3;
             l = snd (poll ob l)
         in kill_loop args ob free (butlast run) (pend @ [l]))
      else (free, run, pend))"
  by pat_completeness auto
termination
  by (relation "measure (\<lambda>(args, ob, free, run, pend). length run)") auto

function start_loop :: "runner_args \<Rightarrow> observation \<Rightarrow> quant \<Rightarrow> Process list \<Rightarrow> Process list \<Rightarrow> quant \<times> Process list \<times> Process list" where
  "start_loop args ob free run pend =
     (if int (length run) < a_max_running args \<and> pend \<noteq> []
         \<and> free > expected_memory (last pend) + GLOBAL_MEMORY_BUFFER then
        (let l = start ob (last pend)
         in start_loop args ob (free - max (expected_memory l) 3) (run @ [l]) (butlast pend))
      else (free, run, pend))"
  by pat_completeness auto
termination
  by (relation "measure (\<lambda>(args, ob, free, run, pend). length pend)") (auto simp: length_greater_0_conv)

declare kill_loop.simps [simp del] start_loop.simps [simp del]

text \<open>The processes that go on and those that are dropped.\<close>

definition drop_finished :: "observation \<Rightarrow> Process list \<Rightarrow> Process list \<times> Process list" where
  "drop_finished ob run =
     (let polled = map (poll ob) run
      in (map snd (filter (\<lambda>x. \<not> fst x) polled), map snd (filter fst polled)))"

definition runner_poll :: "runner_args \<Rightarrow> observation \<Rightarrow> ProcessRunner \<Rightarrow> ProcessRunner" where
  "runner_poll args ob r =
     (case kill_loop args ob (mem_avail args ob r) (running r) (pending r) of
        (free, run, pend) \<Rightarrow>
          (case start_loop args ob free run pend of
             (_, run, pend) \<Rightarrow>
               (case drop_finished ob run of
                  (run, fin) \<Rightarrow> \<lparr>pending = pend, running = run, finished = finished r @ fin\<rparr>)))"

text \<open>Cancelling a future kills its process wherever it is.\<close>

definition cancel_pid :: "nat \<Rightarrow> ProcessRunner \<Rightarrow> ProcessRunner" where
  "cancel_pid n r = (let f = map (\<lambda>p. if pid p = n then cancel p else p)
     in r\<lparr>pending := f (pending r), running := f (running r)\<rparr>)"

text \<open>What can happen: a command is submitted (\<open>shell\<close>), a future is cancelled, the runner polls.\<close>

inductive runner_step :: "runner_args \<Rightarrow> ProcessRunner \<Rightarrow> ProcessRunner \<Rightarrow> bool" for args where
  submit: "n \<notin> pid ` set (pending r @ running r @ finished r) \<Longrightarrow>
     runner_step args r (append_proc (new_process n c mem tmo) r)"
| cancelled: "runner_step args r (cancel_pid n r)"
| polled: "runner_step args r (runner_poll args ob r)"

section \<open>Invariants of the runner\<close>

definition pids :: "ProcessRunner \<Rightarrow> nat list" where
  "pids r = map pid (pending r @ running r @ finished r)"

lemma poll_pid [simp]: "pid (snd (poll ob p)) = pid p" "cancelled (snd (poll ob p)) = cancelled p"
  by (simp_all add: poll_def set_result_def Let_def)

lemma poll_done: "fst (poll ob p) \<Longrightarrow> kill_req p \<noteq> Some Restart \<Longrightarrow> cancelled p \<or> result (snd (poll ob p)) \<noteq> None"
  by (auto simp: poll_def set_result_def Let_def split: if_splits)

lemma poll_goes_on:
  "\<not> fst (poll ob p) \<Longrightarrow> live (snd (poll ob p)) = live p \<and> result (snd (poll ob p)) = result p
     \<and> kill_req (snd (poll ob p)) = kill_req p"
  by (auto simp: poll_def set_result_def Let_def split: if_splits)

lemma poll_restart:
  "fst (poll ob (kill_restart p))"
  "live (snd (poll ob (kill_restart p))) = False" "result (snd (poll ob (kill_restart p))) = result p"
  "kill_req (snd (poll ob (kill_restart p))) = None" "pid (kill_restart p) = pid p" "cancelled (kill_restart p) = cancelled p"
  by (simp_all add: poll_def kill_restart_def Let_def)

text \<open>The properties of a process in each of the two lists.\<close>

definition pending_ok :: "Process \<Rightarrow> bool" where
  "pending_ok p = (\<not> live p \<and> result p = None \<and> kill_req p \<noteq> Some Restart)"

definition running_ok :: "Process \<Rightarrow> bool" where
  "running_ok p = (live p \<and> result p = None \<and> kill_req p \<noteq> Some Restart)"

lemma pending_ok_restart: "running_ok p \<Longrightarrow> pending_ok (snd (poll ob (kill_restart p)))"
  by (simp add: pending_ok_def running_ok_def poll_restart)

lemma running_ok_start: "pending_ok p \<Longrightarrow> running_ok (start ob p)"
  by (simp add: pending_ok_def running_ok_def start_def)

lemma running_ok_poll: "running_ok p \<Longrightarrow> \<not> fst (poll ob p) \<Longrightarrow> running_ok (snd (poll ob p))"
  using poll_goes_on [of ob p] by (simp add: running_ok_def)

lemma finished_ok_poll: "running_ok p \<Longrightarrow> fst (poll ob p) \<Longrightarrow> cancelled p \<or> result (snd (poll ob p)) \<noteq> None"
  using poll_done [of ob p] by (simp add: running_ok_def)

lemma kill_loop_inv:
  assumes "kill_loop args ob free run pend = (free', run', pend')"
    and "list_all running_ok run" "list_all pending_ok pend"
  shows "list_all running_ok run' \<and> list_all pending_ok pend' \<and> length run' \<le> length run
    \<and> mset (map pid (pend' @ run')) = mset (map pid (pend @ run))"
  using assms
proof (induction args ob free run pend rule: kill_loop.induct)
  case (1 args ob free run pend)
  show ?case
  proof (cases "\<not> a_no_kill args \<and> free < GLOBAL_MEMORY_BUFFER \<and> length run > 1")
    case True
    then obtain front l where run: "run = front @ [l]" by (cases run rule: rev_cases) auto
    let ?l = "snd (poll ob (kill_restart l))"
    have "kill_loop args ob (free + max (max_memory (kill_restart l)) 3) front (pend @ [?l]) = (free', run', pend')"
      using "1.prems"(1) True by (subst (asm) kill_loop.simps) (simp add: run Let_def)
    moreover have "list_all pending_ok (pend @ [?l])"
      using "1.prems"(2,3) by (simp add: run pending_ok_restart)
    ultimately have "list_all running_ok run' \<and> list_all pending_ok pend' \<and> length run' \<le> length front
        \<and> mset (map pid (pend' @ run')) = mset (map pid ((pend @ [?l]) @ front))"
      using "1.IH" [OF True refl refl refl] "1.prems"(2) by (auto simp: run)
    then show ?thesis by (simp add: run poll_restart)
  next
    case False
    with "1.prems" show ?thesis by (subst (asm) kill_loop.simps) (auto split: if_splits)
  qed
qed

lemma start_loop_inv:
  assumes "start_loop args ob free run pend = (free', run', pend')"
    and "list_all running_ok run" "list_all pending_ok pend"
  shows "list_all running_ok run' \<and> list_all pending_ok pend' \<and> int (length run') \<le> max (int (length run)) (a_max_running args)
    \<and> mset (map pid (pend' @ run')) = mset (map pid (pend @ run))"
  using assms
proof (induction args ob free run pend rule: start_loop.induct)
  case (1 args ob free run pend)
  show ?case
  proof (cases "int (length run) < a_max_running args \<and> pend \<noteq> [] \<and> free > expected_memory (last pend) + GLOBAL_MEMORY_BUFFER")
    case True
    then obtain front l where pend: "pend = front @ [l]" by (cases pend rule: rev_cases) auto
    let ?l = "start ob l"
    have "start_loop args ob (free - max (expected_memory ?l) 3) (run @ [?l]) front = (free', run', pend')"
      using "1.prems"(1) True by (subst (asm) start_loop.simps) (simp add: pend Let_def)
    moreover have "list_all running_ok (run @ [?l])"
      using "1.prems"(2,3) by (simp add: pend running_ok_start)
    ultimately have "list_all running_ok run' \<and> list_all pending_ok pend'
        \<and> int (length run') \<le> max (int (length (run @ [?l]))) (a_max_running args)
        \<and> mset (map pid (pend' @ run')) = mset (map pid (front @ run @ [?l]))"
      using "1.IH" [OF True refl] "1.prems"(3) by (auto simp: pend)
    then show ?thesis using True by (auto simp: pend start_def)
  next
    case False
    with "1.prems" show ?thesis by (subst (asm) start_loop.simps) (auto split: if_splits)
  qed
qed

lemma drop_finished_inv:
  assumes "drop_finished ob run = (run', fin)" and "list_all running_ok run"
  shows "list_all running_ok run' \<and> list_all (\<lambda>p. cancelled p \<or> result p \<noteq> None) fin
    \<and> length run' \<le> length run \<and> mset (map pid (run' @ fin)) = mset (map pid run)"
proof -
  from assms(1) have eq: "run' = map snd (filter (\<lambda>x. \<not> fst x) (map (poll ob) run))" "fin = map snd (filter fst (map (poll ob) run))"
    by (auto simp: drop_finished_def Let_def)
  have len: "length run' \<le> length run"
    unfolding eq length_map using length_filter_le [of "\<lambda>x. \<not> fst x" "map (poll ob) run"] by simp
  have "list_all running_ok run' \<and> list_all (\<lambda>p. cancelled p \<or> result p \<noteq> None) fin
    \<and> mset (map pid (run' @ fin)) = mset (map pid run)"
    unfolding eq using assms(2)
  proof (induction run)
    case (Cons p run)
    then show ?case
      using running_ok_poll [of p ob] finished_ok_poll [of p ob] by (cases "fst (poll ob p)") auto
  qed simp
  with len show ?thesis by blast
qed

text \<open>The invariant: process identifiers are unique, the limit on running processes holds, the lists are well formed.\<close>

definition runner_inv :: "runner_args \<Rightarrow> ProcessRunner \<Rightarrow> bool" where
  "runner_inv args r = (distinct (pids r) \<and> int (length (running r)) \<le> max 0 (a_max_running args)
     \<and> list_all pending_ok (pending r) \<and> list_all running_ok (running r)
     \<and> list_all (\<lambda>p. cancelled p \<or> result p \<noteq> None) (finished r))"

lemma runner_poll_inv:
  assumes "list_all pending_ok (pending r)" "list_all running_ok (running r)"
    and r'_def: "r' = runner_poll args ob r"
  shows "mset (pids r') = mset (pids r)"
    and "int (length (running r')) \<le> max (int (length (running r))) (a_max_running args)"
    and "list_all pending_ok (pending r')" and "list_all running_ok (running r')"
    and "\<exists>fin. finished r' = finished r @ fin \<and> list_all (\<lambda>p. cancelled p \<or> result p \<noteq> None) fin"
proof -
  obtain free1 run1 pend1 where k: "kill_loop args ob (mem_avail args ob r) (running r) (pending r) = (free1, run1, pend1)"
    by (metis prod_cases3)
  obtain free2 run2 pend2 where s: "start_loop args ob free1 run1 pend1 = (free2, run2, pend2)"
    by (metis prod_cases3)
  obtain run3 fin where d: "drop_finished ob run2 = (run3, fin)" by fastforce
  have r': "r' = \<lparr>pending = pend2, running = run3, finished = finished r @ fin\<rparr>"
    by (simp add: assms(3) runner_poll_def k s d)
  note k' = kill_loop_inv [OF k assms(2,1)]
  then have s': "list_all running_ok run2 \<and> list_all pending_ok pend2
      \<and> int (length run2) \<le> max (int (length run1)) (a_max_running args)
      \<and> mset (map pid (pend2 @ run2)) = mset (map pid (pend1 @ run1))"
    using start_loop_inv [OF s] by blast
  then have d': "list_all running_ok run3 \<and> list_all (\<lambda>p. cancelled p \<or> result p \<noteq> None) fin
      \<and> length run3 \<le> length run2 \<and> mset (map pid (run3 @ fin)) = mset (map pid run2)"
    using drop_finished_inv [OF d] by blast
  show "mset (pids r') = mset (pids r)"
    using k' s' d' by (simp add: r' pids_def ac_simps) (metis add.assoc add.commute)
  show "int (length (running r')) \<le> max (int (length (running r))) (a_max_running args)"
    using k' s' d' by (simp add: r') linarith
  show "list_all pending_ok (pending r')" "list_all running_ok (running r')"
    "\<exists>fin. finished r' = finished r @ fin \<and> list_all (\<lambda>p. cancelled p \<or> result p \<noteq> None) fin"
    using s' d' by (simp_all add: r')
qed

lemma cancel_ok:
  "pending_ok p \<Longrightarrow> pending_ok (cancel p)" "running_ok p \<Longrightarrow> running_ok (cancel p)" "pid (cancel p) = pid p"
  by (simp_all add: pending_ok_def running_ok_def cancel_def kill_def)

lemma runner_step_inv:
  assumes "runner_step args r r'" "runner_inv args r" shows "runner_inv args r'"
  using assms
proof (induction rule: runner_step.induct)
  case (submit n r c mem tmo)
  then show ?case by (auto simp: runner_inv_def append_proc_def pids_def pending_ok_def new_process_def)
next
  case (cancelled r n)
  have "map pid (map (\<lambda>p. if pid p = n then cancel p else p) ps) = map pid ps" for ps
    by (simp add: cancel_ok(3))
  moreover have "list_all P (map (\<lambda>p. if pid p = n then cancel p else p) ps)"
    if "list_all P ps" "\<And>p. P p \<Longrightarrow> P (cancel p)" for P ps
    using that by (induction ps) auto
  ultimately show ?case
    using cancelled cancel_ok(1,2) by (simp add: runner_inv_def cancel_pid_def pids_def Let_def del: map_map)
next
  case (polled r ob)
  then have ok: "list_all pending_ok (pending r)" "list_all running_ok (running r)" by (simp_all add: runner_inv_def)
  note p = runner_poll_inv [OF ok refl, of args ob]
  have "distinct (pids (runner_poll args ob r))"
    using polled p(1) by (metis mset_eq_imp_distinct_iff runner_inv_def)
  then show ?case using polled p by (auto simp: runner_inv_def)
qed

interpretation runner: transition_system "runner_step args" runner_init "runner_inv args" for args
  by unfold_locales (auto simp: runner_step_inv, simp add: runner_inv_def runner_init_def pids_def)

lemma kill_loop_pending:
  "kill_loop args ob free run pend = (free', run', pend') \<Longrightarrow> \<exists>ext. pend' = pend @ ext"
proof (induction args ob free run pend rule: kill_loop.induct)
  case (1 args ob free run pend)
  show ?case
  proof (cases "\<not> a_no_kill args \<and> free < GLOBAL_MEMORY_BUFFER \<and> length run > 1")
    case True
    then show ?thesis
      using "1.IH" [OF True refl refl refl] "1.prems" by (auto simp: kill_loop.simps [of args ob free run pend] Let_def)
  next
    case False
    with "1.prems" show ?thesis by (subst (asm) kill_loop.simps) (auto split: if_splits)
  qed
qed

text \<open>What starting processes takes from the free memory.\<close>

definition mem_reserved :: "Process list \<Rightarrow> quant" where
  "mem_reserved ps = sum_list (map (\<lambda>p. max (expected_memory p) 3) ps)"

lemma start_loop_memory:
  "start_loop args ob free run pend = (free', run', pend') \<Longrightarrow> list_all (\<lambda>p. expected_memory p \<ge> 0) pend \<Longrightarrow>
   \<exists>new. run' = run @ new \<and> free' = free - mem_reserved new \<and> (new \<noteq> [] \<longrightarrow> free' > 2)"
proof (induction args ob free run pend rule: start_loop.induct)
  case (1 args ob free run pend)
  show ?case
  proof (cases "int (length run) < a_max_running args \<and> pend \<noteq> [] \<and> free > expected_memory (last pend) + GLOBAL_MEMORY_BUFFER")
    case True
    then obtain front l where pend: "pend = front @ [l]" by (cases pend rule: rev_cases) auto
    let ?l = "start ob l"
    have "start_loop args ob (free - max (expected_memory ?l) 3) (run @ [?l]) front = (free', run', pend')"
      using "1.prems"(1) True by (subst (asm) start_loop.simps) (simp add: pend Let_def)
    then obtain new where new: "run' = (run @ [?l]) @ new" "free' = free - max (expected_memory ?l) 3 - mem_reserved new"
        "new \<noteq> [] \<longrightarrow> free' > 2"
      using "1.IH" [OF True refl] "1.prems"(2) by (auto simp: pend)
    have "free - max (expected_memory ?l) 3 > 2"
      using True "1.prems"(2) by (auto simp: pend GLOBAL_MEMORY_BUFFER_def start_def max_def)
    with new show ?thesis by (intro exI [of _ "?l # new"]) (cases new, auto simp: mem_reserved_def)
  next
    case False
    with "1.prems" show ?thesis by (subst (asm) start_loop.simps) (auto split: if_splits simp: mem_reserved_def)
  qed
qed

text \<open>
  C4. In every state the runner can reach, by any sequence of submitted commands, cancellations and polls under
  any observations of the system, no process is lost or duplicated (identifiers are distinct over the
  three lists), no more than \<open>MAX_RUNNING\<close> processes run, a process in \<open>running\<close> has a live
  operating system process and one in \<open>pending\<close> has none, and every process that was dropped has a result or a cancelled future; a poll
  moves processes between the lists without losing any.
\<close>

theorem runner_reachable_ok:
  assumes "(runner_step args)\<^sup>*\<^sup>* runner_init r"
  shows "distinct (pids r) \<and> int (length (running r)) \<le> max 0 (a_max_running args)
    \<and> (\<forall>p \<in> set (pending r). \<not> live p \<and> result p = None) \<and> (\<forall>p \<in> set (running r). live p \<and> result p = None)
    \<and> (\<forall>p \<in> set (finished r). cancelled p \<or> result p \<noteq> None)
    \<and> mset (pids (runner_poll args ob r)) = mset (pids r)"
proof -
  have inv: "runner_inv args r" by (rule runner.reachable_inv [OF assms])
  then have "mset (pids (runner_poll args ob r)) = mset (pids r)"
    by (intro runner_poll_inv(1) [OF _ _ refl]) (simp_all add: runner_inv_def)
  with inv show ?thesis by (simp add: runner_inv_def list_all_iff pending_ok_def running_ok_def)
qed

definition demo_args :: runner_args where
  "demo_args = \<lparr>a_max_mem = 0, a_no_kill = False, a_max_running = 2\<rparr>"

definition demo_obs :: "quant \<Rightarrow> observation" where
  "demo_obs free = \<lparr>now = 1, mem_free = free, rss = (\<lambda>_. 1), exit_code = (\<lambda>_. None), out_text = (\<lambda>_. []), err_text = (\<lambda>_. [])\<rparr>"

lemmas runner_eval = runner_poll_def kill_loop.simps start_loop.simps drop_finished_def mem_avail_def poll_def
  kill_restart_def start_def new_process_def append_proc_def runner_init_def demo_args_def demo_obs_def
  GLOBAL_MEMORY_BUFFER_def Let_def

text \<open>Two processes submitted and started.\<close>

definition demo_two :: ProcessRunner where
  "demo_two = runner_poll demo_args (demo_obs 100)
     (append_proc (new_process 1 ''b'' 10 None) (append_proc (new_process 0 ''a'' 10 None) runner_init))"

lemma demo_two_reachable: "(runner_step demo_args)\<^sup>*\<^sup>* runner_init demo_two"
proof -
  have "runner_step demo_args runner_init (append_proc (new_process 0 ''a'' 10 None) runner_init)"
    by (rule runner_step.submit) (simp add: runner_init_def)
  moreover have "runner_step demo_args (append_proc (new_process 0 ''a'' 10 None) runner_init)
      (append_proc (new_process 1 ''b'' 10 None) (append_proc (new_process 0 ''a'' 10 None) runner_init))"
    by (rule runner_step.submit) (simp add: runner_init_def append_proc_def new_process_def)
  ultimately show ?thesis
    unfolding demo_two_def by (meson runner_step.polled converse_rtranclp_into_rtranclp r_into_rtranclp)
qed

lemma demo_two_running: "map pid (running demo_two) = [0, 1] \<and> pending demo_two = []"
  by (simp add: demo_two_def runner_eval)

theorem runner_reachable_ok_witness:
  "int (length (running demo_two)) \<le> 2 \<and> length (running demo_two) = 2
     \<and> mset (pids (runner_poll demo_args (demo_obs 1) demo_two)) = mset (pids demo_two)"
  using runner_reachable_ok [OF demo_two_reachable, of "demo_obs 1"] demo_two_running
  by (metis demo_args_def length_map length_Cons list.size(3) max_def_raw numeral_2_eq_2 of_nat_numeral order_refl runner_args.select_convs(3))

text \<open>
  Starting processes respects the memory: the processes started in a poll are appended to \<open>running\<close>, each
  reserves its expected memory but 3 GB at least, and as long as expectations are not negative more than
  2 GB of what was free stay unreserved. (The buffer of 5 GB itself is not kept: it is compared with
  the expected memory before the floor of 3 GB is applied.)
\<close>

theorem start_loop_budget:
  assumes "start_loop args ob free run pend = (free', run', pend')"
    and "\<forall>p \<in> set pend. expected_memory p \<ge> 0"
  shows "\<exists>new. run' = run @ new \<and> free' = free - mem_reserved new \<and> (new = [] \<or> free' > 2)"
  using start_loop_memory [OF assms(1)] assms(2) by (auto simp: list_all_iff)

theorem start_loop_budget_witness:
  "\<exists>free' run' pend'. start_loop demo_args (demo_obs 100) 15.5 [] [new_process 0 ''a'' 10 None] = (free', run', pend')
     \<and> run' \<noteq> [] \<and> free' > 2"
proof -
  let ?p = "new_process 0 ''a'' 10 None"
  have e: "start_loop demo_args (demo_obs 100) 15.5 [] [?p] = (5.5, [start (demo_obs 100) ?p], [])"
    by (simp add: runner_eval)
  have "\<forall>p \<in> set [?p]. expected_memory p \<ge> 0" by (simp add: new_process_def)
  from start_loop_budget [OF e this] have "(5.5 :: quant) > 2" by auto
  with e show ?thesis by blast
qed

text \<open>
  A request to kill is lost under memory pressure: when memory is short the youngest running process is taken
  down to be restarted, and this overwrites the request to kill it; the process goes back to \<open>pending\<close> with no
  request, although its future is cancelled, and is started again later.
\<close>

theorem kill_request_lost:
  assumes "kill_loop args ob free (run @ [l]) pend = (free', run', pend')"
    and "run \<noteq> []" "\<not> a_no_kill args" "free < GLOBAL_MEMORY_BUFFER"
  shows "\<exists>p \<in> set pend'. pid p = pid l \<and> cancelled p = cancelled l \<and> kill_req p = None \<and> cmd p = cmd l"
proof -
  let ?l = "snd (poll ob (kill_restart l))"
  have "kill_loop args ob (free + max (max_memory (kill_restart l)) 3) run (pend @ [?l]) = (free', run', pend')"
    using assms by (simp add: kill_loop.simps [of args ob free "run @ [l]"] Let_def)
  from kill_loop_pending [OF this] have "?l \<in> set pend'" by auto
  moreover have "cmd ?l = cmd l" by (simp add: poll_def kill_restart_def Let_def)
  ultimately show ?thesis by (intro bexI [of _ ?l]) (simp_all add: poll_restart)
qed

theorem kill_request_lost_witness:
  "\<exists>free' run' pend'. kill_loop demo_args (demo_obs 1) 1 (running (cancel_pid 1 demo_two)) [] = (free', run', pend')
     \<and> (\<exists>p \<in> set pend'. pid p = 1 \<and> cancelled p \<and> kill_req p = None)"
proof -
  obtain a b where ab: "running (cancel_pid 1 demo_two) = [a] @ [b]" "pid b = 1" "cancelled b"
    by (simp add: cancel_pid_def demo_two_def runner_eval cancel_def kill_def)
  obtain free' run' pend' where k: "kill_loop demo_args (demo_obs 1) 1 ([a] @ [b]) [] = (free', run', pend')"
    by (metis prod_cases3)
  from kill_request_lost [OF k] k ab show ?thesis
    by (auto simp: demo_args_def GLOBAL_MEMORY_BUFFER_def)
qed

section \<open>The runner empties its queues\<close>

lemma poll_exited: "exit_code ob (pid p) \<noteq> None \<Longrightarrow> fst (poll ob p)"
  by (cases "kill_req p"; cases "the (kill_req p)") (auto simp: poll_def Let_def)

lemma drop_finished_exited: "(\<And>n. exit_code ob n \<noteq> None) \<Longrightarrow> fst (drop_finished ob run) = []"
  by (simp add: drop_finished_def Let_def filter_empty_conv poll_exited)

lemma kill_loop_idle: "GLOBAL_MEMORY_BUFFER \<le> free \<Longrightarrow> kill_loop args ob free run pend = (free, run, pend)"
  by (simp add: kill_loop.simps)

lemma start_loop_prefix:
  "start_loop args ob free run pend = (free', run', pend') \<Longrightarrow> prefix pend' pend"
proof (induction args ob free run pend rule: start_loop.induct)
  case (1 args ob free run pend)
  show ?case
  proof (cases "int (length run) < a_max_running args \<and> pend \<noteq> [] \<and> free > expected_memory (last pend) + GLOBAL_MEMORY_BUFFER")
    case True
    then have "prefix pend' (butlast pend)"
      using "1.IH" [OF True refl] "1.prems" by (simp add: start_loop.simps [of args ob free run pend] Let_def)
    then show ?thesis using prefix_order.trans prefixeq_butlast by blast
  next
    case False
    with "1.prems" show ?thesis by (subst (asm) start_loop.simps) (auto split: if_splits)
  qed
qed

lemma start_loop_progress:
  assumes "start_loop args ob free [] pend = (free', run', pend')" and "pend \<noteq> []" "1 \<le> a_max_running args"
    and "free > expected_memory (last pend) + GLOBAL_MEMORY_BUFFER"
  shows "length pend' < length pend"
proof -
  have "prefix pend' (butlast pend)"
    using assms start_loop_prefix by (subst (asm) start_loop.simps) (auto simp: Let_def)
  from prefix_length_le [OF this] assms(2) show ?thesis by (cases pend rule: rev_cases) auto
qed

text \<open>A system in which every process that was started has exited, with memory for each of the given processes.\<close>

definition calm :: "Process list \<Rightarrow> observation \<Rightarrow> bool" where
  "calm ps ob = ((\<forall>n. exit_code ob n \<noteq> None) \<and> GLOBAL_MEMORY_BUFFER \<le> mem_free ob
     \<and> (\<forall>p \<in> set ps. expected_memory p + GLOBAL_MEMORY_BUFFER < mem_free ob))"

lemma runner_poll_calm:
  assumes "calm (pending r) ob" "a_max_mem args = 0" "1 \<le> a_max_running args"
  shows "running (runner_poll args ob r) = []" "prefix (pending (runner_poll args ob r)) (pending r)"
    and "running r = [] \<Longrightarrow> pending r \<noteq> [] \<Longrightarrow> length (pending (runner_poll args ob r)) < length (pending r)"
proof -
  obtain free run pend where s: "start_loop args ob (mem_free ob) (running r) (pending r) = (free, run, pend)"
    by (metis prod_cases3)
  have k: "kill_loop args ob (mem_avail args ob r) (running r) (pending r) = (mem_free ob, running r, pending r)"
    using assms(1,2) by (simp add: kill_loop_idle mem_avail_def calm_def)
  obtain run' fin where d: "drop_finished ob run = (run', fin)" by fastforce
  have "run' = []" using drop_finished_exited [of ob run] assms(1) d by (simp add: calm_def)
  then have p: "runner_poll args ob r = \<lparr>pending = pend, running = [], finished = finished r @ fin\<rparr>"
    by (simp add: runner_poll_def k s d)
  show "running (runner_poll args ob r) = []" "prefix (pending (runner_poll args ob r)) (pending r)"
    using start_loop_prefix [OF s] by (simp_all add: p)
  assume "running r = []" "pending r \<noteq> []"
  then show "length (pending (runner_poll args ob r)) < length (pending r)"
    using start_loop_progress s assms(1,3) by (simp add: p calm_def)
qed

lemma calm_prefix: "calm ps ob \<Longrightarrow> prefix qs ps \<Longrightarrow> calm qs ob"
  using set_mono_prefix by (fastforce simp: calm_def)

lemma polls_drain:
  "running r = [] \<Longrightarrow> length (pending r) \<le> length obs \<Longrightarrow> list_all (calm (pending r)) obs
    \<Longrightarrow> a_max_mem args = 0 \<Longrightarrow> 1 \<le> a_max_running args
    \<Longrightarrow> pending (fold (runner_poll args) obs r) = [] \<and> running (fold (runner_poll args) obs r) = []"
proof (induction obs arbitrary: r)
  case (Cons ob obs)
  then have c: "calm (pending r) ob" by simp
  note p = runner_poll_calm [OF c Cons.prems(4,5)]
  have "length (pending (runner_poll args ob r)) \<le> length obs"
    using p(2,3) Cons.prems(1,2) prefix_length_le [OF p(2)] by (cases "pending r = []") auto
  moreover have "list_all (calm (pending (runner_poll args ob r))) obs"
    using Cons.prems(3) calm_prefix p(2) by (auto simp: list_all_iff)
  ultimately show ?case using Cons.IH [of "runner_poll args ob r"] p(1) Cons.prems(4,5) by simp
qed simp

lemma polls_keep_pids:
  "runner_inv args r \<Longrightarrow> mset (pids (fold (runner_poll args) obs r)) = mset (pids r)"
proof (induction obs arbitrary: r)
  case (Cons ob obs)
  have "runner_inv args (runner_poll args ob r)" by (rule runner_step_inv [OF runner_step.polled Cons.prems])
  moreover have "mset (pids (runner_poll args ob r)) = mset (pids r)"
    using Cons.prems by (intro runner_poll_inv(1) [OF _ _ refl]) (simp_all add: runner_inv_def)
  ultimately show ?case using Cons.IH by simp
qed simp


definition demo_exited :: observation where
  "demo_exited = (demo_obs 100)\<lparr>exit_code := (\<lambda>_. Some 20)\<rparr>"


end
