(* ===== verification/Proof_Strategy.thy ===== *)
theory Proof_Strategy
  imports Conductor Py_Regex
begin

text \<open>
  The second half of \<open>dv/formal/conductor.py\<close>: trees of properties, races, the exploration of proofs, strategies and
  their storage, and the modes of the program. What a shell command yields is a function of the
  command, its timeout and its expected memory. Log output is not modelled.
\<close>

section \<open>Trees of properties\<close>

text \<open>The tree of properties: \<open>Leaf\<close> is a \<open>str\<close>, \<open>Node\<close> a \<open>list\<close>.\<close>

datatype prop_tree = Leaf string | Node "prop_tree list"

text \<open>\<open>_([A-Z])|_|([A-Z])\<close>.\<close>

definition chunk_rx :: rx where
  "chunk_rx = RAlt (RSeq (rlit CHR ''_'') (RGroup 1 (RSet is_upper))) (RAlt (rlit CHR ''_'') (RGroup 2 (RSet is_upper)))"

definition nts :: "string option \<Rightarrow> string" where "nts x = (case x of None \<Rightarrow> [] | Some s \<Rightarrow> s)"

definition chunk_name :: "string \<Rightarrow> string list" where
  "chunk_name name =
     (let split = re_split 2 chunk_rx name
      in (if nts (split ! 0) \<noteq> [] then [nts (split ! 0)] else []) @
         map (\<lambda>k. let i = 3 * k in nts (split ! (i + 1)) @ nts (split ! (i + 2)) @ nts (split ! (i + 3)))
           [0..<(length split - 1 + 2) div 3])"

text \<open>The first loop of \<open>group\<close>: names that are done, and the buckets in the order of their creation.\<close>

definition add_bucket :: "string \<Rightarrow> 'a \<Rightarrow> (string \<times> 'a list) list \<Rightarrow> (string \<times> 'a list) list" where
  "add_bucket k x bs = (case map_of bs k of
      None \<Rightarrow> AList.update k [x] bs
    | Some xs \<Rightarrow> AList.update k (xs @ [x]) bs)"

type_synonym chunked = "string list \<times> string"

definition group_step :: "string list \<times> (string \<times> chunked list) list \<Rightarrow> chunked
    \<Rightarrow> (string list \<times> (string \<times> chunked list) list) res" where
  "group_step acc prop = (case acc of (done, buckets) \<Rightarrow> (case prop of (chunks, name) \<Rightarrow>
     (if length chunks = 1 then Inr (done @ [name], buckets)
      else (case chunks of
              [] \<Rightarrow> Inl (IndexError ''list index out of range'')
            | c # cs \<Rightarrow> Inr (done, add_bucket c (cs, name) buckets)))))"

definition group_scan :: "chunked list \<Rightarrow> (string list \<times> (string \<times> chunked list) list) res" where
  "group_scan props = rfold group_step ([], []) props"

text \<open>The number of chunks over all names: every level of \<open>group\<close> removes one from each name it hands on.\<close>

definition chunk_total :: "chunked list \<Rightarrow> nat" where
  "chunk_total props = sum_list (map (\<lambda>(cs, _). length cs) props)"

text \<open>The names in the buckets, and that buckets are never empty.\<close>

lemma add_bucket_mset: "mset (concat (map snd (add_bucket k x bs))) = add_mset x (mset (concat (map snd bs)))"
proof (induction bs)
  case (Cons b bs)
  obtain k' xs where b: "b = (k', xs)" by (cases b)
  show ?case using Cons by (cases "k = k'") (auto simp: b add_bucket_def split: option.splits)
qed (simp add: add_bucket_def)

lemma add_bucket_nonempty: "list_all (\<lambda>b. snd b \<noteq> []) bs \<Longrightarrow> list_all (\<lambda>b. snd b \<noteq> []) (add_bucket k x bs)"
proof (induction bs)
  case (Cons b bs)
  obtain k' xs where b: "b = (k', xs)" by (cases b)
  show ?case using Cons by (cases "k = k'") (auto simp: b add_bucket_def split: option.splits)
qed (simp add: add_bucket_def)

lemma chunk_total_mset: "chunk_total props = sum_mset (image_mset (\<lambda>(cs, _). length cs) (mset props))"
  by (simp add: chunk_total_def flip: sum_mset_sum_list)

lemma chunk_total_simps [simp]:
  "chunk_total [] = 0" "chunk_total (p # ps) = length (fst p) + chunk_total ps" "chunk_total (ps @ qs) = chunk_total ps + chunk_total qs"
  by (simp_all add: chunk_total_def case_prod_beta)

definition scan_inv :: "chunked list \<Rightarrow> string list \<times> (string \<times> chunked list) list \<Rightarrow> bool" where
  "scan_inv props acc = (case acc of (done, bs) \<Rightarrow>
     mset done + image_mset snd (mset (concat (map snd bs))) = image_mset snd (mset props)
     \<and> list_all (\<lambda>b. snd b \<noteq> []) bs
     \<and> chunk_total (concat (map snd bs)) + length (concat (map snd bs)) \<le> chunk_total props
     \<and> (\<forall>x \<in> set (concat (map snd bs)). fst x \<noteq> []))"

lemma group_step_inv:
  assumes "scan_inv props acc" "group_step acc p = Inr acc'"
  shows "scan_inv (props @ [p]) acc'"
proof -
  obtain dn bs where acc: "acc = (dn, bs)" by (cases acc)
  obtain chunks name where p: "p = (chunks, name)" by (cases p)
  show ?thesis
  proof (cases "length chunks = 1")
    case True
    with assms show ?thesis by (auto simp: acc p group_step_def scan_inv_def)
  next
    case False
    with assms(2) obtain c cs where chunks: "chunks = c # cs" "cs \<noteq> []" and acc': "acc' = (dn, add_bucket c (cs, name) bs)"
      by (cases chunks) (auto simp: acc p group_step_def)
    let ?ms = "concat (map snd (add_bucket c (cs, name) bs))"
    have m: "mset ?ms = add_mset (cs, name) (mset (concat (map snd bs)))" by (rule add_bucket_mset)
    then have "chunk_total ?ms = length cs + chunk_total (concat (map snd bs))"
      unfolding chunk_total_mset by simp
    moreover have "length ?ms = Suc (length (concat (map snd bs)))"
      using arg_cong [OF m, of size] by (simp only: size_mset size_add_mset)
    moreover have "set ?ms = insert (cs, name) (set (concat (map snd bs)))"
      using arg_cong [OF m, of set_mset] by (simp only: set_mset_mset set_mset_add_mset_insert)
    ultimately show ?thesis
      using assms(1) chunks add_bucket_nonempty [of bs c "(cs, name)"]
      unfolding acc p acc' scan_inv_def split mset_append m by simp
  qed
qed

lemma group_scan_inv: "group_scan props = Inr acc \<Longrightarrow> scan_inv props acc"
proof (induction props arbitrary: acc rule: rev_induct)
  case Nil
  then show ?case by (auto simp: group_scan_def scan_inv_def)
next
  case (snoc p props)
  then obtain acc0 where "group_scan props = Inr acc0" "group_step acc0 p = Inr acc"
    by (auto simp: group_scan_def rfold_append rbind_Inr_iff)
  with snoc.IH group_step_inv show ?case by blast
qed

lemma chunk_total_bucket:
  assumes "group_scan props = Inr (done, bs)" "b \<in> set bs"
  shows "chunk_total (snd b) < chunk_total props"
proof -
  obtain xs ys where bs: "bs = xs @ b # ys" using assms(2) by (meson split_list)
  have "scan_inv props (done, bs)" by (rule group_scan_inv [OF assms(1)])
  then have "snd b \<noteq> []" "chunk_total (concat (map snd bs)) + length (concat (map snd bs)) \<le> chunk_total props"
    by (auto simp: scan_inv_def bs)
  then show ?thesis by (cases "snd b") (auto simp: bs)
qed

function group_tree :: "chunked list \<Rightarrow> prop_tree list res" where
  "group_tree props = (case group_scan props of
      Inl e \<Rightarrow> Inl e
    | Inr (done, buckets) \<Rightarrow>
        rbind (rmap (\<lambda>b. group_tree (snd b)) buckets) (\<lambda>ts. Inr (map Leaf done @ map Node ts)))"
  by pat_completeness auto
termination
  by (relation "measure chunk_total") (auto dest: chunk_total_bucket)

declare group_tree.simps [simp del]

definition split_by_prefixes :: "string list \<Rightarrow> prop_tree list res" where
  "split_by_prefixes names = group_tree (map (\<lambda>name. (chunk_name name, name)) names)"

text \<open>\<open>find_all\<close>, the properties of a tree from left to right.\<close>

primrec leaves :: "prop_tree \<Rightarrow> string list" where
  "leaves (Leaf p) = [p]"
| "leaves (Node ts) = concat (map leaves ts)"

definition find_all :: "prop_tree list \<Rightarrow> string list" where
  "find_all ts = concat (map leaves ts)"

lemma split_between_length: "length (split_between n lp ms s) = Suc n * length ms + 1"
  by (induction n lp ms s rule: split_between.induct) auto

lemma chunk_name_nonempty: "name \<noteq> [] \<Longrightarrow> chunk_name name \<noteq> []"
proof (cases "re_finditer chunk_rx name")
  case Nil
  then show "name \<noteq> [] \<Longrightarrow> ?thesis" by (simp add: chunk_name_def re_split_def nts_def)
next
  case (Cons m ms)
  then have "length (re_split 2 chunk_rx name) = 3 * Suc (length ms) + 1"
    by (simp add: re_split_def split_between_length del: split_between.simps)
  then show ?thesis by (simp add: chunk_name_def Let_def)
qed

lemma group_scan_ok: "(\<forall>p \<in> set props. fst p \<noteq> []) \<Longrightarrow> is_ok (group_scan props)"
proof (induction props rule: rev_induct)
  case (snoc p props)
  then obtain acc where "rfold group_step ([], []) props = Inr acc" by (auto simp: group_scan_def is_ok_iff)
  with snoc.prems show ?case
    by (cases acc; cases p; cases "fst p") (auto simp: group_scan_def rfold_append group_step_def)
qed (simp add: group_scan_def)

lemma group_tree_ok:
  "(\<forall>p \<in> set props. fst p \<noteq> []) \<Longrightarrow> \<exists>ts. group_tree props = Inr ts \<and> mset (find_all ts) = image_mset snd (mset props)"
proof (induction props rule: group_tree.induct)
  case (1 props)
  obtain dn bs where scan: "group_scan props = Inr (dn, bs)"
    using group_scan_ok [OF "1.prems"] by (auto simp: is_ok_iff)
  have inv: "scan_inv props (dn, bs)" by (rule group_scan_inv [OF scan])
  have "\<exists>ts. group_tree (snd b) = Inr ts \<and> mset (find_all ts) = image_mset snd (mset (snd b))" if "b \<in> set bs" for b
    using "1.IH" [OF scan refl that] inv that by (fastforce simp: scan_inv_def)
  then have "\<exists>tss. rmap (\<lambda>b. group_tree (snd b)) bs = Inr tss
      \<and> mset (concat (map find_all tss)) = image_mset snd (mset (concat (map snd bs)))"
  proof (induction bs)
    case (Cons b bs)
    then obtain ts tss where "group_tree (snd b) = Inr ts" "mset (find_all ts) = image_mset snd (mset (snd b))"
      "rmap (\<lambda>b. group_tree (snd b)) bs = Inr tss" "mset (concat (map find_all tss)) = image_mset snd (mset (concat (map snd bs)))"
      by (metis list.set_intros(1) list.set_intros(2))
    then show ?case by (intro exI [of _ "ts # tss"]) simp
  qed simp
  then obtain tss where tss: "rmap (\<lambda>b. group_tree (snd b)) bs = Inr tss"
    "mset (concat (map find_all tss)) = image_mset snd (mset (concat (map snd bs)))" by blast
  have "find_all (map Leaf dn @ map Node tss) = dn @ concat (map find_all tss)"
    by (simp add: find_all_def comp_def) (simp add: find_all_def [abs_def] concat_map_singleton)
  moreover have "group_tree props = Inr (map Leaf dn @ map Node tss)"
    by (subst group_tree.simps) (simp add: scan tss(1))
  ultimately show ?case using tss(2) inv by (auto simp: scan_inv_def)
qed

lemma split_by_prefixes_ok:
  assumes "[] \<notin> set names"
  shows "\<exists>ts. split_by_prefixes names = Inr ts \<and> mset (find_all ts) = mset names"
proof -
  have "chunk_name n \<noteq> []" if "n \<in> set names" for n
    using assms that by (intro chunk_name_nonempty) auto
  then have "\<forall>p \<in> set (map (\<lambda>name. (chunk_name name, name)) names). fst p \<noteq> []" by simp
  from group_tree_ok [OF this] show ?thesis by (simp add: split_by_prefixes_def image_mset.compositionality comp_def)
qed

text \<open>
  C5. Splitting by prefixes loses no property: for any list of non-empty names \<open>split_by_prefixes\<close> terminates with a
  tree whose leaves are the given names, each as often as it was given.
\<close>

theorem split_by_prefixes_perm:
  assumes "[] \<notin> set names"
  shows "\<exists>ts. split_by_prefixes names = Inr ts \<and> mset (find_all ts) = mset names"
  by (rule split_by_prefixes_ok [OF assms])

theorem split_by_prefixes_perm_witness:
  "\<exists>ts. split_by_prefixes [''a_x'', ''a_y'', ''b''] = Inr ts \<and> mset (find_all ts) = {#''a_x'', ''a_y'', ''b''#}"
  using split_by_prefixes_perm [of "[''a_x'', ''a_y'', ''b'']"] by simp

section \<open>Races\<close>

text \<open>
  \<open>race\<close> starts one wrapper per task. The wrappers read the loop variable \<open>task\<close> when they first run, which is after
  the loop has ended, so all of them await the last task; and awaiting a coroutine a second time is a
  \<open>RuntimeError\<close>. A task is its result; an exception group is represented by the last exception in it.
\<close>

definition bound_tasks :: "'a list \<Rightarrow> 'a list" where
  "bound_tasks tasks = map (\<lambda>_. last tasks) tasks"

fun await_each :: "nat list \<Rightarrow> (nat \<times> 'a res) list \<Rightarrow> 'a res list" where
  "await_each awaited [] = []"
| "await_each awaited ((i, t) # ts) =
     (if i \<in> set awaited then Inl (RuntimeError ''coroutine is being awaited already'') else t) # await_each (i # awaited) ts"

definition race :: "'a option res list \<Rightarrow> 'a option res" where
  "race tasks =
     (let outs = await_each [] (bound_tasks (zip [0..<length tasks] tasks));
          errors = concat (map (case_sum (\<lambda>e. [e]) (\<lambda>_. [])) outs);
          winners = concat (map (case_sum (\<lambda>_. []) (case_option [] (\<lambda>w. [w]))) outs)
      in if errors \<noteq> [] then Inl (last errors)
         else Inr (if winners = [] then None else Some (last winners)))"

section \<open>Proof primitives\<close>

text \<open>What a command yields, given its timeout and expected memory.\<close>

type_synonym shell_env = "string \<Rightarrow> quant option \<Rightarrow> quant \<Rightarrow> ProcessResult"

text \<open>The counter of aiger files is passed along.\<close>

definition aiger_name :: "nat \<Rightarrow> string" where
  "aiger_name idx = ''build/aiger-'' @ nat_str idx @ ''.aig''"

definition prepare_aiger :: "shell_env \<Rightarrow> nat \<Rightarrow> int \<Rightarrow> string list \<Rightarrow> (string \<times> nat) res" where
  "prepare_aiger sh idx st ps =
     (let name = aiger_name idx;
          r = sh (''build/aig-manip build/all.aig select '' @ name @ '' build/all.ywmap '' @ int_str st @ '' '' @ py_join '' '' ps)
                None (1 / 2)
      in if code r = Some 0 then Inr (name, Suc idx) else Inl (AssertionError []))"

definition prove :: "shell_env \<Rightarrow> nat \<Rightarrow> string \<Rightarrow> int \<Rightarrow> string list \<Rightarrow> quant option \<Rightarrow> quant \<Rightarrow> (ProcessResult \<times> nat) res" where
  "prove sh idx engine_config st ps tmo mem =
     rbind (prepare_aiger sh idx st ps) (\<lambda>(specialised, idx).
       Inr (sh (engine_config @ '' '' @ specialised) tmo mem, idx))"

definition bmc_config :: "int option \<Rightarrow> int option \<Rightarrow> string" where
  "bmc_config start_len end_len = ''rIC3 -e bmc --no-preproc --witness''
     @ (case start_len of None \<Rightarrow> [] | Some n \<Rightarrow> '' --start '' @ int_str n)
     @ (case end_len of None \<Rightarrow> [] | Some n \<Rightarrow> '' --end '' @ int_str n)"

text \<open>The counter of counterexamples, the files written and the simulations started are part of the state of \<open>bmc\<close>.\<close>

record bmc_state =
  b_idx :: nat
  b_cex :: nat
  b_files :: "(string \<times> string) list"
  b_cmds :: "string list"

definition simulate_cmd :: "nat \<Rightarrow> string" where
  "simulate_cmd own_id =
     ''./aig-manip/target/release/aig-manip build/all.aig simulate build/all.ywmap build/all.vmap witness-'' @ nat_str own_id
     @ ''.aiw trace-'' @ nat_str own_id @ ''.vcd''"

definition bmc :: "shell_env \<Rightarrow> bmc_state \<Rightarrow> int \<Rightarrow> string list \<Rightarrow> int option \<Rightarrow> int option \<Rightarrow> (ProcessResult \<times> bmc_state) res" where
  "bmc sh s st ps start_len end_len =
     rbind (prove sh (b_idx s) (bmc_config start_len end_len) st ps None 10) (\<lambda>(r, idx).
       let s = s\<lparr>b_idx := idx\<rparr> in
       if code r = Some 10 then
         (case stdout r of
            None \<Rightarrow> Inl (AssertionError [])
          | Some out \<Rightarrow>
              (case split_once newline out of
                 [_, witness] \<Rightarrow> Inr (r, s\<lparr>b_cex := Suc (b_cex s),
                    b_files := b_files s @ [(''witness-'' @ nat_str (b_cex s) @ ''.aiw'', witness)],
                    b_cmds := b_cmds s @ [simulate_cmd (b_cex s)]\<rparr>)
               | _ \<Rightarrow> Inl (IndexError ''list index out of range'')))
       else Inr (r, s))"

section \<open>Exploring proofs\<close>

definition explore :: "shell_env \<Rightarrow> nat \<Rightarrow> int \<Rightarrow> string list \<Rightarrow> (string \<times> quant) list \<Rightarrow> quant
    \<Rightarrow> ((string \<times> ProcessResult) option \<times> nat) res" where
  "explore sh idx st ps configs tmo =
     rbind (prepare_aiger sh idx st ps) (\<lambda>(specialised, idx).
     rbind (race (map (\<lambda>(engine_config, mem).
              let r = sh (engine_config @ '' '' @ specialised) (Some tmo) mem
              in Inr (if code r \<in> {Some 10, Some 20} then Some (engine_config, r) else None)) configs)) (\<lambda>winner.
       Inr (winner, idx)))"

record Strategy =
  s_step :: int
  s_props :: "string list"
  s_config :: string
  s_procres :: ProcessResult

definition ENGINES :: "bool \<Rightarrow> (string \<times> quant) list" where
  "ENGINES difficult = (if difficult then [(''rIC3 -e kind --no-preproc'', 10)]
     else [(''rIC3'', 10), (''rIC3 -e kind --no-preproc'', 10)])"

definition is_leaf :: "prop_tree \<Rightarrow> bool" where
  "is_leaf t = (case t of Leaf _ \<Rightarrow> True | Node _ \<Rightarrow> False)"

text \<open>The subtrees \<open>with_split\<close> works on.\<close>

definition split_trees :: "prop_tree list \<Rightarrow> prop_tree list list" where
  "split_trees tree =
     (let children = concat (map (case_prop_tree (\<lambda>_. []) (\<lambda>ts. [ts])) tree); rest = filter is_leaf tree
      in if children = [] then map (\<lambda>c. [c]) rest else children @ [rest])"

definition without_split :: "shell_env \<Rightarrow> bool \<Rightarrow> (int \<times> string) list \<Rightarrow> nat \<Rightarrow> int \<Rightarrow> string list
    \<Rightarrow> (Strategy list \<times> (int \<times> string) list \<times> nat) option res" where
  "without_split sh difficult failures idx st all_props =
     rbind (explore sh idx st all_props (ENGINES difficult) 120) (\<lambda>(res, idx).
       Inr (case res of
              None \<Rightarrow> None
            | Some (cfg, r) \<Rightarrow>
                if code r = Some 20
                then Some ([\<lparr>s_step = st, s_props = all_props, s_config = cfg, s_procres = r\<rparr>], failures, idx) else None))"

lemma size_list_filter: "size_list f (filter P xs) \<le> size_list f xs"
  by (induction xs) auto

lemma split_trees_smaller:
  assumes "length tree \<ge> 2" "t \<in> set (split_trees tree)"
  shows "size_list size t < size_list size tree"
proof (cases "\<exists>ts. Node ts \<in> set tree")
  case True
  then have "t = filter is_leaf tree \<or> (\<exists>x \<in> set tree. x = Node t)"
    using assms(2) by (fastforce simp: split_trees_def Let_def split: if_splits prop_tree.splits)
  then show ?thesis
  proof
    assume "t = filter is_leaf tree"
    moreover from True obtain ts xs ys where "tree = xs @ Node ts # ys" by (meson split_list)
    ultimately show ?thesis
      using size_list_filter [of size is_leaf xs] size_list_filter [of size is_leaf ys] by (simp add: is_leaf_def)
  next
    assume "\<exists>x \<in> set tree. x = Node t"
    then have "Node t \<in> set tree" by simp
    from size_list_estimation' [OF this order_refl, of size] show ?thesis by simp
  qed
next
  case False
  then have "\<forall>x \<in> set tree. \<exists>p. x = Leaf p" by (metis prop_tree.exhaust)
  then have "t \<in> (\<lambda>c. [c]) ` set tree"
    using assms(2) by (fastforce simp: split_trees_def Let_def split: if_splits)
  then obtain c where c: "c \<in> set tree" "t = [c]" by auto
  then obtain xs ys where tree: "tree = xs @ c # ys" by (meson split_list)
  with assms(1) have "xs \<noteq> [] \<or> ys \<noteq> []" by auto
  then show ?thesis by (cases xs; cases ys) (auto simp: tree c(2))
qed

lemma rfold_cong [fundef_cong]:
  "xs = ys \<Longrightarrow> s = t \<Longrightarrow> (\<And>u x. x \<in> set ys \<Longrightarrow> f u x = g u x) \<Longrightarrow> rfold f s xs = rfold g t ys"
proof (induction ys arbitrary: xs s t)
  case (Cons y ys)
  then show ?case by (cases "g t y") auto
qed simp

lemma find_all_length: "length (find_all tree) \<noteq> 0 \<Longrightarrow> length tree \<noteq> 1 \<Longrightarrow> length tree \<ge> 2"
  by (cases tree; cases "tl tree") (auto simp: find_all_def)

text \<open>
  \<open>build_strategy_rec\<close>: the strategies found, with the list of failures and the counter passed along. The pauses
  and log messages are left out. The two alternatives of the race start from the same state.
\<close>

function build_strategy_rec :: "shell_env \<Rightarrow> bool \<Rightarrow> int \<Rightarrow> prop_tree list \<Rightarrow> (int \<times> string) list \<Rightarrow> nat
    \<Rightarrow> (Strategy list \<times> (int \<times> string) list \<times> nat) res" where
  "build_strategy_rec sh difficult st tree failures idx =
     (let all_props = find_all tree in
      if length all_props = 0 then Inr ([], failures, idx)
      else if length all_props = 1 then
        rbind (explore sh idx st all_props (ENGINES difficult) (if difficult then 1800 else 600)) (\<lambda>(res, idx).
          case res of
            Some (cfg, r) \<Rightarrow>
              if code r = Some 20
              then Inr ([\<lparr>s_step = st, s_props = all_props, s_config = cfg, s_procres = r\<rparr>], failures, idx)
              else Inr ([], failures, idx)
          | None \<Rightarrow> Inr ([], failures @ [(st, hd all_props)], idx))
      else if length tree = 1 then
        (case hd tree of
           Node ts \<Rightarrow> build_strategy_rec sh difficult st ts failures idx
         | Leaf _ \<Rightarrow> Inl (TypeError ''str is not a tree''))
      else
        rbind (race [
          without_split sh difficult failures idx st all_props,
          rbind (rfold (\<lambda>acc t. case acc of (flattened, failures, idx) \<Rightarrow>
              rbind (build_strategy_rec sh difficult st t failures idx) (\<lambda>(solution, failures, idx).
                Inr (flattened @ solution, failures, idx))) ([], failures, idx) (split_trees tree)) (\<lambda>r. Inr (Some r))])
        (\<lambda>winner. case winner of None \<Rightarrow> Inl (AssertionError []) | Some w \<Rightarrow> Inr w))"
  by pat_completeness auto
termination
proof (relation "measure (\<lambda>(sh, difficult, st, tree, failures, idx). size_list size tree)", goal_cases)
  case 1
  show ?case by simp
next
  case (2 sh difficult st tree failures idx all_props ts)
  then obtain x where "tree = [x]" by (auto simp: length_Suc_conv)
  with 2 show ?case by simp
next
  case 3
  then show ?case using split_trees_smaller [OF find_all_length] by simp
qed

declare build_strategy_rec.simps [simp del]

section \<open>Running strategies\<close>

text \<open>\<open>s.split(sep)\<close> for a separator of any positive length.\<close>

function split_str :: "string \<Rightarrow> string \<Rightarrow> string \<Rightarrow> string list" where
  "split_str sep acc s =
     (if s = [] then [rev acc]
      else if sep \<noteq> [] \<and> prefix sep s then rev acc # split_str sep [] (drop (length sep) s)
      else split_str sep (hd s # acc) (tl s))"
  by pat_completeness auto
termination
  by (relation "measure (\<lambda>(sep, acc, s). length s)") (auto simp: length_greater_0_conv)

declare split_str.simps [simp del]

text \<open>The configuration to run again: k-induction starts at the depth it was proved at.\<close>

definition run_config :: "Strategy \<Rightarrow> string res" where
  "run_config s = (case stderr (s_procres s) of
     None \<Rightarrow> Inr (s_config s)
   | Some err \<Rightarrow>
       if contains (s_config s) '' -e kind '' then
         (case split_str ''[INFO ] k-induction proofed in depth '' [] err of
            [_, n] \<Rightarrow> rbind (py_int 10 (strip n)) (\<lambda>n. Inr (s_config s @ '' --start '' @ int_str n))
          | _ \<Rightarrow> Inr (s_config s))
       else Inr (s_config s))"

definition run_one_step :: "shell_env \<Rightarrow> ProcessResult list \<times> nat \<Rightarrow> string \<times> Strategy \<Rightarrow> (ProcessResult list \<times> nat) res" where
  "run_one_step sh acc cs = (case acc of (results, idx) \<Rightarrow> (case cs of (conf, s) \<Rightarrow>
     rbind (prove sh idx conf (s_step s) (s_props s) None (max_mem (s_procres s) * 11 / 10)) (\<lambda>(r, idx).
       Inr (results @ [r], idx))))"

definition run_strategy :: "shell_env \<Rightarrow> nat \<Rightarrow> Strategy list \<Rightarrow> ((ProcessResult \<times> Strategy) list \<times> Strategy list \<times> nat) res" where
  "run_strategy sh idx strategy =
     (let strategy = sort_key (\<lambda>s. - dt (s_procres s)) strategy in
      rbind (rmap run_config strategy) (\<lambda>confs.
      rbind (rfold (run_one_step sh) ([], idx) (zip confs strategy)) (\<lambda>(results, idx).
        Inr (zip results strategy, strategy, idx))))"

section \<open>Storing strategies\<close>

text \<open>
  What is stored: JSON lists. The last component of an entry has four fields in old files and six in new ones.
  Python does not check the types of the fields; here a field of another type than the writer's is an
  error at once.
\<close>

datatype json_field = JNull | JInt int | JNum quant | JStr string

type_synonym encoded = "int \<times> string list \<times> string \<times> json_field list"

definition json_opt_int :: "json_field \<Rightarrow> int option res" where
  "json_opt_int f = (case f of JNull \<Rightarrow> Inr None | JInt i \<Rightarrow> Inr (Some i) | _ \<Rightarrow> Inl (TypeError ''int''))"
definition json_num :: "json_field \<Rightarrow> quant res" where
  "json_num f = (case f of JNum q \<Rightarrow> Inr q | JInt i \<Rightarrow> Inr (of_int i) | _ \<Rightarrow> Inl (TypeError ''float''))"
definition json_str :: "json_field \<Rightarrow> string res" where
  "json_str f = (case f of JStr s \<Rightarrow> Inr s | _ \<Rightarrow> Inl (TypeError ''str''))"
definition json_opt_str :: "json_field \<Rightarrow> string option res" where
  "json_opt_str f = (case f of JNull \<Rightarrow> Inr None | JStr s \<Rightarrow> Inr (Some s) | _ \<Rightarrow> Inl (TypeError ''str''))"

definition json_index :: "json_field list \<Rightarrow> nat \<Rightarrow> json_field res" where
  "json_index fs i = (if i < length fs then Inr (fs ! i) else Inl (IndexError ''list index out of range''))"

definition decode_strategy :: "encoded \<Rightarrow> Strategy res" where
  "decode_strategy e = (case e of (st, ps, cfg, fs) \<Rightarrow>
     rbind (rbind (json_index fs 0) json_opt_int) (\<lambda>c.
     rbind (rbind (json_index fs 3) json_str) (\<lambda>why.
     rbind (rbind (json_index fs 1) json_num) (\<lambda>mem.
     rbind (rbind (json_index fs 2) json_num) (\<lambda>d.
     rbind (if length fs > 4 then json_opt_str (fs ! 4) else Inr None) (\<lambda>out.
     rbind (if length fs > 5 then json_opt_str (fs ! 5) else Inr None) (\<lambda>err.
       Inr \<lparr>s_step = st, s_props = ps, s_config = cfg,
            s_procres = \<lparr>code = c, reason = why, max_mem = mem, dt = d, stdout = out, stderr = err\<rparr>\<rparr>)))))))"

definition json_of_opt :: "('a \<Rightarrow> json_field) \<Rightarrow> 'a option \<Rightarrow> json_field" where
  "json_of_opt f x = (case x of None \<Rightarrow> JNull | Some y \<Rightarrow> f y)"

definition encode_strategy :: "Strategy \<Rightarrow> encoded" where
  "encode_strategy s = (let r = s_procres s in (s_step s, s_props s, s_config s,
     [json_of_opt JInt (code r), JNum (max_mem r), JNum (dt r), JStr (reason r),
      json_of_opt JStr (stdout r), json_of_opt JStr (stderr r)]))"

text \<open>The directory \<open>strategies\<close>: a step has no file, a file that is not JSON, or a list of entries.\<close>

datatype stored = NoFile | BadJson | Stored "encoded list"

record cargs =
  c_fresh :: bool
  c_no_store :: bool
  c_by_step :: bool
  c_hard :: bool
  c_no_run :: bool
  c_check_complete :: bool
  c_start :: int
  c_missing :: bool
  c_properties :: "string list"

definition load_strategy :: "cargs \<Rightarrow> (nat \<Rightarrow> stored) \<Rightarrow> nat \<Rightarrow> Strategy list option res" where
  "load_strategy args files st =
     (if c_fresh args then Inr None
      else (case files st of
              NoFile \<Rightarrow> Inr None
            | BadJson \<Rightarrow> Inr None
            | Stored es \<Rightarrow> rbind (rmap decode_strategy es) (\<lambda>ss. Inr (Some ss))))"

text \<open>\<open>writable\<close>: the file can be written; a failure to write is logged only.\<close>

definition store_strategy :: "cargs \<Rightarrow> bool \<Rightarrow> (nat \<Rightarrow> stored) \<Rightarrow> nat \<Rightarrow> Strategy list \<Rightarrow> (Strategy list \<times> (nat \<Rightarrow> stored)) res" where
  "store_strategy args writable files st strategy =
     (let es = map encode_strategy strategy;
          files = (if \<not> c_no_store args \<and> writable then files(st := Stored es) else files)
      in rbind (rmap decode_strategy es) (\<lambda>ss. Inr (ss, files)))"

text \<open>\<open>list_of_set\<close> is the order in which Python enumerates a set of strings, which is not specified.\<close>

definition missing_from :: "(string list \<Rightarrow> string list) \<Rightarrow> Strategy list \<Rightarrow> string list \<Rightarrow> string list" where
  "missing_from list_of_set strategy ps =
     (let done_props = concat (map s_props strategy) in list_of_set (filter (\<lambda>p. p \<notin> set done_props) ps))"

section \<open>Modes\<close>

text \<open>One property in hard mode.\<close>

definition hard_step :: "shell_env \<Rightarrow> int \<Rightarrow> Strategy list \<times> (int \<times> string) list \<times> nat \<Rightarrow> string
    \<Rightarrow> (Strategy list \<times> (int \<times> string) list \<times> nat) res" where
  "hard_step sh st acc prop = (case acc of (strategy, failures, idx) \<Rightarrow>
     rbind (build_strategy_rec sh True st [Leaf prop] failures idx) (\<lambda>(x, failures, idx).
       Inr (strategy @ x, failures, idx)))"

definition construct_strategy :: "cargs \<Rightarrow> (string list \<Rightarrow> string list) \<Rightarrow> bool \<Rightarrow> shell_env \<Rightarrow> (nat \<Rightarrow> stored) \<Rightarrow> nat \<Rightarrow> nat \<Rightarrow> string list
    \<Rightarrow> (bool \<times> Strategy list \<times> string list \<times> (nat \<Rightarrow> stored) \<times> nat) res" where
  "construct_strategy args list_of_set writable sh files idx st ps =
     rbind (load_strategy args files st) (\<lambda>loaded.
       let strategy = (case loaded of None \<Rightarrow> [] | Some ss \<Rightarrow> ss);
           not_done = missing_from list_of_set strategy ps
       in if length not_done = 0 then Inr (False, strategy, [], files, idx)
          else
            rbind (if c_hard args then
                     rfold (hard_step sh (int st)) (strategy, [], idx) not_done
                   else
                     rbind (split_by_prefixes not_done) (\<lambda>blocks.
                     rbind (build_strategy_rec sh (c_hard args) (int st) blocks [] idx) (\<lambda>(x, failures, idx).
                       Inr (strategy @ x, failures, idx)))) (\<lambda>(strategy, failures, idx).
            rbind (store_strategy args writable files st strategy) (\<lambda>(strategy, files).
              Inr (True, strategy, map snd failures, files, idx))))"

text \<open>The loop of \<open>explore_mode\<close> from step \<open>st\<close> on.\<close>

fun explore_steps :: "cargs \<Rightarrow> (string list \<Rightarrow> string list) \<Rightarrow> bool \<Rightarrow> shell_env \<Rightarrow> (nat \<Rightarrow> stored) \<Rightarrow> nat \<Rightarrow> string list \<Rightarrow> nat
    \<Rightarrow> string list list \<Rightarrow> (string list \<times> (nat \<Rightarrow> stored) \<times> nat) res" where
  "explore_steps args list_of_set writable sh files idx all_failures st [] = Inr (all_failures, files, idx)"
| "explore_steps args list_of_set writable sh files idx all_failures st (ps # by_step) =
     (if int st < c_start args then explore_steps args list_of_set writable sh files idx all_failures (Suc st) by_step
      else
        rbind (construct_strategy args list_of_set writable sh files idx st ps) (\<lambda>(new, strategy, failures, files, idx).
        rbind (if c_no_run args then Inr idx
               else if \<not> new \<or> length strategy \<noteq> 1
               then rbind (run_strategy sh idx strategy) (\<lambda>(_, _, idx). Inr idx)
               else Inr idx) (\<lambda>idx.
          explore_steps args list_of_set writable sh files idx (all_failures @ failures) (Suc st) by_step)))"

definition explore_mode :: "cargs \<Rightarrow> (string list \<Rightarrow> string list) \<Rightarrow> bool \<Rightarrow> shell_env \<Rightarrow> (nat \<Rightarrow> stored) \<Rightarrow> string list list
    \<Rightarrow> (string list \<times> (nat \<Rightarrow> stored) \<times> nat) res" where
  "explore_mode args list_of_set writable sh files by_step = explore_steps args list_of_set writable sh files 0 [] 0 by_step"

text \<open>The loop of \<open>prove_mode\<close>: the strategies of the steps, run one step at a time with \<open>--by-step\<close>.\<close>

fun prove_steps :: "cargs \<Rightarrow> shell_env \<Rightarrow> (nat \<Rightarrow> stored) \<Rightarrow> nat \<Rightarrow> Strategy list \<Rightarrow> nat \<Rightarrow> string list list \<Rightarrow> (Strategy list \<times> nat) res" where
  "prove_steps args sh files idx all_strategies st [] = Inr (all_strategies, idx)"
| "prove_steps args sh files idx all_strategies st (ps # by_step) =
     (if int st < c_start args then prove_steps args sh files idx all_strategies (Suc st) by_step
      else
        rbind (load_strategy args files st) (\<lambda>loaded.
          case loaded of
            None \<Rightarrow> prove_steps args sh files idx all_strategies (Suc st) by_step
          | Some [] \<Rightarrow> prove_steps args sh files idx all_strategies (Suc st) by_step
          | Some strategy \<Rightarrow>
              rbind (if c_by_step args then rbind (run_strategy sh idx strategy) (\<lambda>(_, strategy, idx). Inr (strategy, idx))
                     else Inr (strategy, idx)) (\<lambda>(strategy, idx).
                prove_steps args sh files idx (all_strategies @ strategy) (Suc st) by_step)))"

text \<open>\<open>exit(1)\<close> is \<open>SystemExit 1\<close>.\<close>

definition prove_mode :: "cargs \<Rightarrow> shell_env \<Rightarrow> (nat \<Rightarrow> stored) \<Rightarrow> (int \<times> string) list \<Rightarrow> string list list \<Rightarrow> unit res" where
  "prove_mode args sh files all_props by_step =
     rbind (prove_steps args sh files 0 [] 0 by_step) (\<lambda>(all_strategies, idx).
       let covered = concat (map s_props all_strategies);
           uncovered = filter (\<lambda>p. p \<notin> set covered) (map snd all_props)
       in if c_check_complete args \<and> uncovered \<noteq> [] then Inl (SystemExit 1)
          else if c_by_step args then Inr ()
          else
            rbind (run_strategy sh idx all_strategies) (\<lambda>(results, _, _).
              if list_ex (\<lambda>(r, s). code r \<noteq> Some 20) results then Inl (SystemExit 1) else Inr ()))"

text \<open>
  \<open>bmc_mode\<close>: with one property a single unbounded run, with several an endless loop over increasing depths, of
  which \<open>rounds\<close> are run here.
\<close>

definition bmc_round :: "shell_env \<Rightarrow> int \<Rightarrow> (int \<times> string) list \<Rightarrow> bmc_state \<Rightarrow> bmc_state res" where
  "bmc_round sh depth ps s =
     rfold (\<lambda>s (st, prop). rbind (bmc sh s st [prop] (Some depth) (Some depth)) (\<lambda>(_, s). Inr s)) s ps"

fun bmc_rounds :: "nat \<Rightarrow> shell_env \<Rightarrow> int \<Rightarrow> int \<Rightarrow> (int \<times> string) list \<Rightarrow> bmc_state \<Rightarrow> bmc_state res" where
  "bmc_rounds 0 sh depth inc ps s = Inr s"
| "bmc_rounds (Suc n) sh depth inc ps s = rbind (bmc_round sh depth ps s) (bmc_rounds n sh (depth + inc) inc ps)"

definition bmc_mode :: "nat \<Rightarrow> shell_env \<Rightarrow> int \<Rightarrow> int \<Rightarrow> (int \<times> string) list \<Rightarrow> bmc_state \<Rightarrow> bmc_state res" where
  "bmc_mode rounds sh bmc_start bmc_step ps s = (case ps of
     [] \<Rightarrow> Inr s
   | [(st, prop)] \<Rightarrow> rbind (bmc sh s st [prop] (Some bmc_start) None) (\<lambda>(_, s). Inr s)
   | _ \<Rightarrow> bmc_rounds rounds sh bmc_start bmc_step ps s)"

text \<open>\<open>info_mode\<close>: for every step the strategies and the properties no strategy accounts for.\<close>

fun info_steps :: "cargs \<Rightarrow> (nat \<Rightarrow> stored) \<Rightarrow> nat \<Rightarrow> string list list \<Rightarrow> (Strategy list \<times> string list) list res" where
  "info_steps args files st [] = Inr []"
| "info_steps args files st (ps # by_step) =
     rbind (load_strategy args files st) (\<lambda>loaded.
       let strategy = (case loaded of None \<Rightarrow> [] | Some ss \<Rightarrow> ss);
           accounted_for = concat (map s_props strategy);
           unaccounted = filter (\<lambda>p. p \<notin> set accounted_for) ps
       in rbind (info_steps args files (Suc st) by_step) (\<lambda>rest. Inr ((strategy, unaccounted) # rest)))"

definition info_mode :: "cargs \<Rightarrow> (nat \<Rightarrow> stored) \<Rightarrow> string list list \<Rightarrow> ((Strategy list \<times> string list) list \<times> nat) res" where
  "info_mode args files by_step =
     rbind (info_steps args files 0 by_step) (\<lambda>infos. Inr (infos, sum_list (map (length \<circ> fst) infos)))"

section \<open>The main program\<close>

definition SKIPPED_PROPS :: "string list" where
  "SKIPPED_PROPS = [''MType_Div_Data'', ''MType_Rem_Data'', ''MType_Mul_Data'', ''MType_RemU_Data'', ''MType_MulH_Data'',
     ''MType_DivU_Data'', ''MType_MulHU_Data'', ''MType_MulHSH_Data'']"

definition preproc_name :: "string \<Rightarrow> (int \<times> string) res" where
  "preproc_name name = (case split_char (CHR ''$'') name of
     _ # part # _ \<Rightarrow>
       (let first = drop 5 part in
        rbind (assert_py (startswith first ''Step'') []) (\<lambda>_.
          case split_once (CHR ''_'') first of
            [st, rest] \<Rightarrow> rbind (py_int 10 (drop 4 st)) (\<lambda>n. Inr (n, rest))
          | _ \<Rightarrow> Inl (ValueError ''not enough values to unpack (expected 2, got 1)'')))
   | _ \<Rightarrow> Inl (IndexError ''list index out of range''))"

definition grow :: "int \<Rightarrow> string list list \<Rightarrow> string list list" where
  "grow n xs = xs @ replicate (nat (n + 1 - int (length xs))) []"

text \<open>A negative step counts from the end of the list, as Python's indices do.\<close>

definition group_name :: "string list list \<Rightarrow> int \<times> string \<Rightarrow> string list list res" where
  "group_name by_step sn = (case sn of (st, name) \<Rightarrow>
     (let xs = grow st by_step; i = (if st < 0 then st + int (length xs) else st) in
      if 0 \<le> i then Inr (xs[nat i := xs ! nat i @ [name]]) else Inl (IndexError ''list index out of range'')))"

definition group_by_step :: "(int \<times> string) list \<Rightarrow> int option \<Rightarrow> string list list res" where
  "group_by_step names mx = rbind (rfold group_name [] names) (\<lambda>by_step.
     Inr (case mx of None \<Rightarrow> by_step | Some m \<Rightarrow> grow m by_step))"

text \<open>The properties asked for by name; one that is not found ends the program.\<close>

definition named_props :: "(int \<times> string) list \<Rightarrow> string list \<Rightarrow> (int \<times> string) list res" where
  "named_props names ps = rmap (\<lambda>prop. case find (\<lambda>sn. prop = snd sn) names of
       Some sn \<Rightarrow> Inr (fst sn, prop) | None \<Rightarrow> Inl (SystemExit 1)) ps"

fun missing_props :: "cargs \<Rightarrow> (string list \<Rightarrow> string list) \<Rightarrow> (nat \<Rightarrow> stored) \<Rightarrow> nat \<Rightarrow> string list list \<Rightarrow> (int \<times> string) list res" where
  "missing_props args list_of_set files st [] = Inr []"
| "missing_props args list_of_set files st (sprops # by_step) =
     rbind (load_strategy args files st) (\<lambda>loaded.
     rbind (missing_props args list_of_set files (Suc st) by_step) (\<lambda>rest.
       Inr (case loaded of
              None \<Rightarrow> rest
            | Some strategy \<Rightarrow> map (Pair (int st)) (missing_from list_of_set strategy sprops) @ rest)))"

record selection =
  sel_props :: "(int \<times> string) list"
  sel_skipped :: "(int \<times> string) list"
  sel_by_step :: "string list list"
  sel_skipped_by_step :: "string list list"

definition select_props :: "cargs \<Rightarrow> (string list \<Rightarrow> string list) \<Rightarrow> (nat \<Rightarrow> stored) \<Rightarrow> string list \<Rightarrow> selection res" where
  "select_props args list_of_set files asserts =
     rbind (rmap preproc_name asserts) (\<lambda>all_names.
       if all_names = [] then Inl (ValueError ''max() arg is an empty sequence'')
       else
         let max_step = Max (set (map fst all_names));
             names = filter (\<lambda>sn. \<not> endswith (snd sn) ''_Cover'') all_names
         in rbind (group_by_step names None) (\<lambda>by_step.
            rbind (named_props names (c_properties args)) (\<lambda>named.
            rbind (if c_missing args then rbind (missing_props args list_of_set files 0 by_step) (\<lambda>m. Inr (named @ m))
                   else Inr (if named = [] then names else named)) (\<lambda>props.
              let skipped = filter (\<lambda>sp. snd sp \<in> set SKIPPED_PROPS) props;
                  kept = filter (\<lambda>sp. snd sp \<notin> set SKIPPED_PROPS) props
              in rbind (group_by_step skipped (Some max_step)) (\<lambda>skipped_by_step.
                 rbind (group_by_step kept (Some max_step)) (\<lambda>by_step.
                   Inr \<lparr>sel_props = kept, sel_skipped = skipped, sel_by_step = by_step,
                        sel_skipped_by_step = skipped_by_step\<rparr>))))))"

datatype mode = BmcMode int int nat | InfoMode | ProveMode | ExploreMode

definition conductor_main :: "cargs \<Rightarrow> mode \<Rightarrow> (string list \<Rightarrow> string list) \<Rightarrow> bool \<Rightarrow> shell_env \<Rightarrow> (nat \<Rightarrow> stored) \<Rightarrow> string list \<Rightarrow> unit res" where
  "conductor_main args mode list_of_set writable sh files asserts =
     rbind (select_props args list_of_set files asserts) (\<lambda>sel.
       case mode of
         BmcMode bmc_start bmc_step rounds \<Rightarrow>
           rbind (bmc_mode rounds sh bmc_start bmc_step (sel_props sel) \<lparr>b_idx = 0, b_cex = 0, b_files = [], b_cmds = []\<rparr>) (\<lambda>_. Inr ())
       | InfoMode \<Rightarrow> rbind (info_mode args files (sel_by_step sel)) (\<lambda>_. Inr ())
       | ProveMode \<Rightarrow> prove_mode args sh files (sel_props sel) (sel_by_step sel)
       | ExploreMode \<Rightarrow> rbind (explore_mode args list_of_set writable sh files (sel_by_step sel)) (\<lambda>_. Inr ()))"

section \<open>Races of several tasks\<close>

lemma race_simps [simp]: "race [] = Inr None" "race [t] = t"
  by (simp_all add: race_def bound_tasks_def split: sum.splits option.splits)

lemma await_each_last:
  assumes "i \<in> set aw" "ts \<noteq> []"
  shows "last (concat (map (case_sum (\<lambda>e. [e]) (\<lambda>_. [])) (await_each aw (map (\<lambda>_. (i, t)) ts))))
       = RuntimeError ''coroutine is being awaited already''
    \<and> concat (map (case_sum (\<lambda>e. [e]) (\<lambda>_. [])) (await_each aw (map (\<lambda>_. (i, t)) ts))) \<noteq> []"
  using assms
proof (induction ts arbitrary: aw)
  case (Cons x ts)
  then show ?case by (cases ts) auto
qed simp

lemma race_many:
  assumes "length tasks \<ge> 2"
  shows "race tasks = Inl (RuntimeError ''coroutine is being awaited already'')"
proof -
  obtain t1 t2 ts where tasks: "tasks = t1 # t2 # ts"
    using assms by (cases tasks; cases "tl tasks") auto
  define z where "z = zip [0..<length tasks] tasks"
  obtain i t where l: "last z = (i, t)" by fastforce
  have "z \<noteq> []" "tl z \<noteq> []" by (simp_all add: z_def tasks upt_conv_Cons del: upt_Suc)
  then obtain z0 zs where z: "z = z0 # zs" "zs \<noteq> []" by (cases z) auto
  have b: "bound_tasks z = (i, t) # map (\<lambda>_. (i, t)) zs" using z l by (simp add: bound_tasks_def)
  note a = await_each_last [of i "[i]" zs t, OF _ z(2)]
  show ?thesis
    unfolding race_def Let_def z_def [symmetric] b using a by (cases t) auto
qed

lemma explore_many:
  assumes "is_ok (prepare_aiger sh idx st ps)"
  shows "explore sh idx st ps (ENGINES False) tmo = Inl (RuntimeError ''coroutine is being awaited already'')"
proof -
  obtain name idx' where "prepare_aiger sh idx st ps = Inr (name, idx')" using assms by (auto simp: is_ok_iff)
  then show ?thesis by (simp add: explore_def ENGINES_def race_many)
qed

lemma build_strategy_rec_easy_fails:
  "\<forall>idx st ps. is_ok (prepare_aiger sh idx st ps) \<Longrightarrow> \<not> difficult \<Longrightarrow> find_all tree \<noteq> [] \<Longrightarrow>
    build_strategy_rec sh difficult st tree failures idx = Inl (RuntimeError ''coroutine is being awaited already'')"
proof (induction sh difficult st tree failures idx rule: build_strategy_rec.induct)
  case (1 sh difficult st tree failures idx)
  have d: "difficult = False" using "1.prems"(2) by simp
  note eq = build_strategy_rec.simps [of sh False st tree failures idx]
  have "length (find_all tree) > 0" using "1.prems"(3) by simp
  then have "length (find_all tree) = 1 \<or> length (find_all tree) > 1" by linarith
  then consider (one) "length (find_all tree) = 1" | (nest) "length (find_all tree) > 1" "length tree = 1"
    | (race) "length (find_all tree) > 1" "length tree \<noteq> 1"
    by blast
  then show ?case
  proof cases
    case one
    with "1.prems"(1,3) show ?thesis unfolding d by (simp add: eq explore_many Let_def)
  next
    case nest
    then obtain x where x: "tree = [x]" by (auto simp: length_Suc_conv)
    with nest obtain ts where "x = Node ts" by (cases x) (auto simp: find_all_def)
    with x have tree: "tree = [Node ts]" "find_all tree = find_all ts" by (simp_all add: find_all_def)
    have "build_strategy_rec sh difficult st ts failures idx = Inl (RuntimeError ''coroutine is being awaited already'')"
      using "1.IH"(1) [OF refl, of ts] nest tree "1.prems" by simp
    with nest "1.prems"(3) show ?thesis unfolding d tree(1) by (simp add: build_strategy_rec.simps [of sh False st "[Node ts]"] Let_def)
  next
    case race
    with "1.prems"(3) show ?thesis unfolding d by (simp add: eq race_many Let_def)
  qed
qed

section \<open>Storage\<close>

lemma decode_encode: "decode_strategy (encode_strategy s) = Inr s"
  by (simp add: decode_strategy_def encode_strategy_def json_index_def json_of_opt_def json_opt_int_def json_num_def
      json_str_def json_opt_str_def Let_def split: option.splits)

interpretation strategies: codec "map encode_strategy" "\<lambda>es. case rmap decode_strategy es of Inl _ \<Rightarrow> None | Inr ss \<Rightarrow> Some ss" "\<lambda>_. True"
proof
  show "(case rmap decode_strategy (map encode_strategy x) of Inl _ \<Rightarrow> None | Inr ss \<Rightarrow> Some ss) = Some x" for x
    by (induction x) (auto simp: decode_encode split: sum.splits)
qed

lemma decode_encode_list: "rmap decode_strategy (map encode_strategy ss) = Inr ss"
  using strategies.dec_enc [of ss] by (simp split: sum.splits)

lemma store_strategy_ok:
  "store_strategy args writable files st ss =
     Inr (ss, if \<not> c_no_store args \<and> writable then files(st := Stored (map encode_strategy ss)) else files)"
  by (simp add: store_strategy_def decode_encode_list Let_def)

lemma load_stored:
  "\<not> c_fresh args \<Longrightarrow> files st = Stored (map encode_strategy ss) \<Longrightarrow> load_strategy args files st = Inr (Some ss)"
  by (simp add: load_strategy_def decode_encode_list)

section \<open>What exploration and proof runs establish\<close>

text \<open>The engine run of hard mode for one property.\<close>

definition hard_run :: "shell_env \<Rightarrow> nat \<Rightarrow> ProcessResult" where
  "hard_run sh idx = sh (''rIC3 -e kind --no-preproc '' @ aiger_name idx) (Some 1800) 10"

lemma build_hard:
  "build_strategy_rec sh True st [Leaf p] failures idx =
     rbind (prepare_aiger sh idx st [p]) (\<lambda>_. Inr (
       (if code (hard_run sh idx) = Some 20
        then [\<lparr>s_step = st, s_props = [p], s_config = ''rIC3 -e kind --no-preproc'', s_procres = hard_run sh idx\<rparr>] else []),
       (if code (hard_run sh idx) \<in> {Some 10, Some 20} then failures else failures @ [(st, p)]), Suc idx))"
  by (subst build_strategy_rec.simps)
    (auto simp: find_all_def explore_def prepare_aiger_def ENGINES_def hard_run_def Let_def)

lemma hard_fold:
  assumes "rfold (hard_step sh st) (s0, f0, i0) nd = Inr (s, f, i)"
  shows "\<exists>new. s = s0 @ new \<and> set f0 \<subseteq> set f
    \<and> (\<forall>x \<in> set new. code (s_procres x) = Some 20 \<and> s_step x = st \<and> (\<exists>p \<in> set nd. s_props x = [p]))
    \<and> (\<forall>p \<in> set nd. (\<exists>x \<in> set new. s_props x = [p]) \<or> p \<in> snd ` set f \<or> (\<exists>j. code (hard_run sh j) = Some 10))"
  using assms
proof (induction nd arbitrary: s0 f0 i0)
  case (Cons p nd)
  define x where "x = (if code (hard_run sh i0) = Some 20
      then [\<lparr>s_step = st, s_props = [p], s_config = ''rIC3 -e kind --no-preproc'', s_procres = hard_run sh i0\<rparr>] else [])"
  define f1 where "f1 = (if code (hard_run sh i0) \<in> {Some 10, Some 20} then f0 else f0 @ [(st, p)])"
  have b: "build_strategy_rec sh True st [Leaf p] f0 i0 = rbind (prepare_aiger sh i0 st [p]) (\<lambda>_. Inr (x, f1, Suc i0))"
    unfolding build_hard x_def f1_def by simp
  from Cons.prems have "rfold (hard_step sh st) (s0 @ x, f1, Suc i0) nd = Inr (s, f, i)"
    by (cases "prepare_aiger sh i0 st [p]") (auto simp: hard_step_def [of sh st "(s0, f0, i0)" p] b)
  from Cons.IH [OF this] obtain new where new: "s = (s0 @ x) @ new" "set f1 \<subseteq> set f"
    "\<forall>y \<in> set new. code (s_procres y) = Some 20 \<and> s_step y = st \<and> (\<exists>p \<in> set nd. s_props y = [p])"
    "\<forall>p \<in> set nd. (\<exists>x \<in> set new. s_props x = [p]) \<or> p \<in> snd ` set f \<or> (\<exists>j. code (hard_run sh j) = Some 10)"
    by blast
  have p: "(\<exists>y \<in> set x. s_props y = [p]) \<or> p \<in> snd ` set f1 \<or> (\<exists>j. code (hard_run sh j) = Some 10)"
    by (auto simp: x_def f1_def)
  moreover have "\<forall>y \<in> set x. code (s_procres y) = Some 20 \<and> s_step y = st \<and> s_props y = [p]" by (simp add: x_def)
  moreover have "set f0 \<subseteq> set f1" by (auto simp: f1_def)
  ultimately show ?case using new by (intro exI [of _ "x @ new"]) (simp, blast)
qed simp

lemma hard_fold_covers:
  assumes "rfold (hard_step sh st) (s0, f0, i0) nd = Inr (s, f, i)"
    and "p \<in> set nd \<union> set (concat (map s_props s0))"
  shows "p \<in> set (concat (map s_props s)) \<or> p \<in> set (map snd f) \<or> (\<exists>j. code (hard_run sh j) = Some 10)"
proof -
  from hard_fold [OF assms(1)] obtain new where s: "s = s0 @ new"
    and new: "\<forall>p \<in> set nd. (\<exists>x \<in> set new. s_props x = [p]) \<or> p \<in> snd ` set f \<or> (\<exists>j. code (hard_run sh j) = Some 10)"
    by blast
  have "p \<in> set (concat (map s_props s))" if "x \<in> set new" "s_props x = [p]" for x
    using that by (auto simp: s intro!: bexI [of _ x])
  then show ?thesis using assms(2) new by (simp add: s) blast
qed


text \<open>A shell in which files are prepared and every engine run ends with the given code.\<close>

definition demo_shell :: "int \<Rightarrow> shell_env" where
  "demo_shell c command tmo mem =
     \<lparr>code = Some (if startswith command ''build/aig-manip'' then 0 else c), reason = ''OK'', max_mem = 1, dt = 2,
      stdout = Some [], stderr = None\<rparr>"

definition demo_cargs :: cargs where
  "demo_cargs = \<lparr>c_fresh = False, c_no_store = False, c_by_step = False, c_hard = True, c_no_run = False,
     c_check_complete = True, c_start = 0, c_missing = False, c_properties = []\<rparr>"

lemma demo_prepare: "prepare_aiger (demo_shell c) idx st ps = Inr (aiger_name idx, Suc idx)"
  by (simp add: prepare_aiger_def demo_shell_def startswith_def Let_def)


text \<open>
  Without \<open>--hard\<close>, exploration never succeeds: as soon as a property of the step is not proved yet, building the
  strategy ends with the \<open>RuntimeError\<close> of the race, whatever the engines would answer.
\<close>

theorem explore_needs_hard:
  assumes "\<not> c_hard args" and "load_strategy args files st = Inr old"
    and "missing_from list_of_set (case old of None \<Rightarrow> [] | Some ss \<Rightarrow> ss) ps \<noteq> []"
    and "[] \<notin> set ps" and "\<And>xs. set (list_of_set xs) = set xs"
    and "\<forall>idx st ps. is_ok (prepare_aiger sh idx st ps)"
  shows "construct_strategy args list_of_set writable sh files idx st ps
    = Inl (RuntimeError ''coroutine is being awaited already'')"
proof -
  define nd where "nd = missing_from list_of_set (case old of None \<Rightarrow> [] | Some ss \<Rightarrow> ss) ps"
  have "nd \<noteq> []" using assms(3) by (simp add: nd_def)
  have "[] \<notin> set nd" using assms(4,5) by (auto simp: nd_def missing_from_def Let_def)
  from split_by_prefixes_ok [OF this] obtain ts where ts: "split_by_prefixes nd = Inr ts" "mset (find_all ts) = mset nd"
    by blast
  then have "find_all ts \<noteq> []" using \<open>nd \<noteq> []\<close> by (metis mset_zero_iff)
  from build_strategy_rec_easy_fails [OF assms(6) _ this, of False] show ?thesis
    using \<open>nd \<noteq> []\<close> ts(1) assms(1)
    unfolding construct_strategy_def assms(2) rbind_simps Let_def nd_def [symmetric] by simp
qed

theorem explore_needs_hard_witness:
  "construct_strategy (demo_cargs\<lparr>c_hard := False\<rparr>) remdups True (demo_shell 20) (\<lambda>_. NoFile) 0 3 [''A'']
     = Inl (RuntimeError ''coroutine is being awaited already'')"
  by (rule explore_needs_hard [where old = None])
    (simp_all add: demo_cargs_def load_strategy_def missing_from_def demo_prepare)

text \<open>A strategy is confirmed when the engine, run on a file prepared for its properties, answered UNSAT.\<close>

definition run_result :: "shell_env \<Rightarrow> Strategy \<Rightarrow> ProcessResult \<Rightarrow> bool" where
  "run_result sh s r = (\<exists>conf i. run_config s = Inr conf \<and> is_ok (prepare_aiger sh i (s_step s) (s_props s))
     \<and> r = sh (conf @ '' '' @ aiger_name i) None (max_mem (s_procres s) * 11 / 10))"

lemma prepare_aiger_cases: "prepare_aiger sh idx st ps = Inr (aiger_name idx, Suc idx) \<or> prepare_aiger sh idx st ps = Inl (AssertionError [])"
  by (simp add: prepare_aiger_def Let_def)

lemma run_steps_results:
  assumes "rfold (run_one_step sh) (rs0, i0) (zip confs ss) = Inr (rs, i)" "list_all2 (\<lambda>s c. run_config s = Inr c) ss confs"
  shows "\<exists>new. rs = rs0 @ new \<and> list_all2 (run_result sh) ss new"
  using assms(2,1)
proof (induction arbitrary: rs0 i0 rule: list_all2_induct)
  case (Cons s ss c confs)
  let ?r = "sh (c @ '' '' @ aiger_name i0) None (max_mem (s_procres s) * 11 / 10)"
  have p: "prepare_aiger sh i0 (s_step s) (s_props s) = Inr (aiger_name i0, Suc i0)"
    using prepare_aiger_cases [of sh i0 "s_step s" "s_props s"] Cons.prems by (auto simp: run_one_step_def prove_def)
  then have "rfold (run_one_step sh) (rs0 @ [?r], Suc i0) (zip confs ss) = Inr (rs, i)"
    using Cons.prems by (simp add: run_one_step_def [of sh "(rs0, i0)" "(c, s)"] prove_def)
  from Cons.IH [OF this] obtain new where "rs = rs0 @ ?r # new" "list_all2 (run_result sh) ss new" by auto
  moreover have "run_result sh s ?r" using Cons.hyps(1) p unfolding run_result_def is_ok_iff by blast
  ultimately show ?case by (intro exI [of _ "?r # new"]) simp
qed simp

lemma run_strategy_results:
  assumes "run_strategy sh idx ss = Inr (results, ss', idx')"
  shows "set (map snd results) = set ss \<and> (\<forall>(r, s) \<in> set results. run_result sh s r)"
proof -
  define st where "st = sort_key (\<lambda>s. - dt (s_procres s)) ss"
  obtain confs rs where c: "rmap run_config st = Inr confs" and f: "rfold (run_one_step sh) ([], idx) (zip confs st) = Inr (rs, idx')"
    and res: "results = zip rs st"
    using assms by (auto simp: run_strategy_def st_def [symmetric] rbind_Inr_iff Let_def)
  from run_steps_results [OF f c [unfolded rmap_Inr_iff]] have l: "list_all2 (run_result sh) st rs" by simp
  then have "length rs = length st" by (simp add: list_all2_lengthD)
  moreover have "\<forall>(r, s) \<in> set results. run_result sh s r"
    using l by (auto simp: res list_all2_conv_all_nth in_set_zip)
  ultimately show ?thesis by (simp add: res st_def)
qed

lemma prove_steps_loaded:
  assumes "\<not> c_by_step args"
  shows "prove_steps args sh files idx acc st by_step = Inr (all, idx') \<Longrightarrow> s \<in> set all \<Longrightarrow>
    s \<in> set acc \<or> (\<exists>k ss. st \<le> k \<and> c_start args \<le> int k \<and> load_strategy args files k = Inr (Some ss) \<and> s \<in> set ss)"
proof (induction by_step arbitrary: idx acc st)
  case (Cons ps by_step)
  have step: ?case if "prove_steps args sh files idx acc' (Suc st) by_step = Inr (all, idx')"
      "set acc' \<subseteq> set acc \<or> (\<exists>ss. load_strategy args files st = Inr (Some ss) \<and> acc' = acc @ ss \<and> c_start args \<le> int st)" for acc'
  proof -
    from Cons.IH [OF that(1) Cons.prems(2)] consider "s \<in> set acc'"
      | k ss where "Suc st \<le> k" "c_start args \<le> int k" "load_strategy args files k = Inr (Some ss)" "s \<in> set ss" by blast
    then show ?thesis
    proof cases
      case 1
      with that(2) show ?thesis by auto
    next
      case 2
      then show ?thesis using Suc_leD by blast
    qed
  qed
  show ?case
  proof (cases "int st < c_start args")
    case True
    with Cons.prems(1) show ?thesis by (intro step [of acc]) simp_all
  next
    case False
    obtain loaded where l: "load_strategy args files st = Inr loaded"
      using Cons.prems(1) False by (auto simp: rbind_Inr_iff)
    show ?thesis
    proof (cases "loaded = None \<or> loaded = Some []")
      case True
      with Cons.prems(1) False l show ?thesis by (intro step [of acc]) auto
    next
      case nonempty: False
      then obtain x xs where "loaded = Some (x # xs)" by (metis neq_Nil_conv option.exhaust)
      with Cons.prems(1) False l assms show ?thesis by (intro step [of "acc @ x # xs"]) auto
    qed
  qed
qed simp

text \<open>
  C3. Proof mode is sound: when a run with \<open>--check-complete\<close> and without \<open>--by-step\<close> ends normally, every selected
  property belongs to a strategy stored for a step that was not skipped, and the engine, run with that
  strategy's configuration on a file prepared for exactly its properties, answered UNSAT.
\<close>

theorem prove_mode_sound:
  assumes "prove_mode args sh files all_props by_step = Inr ()" "c_check_complete args" "\<not> c_by_step args"
    and "(st, p) \<in> set all_props"
  shows "\<exists>k ss s r. c_start args \<le> int k \<and> load_strategy args files k = Inr (Some ss) \<and> s \<in> set ss \<and> p \<in> set (s_props s)
    \<and> run_result sh s r \<and> code r = Some 20"
proof -
  obtain all idx where ps: "prove_steps args sh files 0 [] 0 by_step = Inr (all, idx)"
    using assms(1) by (auto simp: prove_mode_def rbind_Inr_iff)
  have "\<not> (c_check_complete args \<and> filter (\<lambda>p. p \<notin> set (concat (map s_props all))) (map snd all_props) \<noteq> [])"
    using assms(1) by (auto simp: prove_mode_def ps Let_def split: if_splits)
  with assms(2,4) have "p \<in> set (concat (map s_props all))" by (force simp: filter_empty_conv)
  then obtain s where s: "s \<in> set all" "p \<in> set (s_props s)" by auto
  obtain results ss' idx' where run: "run_strategy sh idx all = Inr (results, ss', idx')"
    and ok: "\<not> list_ex (\<lambda>(r, s). code r \<noteq> Some 20) results"
    using assms(1,3) by (auto simp: prove_mode_def ps Let_def rbind_Inr_iff split: if_splits)
  note r = run_strategy_results [OF run]
  with s(1) obtain r' where "(r', s) \<in> set results" by force
  with r ok have "run_result sh s r'" "code r' = Some 20" by (auto simp: list_ex_iff)
  with prove_steps_loaded [OF assms(3) ps s(1)] s(2) show ?thesis by auto
qed

definition demo_strategy :: Strategy where
  "demo_strategy = \<lparr>s_step = 0, s_props = [''A''], s_config = ''rIC3'',
     s_procres = \<lparr>code = Some 20, reason = ''OK'', max_mem = 1, dt = 2, stdout = None, stderr = None\<rparr>\<rparr>"

definition demo_store :: "nat \<Rightarrow> stored" where
  "demo_store = (\<lambda>_. NoFile)(0 := Stored [encode_strategy demo_strategy])"

lemma demo_strategy_props [simp]: "s_props demo_strategy = [''A'']"
  by (simp add: demo_strategy_def)

lemma demo_prove_steps:
  "\<not> c_by_step args \<Longrightarrow> \<not> c_fresh args \<Longrightarrow> c_start args = 0 \<Longrightarrow>
   prove_steps args sh demo_store 0 [] 0 [[''A'']] = Inr ([demo_strategy], 0)"
  by (simp add: load_strategy_def demo_store_def decode_encode)

lemma demo_run: "run_strategy (demo_shell c) i [demo_strategy] =
    Inr ([(demo_shell c (''rIC3 '' @ aiger_name i) None (11 / 10), demo_strategy)], [demo_strategy], Suc i)"
  by (simp add: run_strategy_def run_config_def demo_strategy_def run_one_step_def prove_def demo_prepare)

lemma demo_engine_code: "code (demo_shell c (''rIC3 '' @ f) tmo mem) = Some c"
  by (simp add: demo_shell_def startswith_def)

theorem prove_mode_sound_witness:
  "prove_mode demo_cargs (demo_shell 20) demo_store [(0, ''A'')] [[''A'']] = Inr ()
   \<and> (\<exists>k ss s r. load_strategy demo_cargs demo_store k = Inr (Some ss) \<and> s \<in> set ss \<and> ''A'' \<in> set (s_props s)
       \<and> run_result (demo_shell 20) s r \<and> code r = Some 20)"
proof -
  have "prove_steps demo_cargs (demo_shell 20) demo_store 0 [] 0 [[''A'']] = Inr ([demo_strategy], 0)"
    by (rule demo_prove_steps) (simp_all add: demo_cargs_def)
  then have p: "prove_mode demo_cargs (demo_shell 20) demo_store [(0, ''A'')] [[''A'']] = Inr ()"
    using demo_engine_code [of 20] by (simp add: prove_mode_def demo_run demo_cargs_def del: prove_steps.simps)
  have "c_check_complete demo_cargs" "\<not> c_by_step demo_cargs" by (simp_all add: demo_cargs_def)
  from prove_mode_sound [OF p this, of 0 "''A''"] p show ?thesis by auto
qed

text \<open>With \<open>--by-step\<close> only the preparation of the files is looked at.\<close>

lemma run_steps_index:
  assumes "prepare_aiger sh = prepare_aiger sh'"
  shows "rbind (rfold (run_one_step sh) (rs, i) xs) (\<lambda>(_, i). Inr i) = rbind (rfold (run_one_step sh') (rs', i) xs) (\<lambda>(_, i). Inr i)"
proof (induction xs arbitrary: rs rs' i)
  case (Cons x xs)
  obtain c s where x: "x = (c, s)" by (cases x)
  show ?case
    using Cons.IH by (cases "prepare_aiger sh' i (s_step s) (s_props s)")
      (auto simp: x run_one_step_def [of _ "(_, _)" "(c, s)"] prove_def assms split: prod.splits)
qed simp

lemma run_strategy_index:
  assumes "prepare_aiger sh = prepare_aiger sh'"
  shows "rbind (run_strategy sh i ss) (\<lambda>(_, ss, i). Inr (ss, i)) = rbind (run_strategy sh' i ss) (\<lambda>(_, ss, i). Inr (ss, i))"
proof -
  let ?st = "sort_key (\<lambda>s. - dt (s_procres s)) ss"
  have eq: "rbind (run_strategy e i ss) (\<lambda>(_, ss, i). Inr (ss, i)) = rbind (rmap run_config ?st) (\<lambda>confs.
      rbind (rbind (rfold (run_one_step e) ([], i) (zip confs ?st)) (\<lambda>(_, i). Inr i)) (\<lambda>i. Inr (?st, i)))" for e
    by (auto simp: run_strategy_def rbind_assoc Let_def case_prod_beta intro!: arg_cong [where f = "rbind _"])
  show ?thesis unfolding eq run_steps_index [OF assms, of "[]" i _ "[]"] ..
qed

lemma prove_steps_by_step:
  assumes "prepare_aiger sh = prepare_aiger sh'" "c_by_step args"
  shows "prove_steps args sh files idx acc st by_step = prove_steps args sh' files idx acc st by_step"
proof (induction by_step arbitrary: idx acc st)
  case (Cons ps by_step)
  show ?case
    using assms(2) by (simp add: Cons.IH run_strategy_index [OF assms(1), simplified])
qed simp

text \<open>
  With \<open>--by-step\<close> the verdict says nothing about the proofs: for any two behaviours of the engines, as long as the
  files are prepared alike, proof mode ends in the same way, so a counterexample or a timeout in a step does
  not make the program fail.
\<close>

theorem prove_by_step_blind:
  assumes "c_by_step args" and "prepare_aiger sh = prepare_aiger sh'"
  shows "prove_mode args sh files all_props by_step = prove_mode args sh' files all_props by_step"
  using assms(1) unfolding prove_mode_def prove_steps_by_step [OF assms(2,1)] by (simp cong: if_cong)

theorem prove_by_step_blind_witness:
  "prove_mode (demo_cargs\<lparr>c_by_step := True\<rparr>) (demo_shell 10) demo_store [(0, ''A'')] [[''A'']] = Inr ()"
proof -
  have "prove_mode (demo_cargs\<lparr>c_by_step := True\<rparr>) (demo_shell 20) demo_store [(0, ''A'')] [[''A'']] = Inr ()"
    by (simp add: prove_mode_def load_strategy_def demo_store_def decode_encode demo_cargs_def demo_run)
  moreover have "prepare_aiger (demo_shell 20) = prepare_aiger (demo_shell 10)"
    by (intro ext) (simp add: demo_prepare)
  ultimately show ?thesis
    using prove_by_step_blind [of "demo_cargs\<lparr>c_by_step := True\<rparr>" "demo_shell 20" "demo_shell 10"] by simp
qed

section \<open>Properties by step\<close>

lemma grow_map:
  assumes "\<And>k. L \<le> k \<Longrightarrow> f k = []"
  shows "grow n (map f [0..<L]) = map f [0..<max L (nat (n + 1))]"
proof -
  have len: "max L (nat (n + 1)) - L = nat (n + 1 - int L)" by arith
  have "map f [L..<max L (nat (n + 1))] = map (\<lambda>_. []) [L..<max L (nat (n + 1))]" using assms by simp
  also have "\<dots> = replicate (nat (n + 1 - int L)) []" by (simp add: map_replicate_const len)
  finally have "map f [L..<max L (nat (n + 1))] = replicate (nat (n + 1 - int L)) []" .
  moreover have "[0..<max L (nat (n + 1))] = [0..<L] @ [L..<max L (nat (n + 1))]" 
    using upt_add_eq_append [of 0 L "max L (nat (n + 1)) - L"] by simp
  ultimately show ?thesis by (simp add: grow_def)
qed

definition step_names :: "(int \<times> string) list \<Rightarrow> nat \<Rightarrow> string list" where
  "step_names names k = map snd (filter (\<lambda>sn. fst sn = int k) names)"

lemma group_names:
  "\<forall>sn \<in> set names. 0 \<le> fst sn \<Longrightarrow> \<exists>L. rfold group_name [] names = Inr (map (step_names names) [0..<L])
     \<and> (\<forall>sn \<in> set names. fst sn < int L) \<and> (L = 0 \<or> (\<exists>sn \<in> set names. int L = fst sn + 1))"
proof (induction names rule: rev_induct)
  case (snoc sn names)
  then obtain L where L: "rfold group_name [] names = Inr (map (step_names names) [0..<L])"
    "\<forall>sn \<in> set names. fst sn < int L" "L = 0 \<or> (\<exists>sn \<in> set names. int L = fst sn + 1)" by auto
  obtain st name where sn: "sn = (st, name)" "0 \<le> st" using snoc.prems by (cases sn) auto
  let ?L = "max L (nat (st + 1))"
  have "step_names names k = []" if "L \<le> k" for k
    using L(2) that by (auto simp: step_names_def filter_empty_conv)
  then have g: "grow st (map (step_names names) [0..<L]) = map (step_names names) [0..<?L]" by (rule grow_map)
  have "(map (step_names names) [0..<?L])[nat st := step_names names (nat st) @ [name]]
      = map (step_names (names @ [sn])) [0..<?L]"
  proof (rule nth_equalityI)
    fix k assume "k < length ((map (step_names names) [0..<?L])[nat st := step_names names (nat st) @ [name]])"
    then have k: "k < ?L" by simp
    then show "(map (step_names names) [0..<?L])[nat st := step_names names (nat st) @ [name]] ! k
        = map (step_names (names @ [sn])) [0..<?L] ! k"
      using sn by (cases "k = nat st") (auto simp: step_names_def)
  qed simp
  then have "rfold group_name [] (names @ [sn]) = Inr (map (step_names (names @ [sn])) [0..<?L])"
    using sn by (simp add: rfold_append L(1) group_name_def g Let_def)
  moreover have "\<forall>x \<in> set (names @ [sn]). fst x < int ?L" using L(2) sn by auto
  moreover have "?L = 0 \<or> (\<exists>x \<in> set (names @ [sn]). int ?L = fst x + 1)" using L(3) sn by (auto simp: max_def)
  ultimately show ?case by blast
qed simp

text \<open>
  The properties are grouped by step: when all steps lie between 0 and the given maximum, \<open>group_by_step\<close> returns
  one list for every step up to it, with exactly the names of that step in their order.
\<close>

theorem group_by_step_correct:
  assumes "\<forall>sn \<in> set names. 0 \<le> fst sn \<and> fst sn \<le> m"
  shows "group_by_step names (Some m) = Inr (map (\<lambda>k. map snd (filter (\<lambda>sn. fst sn = int k) names)) [0..<nat (m + 1)])"
proof -
  obtain L where L: "rfold group_name [] names = Inr (map (step_names names) [0..<L])"
    "\<forall>sn \<in> set names. fst sn < int L" "L = 0 \<or> (\<exists>sn \<in> set names. int L = fst sn + 1)"
    using group_names assms by blast
  have "step_names names k = []" if "L \<le> k" for k
    using L(2) that by (auto simp: step_names_def filter_empty_conv)
  then have "grow m (map (step_names names) [0..<L]) = map (step_names names) [0..<max L (nat (m + 1))]" by (rule grow_map)
  moreover have "max L (nat (m + 1)) = nat (m + 1)" using L(3) assms by (auto simp: max_def)
  ultimately show ?thesis by (simp add: group_by_step_def L(1)) (simp add: step_names_def)
qed

theorem group_by_step_correct_witness:
  "group_by_step [(1, ''a''), (0, ''b''), (1, ''c'')] (Some 2) = Inr [[''b''], [''a'', ''c''], []]"
  using group_by_step_correct [of "[(1, ''a''), (0, ''b''), (1, ''c'')]" 2] by (simp add: upt_rec)

end
