(* ===== verification/Py_Floats.thy ===== *)
theory Py_Floats
  imports Py_Data Complex_Main
begin

text \<open>
  Numbers with a fraction. The programs compute with floats; the models compute with rational numbers, so results
  agree up to the rounding of the floating-point operations. Texts of numbers are read without exponents.
\<close>

section \<open>Numbers\<close>

text \<open>\<open>int(x)\<close>, and \<open>f'{x:.nf}'\<close> with ties to even.\<close>

definition trunc :: "rat \<Rightarrow> int" where
  "trunc q = (if q < 0 then - \<lfloor>- q\<rfloor> else \<lfloor>q\<rfloor>)"

definition round_even :: "rat \<Rightarrow> int" where
  "round_even q = (let f = \<lfloor>q\<rfloor>; d = q - of_int f in
     if d < 1 / 2 then f else if d > 1 / 2 then f + 1 else if even f then f else f + 1)"

definition fixed :: "nat \<Rightarrow> rat \<Rightarrow> string" where
  "fixed n q = (let k = round_even (\<bar>q\<bar> * 10 ^ n); s = zfill (n + 1) (nat_str (nat k)) in
     (if q < 0 then ''-'' else []) @ take (length s - n) s @ (if n = 0 then [] else ''.'' @ drop (length s - n) s))"

text \<open>\<open>float(s)\<close>: digits, possibly with a point, of which one side may be empty; surrounding white space and a sign.\<close>

definition read_decimal :: "string \<Rightarrow> rat res" where
  "read_decimal s = (case split_once (CHR ''.'') s of
     [a, b] \<Rightarrow> if a @ b \<noteq> [] \<and> list_all is_digit (a @ b)
       then rbind (py_int 10 (a @ b)) (\<lambda>n. Inr (of_int n / 10 ^ length b))
       else Inl (ValueError (''could not convert string to float: '' @ repr_str s))
   | _ \<Rightarrow> if s \<noteq> [] \<and> list_all is_digit s then rbind (py_int 10 s) (\<lambda>n. Inr (of_int n))
       else Inl (ValueError (''could not convert string to float: '' @ repr_str s)))"

definition read_float :: "string \<Rightarrow> rat res" where
  "read_float s = (let t = strip s in
     if prefix ''-'' t then rbind (read_decimal (tl t)) (\<lambda>q. Inr (- q))
     else if prefix ''+'' t then read_decimal (tl t) else read_decimal t)"

end
