(* ===== verification/Conductor_Log.thy ===== *)
theory Conductor_Log
  imports Proof_Strategy Py_Floats
begin

text \<open>
  What \<open>dv/formal/conductor.py\<close> writes about a finished proof: \<open>proof_done\<close> with the log functions it uses. The state is the
  standard output and the two log files; the time of a line is an argument, and so is \<open>dump\<close>, the line of JSON that
  \<open>json.dump\<close> writes for an entry of the proof log.
\<close>

section \<open>Log lines\<close>

datatype colour = Plain | Green | Red | White | Orange | Gray

definition esc :: string where "esc = [CHR 27]"

definition coloured :: "colour \<Rightarrow> string \<Rightarrow> string" where
  "coloured c s = (case c of
     Plain \<Rightarrow> s
   | Green \<Rightarrow> esc @ ''[32;1m'' @ s @ esc @ ''[0m''
   | Red \<Rightarrow> esc @ ''[31;1m'' @ s @ esc @ ''[0m''
   | White \<Rightarrow> esc @ ''[1m'' @ s @ esc @ ''[0m''
   | Orange \<Rightarrow> esc @ ''[33;1m'' @ s @ esc @ ''[0m''
   | Gray \<Rightarrow> esc @ ''[90m'' @ s @ esc @ ''[0m'')"

record log_state =
  lg_out :: string
  lg_logfile :: string
  lg_prooflog :: string

definition write_logfile :: "bool \<Rightarrow> string \<Rightarrow> log_state \<Rightarrow> log_state" where
  "write_logfile no_log s st = (if no_log then st else st\<lparr>lg_logfile := lg_logfile st @ s @ nl\<rparr>)"

definition log_line :: "bool \<Rightarrow> string \<Rightarrow> colour \<times> string \<Rightarrow> log_state \<Rightarrow> log_state" where
  "log_line no_log timestr = (\<lambda>(c, s) st.
     write_logfile no_log (timestr @ '' '' @ s) (st\<lparr>lg_out := lg_out st @ coloured Gray timestr @ '' '' @ coloured c s @ nl\<rparr>))"

section \<open>proof\_done\<close>

record proof_entry =
  pe_time :: rat
  pe_props :: "string list"
  pe_step :: int
  pe_hash :: string
  pe_engine :: string
  pe_result :: ProcessResult

definition in_time :: "ProcessResult \<Rightarrow> string" where
  "in_time r = fixed 3 (dt r) @ ''s with '' @ fixed 3 (max_mem r) @ ''GB''"

definition bar_line :: string where "bar_line = replicate 122 (CHR ''='')"

definition cex_lines :: "string \<Rightarrow> string \<Rightarrow> int \<Rightarrow> string list \<Rightarrow> ProcessResult \<Rightarrow> (colour \<times> string) list" where
  "cex_lines engine_config path st ps r =
     [(Red, bar_line), (Red, bar_line), (Red, bar_line),
      (Red, ''       ==================== SAT: CEX in step '' @ int_str st @ '', discovered in '' @ in_time r @ '' ==================''),
      (Red, bar_line), (Red, bar_line), (Red, bar_line),
      (Red, ''One of these properties in step '' @ int_str st @ '' is not valid: '' @ py_join '' '' ps),
      (Plain, ''To recover a witness run the following:''),
      (Plain, ''    '' @ engine_config @ '' '' @ path @ '' --witness | tail -n +2 > witness.aiw''),
      (Plain, ''Or the following:''),
      (Plain, ''    rIC3 -e bmc --no-preproc '' @ path @ '' --witness | tail -n +2 > witness.aiw''),
      (Plain, ''Or, to compare against another engine:''),
      (Plain, ''    python3 smt2manip.py build/all.smt2 sel.smt2 '' @ int_str st @ '' '' @ py_join '' '' ps),
      (Plain, ''    yosys-smtbmc -s yices sel.smt2''),
      (Plain, ''Then to view the trace:''),
      (Plain, ''    build/aig-manip build/all.aig simulate build/all.ywmap build/all.vmap witness.aiw trace.vcd''),
      (Plain, ''    gtkwave trace.vcd'')]"

definition proof_done_lines :: "string \<Rightarrow> string \<Rightarrow> int \<Rightarrow> string list \<Rightarrow> ProcessResult \<Rightarrow> (colour \<times> string) list" where
  "proof_done_lines engine_config path st ps r =
     (let n = nat_str (length ps); failed = ''Failed to prove '' @ n @ '' properties in step '' @ int_str st @ '' ('' @ in_time r @ '')''
      in case code r of
           None \<Rightarrow> [(Red, ''TIMEOUT: '' @ failed)]
         | Some c \<Rightarrow>
             if c = 20 then [(Green, ''UNSAT: '' @ n @ '' properties in step '' @ int_str st @ '' proven in '' @ in_time r)]
             else if c = 10 then cex_lines engine_config path st ps r
             else if c = 30 then [(Orange, ''UNDETERMINED: Failed to find a CEX or proof for '' @ n @ '' properties in step '' @ int_str st
                    @ '' ('' @ in_time r @ '')'')]
             else if c = - 9 then [(Red, ''KILLED by OS: '' @ failed)]
             else [(Red, ''Unknown Exit Code '' @ int_str c @ '': '' @ failed)])"

definition proof_done ::
  "bool \<Rightarrow> (proof_entry \<Rightarrow> string) \<Rightarrow> rat \<Rightarrow> string \<Rightarrow> string \<Rightarrow> string \<Rightarrow> string \<Rightarrow> int \<Rightarrow> string list \<Rightarrow> ProcessResult \<Rightarrow> log_state \<Rightarrow> log_state" where
  "proof_done no_log dump tm timestr root_hash engine_config path st ps r s =
     (let entry = \<lparr>pe_time = tm, pe_props = ps, pe_step = st, pe_hash = root_hash, pe_engine = engine_config, pe_result = r\<rparr>;
          s = (if no_log then s else s\<lparr>lg_prooflog := lg_prooflog s @ dump entry @ nl\<rparr>)
      in fold (log_line no_log timestr) (proof_done_lines engine_config path st ps r) s)"

section \<open>The verdict in the log\<close>

text \<open>A proof is reported in green exactly for exit code 20, which is also what the modes accept as proven.\<close>

lemma proof_done_green: "Green \<in> fst ` set (proof_done_lines engine_config path st ps r) \<longleftrightarrow> code r = Some 20"
  by (auto simp: proof_done_lines_def cex_lines_def Let_def split: option.splits)

text \<open>The log file holds the lines without colours, the standard output those with; the proof log gets one line per proof.\<close>

lemma log_lines:
  "fold (log_line no_log t) ls s = s\<lparr>lg_out := lg_out s @ concat (map (\<lambda>(c, l). coloured Gray t @ '' '' @ coloured c l @ nl) ls),
     lg_logfile := lg_logfile s @ (if no_log then [] else concat (map (\<lambda>(c, l). t @ '' '' @ l @ nl) ls))\<rparr>"
  by (induction ls arbitrary: s) (auto simp: log_line_def write_logfile_def)

lemma proof_done_log:
  "lg_prooflog (proof_done no_log dump tm t h e p st ps r s) = lg_prooflog s @ (if no_log then [] else
     dump \<lparr>pe_time = tm, pe_props = ps, pe_step = st, pe_hash = h, pe_engine = e, pe_result = r\<rparr> @ nl)"
  "lg_logfile (proof_done no_log dump tm t h e p st ps r s) = lg_logfile s @
     (if no_log then [] else concat (map (\<lambda>(c, l). t @ '' '' @ l @ nl) (proof_done_lines e p st ps r)))"
  by (simp_all add: proof_done_def Let_def log_lines)

end
