(* ===== verification/Smt2_Select.thy ===== *)
theory Smt2_Select
  imports Py_Regex
begin

text \<open>
  \<open>dv/formal/smt2manip.py\<close>: the selection of properties in an SMT file written by Yosys. The assertions of earlier
  steps become assumptions, those of later steps and covers are dropped. The text is split into lines and joined
  again; printing is not modelled.
\<close>

section \<open>smt2manip.py\<close>

definition not_blank :: "char \<Rightarrow> bool" where "not_blank c = (c \<noteq> CHR '' '')"

text \<open>\<open>; yosys-smt2-assert ([0-9]+) ([^ ]+)\<close> and \<open>  \(\|top_a ([0-9]+)\| state\)\<close>.\<close>

definition assert_rx :: rx where
  "assert_rx = rseq [rstr ''; yosys-smt2-assert '', RGroup 1 (rplus (RSet is_digit)), rlit (CHR '' ''), RGroup 2 (rplus (RSet not_blank))]"

definition top_a_rx :: rx where
  "top_a_rx = rseq [rstr ''  (|top_a '', RGroup 1 (rplus (RSet is_digit)), rstr ''| state)'']"

definition define_u :: string where
  "define_u = ''(define-fun |top_u| ((state |top_s|)) Bool (and''"

definition assume_line :: "string \<Rightarrow> string" where
  "assume_line i = ''  (|top_a '' @ i @ ''| state)''"

text \<open>The step and the name of a property, from the second group of the comment.\<close>

definition smt2_name :: "string \<Rightarrow> (int \<times> string) res" where
  "smt2_name raw =
     (let name = hd (split_char (CHR ''$'') (drop 6 raw)) in
      rbind (assert_py (startswith name ''Step'') []) (\<lambda>_.
        case split_once (CHR ''_'') name of
          [st, rest] \<Rightarrow> rbind (py_int 10 (drop 4 st)) (\<lambda>n. Inr (n, rest))
        | _ \<Rightarrow> Inl (ValueError ''not enough values to unpack (expected 2, got 1)'')))"

datatype role = Delete | Assume | Keep

definition smt2_role :: "int \<Rightarrow> string list \<Rightarrow> int \<times> string \<Rightarrow> role" where
  "smt2_role cur ps sn = (case sn of (st, name) \<Rightarrow>
     if endswith name ''_Cover'' \<or> st > cur \<or> st = cur \<and> length ps > 0 \<and> name \<notin> set ps then Delete
     else if st < cur then Assume else Keep)"

record smt2_state =
  mapped :: "string list"
  to_assume :: "string list"
  to_delete :: "string list"

definition smt2_line :: "int \<Rightarrow> string list \<Rightarrow> smt2_state \<Rightarrow> string \<Rightarrow> smt2_state res" where
  "smt2_line cur ps s line = (case re_match assert_rx line of
     Some m \<Rightarrow>
       rbind (smt2_name (group_str m 2)) (\<lambda>sn.
         let s = s\<lparr>mapped := mapped s @ [line]\<rparr> in
         case smt2_role cur ps sn of
           Delete \<Rightarrow> Inr (s\<lparr>to_delete := to_delete s @ [group_str m 1]\<rparr>)
         | Assume \<Rightarrow> Inr (s\<lparr>to_assume := to_assume s @ [group_str m 1]\<rparr>)
         | Keep \<Rightarrow> Inr s)
   | None \<Rightarrow>
       (case re_match top_a_rx line of
          Some m \<Rightarrow>
            if group_str m 1 \<in> set (to_assume s) \<or> group_str m 1 \<in> set (to_delete s) then Inr s
            else Inr (s\<lparr>mapped := mapped s @ [line]\<rparr>)
        | None \<Rightarrow>
            if line = define_u then Inr (s\<lparr>mapped := mapped s @ [line] @ map assume_line (to_assume s)\<rparr>)
            else Inr (s\<lparr>mapped := mapped s @ [line]\<rparr>)))"

definition smt2_init :: smt2_state where
  "smt2_init = \<lparr>mapped = [], to_assume = [], to_delete = []\<rparr>"

definition smt2_lines :: "int \<Rightarrow> string list \<Rightarrow> string list \<Rightarrow> string list res" where
  "smt2_lines cur ps ls = rbind (rfold (smt2_line cur ps) smt2_init ls) (\<lambda>s. Inr (mapped s))"

definition smt2manip :: "int \<Rightarrow> string list \<Rightarrow> string \<Rightarrow> string res" where
  "smt2manip cur ps smt2 = rbind (smt2_lines cur ps (split_char newline smt2)) (\<lambda>ls. Inr (py_join nl ls))"

section \<open>Selection\<close>

text \<open>What the comments declare: identifier, step and name of every assertion.\<close>

definition declared :: "string \<Rightarrow> (string \<times> int \<times> string) res" where
  "declared line = (case re_match assert_rx line of
     None \<Rightarrow> Inl (ValueError line)
   | Some m \<Rightarrow> rbind (smt2_name (group_str m 2)) (\<lambda>sn. Inr (group_str m 1, sn)))"

definition ids_with :: "role \<Rightarrow> int \<Rightarrow> string list \<Rightarrow> (string \<times> int \<times> string) list \<Rightarrow> string list" where
  "ids_with r cur ps ds = map fst (filter (\<lambda>d. smt2_role cur ps (snd d) = r) ds)"

text \<open>The rest of the file, line by line.\<close>

definition select_line :: "string list \<Rightarrow> string list \<Rightarrow> string \<Rightarrow> string list" where
  "select_line assumed deleted line = (case re_match top_a_rx line of
     Some m \<Rightarrow> if group_str m 1 \<in> set assumed \<union> set deleted then [] else [line]
   | None \<Rightarrow> if line = define_u then line # map assume_line assumed else [line])"

lemma comments_fold:
  assumes "rmap declared comments = Inr ds"
  shows "rfold (smt2_line cur ps) s comments = Inr (s\<lparr>mapped := mapped s @ comments,
     to_assume := to_assume s @ ids_with Assume cur ps ds, to_delete := to_delete s @ ids_with Delete cur ps ds\<rparr>)"
  using assms
proof (induction comments arbitrary: ds s)
  case (Cons c cs)
  then obtain d ds' where ds: "declared c = Inr d" "rmap declared cs = Inr ds'" "ds = d # ds'"
    by (auto simp: rbind_Inr_iff)
  then obtain m sn where m: "re_match assert_rx c = Some m" "smt2_name (group_str m 2) = Inr sn" "d = (group_str m 1, sn)"
    by (auto simp: declared_def rbind_Inr_iff split: option.splits)
  show ?case
    by (cases "smt2_role cur ps sn") (simp_all add: smt2_line_def [of cur ps s c] m(1,2) Cons.IH [OF ds(2)] ds(3) m(3) ids_with_def)
qed (simp add: ids_with_def)

lemma body_fold:
  assumes "\<forall>l \<in> set body. re_match assert_rx l = None"
  shows "rfold (smt2_line cur ps) s body =
    Inr (s\<lparr>mapped := mapped s @ concat (map (select_line (to_assume s) (to_delete s)) body)\<rparr>)"
  using assms
proof (induction body arbitrary: s)
  case (Cons l body)
  then show ?case
    by (auto simp: smt2_line_def [of cur ps s l] select_line_def [of "to_assume s" "to_delete s" l] split: option.splits)
qed simp


definition demo_comments :: "string list" where
  "demo_comments = [''; yosys-smt2-assert 0 check_Step0_A$x'', ''; yosys-smt2-assert 1 check_Step1_B$x'']"


end
