(* ===== verification/Ibex_Config.thy ===== *)
theory Ibex_Config
  imports Py_Shlex
begin

text \<open>
  The configuration reader \<open>util/ibex_config.py\<close>: the \<open>Config\<close> and \<open>Configs\<close> classes with their
  validation, the outputters for FuseSoC and the simulators, \<open>parse_config\<close> and \<open>main\<close>. The YAML
  library is a parameter (\<open>yaml_load\<close>, which returns either the text of a \<open>YAMLError\<close> or a value),
  and so is the file system (\<open>open_file\<close>). A YAML mapping is a list of key/value pairs with distinct
  keys. Sets are shown in the order of the file; Python shows them in hash order.
\<close>

section \<open>Class Config\<close>

datatype fld_type = TBool | TStr | TInt

definition known_fields :: "(string \<times> fld_type) list" where
  "known_fields = [
     (''RV32E'', TBool),
     (''RV32M'', TStr),
     (''RV32B'', TStr),
     (''RV32ZC'', TStr),
     (''RegFile'', TStr),
     (''BranchTargetALU'', TBool),
     (''WritebackStage'', TBool),
     (''ICache'', TBool),
     (''ICacheECC'', TBool),
     (''ICacheScramble'', TBool),
     (''BranchPredictor'', TBool),
     (''DbgTriggerEn'', TBool),
     (''SecureIbex'', TBool),
     (''PMPEnable'', TBool),
     (''PMPGranularity'', TInt),
     (''PMPNumRegions'', TInt),
     (''MHPMCounterNum'', TInt),
     (''MHPMCounterWidth'', TInt)]"

type_synonym yaml_map = "(pyval \<times> pyval) list"

definition yget :: "yaml_map \<Rightarrow> string \<Rightarrow> pyval res" where
  "yget yml fld = (case map_of yml (PStr fld) of None \<Rightarrow> Inl (KeyError fld) | Some v \<Rightarrow> Inr v)"

definition read_bool :: "string \<Rightarrow> yaml_map \<Rightarrow> bool res" where
  "read_bool fld yml = rbind (yget yml fld) (\<lambda>val.
     case val of
       PBool b \<Rightarrow> Inr b
     | PInt i \<Rightarrow>
         if 0 \<le> i \<and> i \<le> 1 then Inr (i \<noteq> 0)
         else Inl (ValueError (fld @ '' value is '' @ int_str i @ '', which is out of range for a boolean type.''))
     | _ \<Rightarrow> Inl (ValueError (fld @ '' value is '' @ py_repr val @ '', but we expected a bool.'')))"

definition read_int :: "string \<Rightarrow> yaml_map \<Rightarrow> int res" where
  \<comment> \<open>a \<open>bool\<close> is an \<open>int\<close> and is returned as it is; its value as an integer is 0 or 1\<close>
  "read_int fld yml = rbind (yget yml fld) (\<lambda>val.
     case val of
       PInt i \<Rightarrow> Inr i
     | PBool b \<Rightarrow> Inr (if b then 1 else 0)
     | _ \<Rightarrow> Inl (ValueError (fld @ '' value is '' @ py_repr val @ '', but we expected an int.'')))"

definition read_str :: "string \<Rightarrow> yaml_map \<Rightarrow> string res" where
  "read_str fld yml = rbind (yget yml fld) (\<lambda>val.
     case val of
       PStr s \<Rightarrow> Inr s
     | _ \<Rightarrow> Inl (ValueError (fld @ '' value is '' @ py_repr val @ '', but we expected a string.'')))"

record Config =
  params :: yaml_map
  rv32e :: bool
  rv32m :: string
  rv32b :: string
  rv32zc :: string
  reg_file :: string
  branch_target_alu :: bool
  writeback_stage :: bool
  icache :: bool
  icache_ecc :: bool
  icache_scramble :: bool
  branch_predictor :: bool
  dbg_trigger_en :: bool
  secure_ibex :: bool
  pmp_enable :: bool
  pmp_granularity :: int
  pmp_num_regions :: int
  mhpm_counter_num :: int
  mhpm_counter_width :: int

definition set_str :: "pyval list \<Rightarrow> string" where
  "set_str xs = (if xs = [] then ''set()'' else ''{'' @ py_join '', '' (map py_repr xs) @ ''}'')"

definition Config_init :: "pyval \<Rightarrow> Config res" where
  "Config_init y = (case y of
     PDict yml \<Rightarrow>
      (let yaml_keys = map fst yml;
           known_keys = map (PStr \<circ> fst) known_fields;
           extra_keys = filter (\<lambda>k. k \<notin> set known_keys) yaml_keys;
           missing_keys = filter (\<lambda>k. k \<notin> set yaml_keys) known_keys
       in if extra_keys \<noteq> [] then
            Inl (ValueError (''Configuration object has unknown keys: '' @ set_str extra_keys))
          else if missing_keys \<noteq> [] then
            Inl (ValueError (''Configuration object has missing keys: '' @ set_str extra_keys))
          else
            rbind (read_bool ''RV32E'' yml) (\<lambda>rv32e.
            rbind (read_str ''RV32M'' yml) (\<lambda>rv32m.
            rbind (read_str ''RV32B'' yml) (\<lambda>rv32b.
            rbind (read_str ''RV32ZC'' yml) (\<lambda>rv32zc.
            rbind (read_str ''RegFile'' yml) (\<lambda>reg_file.
            rbind (read_bool ''BranchTargetALU'' yml) (\<lambda>branch_target_alu.
            rbind (read_bool ''WritebackStage'' yml) (\<lambda>writeback_stage.
            rbind (read_bool ''ICache'' yml) (\<lambda>icache.
            rbind (read_bool ''ICacheECC'' yml) (\<lambda>icache_ecc.
            rbind (read_bool ''ICacheScramble'' yml) (\<lambda>icache_scramble.
            rbind (read_bool ''BranchPredictor'' yml) (\<lambda>branch_predictor.
            rbind (read_bool ''DbgTriggerEn'' yml) (\<lambda>dbg_trigger_en.
            rbind (read_bool ''SecureIbex'' yml) (\<lambda>secure_ibex.
            rbind (read_bool ''PMPEnable'' yml) (\<lambda>pmp_enable.
            rbind (read_int ''PMPGranularity'' yml) (\<lambda>pmp_granularity.
            rbind (read_int ''PMPNumRegions'' yml) (\<lambda>pmp_num_regions.
            rbind (read_int ''MHPMCounterNum'' yml) (\<lambda>mhpm_counter_num.
            rbind (read_int ''MHPMCounterWidth'' yml) (\<lambda>mhpm_counter_width.
            Inr \<lparr>params = yml, rv32e = rv32e, rv32m = rv32m, rv32b = rv32b, rv32zc = rv32zc,
                 reg_file = reg_file, branch_target_alu = branch_target_alu,
                 writeback_stage = writeback_stage, icache = icache, icache_ecc = icache_ecc,
                 icache_scramble = icache_scramble, branch_predictor = branch_predictor,
                 dbg_trigger_en = dbg_trigger_en, secure_ibex = secure_ibex,
                 pmp_enable = pmp_enable, pmp_granularity = pmp_granularity,
                 pmp_num_regions = pmp_num_regions, mhpm_counter_num = mhpm_counter_num,
                 mhpm_counter_width = mhpm_counter_width\<rparr>)))))))))))))))))))
   | _ \<Rightarrow> Inl (ValueError ''Configuration object is not a dict''))"

section \<open>Class Configs\<close>

fun Configs_loop :: "yaml_map \<Rightarrow> (pyval \<times> Config) list \<Rightarrow> (pyval \<times> Config) list res" where
  "Configs_loop [] configs = Inr configs"
| "Configs_loop ((cfg_name, cfg_yaml) # yml) configs =
     rbind (except_value (Config_init cfg_yaml) (\<lambda>err.
              Inl (ValueError (''Error when reading '' @ py_repr cfg_name @ '' config: '' @ err))))
       (\<lambda>c. Configs_loop yml (AList.update cfg_name c configs))"

definition Configs_init :: "pyval \<Rightarrow> (pyval \<times> Config) list res" where
  "Configs_init y = (case y of
     PDict yml \<Rightarrow> Configs_loop yml []
   | _ \<Rightarrow> Inl (ValueError ''Configurations dictionary is not a dict''))"

section \<open>Outputters\<close>

record out_args =
  a_fields :: "string list"
  ins_hier_path :: string
  string_define_prefix :: string

record SimOpts =
  cmd_name :: string
  description :: string
  param_set_fn :: "string \<Rightarrow> string \<Rightarrow> string list"
  define_set_fn :: "string \<Rightarrow> string \<Rightarrow> string list"
  hierarchy_sep :: string

definition FusesocOpts_output :: "Config \<Rightarrow> string res" where
  "FusesocOpts_output config =
     rbind (rmap (\<lambda>(fld, typ). rbind (yget (params config) fld) (\<lambda>val.
              Inr (shlex_quote (''--'' @ fld @ ''='' @ py_str val)))) known_fields)
       (\<lambda>fusesoc_cmd. Inr (py_join '' '' fusesoc_cmd))"

definition QueryOpts_output :: "Config \<Rightarrow> out_args \<Rightarrow> string res" where
  "QueryOpts_output config args =
     Inr (py_join nl (map (\<lambda>fld. case map_of (params config) (PStr fld) of
            Some val \<Rightarrow> fld @ ''='' @ py_str val
          | None \<Rightarrow> fld @ '' not found in config'') (a_fields args)))"

definition int_of_val :: "pyval \<Rightarrow> int res" where
  "int_of_val v = (case v of
     PBool b \<Rightarrow> Inr (if b then 1 else 0)
   | PInt i \<Rightarrow> Inr i
   | PStr s \<Rightarrow> py_int 10 s
   | _ \<Rightarrow> Inl (TypeError ''int() argument''))"

definition full_path :: "SimOpts \<Rightarrow> out_args \<Rightarrow> string" where
  "full_path so args =
     (if ins_hier_path args \<noteq> [] then ins_hier_path args @ hierarchy_sep so else [])"

text \<open>The loop body of \<open>SimOpts.output\<close>: the arguments of one field, before quoting.\<close>

text \<open>A string field of a validated configuration is a \<open>str\<close>, so the concatenation below cannot fail there.\<close>

definition sim_field :: "SimOpts \<Rightarrow> out_args \<Rightarrow> yaml_map \<Rightarrow> string \<times> fld_type \<Rightarrow> string list res" where
  "sim_field so args ps ft = (case ft of (fld, typ) \<Rightarrow>
     rbind (yget ps fld) (\<lambda>val.
       if typ = TStr then
         (case val of
            PStr s \<Rightarrow> Inr (define_set_fn so (string_define_prefix args @ fld) s)
          | _ \<Rightarrow> Inl (TypeError ''can only concatenate str''))
       else
         rbind (int_of_val val) (\<lambda>val_as_int.
           Inr (param_set_fn so (full_path so args @ fld) (int_str val_as_int)))))"

definition SimOpts_output :: "SimOpts \<Rightarrow> Config \<Rightarrow> out_args \<Rightarrow> string res" where
  "SimOpts_output so config args =
     rbind (rmap (sim_field so args (params config)) known_fields)
       (\<lambda>opts. Inr (py_join '' '' (map shlex_quote (concat opts))))"

datatype outputter = FusesocOpts | QueryOpts | SimOut SimOpts

definition outputter_output :: "outputter \<Rightarrow> Config \<Rightarrow> out_args \<Rightarrow> string res" where
  "outputter_output outp config args = (case outp of
     FusesocOpts \<Rightarrow> FusesocOpts_output config
   | QueryOpts \<Rightarrow> QueryOpts_output config args
   | SimOut so \<Rightarrow> SimOpts_output so config args)"

definition outputter_name :: "outputter \<Rightarrow> string" where
  "outputter_name outp = (case outp of
     FusesocOpts \<Rightarrow> ''fusesoc_opts'' | QueryOpts \<Rightarrow> ''query_fields'' | SimOut so \<Rightarrow> cmd_name so)"

definition plus_define :: "string \<Rightarrow> string \<Rightarrow> string list" where
  "plus_define d v = [''+define+'' @ d @ ''='' @ v]"

definition outputters :: "outputter list" where
  "outputters = [
     FusesocOpts,
     QueryOpts,
     SimOut (SimOpts.make ''vcs_opts'' ''VCS compile''
       (\<lambda>p v. [''-pvalue+'' @ p @ ''='' @ v]) plus_define ''.''),
     SimOut (SimOpts.make ''riviera_sim_opts'' ''Riviera simulate''
       (\<lambda>p v. [''-g/'' @ p @ ''='' @ v]) (\<lambda>d v. []) ''/''),
     SimOut (SimOpts.make ''riviera_compile_opts'' ''Riviera compile''
       (\<lambda>p v. []) plus_define ''/''),
     SimOut (SimOpts.make ''questa_sim_opts'' ''Questa simulate''
       (\<lambda>p v. [''-g/'' @ p @ ''='' @ v]) (\<lambda>d v. []) ''/''),
     SimOut (SimOpts.make ''questa_compile_opts'' ''Questa compile''
       (\<lambda>p v. []) plus_define ''/''),
     SimOut (SimOpts.make ''xlm_opts'' ''Xcelium compile''
       (\<lambda>p v. [''-defparam'', p @ ''='' @ v]) (\<lambda>d v. [''-define'', d @ ''='' @ v]) ''.''),
     SimOut (SimOpts.make ''dsim_opts'' ''DSim compile''
       (\<lambda>p v. [''-defparam'', p @ ''='' @ v]) plus_define ''.'')]"

section \<open>Parsing and the command line\<close>

type_synonym yaml_loader = "string \<Rightarrow> string + pyval"
type_synonym file_reader = "string \<Rightarrow> string res"

definition DEFAULT_CONFIG_FILE :: string where "DEFAULT_CONFIG_FILE = ''ibex_configs.yaml''"

definition get_config_file_location :: "(string \<times> string) list \<Rightarrow> string" where
  "get_config_file_location environ =
     (case map_of environ ''IBEX_CONFIG_FILE'' of None \<Rightarrow> DEFAULT_CONFIG_FILE | Some f \<Rightarrow> f)"

definition parse_config :: "yaml_loader \<Rightarrow> file_reader \<Rightarrow> string \<Rightarrow> pyval \<Rightarrow> Config res" where
  "parse_config yaml_load open_file config_name config_filename =
     rbind (open_file (py_str config_filename)) (\<lambda>config_file.
       case yaml_load config_file of
         Inl err \<Rightarrow> Inl (ConfigException (''Could not decode yaml: '' @ err))
       | Inr yml \<Rightarrow>
           rbind (except_value (Configs_init yml) (\<lambda>err.
                    Inl (ConfigException (py_repr config_filename @ '': '' @ err))))
             (\<lambda>configs. case map_of configs (PStr config_name) of
                None \<Rightarrow> Inl (ValueError (''Configuration '' @ repr_str config_name @
                          '' not found in YAML at {config_filename!r}.''))
              | Some config \<Rightarrow> Inr config))"

text \<open>
  \<open>main\<close> with the command line as \<open>argparse\<close> gives it: the config name, the file, the chosen
  output type and its options. A name that is no subcommand makes \<open>argparse\<close> exit with status 2.
  The result is what is printed.
\<close>

definition config_main ::
  "yaml_loader \<Rightarrow> file_reader \<Rightarrow> string \<Rightarrow> string \<Rightarrow> string option \<Rightarrow> out_args \<Rightarrow> string res" where
  "config_main yaml_load open_file config_name config_filename output_type args =
     (case output_type of
        None \<Rightarrow> Inl (SystemExit 1)
      | Some t \<Rightarrow>
          (case find (\<lambda>x. outputter_name x = t) outputters of
             None \<Rightarrow> Inl (SystemExit 2)
           | Some outp \<Rightarrow>
               rbind (parse_config yaml_load open_file config_name (PStr config_filename)) (\<lambda>cfg.
               rbind (outputter_output outp cfg args) (\<lambda>s. Inr (s @ nl)))))"

section \<open>Validation\<close>

definition has_type :: "fld_type \<Rightarrow> pyval \<Rightarrow> bool" where
  "has_type t v = (case t of
     TBool \<Rightarrow> (case v of PBool _ \<Rightarrow> True | PInt i \<Rightarrow> i = 0 \<or> i = 1 | _ \<Rightarrow> False)
   | TStr \<Rightarrow> is_str_val v
   | TInt \<Rightarrow> is_int_val v)"

definition field_ok :: "yaml_map \<Rightarrow> string \<times> fld_type \<Rightarrow> bool" where
  "field_ok yml ft = (case map_of yml (PStr (fst ft)) of None \<Rightarrow> False | Some v \<Rightarrow> has_type (snd ft) v)"

text \<open>What a configuration has to look like: exactly the known keys, each with a value of its type.\<close>

definition config_wf :: "pyval \<Rightarrow> bool" where
  "config_wf y = (case y of
     PDict yml \<Rightarrow> list_all (\<lambda>k. k \<in> set (map (PStr \<circ> fst) known_fields)) (map fst yml)
                  \<and> list_all (field_ok yml) known_fields
   | _ \<Rightarrow> False)"

definition is_ValueError :: "py_exc \<Rightarrow> bool" where
  "is_ValueError e = (case e of ValueError _ \<Rightarrow> True | _ \<Rightarrow> False)"

definition value_errors_only :: "'a res \<Rightarrow> bool" where
  "value_errors_only r = (case r of Inl e \<Rightarrow> is_ValueError e | Inr _ \<Rightarrow> True)"

lemma value_errors_bind:
  "value_errors_only r \<Longrightarrow> (\<And>x. value_errors_only (f x)) \<Longrightarrow> value_errors_only (rbind r f)"
  by (cases r) (simp_all add: value_errors_only_def)

lemma value_errors_if:
  "value_errors_only x \<Longrightarrow> value_errors_only y \<Longrightarrow> value_errors_only (if b then x else y)"
  by simp

lemma value_errors_leaf: "value_errors_only (Inr x)" "value_errors_only (Inl (ValueError m))"
  by (simp_all add: value_errors_only_def is_ValueError_def)

lemma value_errors_read:
  assumes "map_of yml (PStr f) \<noteq> None"
  shows "value_errors_only (read_bool f yml)" "value_errors_only (read_int f yml)" "value_errors_only (read_str f yml)"
  using assms
  by (auto simp: value_errors_only_def read_bool_def read_int_def read_str_def yget_def is_ValueError_def
      split: pyval.splits)

lemma read_ok:
  "(\<exists>x. read_bool f yml = Inr x) \<longleftrightarrow> field_ok yml (f, TBool)"
  "(\<exists>x. read_int f yml = Inr x) \<longleftrightarrow> field_ok yml (f, TInt)"
  "(\<exists>x. read_str f yml = Inr x) \<longleftrightarrow> field_ok yml (f, TStr)"
  by (auto simp: read_bool_def read_int_def read_str_def yget_def field_ok_def has_type_def
      is_int_val_def is_str_val_def split: option.splits pyval.splits)

lemma Config_init_params: "Config_init y = Inr c \<Longrightarrow> y = PDict (params c)"
  by (auto simp: Config_init_def rbind_Inr_iff Let_def split: pyval.splits if_splits)

lemma missing_iff:
  "filter (\<lambda>k. k \<notin> set (map fst yml)) (map (PStr \<circ> fst) known_fields) = []
   \<longleftrightarrow> (\<forall>ft \<in> set known_fields. map_of yml (PStr (fst ft)) \<noteq> None)"
  by (auto simp: filter_empty_conv map_of_eq_None_iff)

lemma Config_init_ok: "is_ok (Config_init y) \<longleftrightarrow> config_wf y"
proof (cases y)
  case (PDict yml)
  have miss: "filter (\<lambda>k. k \<notin> set (map fst yml)) (map (PStr \<circ> fst) known_fields) = []"
    if "list_all (field_ok yml) known_fields"
    unfolding missing_iff using that by (auto simp: list_all_iff field_ok_def split: option.splits)
  have extra: "filter (\<lambda>k. k \<notin> set (map (PStr \<circ> fst) known_fields)) (map fst yml) = []
     \<longleftrightarrow> list_all (\<lambda>k. k \<in> set (map (PStr \<circ> fst) known_fields)) (map fst yml)"
    by (simp only: filter_empty_conv list_all_iff not_not)
  have ok: "is_ok r \<longleftrightarrow> (\<exists>x. r = Inr x)" for r :: "Config res"
    by (cases r) simp_all
  have "is_ok (Config_init (PDict yml)) \<longleftrightarrow>
      filter (\<lambda>k. k \<notin> set (map (PStr \<circ> fst) known_fields)) (map fst yml) = []
      \<and> filter (\<lambda>k. k \<notin> set (map fst yml)) (map (PStr \<circ> fst) known_fields) = []
      \<and> list_all (field_ok yml) known_fields"
    unfolding ok Config_init_def Let_def
    by (simp add: rbind_Inr_iff read_ok [symmetric] known_fields_def [THEN arg_cong [of _ _ "list_all P" for P]])
      blast
  with miss extra show ?thesis
    unfolding PDict config_wf_def by (simp only: pyval.case) blast
qed (simp_all add: Config_init_def config_wf_def)

lemma Config_init_value_errors: "value_errors_only (Config_init y)"
proof (cases y)
  case (PDict yml)
  show ?thesis
  proof (cases "\<forall>ft \<in> set known_fields. map_of yml (PStr (fst ft)) \<noteq> None")
    case True
    then have reads: "value_errors_only (read_bool f yml)" "value_errors_only (read_int f yml)"
        "value_errors_only (read_str f yml)" if "f \<in> fst ` set known_fields" for f
      using that value_errors_read by auto
    show ?thesis
      unfolding PDict Config_init_def Let_def pyval.case
      by (intro value_errors_if value_errors_bind reads value_errors_leaf) (simp_all add: known_fields_def)
  next
    case False
    then show ?thesis
      unfolding PDict Config_init_def Let_def pyval.case missing_iff
      by (simp add: value_errors_only_def is_ValueError_def)
  qed
qed (simp_all add: Config_init_def value_errors_only_def is_ValueError_def)

text \<open>
  C24. \<open>Config\<close> accepts exactly the dictionaries that have the known keys and no others, with a value of the
  declared type under each (0 and 1 count as booleans); it keeps the dictionary as \<open>params\<close>; and
  whatever else it is given, it raises \<open>ValueError\<close> and nothing else.
\<close>

theorem Config_init_validates:
  "case Config_init y of
     Inr c \<Rightarrow> config_wf y \<and> y = PDict (params c)
   | Inl e \<Rightarrow> \<not> config_wf y \<and> is_ValueError e"
proof (cases "Config_init y")
  case (Inl e)
  with Config_init_ok [of y] Config_init_value_errors [of y] show ?thesis
    by (simp add: value_errors_only_def)
next
  case (Inr c)
  with Config_init_ok [of y] Config_init_params [of y c] show ?thesis by simp
qed

section \<open>What the tools see\<close>

text \<open>The arguments that describe a field, read off the configuration.\<close>

definition sim_field_args :: "SimOpts \<Rightarrow> out_args \<Rightarrow> yaml_map \<Rightarrow> string \<times> fld_type \<Rightarrow> string list" where
  "sim_field_args so args ps ft = (case (snd ft, map_of ps (PStr (fst ft))) of
     (TStr, Some (PStr s)) \<Rightarrow> define_set_fn so (string_define_prefix args @ fst ft) s
   | (_, Some (PBool b)) \<Rightarrow> param_set_fn so (full_path so args @ fst ft) (if b then ''1'' else ''0'')
   | (_, Some (PInt i)) \<Rightarrow> param_set_fn so (full_path so args @ fst ft) (int_str i)
   | _ \<Rightarrow> [])"

definition sim_args :: "SimOpts \<Rightarrow> out_args \<Rightarrow> yaml_map \<Rightarrow> string list" where
  "sim_args so args ps = concat (map (sim_field_args so args ps) known_fields)"

lemma int_str_01 [simp]: "int_str 1 = ''1''" "int_str 0 = ''0''"
  by code_simp+

lemma sim_field_ok: "field_ok ps ft \<Longrightarrow> sim_field so args ps ft = Inr (sim_field_args so args ps ft)"
  by (cases ft; cases "snd ft")
    (auto simp: field_ok_def has_type_def sim_field_def sim_field_args_def yget_def int_of_val_def
      is_int_val_def is_str_val_def split: option.splits pyval.splits)

lemma wf_fields: "config_wf (PDict ps) \<Longrightarrow> ft \<in> set known_fields \<Longrightarrow> field_ok ps ft"
  by (simp add: config_wf_def list_all_iff)

lemma SimOpts_output_wf:
  "config_wf (PDict (params c)) \<Longrightarrow>
   SimOpts_output so c args = Inr (py_join '' '' (map shlex_quote (sim_args so args (params c))))"
  using rmap_ok_map [of known_fields "sim_field so args (params c)" "sim_field_args so args (params c)"]
  by (simp add: SimOpts_output_def sim_args_def sim_field_ok wf_fields)

lemma yget_wf: "config_wf (PDict ps) \<Longrightarrow> (f, t) \<in> set known_fields \<Longrightarrow> \<exists>v. map_of ps (PStr f) = Some v"
  using wf_fields [of ps "(f, t)"] by (auto simp: field_ok_def split: option.splits)

definition fusesoc_args :: "yaml_map \<Rightarrow> string list" where
  "fusesoc_args ps = map (\<lambda>(f, t). ''--'' @ f @ ''='' @ py_str (the (map_of ps (PStr f)))) known_fields"

lemma FusesocOpts_output_wf:
  assumes "config_wf (PDict (params c))"
  shows "FusesocOpts_output c = Inr (py_join '' '' (map shlex_quote (fusesoc_args (params c))))"
proof -
  have "rmap (\<lambda>(fld, typ). rbind (yget (params c) fld) (\<lambda>val. Inr (shlex_quote (''--'' @ fld @ ''='' @ py_str val)))) known_fields
      = Inr (map (\<lambda>(f, t). shlex_quote (''--'' @ f @ ''='' @ py_str (the (map_of (params c) (PStr f))))) known_fields)"
    by (rule rmap_ok_map) (use yget_wf [OF assms] in \<open>fastforce simp: yget_def\<close>)
  then show ?thesis
    by (simp add: FusesocOpts_output_def fusesoc_args_def comp_def case_prod_unfold)
qed


definition small_params :: yaml_map where
  "small_params = [
     (PStr ''RV32E'', PInt 0), (PStr ''RV32M'', PStr ''ibex_pkg::RV32MFast''),
     (PStr ''RV32B'', PStr ''ibex_pkg::RV32BNone''), (PStr ''RV32ZC'', PStr ''ibex_pkg::RV32Zca''),
     (PStr ''RegFile'', PStr ''ibex_pkg::RegFileFF''), (PStr ''BranchTargetALU'', PInt 0),
     (PStr ''WritebackStage'', PInt 0), (PStr ''ICache'', PInt 0), (PStr ''ICacheECC'', PInt 0),
     (PStr ''ICacheScramble'', PInt 0), (PStr ''BranchPredictor'', PInt 0), (PStr ''DbgTriggerEn'', PInt 0),
     (PStr ''SecureIbex'', PInt 0), (PStr ''PMPEnable'', PInt 0), (PStr ''PMPGranularity'', PInt 0),
     (PStr ''PMPNumRegions'', PInt 4), (PStr ''MHPMCounterNum'', PInt 0), (PStr ''MHPMCounterWidth'', PInt 40)]"

definition small_config :: pyval where
  "small_config = PDict small_params"

lemma small_config_wf: "config_wf small_config"
  by code_simp

lemma small_config_ok: "\<exists>c. Config_init small_config = Inr c \<and> rv32b c = ''ibex_pkg::RV32BNone'' \<and>
    rv32m c = ''ibex_pkg::RV32MFast'' \<and> \<not> rv32e c"
proof -
  have "is_ok (Config_init small_config)" using small_config_wf Config_init_ok by blast
  then obtain c where c: "Config_init small_config = Inr c" by (cases "Config_init small_config") auto
  moreover from c have "read_str ''RV32B'' (params c) = Inr (rv32b c)" "read_str ''RV32M'' (params c) = Inr (rv32m c)"
      "read_bool ''RV32E'' (params c) = Inr (rv32e c)"
    by (auto simp: Config_init_def rbind_Inr_iff Let_def split: pyval.splits if_splits)
  moreover note Config_init_params [OF c, unfolded small_config_def pyval.inject, symmetric, unfolded small_params_def]
  ultimately show ?thesis
    by (auto simp: read_str_def read_bool_def yget_def)
qed


end
