(* ===== verification/Ibex_Cmd.thy ===== *)
theory Ibex_Cmd
  imports Ibex_Config
begin

text \<open>
  \<open>dv/uvm/core_ibex/scripts/ibex_cmd.py\<close>: the options a simulator gets for a named configuration
  (by running \<open>ibex_config.py\<close>, modelled by \<open>config_main\<close>), the ISA strings of a configuration and
  the filtering of a test list by a configuration.
\<close>

section \<open>Options from the configuration\<close>

definition SIM_CFGS :: "(string \<times> (bool \<times> bool)) list" where
  "SIM_CFGS = [
     (''vcs'', (True, False)),
     (''riviera'', (True, True)),
     (''questa'', (True, True)),
     (''xlm'', (True, False)),
     (''dsim'', (True, False))]"

text \<open>
  What surrounds the scripts: the directory of the checkout, the YAML library, the files, and the
  text the interpreter prints on \<open>stderr\<close> for an exception that reaches the top level.
\<close>

record cfg_env =
  ibex_root :: string
  yaml_load :: yaml_loader
  open_file :: file_reader
  traceback :: "py_exc \<Rightarrow> string"

definition run_ibex_config :: "cfg_env \<Rightarrow> string \<Rightarrow> string \<Rightarrow> string res" where
  "run_ibex_config env config_name output_type =
     (let script_path = ibex_root env @ ''/util/ibex_config.py'';
          yaml_path = ibex_root env @ ''/ibex_configs.yaml''
      in case config_main (yaml_load env) (open_file env) config_name yaml_path (Some output_type)
                (out_args.make [] ''core_ibex_tb_top'' ''IBEX_CFG_'') of
           Inl e \<Rightarrow> Inl (GenError (''Error running '' @ script_path @ '' got:'' @ nl @ [] @ nl @ traceback env e))
         | Inr stdout \<Rightarrow> Inr (strip stdout))"

definition get_x_opts :: "cfg_env \<Rightarrow> string \<Rightarrow> string \<Rightarrow> string \<Rightarrow> string res" where
  "get_x_opts env config_name simulator stage =
     (case map_of SIM_CFGS simulator of
        None \<Rightarrow> Inl (ValueError (''Unsupported simulator: '' @ simulator @ ''.''))
      | Some (needs_compile_opts, needs_sim_opts) \<Rightarrow>
          (let specify_which_opts = needs_compile_opts \<and> needs_sim_opts in
           if stage \<noteq> ''compile'' \<and> stage \<noteq> ''sim'' then Inl (AssertionError [])
           else
             (let needs_opts = (if stage = ''compile'' then needs_compile_opts else needs_sim_opts) in
              if \<not> needs_opts then Inr []
              else run_ibex_config env config_name
                     (if specify_which_opts then simulator @ ''_'' @ stage @ ''_opts'' else simulator @ ''_opts''))))"

definition get_compile_opts :: "cfg_env \<Rightarrow> string \<Rightarrow> string \<Rightarrow> string res" where
  "get_compile_opts env config_name simulator = get_x_opts env config_name simulator ''compile''"

definition get_sim_opts :: "cfg_env \<Rightarrow> string \<Rightarrow> string \<Rightarrow> string res" where
  "get_sim_opts env config_name simulator = get_x_opts env config_name simulator ''sim''"

definition get_config :: "cfg_env \<Rightarrow> string \<Rightarrow> Config res" where
  "get_config env cfg_name =
     parse_config (yaml_load env) (open_file env) cfg_name (PPath (ibex_root env @ ''/ibex_configs.yaml''))"

section \<open>ISA strings\<close>

definition bitmanip_mapping :: "(string \<times> string list) list" where
  "bitmanip_mapping = [
     (''ibex_pkg::RV32BNone'', []),
     (''ibex_pkg::RV32BBalanced'', [''Zba'', ''Zbb'', ''Zbs'', ''XZbf'', ''XZbt'']),
     (''ibex_pkg::RV32BOTEarlGrey'', [''Zba'', ''Zbb'', ''Zbc'', ''Zbs'', ''XZbf'', ''XZbp'', ''XZbr'', ''XZbt'']),
     (''ibex_pkg::RV32BFull'', [''Zba'', ''Zbb'', ''Zbc'', ''Zbs'', ''XZbe'', ''XZbf'', ''XZbp'', ''XZbr'', ''XZbt''])]"

definition get_isas_for_config :: "Config \<Rightarrow> (string \<times> string) res" where
  "get_isas_for_config cfg =
     (let has_multiplier = (rv32m cfg \<noteq> ''ibex_pkg::RV32MNone'');
          base_isa = ''rv32'' @ (if rv32e cfg then ''e'' else ''i'') @ (if has_multiplier then ''m'' else []) @ ''c''
      in case map_of bitmanip_mapping (rv32b cfg) of
           None \<Rightarrow> Inl (ValueError (''Unknown RV32B value ('' @ rv32b cfg @ '') in config YAML''))
         | Some bitmanip_isa \<Rightarrow>
             (let has_bitmanip = (rv32b cfg \<noteq> ''ibex_pkg::RV32BNone'');
                  toolchain_isa = base_isa @ (if has_bitmanip then ''b'' else [])
              in Inr (toolchain_isa, py_join ''_'' ([base_isa] @ bitmanip_isa))))"

section \<open>Filtering tests\<close>

text \<open>\<open>v in p_val\<close>: over the items of a list, over the keys of a dictionary; anything else that reaches
  this point cannot be searched.\<close>

definition val_in :: "pyval \<Rightarrow> pyval \<Rightarrow> bool res" where
  "val_in v p_val = (case p_val of
     PList xs \<Rightarrow> Inr (py_in v xs)
   | PDict kvs \<Rightarrow> Inr (py_in v (map fst kvs))
   | _ \<Rightarrow> Inl (TypeError ''argument is not iterable''))"

definition coerce_list :: "pyval \<Rightarrow> pyval" where
  "coerce_list p_val = (if is_str_val p_val \<or> is_int_val p_val then PList [p_val] else p_val)"

text \<open>One pass of the inner loop: does the configuration have a value that the test accepts?\<close>

definition param_match :: "Config \<Rightarrow> pyval \<times> pyval \<Rightarrow> bool res" where
  "param_match cfg pv = (case map_of (params cfg) (fst pv) of
     None \<Rightarrow> Inl (ValueError (''Parameter '' @ py_str (fst pv) @ '' not found in config''))
   | Some config_val \<Rightarrow>
       if config_val = PNone
       then Inl (ValueError (''Parameter '' @ py_str (fst pv) @ '' not found in config''))
       else val_in config_val (coerce_list (snd pv)))"

fun filter_params :: "Config \<Rightarrow> pydict \<Rightarrow> (pyval \<times> pyval) list \<Rightarrow> pydict list \<Rightarrow> pydict list res" where
  "filter_params cfg test [] filtered = Inr filtered"
| "filter_params cfg test (pv # pvs) filtered =
     rbind (param_match cfg pv) (\<lambda>b.
       if \<not> b then
         \<comment> \<open>the warning formats \<open>test['test']\<close>\<close>
         (case map_of test ''test'' of None \<Rightarrow> Inl (KeyError ''test'') | Some _ \<Rightarrow> Inr filtered)
       else filter_params cfg test pvs (filtered @ [test]))"

fun filter_loop :: "Config \<Rightarrow> pydict list \<Rightarrow> pydict list \<Rightarrow> pydict list res" where
  "filter_loop cfg [] filtered = Inr filtered"
| "filter_loop cfg (test # tests) filtered =
     rbind (case map_of test ''rtl_params'' of
              None \<Rightarrow> Inr (filtered @ [test])
            | Some (PDict param_dict) \<Rightarrow> filter_params cfg test param_dict filtered
            | Some _ \<Rightarrow> Inl (AssertionError []))
       (filter_loop cfg tests)"

definition filter_tests_by_config :: "Config \<Rightarrow> pydict list \<Rightarrow> pydict list res" where
  "filter_tests_by_config cfg test_list = filter_loop cfg test_list []"

section \<open>What the simulators get\<close>

text \<open>Printing a line of quoted words and stripping it again loses nothing.\<close>

definition tight :: "string \<Rightarrow> bool" where
  "tight s = (s \<noteq> [] \<and> \<not> is_space (hd s) \<and> \<not> is_space (last s))"

lemma shell_safe_not_space: "shell_safe c \<Longrightarrow> \<not> is_space c"
  by (auto simp: shell_safe_def is_word_def is_digit_def is_upper_def is_lower_def is_space_def Let_def)

lemma shlex_quote_tight: "tight (shlex_quote w)"
proof -
  have "\<not> is_space (hd w) \<and> \<not> is_space (last w)" if "w \<noteq> []" "list_all shell_safe w"
    using that shell_safe_not_space by (auto simp: list_all_iff)
  then show ?thesis by (auto simp: shlex_quote_def tight_def is_space_def)
qed

lemma py_join_tight: "ws \<noteq> [] \<Longrightarrow> list_all tight ws \<Longrightarrow> tight (py_join '' '' ws)"
proof (induction "'' ''" ws rule: py_join.induct)
  case (3 x y zs)
  then show ?case by (auto simp: tight_def)
qed auto

lemma strip_tight_line: "s = [] \<or> tight s \<Longrightarrow> strip (s @ nl) = s"
proof (elim disjE)
  assume t: "tight s"
  then obtain c cs where s: "s = c # cs" by (cases s) (auto simp: tight_def)
  have "lstrip (s @ nl) = s @ nl" using t s by (simp add: lstrip_def tight_def)
  moreover have "rstrip (s @ nl) = s"
  proof -
    obtain b l where "s = b @ [l]" using t by (cases s rule: rev_cases) (auto simp: tight_def)
    then have "dropWhile is_space (rev s) = rev s" using t by (simp add: tight_def)
    then show ?thesis by (simp add: rstrip_def nl_def newline_def is_space_def)
  qed
  ultimately show ?thesis by (simp add: strip_def)
qed (simp add: strip_def lstrip_def rstrip_def nl_def newline_def is_space_def)

lemma strip_quoted_line: "strip (py_join '' '' (map shlex_quote ws) @ nl) = py_join '' '' (map shlex_quote ws)"
  by (rule strip_tight_line) (auto intro!: py_join_tight simp: list_all_iff shlex_quote_tight)

text \<open>Every configuration that is read has been validated.\<close>

lemma Configs_loop_init:
  "Configs_loop yml cs = Inr cs' \<Longrightarrow> (\<And>k c. map_of cs k = Some c \<Longrightarrow> \<exists>y. Config_init y = Inr c) \<Longrightarrow>
   map_of cs' k = Some c \<Longrightarrow> \<exists>y. Config_init y = Inr c"
proof (induction yml cs arbitrary: cs' rule: Configs_loop.induct)
  case (2 cfg_name cfg_yaml yml configs)
  then show ?case
    by (fastforce simp: AList.update_conv' rbind_Inr_iff except_value_Inr_iff split: if_splits)
qed simp

lemma parse_config_Inr:
  "parse_config yl fr name f = Inr c \<longleftrightarrow>
   (\<exists>t yml cs. fr (py_str f) = Inr t \<and> yl t = Inr yml \<and> Configs_init yml = Inr cs \<and> map_of cs (PStr name) = Some c)"
  by (simp add: parse_config_def rbind_Inr_iff except_value_Inr_iff case_Inr_iff)

lemma parse_config_init: "parse_config yl fr name f = Inr c \<Longrightarrow> \<exists>y. Config_init y = Inr c"
proof -
  assume "parse_config yl fr name f = Inr c"
  then obtain yml cs where "Configs_init yml = Inr cs" "map_of cs (PStr name) = Some c"
    by (auto simp: parse_config_Inr)
  then show ?thesis
    by (auto simp: Configs_init_def split: pyval.splits intro: Configs_loop_init)
qed

lemma get_config_wf:
  assumes "get_config env name = Inr c"
  shows "config_wf (PDict (params c))"
proof -
  from assms obtain y where y: "Config_init y = Inr c"
    unfolding get_config_def using parse_config_init by blast
  with Config_init_ok [of y] Config_init_params [OF y] show ?thesis by simp
qed

lemma parse_config_path:
  "parse_config yl fr name (PPath f) = Inr c \<Longrightarrow> parse_config yl fr name (PStr f) = Inr c"
  by (simp add: parse_config_Inr py_str_def)

lemma run_ibex_config_sim:
  assumes "get_config env name = Inr c" and "find (\<lambda>x. outputter_name x = t) outputters = Some (SimOut so)"
  shows "rbind (run_ibex_config env name t) shlex_split =
    Inr (sim_args so (out_args.make [] ''core_ibex_tb_top'' ''IBEX_CFG_'') (params c))"
proof -
  have "parse_config (yaml_load env) (open_file env) name (PStr (ibex_root env @ ''/ibex_configs.yaml'')) = Inr c"
    using assms(1) unfolding get_config_def by (rule parse_config_path)
  then show ?thesis
    using SimOpts_output_wf [OF get_config_wf [OF assms(1)]] assms(2)
    by (simp add: run_ibex_config_def config_main_def outputter_output_def strip_quoted_line shlex_split_quote)
qed

text \<open>
  The specification: how each simulator is told the value of a field. A string goes through a
  macro \<open>IBEX_CFG_<field>\<close>, everything else through a parameter of the testbench top.
\<close>

definition value_text :: "yaml_map \<Rightarrow> string \<Rightarrow> string" where
  "value_text ps f = (case map_of ps (PStr f) of
     Some (PStr s) \<Rightarrow> s | Some (PInt i) \<Rightarrow> int_str i | Some (PBool b) \<Rightarrow> (if b then ''1'' else ''0'') | _ \<Rightarrow> [])"

definition setting :: "string \<Rightarrow> yaml_map \<Rightarrow> string \<times> fld_type \<Rightarrow> string list" where
  "setting simulator ps ft =
     (let v = value_text ps (fst ft); d = ''IBEX_CFG_'' @ fst ft @ ''='' @ v;
          p = ''core_ibex_tb_top.'' @ fst ft @ ''='' @ v; q = ''core_ibex_tb_top/'' @ fst ft @ ''='' @ v in
      if snd ft = TStr then (if simulator = ''xlm'' then [''-define'', d] else [''+define+'' @ d])
      else if simulator = ''vcs'' then [''-pvalue+'' @ p]
      else if simulator = ''xlm'' \<or> simulator = ''dsim'' then [''-defparam'', p]
      else [''-g/'' @ q])"

definition two_stage :: "string \<Rightarrow> bool" where
  "two_stage simulator = (simulator = ''riviera'' \<or> simulator = ''questa'')"

lemma value_text_sim:
  assumes "field_ok ps (f, t)"
  shows "sim_field_args so args ps (f, t) =
    (if t = TStr then define_set_fn so (string_define_prefix args @ f) (value_text ps f)
     else param_set_fn so (full_path so args @ f) (value_text ps f))"
  using assms
  by (cases t) (auto simp: field_ok_def has_type_def sim_field_args_def value_text_def
      is_int_val_def is_str_val_def split: option.splits pyval.splits)

lemma concat_map_filter: "concat (map (\<lambda>x. if P x then f x else []) xs) = concat (map f (filter P xs))"
  by (induction xs) simp_all

lemma sim_args_cong:
  assumes "config_wf (PDict ps)"
    and "\<And>f t. (if t = TStr then define_set_fn so (string_define_prefix args @ f) (value_text ps f)
        else param_set_fn so (full_path so args @ f) (value_text ps f)) = g (f, t)"
  shows "sim_args so args ps = concat (map g known_fields)"
proof -
  have "sim_field_args so args ps ft = g ft" if "ft \<in> set known_fields" for ft
    using value_text_sim [of ps "fst ft" "snd ft" so args] assms(2) [of "snd ft" "fst ft"]
      wf_fields [OF assms(1) that] by simp
  then have "map (sim_field_args so args ps) known_fields = map g known_fields" by simp
  then show ?thesis by (simp only: sim_args_def)
qed

lemma run_setting:
  assumes "get_config env name = Inr c" and "find (\<lambda>x. outputter_name x = t) outputters = Some (SimOut so)"
    and "\<And>f t. (if t = TStr then define_set_fn so (''IBEX_CFG_'' @ f) (value_text (params c) f)
        else param_set_fn so (''core_ibex_tb_top'' @ hierarchy_sep so @ f) (value_text (params c) f)) = g (f, t)"
  shows "rbind (run_ibex_config env name t) shlex_split = Inr (concat (map g known_fields))"
proof -
  have "sim_args so (out_args.make [] ''core_ibex_tb_top'' ''IBEX_CFG_'') (params c) = concat (map g known_fields)"
    by (intro sim_args_cong get_config_wf [OF assms(1)]) (simp add: assms(3) [symmetric] out_args.defs full_path_def)
  with run_ibex_config_sim [OF assms(1,2)] show ?thesis by simp
qed

lemmas outputter_simps = outputters_def outputter_name_def SimOpts.defs

lemma run_one_stage:
  assumes "get_config env name = Inr c"
  shows "rbind (run_ibex_config env name ''vcs_opts'') shlex_split = Inr (concat (map (setting ''vcs'' (params c)) known_fields))"
    and "rbind (run_ibex_config env name ''xlm_opts'') shlex_split = Inr (concat (map (setting ''xlm'' (params c)) known_fields))"
    and "rbind (run_ibex_config env name ''dsim_opts'') shlex_split = Inr (concat (map (setting ''dsim'' (params c)) known_fields))"
  by (rule run_setting [OF assms], simp add: outputter_simps, simp add: setting_def plus_define_def Let_def)+

lemma run_two_stage:
  assumes "get_config env name = Inr c" and "simulator = ''riviera'' \<or> simulator = ''questa''"
  shows "rbind (run_ibex_config env name (simulator @ ''_compile_opts'')) shlex_split =
      Inr (concat (map (\<lambda>ft. if snd ft = TStr then setting simulator (params c) ft else []) known_fields))"
    and "rbind (run_ibex_config env name (simulator @ ''_sim_opts'')) shlex_split =
      Inr (concat (map (\<lambda>ft. if snd ft \<noteq> TStr then setting simulator (params c) ft else []) known_fields))"
  using assms(2)
  by (elim disjE; hypsubst; intro run_setting [OF assms(1)], simp add: outputter_simps,
      simp add: setting_def plus_define_def Let_def)+

text \<open>
  C26. For every configuration that can be read and every supported simulator, the compile options and the
  simulation options together set every known field exactly once: all at compile time for a
  simulator with one kind of options, the macros at compile time and the parameters at
  simulation time for the two others.
\<close>

theorem simulator_opts_complete:
  assumes "get_config env name = Inr c" and "simulator \<in> fst ` set SIM_CFGS"
  shows "rbind (get_compile_opts env name simulator) shlex_split = Inr (concat (map (setting simulator (params c))
           (if two_stage simulator then filter (\<lambda>ft. snd ft = TStr) known_fields else known_fields)))
    \<and> rbind (get_sim_opts env name simulator) shlex_split = Inr (concat (map (setting simulator (params c))
           (if two_stage simulator then filter (\<lambda>ft. snd ft \<noteq> TStr) known_fields else [])))"
proof -
  have nil: "shlex_split [] = Inr []" by (simp add: shlex_split_def)
  note defs = get_compile_opts_def get_sim_opts_def get_x_opts_def SIM_CFGS_def two_stage_def nil
  consider "simulator \<in> {''vcs'', ''xlm'', ''dsim''}" | "simulator = ''riviera'' \<or> simulator = ''questa''"
    using assms(2) by (auto simp: SIM_CFGS_def)
  then show ?thesis
  proof cases
    case 1
    with run_one_stage [OF assms(1)] show ?thesis by (auto simp: defs)
  next
    case 2
    note run = run_two_stage [OF assms(1) 2, unfolded concat_map_filter]
    have "two_stage simulator" "get_compile_opts env name simulator = run_ibex_config env name (simulator @ ''_compile_opts'')"
      "get_sim_opts env name simulator = run_ibex_config env name (simulator @ ''_sim_opts'')"
      using 2 by (auto simp: defs)
    with run show ?thesis by (simp only: if_True)
  qed
qed

definition small_env :: cfg_env where
  "small_env = \<lparr>ibex_root = ''/ibex'', yaml_load = (\<lambda>_. Inr (PDict [(PStr ''small'', small_config)])),
     open_file = (\<lambda>_. Inr []), traceback = (\<lambda>_. [])\<rparr>"

lemma small_env_config: "\<exists>c. get_config small_env ''small'' = Inr c \<and> Config_init small_config = Inr c"
proof -
  obtain c where "Config_init small_config = Inr c" using small_config_ok by blast
  then show ?thesis
    by (simp add: get_config_def parse_config_def small_env_def Configs_init_def)
qed

theorem simulator_opts_complete_witness:
  "\<exists>c. get_config small_env ''small'' = Inr c \<and> rbind (get_sim_opts small_env ''small'' ''questa'') shlex_split =
     Inr (concat (map (setting ''questa'' (params c)) (filter (\<lambda>ft. snd ft \<noteq> TStr) known_fields)))"
proof -
  obtain c where "get_config small_env ''small'' = Inr c" using small_env_config by blast
  with simulator_opts_complete [OF this, of "''questa''"] show ?thesis
    by (simp add: SIM_CFGS_def two_stage_def)
qed

section \<open>ISA strings\<close>

lemma bitmanip_no_underscore: "map_of bitmanip_mapping b = Some exts \<Longrightarrow> x \<in> set exts \<Longrightarrow> CHR ''_'' \<notin> set x"
  by (auto simp: bitmanip_mapping_def split: if_splits)

lemma bitmanip_none_iff: "map_of bitmanip_mapping b = Some exts \<Longrightarrow> exts = [] \<longleftrightarrow> b = ''ibex_pkg::RV32BNone''"
  by (auto simp: bitmanip_mapping_def split: if_splits)

text \<open>
  C27. The ISA strings fail exactly for an RV32B value outside the mapping. Otherwise the ISS string, cut at its
  underscores, is the base ISA followed by the extensions of the mapping, and the toolchain
  string is that base ISA with a final \<open>b\<close> exactly when there are extensions.
\<close>

theorem get_isas_for_config_correct:
  "case get_isas_for_config cfg of
     Inl e \<Rightarrow> map_of bitmanip_mapping (rv32b cfg) = None \<and> is_ValueError e
   | Inr (tc, iss) \<Rightarrow>
       (let base = hd (split_char (CHR ''_'') iss); exts = tl (split_char (CHR ''_'') iss) in
        map_of bitmanip_mapping (rv32b cfg) = Some exts
        \<and> tc = base @ (if exts = [] then [] else ''b'')
        \<and> base = ''rv32'' @ [if rv32e cfg then CHR ''e'' else CHR ''i'']
                  @ (if rv32m cfg = ''ibex_pkg::RV32MNone'' then [] else ''m'') @ ''c'')"
proof (cases "map_of bitmanip_mapping (rv32b cfg)")
  case None
  then show ?thesis by (simp add: get_isas_for_config_def is_ValueError_def)
next
  case (Some exts)
  let ?base = "''rv32'' @ [if rv32e cfg then CHR ''e'' else CHR ''i'']
    @ (if rv32m cfg = ''ibex_pkg::RV32MNone'' then [] else ''m'') @ ''c''"
  have "split_char (CHR ''_'') (py_join ''_'' (?base # exts)) = ?base # exts"
    using bitmanip_no_underscore [OF Some] by (intro split_char_join) (auto split: if_splits)
  moreover have "get_isas_for_config cfg =
      Inr (?base @ (if exts = [] then [] else ''b''), py_join ''_'' (?base # exts))"
    using Some bitmanip_none_iff [OF Some] by (simp add: get_isas_for_config_def Let_def)
  ultimately show ?thesis using Some by (simp only: sum.case prod.case Let_def list.sel simp_thms)
qed

section \<open>Filtering tests\<close>

text \<open>The documented contract: every required parameter has a value the configuration supports.\<close>

definition supported :: "Config \<Rightarrow> pydict \<Rightarrow> bool" where
  "supported cfg test = (case map_of test ''rtl_params'' of
     None \<Rightarrow> True
   | Some (PDict pd) \<Rightarrow> list_all (\<lambda>pv. param_match cfg pv = Inr True) pd
   | Some _ \<Rightarrow> False)"

text \<open>What the loop does: one copy of the test for every parameter before the first mismatch.\<close>

definition copies :: "Config \<Rightarrow> pydict \<Rightarrow> nat" where
  "copies cfg test = (case map_of test ''rtl_params'' of
     None \<Rightarrow> 1
   | Some (PDict pd) \<Rightarrow> length (takeWhile (\<lambda>pv. param_match cfg pv = Inr True) pd)
   | Some _ \<Rightarrow> 0)"

lemma filter_params_copies:
  "filter_params cfg test pvs acc = Inr out \<Longrightarrow>
   out = acc @ replicate (length (takeWhile (\<lambda>pv. param_match cfg pv = Inr True) pvs)) test"
proof (induction pvs arbitrary: acc)
  case (Cons pv pvs)
  then obtain b where b: "param_match cfg pv = Inr b" by (auto simp: rbind_Inr_iff)
  show ?case
  proof (cases b)
    case True
    with Cons.prems b Cons.IH [of "acc @ [test]"] show ?thesis by simp
  next
    case False
    with Cons.prems b show ?thesis by (simp split: option.splits)
  qed
qed simp

lemma filter_loop_copies:
  "filter_loop cfg tests acc = Inr out \<Longrightarrow> out = acc @ concat (map (\<lambda>t. replicate (copies cfg t) t) tests)"
proof (induction cfg tests acc rule: filter_loop.induct)
  case (2 cfg test tests acc)
  then obtain acc' where acc': "filter_loop cfg tests acc' = Inr out"
    and "(case map_of test ''rtl_params'' of None \<Rightarrow> Inr (acc @ [test])
          | Some (PDict pd) \<Rightarrow> filter_params cfg test pd acc | Some _ \<Rightarrow> Inl (AssertionError [])) = Inr acc'"
    by (auto simp: rbind_Inr_iff)
  then have "acc' = acc @ replicate (copies cfg test) test"
    by (auto simp: copies_def split: option.splits pyval.splits dest: filter_params_copies)
  with "2.IH" [OF acc'] show ?case by simp
qed simp

text \<open>
  Whatever the filter returns is, test by test and in order, one copy per leading parameter that matches
  the configuration (one copy for a test without \<open>rtl_params\<close>).
\<close>

theorem filter_tests_copies:
  assumes "filter_tests_by_config cfg test_list = Inr out"
  shows "out = concat (map (\<lambda>t. replicate (copies cfg t) t) test_list)"
  using filter_loop_copies [OF assms [unfolded filter_tests_by_config_def]] by simp

text \<open>Two tests on the small configuration.\<close>

definition icache_test :: pydict where
  "icache_test = [(''test'', PStr ''icache''), (''rtl_params'', PDict [(PStr ''ICache'', PInt 0)])]"

definition icache_pmp_test :: "int \<Rightarrow> pydict" where
  "icache_pmp_test pmp = [(''test'', PStr ''icache_pmp''),
     (''rtl_params'', PDict [(PStr ''ICache'', PInt 0), (PStr ''PMPEnable'', PInt pmp)])]"

lemma small_config_matches:
  assumes "Config_init small_config = Inr c"
  shows "param_match c (PStr ''ICache'', PInt 0) = Inr True"
    and "param_match c (PStr ''PMPEnable'', PInt i) = Inr (i = 0)"
proof -
  have "params c = small_params"
    using Config_init_params [OF assms] by (simp add: small_config_def)
  then show "param_match c (PStr ''ICache'', PInt 0) = Inr True"
    "param_match c (PStr ''PMPEnable'', PInt i) = Inr (i = 0)"
    by (auto simp: param_match_def small_params_def val_in_def coerce_list_def is_int_val_def py_in_def py_eq_def)
qed

theorem filter_tests_copies_witness:
  "\<exists>c. Config_init small_config = Inr c \<and>
     filter_tests_by_config c [icache_test] = Inr (concat (map (\<lambda>t. replicate (copies c t) t) [icache_test]))"
proof -
  obtain c where c: "Config_init small_config = Inr c" using small_config_ok by blast
  have eq: "filter_tests_by_config c [icache_test] = Inr [icache_test]"
    by (simp add: filter_tests_by_config_def icache_test_def small_config_matches [OF c])
  show ?thesis
    by (intro exI [of _ c] conjI c) (unfold filter_tests_copies [OF eq, symmetric], rule eq)
qed

text \<open>A test entry that names at most one parameter, and one the configuration has.\<close>

definition simple_test :: "Config \<Rightarrow> pydict \<Rightarrow> bool" where
  "simple_test cfg test = (map_of test ''test'' \<noteq> None \<and>
     (case map_of test ''rtl_params'' of
        None \<Rightarrow> True
      | Some (PDict [pv]) \<Rightarrow> is_ok (param_match cfg pv)
      | Some _ \<Rightarrow> False))"

lemma simple_test_step:
  assumes "simple_test cfg test"
  shows "filter_loop cfg (test # tests) acc = filter_loop cfg tests (acc @ (if supported cfg test then [test] else []))"
proof (cases "map_of test ''rtl_params''")
  case None
  then show ?thesis by (simp add: supported_def)
next
  case (Some v)
  then obtain pv where pv: "v = PDict [pv]" and ok: "is_ok (param_match cfg pv)" and t: "map_of test ''test'' \<noteq> None"
    using assms by (auto simp: simple_test_def split: pyval.splits list.splits)
  then obtain b where "param_match cfg pv = Inr b" by (cases "param_match cfg pv") auto
  with Some pv t show ?thesis by (cases b) (auto simp: supported_def)
qed



text \<open>
  Without that restriction the filter does not meet its contract: a test whose first parameter matches
  and whose second does not is kept, and a test with two matching parameters is returned twice.
\<close>

theorem filter_tests_contract_broken:
  "\<exists>c. Config_init small_config = Inr c
     \<and> \<not> supported c (icache_pmp_test 1)
     \<and> filter_tests_by_config c [icache_pmp_test 1] = Inr [icache_pmp_test 1]
     \<and> filter_tests_by_config c [icache_pmp_test 0] = Inr [icache_pmp_test 0, icache_pmp_test 0]"
proof -
  obtain c where c: "Config_init small_config = Inr c" using small_config_ok by blast
  then show ?thesis
    by (simp add: filter_tests_by_config_def icache_pmp_test_def supported_def small_config_matches [OF c])
qed

end
