(* ===== verification/Scripts_Lib.thy ===== *)
theory Scripts_Lib
  imports Py_Shlex
begin

text \<open>
  \<open>dv/uvm/core_ibex/scripts/scripts_lib.py\<close>: running a command, formatting values for commands and
  for YAML, substituting \<open><name>\<close> parameters, and the export of test data. Parameters of the model: the
  outcome of \<open>subprocess.run\<close>, \<open>Path.resolve\<close>, the environment, and \<open>pickle\<close> (any codec).
\<close>

section \<open>Running a command\<close>

text \<open>A path as text, as a \<open>Path\<close>, or an open stream with its name. The copy of the echoed line that goes to
  a text stream is not modelled.\<close>

datatype redirect = RStr string | RPath string | RIO string

text \<open>How \<open>subprocess.run\<close> can end: a return code, an \<open>OSError\<close>, or the timeout.\<close>

datatype run_outcome = Completed int | RunOSError string | RunTimeout

record run_state =
  stderr_lines :: "string list"
  open_files :: "string list"

definition path_name :: "string \<Rightarrow> string" where
  "path_name p = last (split_char (CHR ''/'') p)"

definition open_dest :: "(string \<Rightarrow> bool) \<Rightarrow> redirect option \<Rightarrow> run_state \<Rightarrow> (bool \<times> run_state) res" where
  "open_dest can_open redirect_stdstreams st = (case redirect_stdstreams of
     None \<Rightarrow> Inr (False, st)
   | Some (RStr s) \<Rightarrow>
       if s = ''/dev/null'' then Inr (False, st)
       else Inl (RuntimeError (''redirect_stdstream called as '' @ s @ '' but that argument is invalid.''))
   | Some (RPath p) \<Rightarrow>
       \<comment> \<open>a \<open>Path\<close> is never equal to a \<open>str\<close>\<close>
       if can_open p then Inr (True, st\<lparr>open_files := p # open_files st\<rparr>)
       else Inl (OSError p)
   | Some (RIO name) \<Rightarrow> Inr (False, st))"

definition echo_line :: "string list \<Rightarrow> redirect option \<Rightarrow> string" where
  "echo_line cmd redirect_stdstreams =
     (let cmd_str = py_join '' '' (map shlex_quote cmd) in
      ''+ '' @ (case redirect_stdstreams of
         None \<Rightarrow> cmd_str
       | Some (RStr s) \<Rightarrow> cmd_str @ '' >'' @ shlex_quote s @ '' 2>&1''
       | Some (RPath p) \<Rightarrow> cmd_str @ '' >>'' @ shlex_quote (path_name p) @ '' 2>&1''
       | Some (RIO n) \<Rightarrow> cmd_str @ '' >>'' @ shlex_quote n @ '' 2>&1''))"

definition run_one ::
  "(string list \<Rightarrow> int option \<Rightarrow> run_outcome) \<Rightarrow> (string \<Rightarrow> bool) \<Rightarrow> bool \<Rightarrow> string list \<Rightarrow> redirect option
   \<Rightarrow> int option \<Rightarrow> bool \<Rightarrow> run_state \<Rightarrow> int res \<times> run_state" where
  "run_one run can_open verbose cmd redirect_stdstreams timeout_s reraise st =
     (case open_dest can_open redirect_stdstreams st of
        Inl e \<Rightarrow> (Inl e, st)
      | Inr (needs_closing, st1) \<Rightarrow>
          (let st2 = (if verbose then st1\<lparr>stderr_lines := stderr_lines st1 @ [echo_line cmd redirect_stdstreams]\<rparr>
                      else st1);
               result = (case run cmd timeout_s of
                   Completed rc \<Rightarrow> Inr rc
                 | RunOSError e \<Rightarrow> Inr 1
                 | RunTimeout \<Rightarrow> if reraise then Inl TimeoutExpired else Inr 1)
           in (result, if needs_closing then st2\<lparr>open_files := tl (open_files st2)\<rparr> else st2)))"

section \<open>Formatting values\<close>

type_synonym resolver = "string \<Rightarrow> string"

definition format_to_str :: "resolver \<Rightarrow> pyval \<Rightarrow> string res" where
  "format_to_str resolve arg = (case arg of
     PInt i \<Rightarrow> Inr (int_str i)
   | PStr s \<Rightarrow> Inr s
   | PBool b \<Rightarrow> Inr (bool_str b)
   | PPath p \<Rightarrow> Inr (resolve p)
   | PNone \<Rightarrow> Inr []
   | _ \<Rightarrow> Inl (TypeError ''Couldn't format element to str!''))"

fun format_to_cmd :: "resolver \<Rightarrow> pyval list \<Rightarrow> string list res" where
  "format_to_cmd resolve [] = Inr []"
| "format_to_cmd resolve (item # items) =
     (case format_to_str resolve item of
        Inl (TypeError e) \<Rightarrow> Inl (RuntimeError (''Can't format item to str when constructing a cmd: '' @ e))
      | Inl e \<Rightarrow> Inl e
      | Inr s \<Rightarrow> rbind (format_to_cmd resolve items) (\<lambda>ss. Inr (s # ss)))"

definition YAML_MULTILINE_CHARS :: "char list" where
  "YAML_MULTILINE_CHARS = [CHR ''['', CHR '']'', CHR '':'', CHR 39, CHR 34, newline]"

definition yaml_value_format :: "pyval \<Rightarrow> string" where
  "yaml_value_format val = (case val of
     PStr s \<Rightarrow>
       if list_ex (\<lambda>c. c \<in> set s) YAML_MULTILINE_CHARS
       then ''|-'' @ nl @ py_join nl (map (\<lambda>line. ''  '' @ line) (split_char newline s))
       else s
   | PNone \<Rightarrow> []
   | _ \<Rightarrow> py_str val)"

definition pprint_line :: "nat \<Rightarrow> string \<Rightarrow> pyval \<Rightarrow> string" where
  "pprint_line klen k v = k @ '':'' @ replicate (klen - length k) (CHR '' '') @ '' '' @ yaml_value_format v @ nl"

definition pprint_dict :: "pydict \<Rightarrow> string" where
  "pprint_dict d =
     (let klen = fold (\<lambda>k m. max m (length k)) (map fst d) 1
      in concat (map (\<lambda>(k, v). pprint_line klen k v) d))"

definition format_dict_to_printable_dict :: "resolver \<Rightarrow> pydict \<Rightarrow> pydict" where
  "format_dict_to_printable_dict resolve arg =
     map (\<lambda>(k, v). (k, PStr (case v of
         PDict _ \<Rightarrow> py_str v
       | PList items \<Rightarrow>
           (case rmap (format_to_str resolve) items of
              Inr ss \<Rightarrow> py_join '' '' ss
            | Inl _ \<Rightarrow> py_str v)
       | _ \<Rightarrow> (case format_to_str resolve v of Inr s \<Rightarrow> s | Inl _ \<Rightarrow> py_str v)))) arg"

text \<open>\<open>read_yaml\<close>: \<open>load\<close> is \<open>yaml.safe_load\<close>, whose \<open>YAMLError\<close> is logged and ends the program.\<close>

definition read_yaml :: "(string \<Rightarrow> string + pyval) \<Rightarrow> (string \<Rightarrow> string res) \<Rightarrow> string \<Rightarrow> pyval res" where
  "read_yaml load opened yaml_file =
     rbind (opened yaml_file) (\<lambda>f. case load f of Inl exc \<Rightarrow> Inl (SystemExit 1) | Inr yaml_data \<Rightarrow> Inr yaml_data)"

section \<open>Substituting parameters\<close>

definition parameter_format :: "string \<Rightarrow> string" where
  "parameter_format name = ''<'' @ name @ ''>''"

definition subst_opt :: "string \<Rightarrow> string \<Rightarrow> string \<Rightarrow> string" where
  "subst_opt string name replacement =
     (let needle = parameter_format name in
      if contains string needle then py_replace needle replacement string else string)"

definition subst_value :: "resolver \<Rightarrow> pyval \<Rightarrow> string res" where
  "subst_value resolve v = (case v of
     PPath p \<Rightarrow> Inr (resolve p)
   | PStr s \<Rightarrow> Inr s
   | _ \<Rightarrow> Inl (TypeError ''type of var_dict value must be one of (str, Path)''))"

definition subst_dict :: "resolver \<Rightarrow> string \<Rightarrow> pydict \<Rightarrow> string res" where
  "subst_dict resolve string var_dict =
     rfold (\<lambda>s (key, value). rbind (subst_value resolve value) (\<lambda>r. Inr (subst_opt s key r))) string var_dict"

definition subst_env_vars :: "(string \<times> string) list \<Rightarrow> string \<Rightarrow> string list \<Rightarrow> string res" where
  "subst_env_vars environ string env_vars =
     rfold (\<lambda>s var. case map_of environ var of
         None \<Rightarrow> Inl (RuntimeError (''Cannot substitute '' @ var @
                   '' in command because the environment variable $'' @ var @ '' is not set.''))
       | Some value \<Rightarrow> Inr (subst_opt s var value)) string env_vars"

section \<open>Test data on disk\<close>

text \<open>The files as a map from paths to contents; directories are made on demand and are not modelled.\<close>

type_synonym files = "(string \<times> string) list"

record testdata =
  pickle_file :: "string option"
  yaml_file :: "string option"
  data_fields :: pydict

definition export :: "(testdata \<Rightarrow> string) \<Rightarrow> resolver \<Rightarrow> testdata \<Rightarrow> bool \<Rightarrow> files \<Rightarrow> files res" where
  "export pickle_dump resolve self write_yaml fs =
     (case (pickle_file self, yaml_file self) of
        (None, _) \<Rightarrow> Inl (RuntimeError [])
      | (Some _, None) \<Rightarrow> Inl (RuntimeError [])
      | (Some pf, Some yf) \<Rightarrow>
          (let fs = AList.update pf (pickle_dump self) fs in
           if \<not> write_yaml then Inr fs
           else Inr (AList.update yf (pprint_dict (format_dict_to_printable_dict resolve (data_fields self))) fs)))"

definition construct_from_pickle :: "(string \<Rightarrow> testdata option) \<Rightarrow> string \<Rightarrow> files \<Rightarrow> testdata res" where
  "construct_from_pickle pickle_load metadata_pickle fs =
     (case map_of fs metadata_pickle of
        None \<Rightarrow> Inl (OSError metadata_pickle)
      | Some bytes \<Rightarrow>
          (case pickle_load bytes of None \<Rightarrow> Inl (ValueError ''unpickling'') | Some t \<Rightarrow> Inr t))"

section \<open>Running a command: errors and resources\<close>

text \<open>
  Whatever happens, \<open>run_one\<close> leaves no file open; it returns the code of the command, turns an operating
  system error into 1, and turns a timeout into 1 or, when asked to, raises it again; a text
  destination other than \<open>/dev/null\<close> is refused before the command runs.
\<close>

theorem run_one_outcomes:
  "open_files (snd (run_one run can_open verbose cmd redir timeout_s reraise st)) = open_files st
   \<and> fst (run_one run can_open verbose cmd redir timeout_s reraise st) =
       rbind (case redir of
          Some (RStr s) \<Rightarrow> if s = ''/dev/null'' then Inr () else Inl (RuntimeError (''redirect_stdstream called as '' @ s @ '' but that argument is invalid.''))
        | Some (RPath p) \<Rightarrow> if can_open p then Inr () else Inl (OSError p)
        | _ \<Rightarrow> Inr ())
       (\<lambda>_. case run cmd timeout_s of
               Completed rc \<Rightarrow> Inr rc
             | RunOSError _ \<Rightarrow> Inr 1
             | RunTimeout \<Rightarrow> if reraise then Inl TimeoutExpired else Inr 1)"
  by (auto simp: run_one_def open_dest_def Let_def split: option.splits redirect.splits)

text \<open>The echoed command is one a shell would run as the same command.\<close>

lemma echo_line_runs: "shlex_split (drop 2 (echo_line cmd None)) = Inr cmd"
  by (simp add: echo_line_def shlex_split_quote)

section \<open>Templates\<close>

text \<open>
  A command template as the scripts mean it: literal text and named parameters. Substitution on the
  text is substitution on the template, as long as angle brackets only delimit parameters.
\<close>

datatype piece = Lit string | Par string

definition piece_text :: "piece \<Rightarrow> string" where
  "piece_text p = (case p of Lit s \<Rightarrow> s | Par n \<Rightarrow> parameter_format n)"

definition render :: "piece list \<Rightarrow> string" where
  "render t = concat (map piece_text t)"

definition angle_free :: "string \<Rightarrow> bool" where
  "angle_free s = list_all (\<lambda>c. c \<noteq> CHR ''<'' \<and> c \<noteq> CHR ''>'') s"

definition piece_ok :: "piece \<Rightarrow> bool" where
  "piece_ok p = (case p of Lit s \<Rightarrow> angle_free s | Par n \<Rightarrow> angle_free n)"

definition fill :: "(string \<rightharpoonup> string) \<Rightarrow> piece \<Rightarrow> piece" where
  "fill m p = (case p of Lit s \<Rightarrow> p | Par n \<Rightarrow> (case m n of None \<Rightarrow> p | Some v \<Rightarrow> Lit v))"

lemma py_replace_absent: "old \<noteq> [] \<Longrightarrow> \<not> contains s old \<Longrightarrow> py_replace old new s = s"
proof (induction s)
  case (Cons c s)
  then show ?case by (subst py_replace.simps) (simp add: contains_Cons_iff)
qed (simp add: py_replace.simps)

lemma subst_opt_replace: "subst_opt s name r = py_replace (parameter_format name) r s"
  by (simp add: subst_opt_def Let_def py_replace_absent parameter_format_def)

lemma replace_lit:
  "angle_free l \<Longrightarrow> py_replace (parameter_format name) r (l @ s) = l @ py_replace (parameter_format name) r s"
proof (induction l)
  case (Cons c l)
  then show ?case
    by (subst py_replace.simps) (auto simp: parameter_format_def angle_free_def)
qed simp

lemma prefix_parameter:
  assumes "angle_free n" "angle_free m"
  shows "prefix (parameter_format n) (parameter_format m @ s) \<longleftrightarrow> n = m"
proof -
  have "prefix (n @ ''>'') (m @ CHR ''>'' # s) \<longleftrightarrow> n = m"
    using assms unfolding angle_free_def
  proof (induction n arbitrary: m)
    case Nil
    then show ?case by (cases m) auto
  next
    case (Cons c n)
    then show ?case by (cases m) auto
  qed
  then show ?thesis by (simp add: parameter_format_def)
qed

lemma replace_par:
  assumes "angle_free n" "angle_free name"
  shows "py_replace (parameter_format name) r (parameter_format n @ s) =
    (if n = name then r else parameter_format n) @ py_replace (parameter_format name) r s"
proof (cases "n = name")
  case True
  then show ?thesis by (subst py_replace.simps) (simp add: parameter_format_def)
next
  case False
  have "py_replace (parameter_format name) r (parameter_format n @ s) =
      CHR ''<'' # py_replace (parameter_format name) r (n @ CHR ''>'' # s)"
    using False prefix_parameter [OF assms(2,1)]
    by (subst py_replace.simps) (simp add: parameter_format_def)
  also have "py_replace (parameter_format name) r (n @ CHR ''>'' # s) =
      n @ py_replace (parameter_format name) r (CHR ''>'' # s)"
    by (rule replace_lit [OF assms(1)])
  also have "py_replace (parameter_format name) r (CHR ''>'' # s) = CHR ''>'' # py_replace (parameter_format name) r s"
    by (subst py_replace.simps) (simp add: parameter_format_def)
  finally show ?thesis using False by (simp add: parameter_format_def)
qed

lemma subst_opt_render:
  assumes "list_all piece_ok t" "angle_free name"
  shows "subst_opt (render t) name r = render (map (fill [name \<mapsto> r]) t)"
  unfolding subst_opt_replace using assms(1)
proof (induction t)
  case Nil
  then show ?case by (simp add: render_def py_replace.simps parameter_format_def)
next
  case (Cons p t)
  then show ?case
    by (cases p) (auto simp: render_def piece_text_def piece_ok_def fill_def replace_lit replace_par assms(2))
qed

lemma fill_ok: "list_all piece_ok t \<Longrightarrow> (\<And>n v. m n = Some v \<Longrightarrow> angle_free v) \<Longrightarrow> list_all piece_ok (map (fill m) t)"
  by (auto simp: list_all_iff fill_def piece_ok_def split: piece.splits option.splits)

lemma fill_fill: "fill m2 (fill m1 p) = fill (m2 ++ m1) p"
  by (auto simp: fill_def map_add_def split: piece.splits option.splits)

definition value_of :: "resolver \<Rightarrow> pyval \<Rightarrow> string" where
  "value_of resolve v = (case subst_value resolve v of Inr r \<Rightarrow> r | Inl _ \<Rightarrow> [])"

definition dict_ok :: "resolver \<Rightarrow> pydict \<Rightarrow> bool" where
  "dict_ok resolve d = list_all (\<lambda>(k, v). angle_free k \<and> is_ok (subst_value resolve v) \<and> angle_free (value_of resolve v)) d"

definition dict_values :: "resolver \<Rightarrow> pydict \<Rightarrow> (string \<times> string) list" where
  "dict_values resolve d = map (\<lambda>(k, v). (k, value_of resolve v)) d"

lemma map_fill_fill: "map (fill m2) (map (fill m1) t) = map (fill (m2 ++ m1)) t"
  by (simp add: fill_fill)

lemma fill_empty: "fill Map.empty = id"
  by (rule ext) (simp add: fill_def split: piece.splits)

lemma map_of_Cons_add: "map_of ((k, v) # d) = map_of d ++ [k \<mapsto> v]"
  by auto

lemma subst_dict_render:
  assumes "list_all piece_ok t" "dict_ok resolve d"
  shows "subst_dict resolve (render t) d = Inr (render (map (fill (map_of (dict_values resolve d))) t))"
  using assms
proof (induction d arbitrary: t)
  case Nil
  then show ?case by (simp add: subst_dict_def dict_values_def fill_empty)
next
  case (Cons kv d)
  obtain k v where kv: "kv = (k, v)" by (cases kv)
  obtain r where r: "subst_value resolve v = Inr r" "angle_free r" "angle_free k"
    using Cons.prems(2) by (cases "subst_value resolve v") (auto simp: kv dict_ok_def value_of_def)
  let ?t = "map (fill [k \<mapsto> r]) t"
  have "list_all piece_ok ?t" by (rule fill_ok [OF Cons.prems(1)]) (use r in \<open>simp split: if_splits\<close>)
  moreover have "dict_ok resolve d" using Cons.prems(2) by (simp add: dict_ok_def)
  ultimately have "subst_dict resolve (render ?t) d = Inr (render (map (fill (map_of (dict_values resolve d))) ?t))"
    by (rule Cons.IH)
  moreover have "subst_dict resolve (render t) (kv # d) = subst_dict resolve (render ?t) d"
    using r subst_opt_render [OF Cons.prems(1) r(3)] by (simp add: kv subst_dict_def)
  moreover have "map_of (dict_values resolve (kv # d)) = map_of (dict_values resolve d) ++ [k \<mapsto> r]"
    using r(1) by (simp add: kv dict_values_def value_of_def)
  ultimately show ?case by (simp only: map_fill_fill)
qed

text \<open>
  C31. \<open>subst_dict\<close> is substitution on templates: on the text of a template whose literals and values have no
  angle brackets, it gives the text of the template in which every parameter the dictionary
  defines is replaced by its value (paths resolved) and every other parameter is left alone.
\<close>

theorem subst_dict_template:
  assumes "list_all piece_ok t" "dict_ok resolve d"
  shows "subst_dict resolve (render t) d = Inr (render (map (fill (map_of (dict_values resolve d))) t))"
  by (rule subst_dict_render [OF assms])

theorem subst_dict_template_witness:
  "subst_dict (\<lambda>p. p) (render [Lit ''vcs -o '', Par ''out'', Lit '' '', Par ''x'']) [(''out'', PPath ''/tmp/o'')]
   = Inr (render (map (fill (map_of (dict_values (\<lambda>p. p) [(''out'', PPath ''/tmp/o'')]))) [Lit ''vcs -o '', Par ''out'', Lit '' '', Par ''x'']))"
  by (rule subst_dict_template) (simp_all add: piece_ok_def angle_free_def dict_ok_def subst_value_def value_of_def)

lemma subst_env_render:
  assumes "list_all piece_ok t" "list_all (\<lambda>v. angle_free v \<and> (\<exists>r. map_of environ v = Some r \<and> angle_free r)) vars"
  shows "subst_env_vars environ (render t) vars = Inr (render (map (fill (map_of environ |` set vars)) t))"
  using assms
proof (induction vars arbitrary: t)
  case Nil
  then show ?case by (simp add: subst_env_vars_def fill_empty)
next
  case (Cons v vars)
  then obtain r where r: "map_of environ v = Some r" "angle_free r" "angle_free v" by auto
  let ?t = "map (fill [v \<mapsto> r]) t"
  have "list_all piece_ok ?t" by (rule fill_ok [OF Cons.prems(1)]) (use r in \<open>simp split: if_splits\<close>)
  then have "subst_env_vars environ (render ?t) vars = Inr (render (map (fill (map_of environ |` set vars)) ?t))"
    using Cons.prems(2) by (intro Cons.IH) simp_all
  moreover have "subst_env_vars environ (render t) (v # vars) = subst_env_vars environ (render ?t) vars"
    using r subst_opt_render [OF Cons.prems(1) r(3)] by (simp add: subst_env_vars_def)
  moreover have "map_of environ |` set (v # vars) = (map_of environ |` set vars) ++ [v \<mapsto> r]"
    using r(1) by (auto simp: restrict_map_def)
  ultimately show ?case by (simp only: map_fill_fill)
qed

text \<open>
  \<open>subst_env_vars\<close> raises exactly when one of the listed variables is not set, whether or not the string uses
  it; its documentation says that the parameter has to occur in the string.
\<close>

theorem subst_env_vars_error_iff:
  "is_ok (subst_env_vars environ s vars) \<longleftrightarrow> list_all (\<lambda>v. map_of environ v \<noteq> None) vars"
  by (induction vars arbitrary: s) (auto simp: subst_env_vars_def split: option.splits)

section \<open>Export and import\<close>

text \<open>
  Exported test data read back from its pickle file is the data that was exported, with or without the YAML
  copy, when pickling decodes what it encoded and the two files differ.
\<close>

theorem export_roundtrip:
  assumes "pickle_load (pickle_dump t) = Some t"
    and "pickle_file t = Some pf" "yaml_file t = Some yf" "pf \<noteq> yf"
  shows "\<exists>fs'. export pickle_dump resolve t write_yaml fs = Inr fs' \<and> construct_from_pickle pickle_load pf fs' = Inr t"
  using assms by (auto simp: export_def construct_from_pickle_def Let_def AList.update_conv')

definition demo_data :: testdata where
  "demo_data = \<lparr>pickle_file = Some ''a'', yaml_file = Some ''b'', data_fields = []\<rparr>"

theorem export_roundtrip_witness:
  "\<exists>fs'. export (\<lambda>_. ''P'') (\<lambda>p. p) demo_data True [] = Inr fs'
     \<and> construct_from_pickle (\<lambda>_. Some demo_data) ''a'' fs' = Inr demo_data"
  by (rule export_roundtrip [where yf = "''b''"]) (simp_all add: demo_data_def)

end
