(* ===== verification/Trace_Log.thy ===== *)
theory Trace_Log
  imports Py_Regex Py_Data
begin

text \<open>
  \<open>dv/uvm/core_ibex/riscv_dv_extension/ibex_log_to_trace_csv.py\<close>, with the parts of riscv-dv's
  \<open>lib.py\<close> and \<open>riscv_trace_csv.py\<close> that it calls: the conversion of an Ibex trace into the CSV format
  of riscv-dv, and the verdict on a UVM simulation log.
\<close>

section \<open>riscv-dv helpers\<close>

definition abi_switcher :: "(string \<times> string) list" where
  "abi_switcher = [
     (''x0'', ''zero''), (''x1'', ''ra''), (''x2'', ''sp''), (''x3'', ''gp''), (''x4'', ''tp''),
     (''x5'', ''t0''), (''x6'', ''t1''), (''x7'', ''t2''), (''x8'', ''s0''), (''x9'', ''s1''),
     (''x10'', ''a0''), (''x11'', ''a1''), (''x12'', ''a2''), (''x13'', ''a3''), (''x14'', ''a4''),
     (''x15'', ''a5''), (''x16'', ''a6''), (''x17'', ''a7''), (''x18'', ''s2''), (''x19'', ''s3''),
     (''x20'', ''s4''), (''x21'', ''s5''), (''x22'', ''s6''), (''x23'', ''s7''), (''x24'', ''s8''),
     (''x25'', ''s9''), (''x26'', ''s10''), (''x27'', ''s11''), (''x28'', ''t3''), (''x29'', ''t4''),
     (''x30'', ''t5''), (''x31'', ''t6''),
     (''f0'', ''ft0''), (''f1'', ''ft1''), (''f2'', ''ft2''), (''f3'', ''ft3''), (''f4'', ''ft4''),
     (''f5'', ''ft5''), (''f6'', ''ft6''), (''f7'', ''ft7''), (''f8'', ''fs0''), (''f9'', ''fs1''),
     (''f10'', ''fa0''), (''f11'', ''fa1''), (''f12'', ''fa2''), (''f13'', ''fa3''), (''f14'', ''fa4''),
     (''f15'', ''fa5''), (''f16'', ''fa6''), (''f17'', ''fa7''), (''f18'', ''fs2''), (''f19'', ''fs3''),
     (''f20'', ''fs4''), (''f21'', ''fs5''), (''f22'', ''fs6''), (''f23'', ''fs7''), (''f24'', ''fs8''),
     (''f25'', ''fs9''), (''f26'', ''fs10''), (''f27'', ''fs11''), (''f28'', ''ft8''), (''f29'', ''ft9''),
     (''f30'', ''ft10''), (''f31'', ''ft11'')]"

definition gpr_to_abi :: "string \<Rightarrow> string" where
  "gpr_to_abi gpr = (case map_of abi_switcher gpr of None \<Rightarrow> ''na'' | Some a \<Rightarrow> a)"

definition sint_to_hex :: "int \<Rightarrow> string" where
  "sint_to_hex val = py_hex (nat ((val + 2 ^ 32) mod 2 ^ 32))"

text \<open>\<open>int(s, 0)\<close> on a text of digits and minus signs: no leading zeros, except in zero itself.\<close>

definition py_int0 :: "string \<Rightarrow> int res" where
  "py_int0 s =
     (if prefix ''0'' s \<and> list_ex (\<lambda>c. c \<noteq> CHR ''0'') s
      then Inl (ValueError (''invalid literal for int() with base 0: '' @ s))
      else py_int 10 s)"

definition get_imm_hex_val :: "string \<Rightarrow> string res" where
  "get_imm_hex_val imm =
     (let neg = prefix ''-'' imm in
      rbind (py_int0 (if neg then tl imm else imm)) (\<lambda>v.
        Inr (drop 2 (sint_to_hex (if neg then - v else v)))))"

text \<open>The pseudo instructions that become another instruction with operands appended.\<close>

definition append_pseudo :: "(string \<times> (string \<times> string)) list" where
  "append_pseudo = [
     (''mv'', (''addi'', '',0'')), (''not'', (''xori'', '',-1'')), (''sext.w'', (''addiw'', '',0'')),
     (''seqz'', (''sltiu'', '',1'')), (''sltz'', (''slt'', '',zero'')), (''csrr'', (''csrrw'', '',zero'')),
     (''rev.p'', (''grevi'', '',1'')), (''rev2.n'', (''grevi'', '',2'')), (''rev.n'', (''grevi'', '',3'')),
     (''rev4.b'', (''grevi'', '',4'')), (''rev2.b'', (''grevi'', '',6'')), (''rev.b'', (''grevi'', '',7'')),
     (''rev8.h'', (''grevi'', '',8'')), (''rev4.h'', (''grevi'', '',12'')), (''rev2.h'', (''grevi'', '',14'')),
     (''rev.h'', (''grevi'', '',15'')), (''rev16'', (''grevi'', '',16'')), (''rev8'', (''grevi'', '',24'')),
     (''rev4'', (''grevi'', '',28'')), (''rev2'', (''grevi'', '',30'')), (''rev'', (''grevi'', '',31'')),
     (''orc.p'', (''gorci'', '',1'')), (''orc2.n'', (''gorci'', '',2'')), (''orc.n'', (''gorci'', '',3'')),
     (''orc4.b'', (''gorci'', '',4'')), (''orc2.b'', (''gorci'', '',6'')), (''orc.b'', (''gorci'', '',7'')),
     (''orc8.h'', (''gorci'', '',8'')), (''orc4.h'', (''gorci'', '',12'')), (''orc2.h'', (''gorci'', '',14'')),
     (''orc.h'', (''gorci'', '',15'')), (''orc16'', (''gorci'', '',16'')), (''orc8'', (''gorci'', '',24'')),
     (''orc4'', (''gorci'', '',28'')), (''orc2'', (''gorci'', '',30'')), (''orc'', (''gorci'', '',31'')),
     (''zext.b'', (''andi'', '',255'')), (''zext.h'', (''pack'', '',zero'')), (''zext.w'', (''pack'', '',zero'')),
     (''zip.n'', (''shfli'', '',1'')), (''unzip.n'', (''unshfli'', '',1'')), (''zip2.b'', (''shfli'', '',2'')),
     (''unzip2.b'', (''unshfli'', '',2'')), (''zip.b'', (''shfli'', '',3'')), (''unzip.b'', (''unshfli'', '',3'')),
     (''zip4.h'', (''shfli'', '',4'')), (''unzip4.h'', (''unshfli'', '',4'')), (''zip2.h'', (''shfli'', '',6'')),
     (''unzip2.h'', (''unshfli'', '',6'')), (''zip.h'', (''shfli'', '',7'')), (''unzip.h'', (''unshfli'', '',7'')),
     (''zip8'', (''shfli'', '',8'')), (''unzip8'', (''unshfli'', '',8'')), (''zip4'', (''shfli'', '',12'')),
     (''unzip4'', (''unshfli'', '',12'')), (''zip2'', (''shfli'', '',14'')), (''unzip2'', (''unshfli'', '',14'')),
     (''zip'', (''shfli'', '',15'')), (''unzip'', (''unshfli'', '',15''))]"

definition nth_py :: "'a list \<Rightarrow> nat \<Rightarrow> 'a res" where
  "nth_py xs i = (if i < length xs then Inr (xs ! i) else Inl (IndexError ''list index out of range''))"

definition zero_between :: "string \<Rightarrow> string res" where
  "zero_between operands = (let sp = split_char (CHR '','') operands in
     rbind (nth_py sp 1) (\<lambda>b. Inr (hd sp @ '',zero,'' @ b)))"

definition swap_first :: "string \<Rightarrow> string res" where
  "swap_first operands = (let sp = split_char (CHR '','') operands in
     rbind (nth_py sp 1) (\<lambda>b. rbind (nth_py sp 2) (\<lambda>c. Inr (b @ '','' @ hd sp @ '','' @ c))))"

definition is_az09 :: "char \<Rightarrow> bool" where "is_az09 c = (is_lower c \<or> is_digit c)"
definition is_neg09 :: "char \<Rightarrow> bool" where "is_neg09 c = (c = CHR ''-'' \<or> is_digit c)"

definition BASE_RE :: rx where
  "BASE_RE = rseq [RGroup 1 (rplus_lazy (RSet is_az09)), rlit (CHR '',''), RGroup 2 (RLazy (RSet is_neg09)),
     rlit (CHR ''(''), RGroup 3 (rplus_lazy (RSet is_az09)), rlit (CHR '')'')]"

definition jalr_operands :: "string \<Rightarrow> string" where
  "jalr_operands operands =
     (let operands = (case re_search BASE_RE operands of
            Some m \<Rightarrow> group_str m 1 @ '','' @ group_str m 3 @ '','' @ group_str m 2
          | None \<Rightarrow> operands)
      in if CHR '','' \<in> set operands then operands else ''ra,'' @ operands @ '',0'')"

definition convert_pseudo_instr :: "string \<Rightarrow> string \<Rightarrow> string \<Rightarrow> (string \<times> string) res" where
  "convert_pseudo_instr instr_name operands binary =
     (let n = instr_name in
      if n = ''nop'' then Inr (''addi'', ''zero,zero,0'')
      else if n = ''neg'' then rbind (zero_between operands) (\<lambda>p. Inr (''sub'', p))
      else if n = ''negw'' then rbind (zero_between operands) (\<lambda>p. Inr (''subw'', p))
      else if n = ''snez'' then rbind (zero_between operands) (\<lambda>p. Inr (''sltu'', p))
      else if n = ''sgtz'' then rbind (zero_between operands) (\<lambda>p. Inr (''slt'', p))
      else if n \<in> {''beqz'', ''bnez'', ''bgez'', ''bltz''} then
        rbind (zero_between operands) (\<lambda>p. Inr (take 3 n, p))
      else if n = ''blez'' then Inr (''bge'', ''zero,'' @ operands)
      else if n = ''bgtz'' then Inr (''blt'', ''zero,'' @ operands)
      else if n = ''bgt'' then rbind (swap_first operands) (\<lambda>p. Inr (''blt'', p))
      else if n = ''ble'' then rbind (swap_first operands) (\<lambda>p. Inr (''bge'', p))
      else if n = ''bgtu'' then rbind (swap_first operands) (\<lambda>p. Inr (''bltu'', p))
      else if n = ''bleu'' then rbind (swap_first operands) (\<lambda>p. Inr (''bgeu'', p))
      else if n \<in> {''csrw'', ''csrs'', ''csrc'', ''csrwi'', ''csrsi'', ''csrci''} then
        Inr (''csrr'' @ drop 3 n, ''zero,'' @ operands)
      else if n = ''jr'' then Inr (''jalr'', ''zero,'' @ operands @ '',0'')
      else if n = ''j'' then Inr (''jal'', ''zero,'' @ operands)
      else if n = ''jal'' then Inr (n, if CHR '','' \<in> set operands then operands else ''ra,'' @ operands)
      else if n = ''jalr'' then Inr (n, jalr_operands operands)
      else if n = ''ret'' then
        (if binary = [] then Inl (IndexError ''string index out of range'')
         else if last binary = CHR ''2'' then Inr (''c.jr'', ''ra'') else Inr (''jalr'', ''zero,ra,0''))
      else (case map_of append_pseudo n of
              Some (m, suf) \<Rightarrow> Inr (m, operands @ suf)
            | None \<Rightarrow> Inr (n, operands)))"

section \<open>The CSV writer\<close>

record trace_entry =
  gpr :: "string list"
  csr :: "string list"
  instr :: string
  operand :: string
  pc :: string
  bin :: string
  instr_str :: string
  mode :: string

definition new_entry :: trace_entry where
  "new_entry = \<lparr>gpr = [], csr = [], instr = [], operand = [], pc = [], bin = [], instr_str = [], mode = []\<rparr>"

definition trace_fields :: "string list" where
  "trace_fields = [''pc'', ''instr'', ''gpr'', ''csr'', ''binary'', ''mode'', ''instr_str'', ''operand'', ''pad'']"

text \<open>The default dialect of Python's \<open>csv\<close> module: minimal quoting, lines ended by CR LF.\<close>

definition csv_field :: "string \<Rightarrow> string" where
  "csv_field s =
     (if list_ex (\<lambda>c. c \<in> {CHR '','', CHR 34, CHR 13, CHR 10}) s
      then [CHR 34] @ py_replace [CHR 34] [CHR 34, CHR 34] s @ [CHR 34] else s)"

definition csv_row :: "string list \<Rightarrow> string" where
  "csv_row fs = py_join '','' (map csv_field fs) @ [CHR 13, CHR 10]"

definition start_new_trace :: string where
  "start_new_trace = csv_row trace_fields"

definition write_trace_entry :: "trace_entry \<Rightarrow> string" where
  "write_trace_entry e =
     csv_row [pc e, instr e, py_join '';'' (gpr e), py_join '';'' (csr e), bin e, mode e, instr_str e, operand e, []]"

section \<open>From the Ibex log to trace entries\<close>

definition is_hex09 :: "char \<Rightarrow> bool" where "is_hex09 c = is_hex_lower c"
definition not_space :: "char \<Rightarrow> bool" where "not_space c = (\<not> is_space c)"

text \<open>Groups: 1 time, 2 cycle, 3 pc, 4 bin, 5 instr. The pattern is anchored, so a search is a match.\<close>

definition INSTR_RE :: rx where
  "INSTR_RE = rseq [RStar (RSet is_space), RGroup 1 (rplus (RSet is_digit)), rplus (RSet is_space),
     RGroup 2 (rplus (RSet is_digit)), rplus (RSet is_space), RGroup 3 (rplus (RSet is_hex09)), rplus (RSet is_space),
     RGroup 4 (rplus (RSet is_hex09)), rplus (RSet is_space),
     RGroup 5 (rseq [rplus (RSet not_space), rplus (RSet is_space), rplus (RSet not_space)]), RStar (RSet is_space)]"

definition RD_RE :: rx where
  "RD_RE = RGroup 1 (rseq [rlit (CHR ''x''), RGroup 2 (RSeq (RSet (\<lambda>c. is_digit c \<and> c \<noteq> CHR ''0'')) (RStar (RSet is_digit))),
     rstr ''=0x'', RGroup 3 (rplus (RSet is_hex09))])"

definition ADDR_RE :: rx where
  "ADDR_RE = rseq [RGroup 1 (rplus_lazy (RSet is_az09)), rlit (CHR '',''), RGroup 2 (rplus_lazy (RSet is_neg09)),
     rlit (CHR ''(''), RGroup 3 (rplus (RSet is_az09)), rlit (CHR '')'')]"

definition convert_operands_to_abi :: "string \<Rightarrow> string" where
  "convert_operands_to_abi operand_str =
     py_join '','' (map (\<lambda>x. let converted_op = gpr_to_abi x in if converted_op \<noteq> ''na'' then converted_op else x)
       (split_char (CHR '','') operand_str))"

definition pc_relative_instrs :: "string list" where
  "pc_relative_instrs = [''beq'', ''bne'', ''blt'', ''bge'', ''bltu'', ''bgeu'', ''c.beqz'',
     ''c.bnez'', ''beqz'', ''bnez'', ''bgez'', ''bltz'', ''blez'',
     ''bgtz'', ''c.j'', ''j'', ''c.jal'', ''jal'']"

definition rel_imm :: "string \<Rightarrow> string \<Rightarrow> string res" where
  "rel_imm imm pcs = rbind (py_int 16 imm) (\<lambda>i. rbind (py_int 16 pcs) (\<lambda>p. Inr (sint_to_hex (i - p))))"

definition process_imm :: "string \<Rightarrow> string \<Rightarrow> string \<Rightarrow> string res" where
  "process_imm instr_name pcs operands =
     (if instr_name \<notin> set pc_relative_instrs then Inr operands
      else (case rsplit_once (CHR '','') operands of
              [a, imm] \<Rightarrow> rbind (rel_imm imm pcs) (\<lambda>h. Inr (a @ '','' @ h))
            | _ \<Rightarrow> rel_imm operands pcs))"

text \<open>The attribute \<open>imm\<close> that the method also sets is not written to the CSV file.\<close>

definition expand_trace_entry :: "trace_entry \<Rightarrow> string \<Rightarrow> trace_entry res" where
  "expand_trace_entry trace operands =
     rbind (process_imm (instr trace) (pc trace) operands) (\<lambda>operands.
     rbind (convert_pseudo_instr (instr trace) operands (bin trace)) (\<lambda>(ins, operands).
     rbind (case re_search ADDR_RE operands of
              Some n \<Rightarrow> rbind (get_imm_hex_val (group_str n 2)) (\<lambda>imm.
                 Inr (py_join '','' [group_str n 1, group_str n 3, group_str n 2]))
            | None \<Rightarrow> Inr operands) (\<lambda>operands.
       Inr (trace\<lparr>instr := ins, operand := convert_operands_to_abi operands\<rparr>))))"

definition trace_line :: "bool \<Rightarrow> string \<Rightarrow> trace_entry option res" where
  "trace_line full_trace line = (case re_match INSTR_RE line of
     None \<Rightarrow> Inr None
   | Some m \<Rightarrow>
       (let ins = group_str m 5;
            e = new_entry\<lparr>instr_str := ins, instr := hd (py_words ins), pc := group_str m 3, bin := group_str m 4\<rparr>
        in rbind (if full_trace then expand_trace_entry e (py_words ins ! 1) else Inr e) (\<lambda>e.
             Inr (Some (case re_search RD_RE line of
                Some c \<Rightarrow> e\<lparr>gpr := gpr e @ [gpr_to_abi (''x'' @ group_str c 2) @ '':'' @ group_str c 3]\<rparr>
              | None \<Rightarrow> e)))))"

fun process_lines :: "bool \<Rightarrow> string list \<Rightarrow> string \<Rightarrow> nat \<Rightarrow> (string \<times> nat) res" where
  "process_lines full_trace [] csv instr_cnt = Inr (csv, instr_cnt)"
| "process_lines full_trace (line # lines) csv instr_cnt =
     (if contains line ''ecall'' then Inr (csv, instr_cnt)
      else rbind (trace_line full_trace line) (\<lambda>e. case e of
             None \<Rightarrow> process_lines full_trace lines csv instr_cnt
           | Some e \<Rightarrow> process_lines full_trace lines (csv @ write_trace_entry e) (Suc instr_cnt)))"

definition process_ibex_sim_log_fd :: "string \<Rightarrow> bool \<Rightarrow> (string \<times> nat) res" where
  "process_ibex_sim_log_fd log full_trace = process_lines full_trace (file_lines log) start_new_trace 0"

text \<open>\<open>read_file\<close> gives \<open>None\<close> for a file that is not found. The result is the text of the CSV file.\<close>

definition process_ibex_sim_log :: "(string \<Rightarrow> string option) \<Rightarrow> string \<Rightarrow> bool \<Rightarrow> string res" where
  "process_ibex_sim_log read_file ibex_log full_trace = (case read_file ibex_log of
     None \<Rightarrow> Inl (RuntimeError (''Logfile '' @ ibex_log @ '' not found''))
   | Some log \<Rightarrow> rbind (process_ibex_sim_log_fd log full_trace) (\<lambda>(csv, count).
       if count = 0 then Inl (RuntimeError (''No instructions in logfile: '' @ ibex_log)) else Inr csv))"

text \<open>
  \<open>main\<close> on the log and the value of \<open>--full_trace\<close>; the handler at the end of the file prints a \<open>RuntimeError\<close> and exits
  with \<open>RET_FATAL\<close>. The result is the text of the CSV file.
\<close>

definition log_to_trace_main :: "string \<Rightarrow> int \<Rightarrow> string res" where
  "log_to_trace_main log full_trace = (case process_ibex_sim_log_fd log (full_trace \<noteq> 0) of
     Inr (csv, _) \<Rightarrow> Inr csv
   | Inl (RuntimeError err) \<Rightarrow> Inl (SystemExit (- 1))
   | Inl e \<Rightarrow> Inl e)"

section \<open>The UVM log\<close>

datatype Failure_Modes = NONE | TIMEOUT | FILE_ERROR | LOG_ERROR

record uvm_state =
  u_passed :: bool
  u_failed :: bool
  u_error :: "(nat \<times> string) option"
  u_seen :: bool

definition is_error_line :: "string \<Rightarrow> bool" where
  "is_error_line line = (contains line ''UVM_ERROR'' \<or> contains line ''UVM_FATAL'' \<or> contains line ''Error'')"

definition is_pass_line :: "string \<Rightarrow> bool" where
  "is_pass_line line = contains line ''RISC-V UVM TEST PASSED''"

definition is_fail_line :: "string \<Rightarrow> bool" where
  "is_fail_line line = contains line ''RISC-V UVM TEST FAILED''"

fun uvm_loop :: "nat \<Rightarrow> string list \<Rightarrow> uvm_state \<Rightarrow> uvm_state" where
  "uvm_loop linenum [] st = st"
| "uvm_loop linenum (line # lines) st =
     (let st1 = (if is_error_line line \<and> \<not> u_seen st
                 then st\<lparr>u_error := Some (linenum, line), u_failed := True\<rparr> else st);
          st2 = (if is_pass_line line then st1\<lparr>u_seen := True, u_passed := True\<rparr> else st1)
      in if is_fail_line line then st2\<lparr>u_seen := True, u_failed := True\<rparr>
         else uvm_loop (Suc linenum) lines st2)"

definition log_extract :: "nat \<Rightarrow> string list \<Rightarrow> string list" where
  "log_extract error_linenum lines =
     map (\<lambda>(n, line). (if n = error_linenum then ''[E] '' else ''    '') @ nat_str n @ '': '' @ strip line)
       (filter (\<lambda>(n, line). int error_linenum - 5 \<le> int n \<and> int n < int error_linenum + 5)
         (enumerate 1 lines))"

definition check_ibex_uvm_log :: "string \<Rightarrow> (bool \<times> string list \<times> Failure_Modes) res" where
  "check_ibex_uvm_log log =
     (let lines = file_lines log;
          st = uvm_loop 1 lines \<lparr>u_passed = False, u_failed = False, u_error = None, u_seen = False\<rparr>
      in if \<not> u_failed st then Inr (u_passed st, [], NONE)
         else (case u_error st of
                 None \<Rightarrow> Inl (TypeError ''argument of type 'NoneType' is not iterable'')
               | Some (n, l) \<Rightarrow>
                   Inr (False, log_extract n lines,
                        if contains l ''Test failed due to wall-clock timeout.'' then TIMEOUT else LOG_ERROR)))"

section \<open>Branch targets\<close>

lemma rsplit_once_sep: "c \<notin> set v \<Longrightarrow> rsplit_once c (k @ c # v) = [k, v]"
proof -
  assume "c \<notin> set v"
  then have "dropWhile (\<lambda>x. x \<noteq> c) (rev v @ c # rev k) = c # rev k" "takeWhile (\<lambda>x. x \<noteq> c) (rev v @ c # rev k) = rev v"
    by (simp_all add: dropWhile_append takeWhile_append)
  then show ?thesis by (simp add: rsplit_once_def)
qed



section \<open>ABI names\<close>

lemma abi_no_comma: "(r, a) \<in> set abi_switcher \<Longrightarrow> CHR '','' \<notin> set a"
  by (auto simp: abi_switcher_def)

definition abi_operand :: "string \<Rightarrow> string" where
  "abi_operand x = (case map_of abi_switcher x of None \<Rightarrow> x | Some a \<Rightarrow> a)"

lemma abi_names: "(r, a) \<in> set abi_switcher \<Longrightarrow> a \<noteq> ''na''" "distinct (map snd abi_switcher)"
  "set (map snd abi_switcher) \<inter> set (map fst abi_switcher) = {}" "distinct (map fst abi_switcher)"
  by (auto simp: abi_switcher_def)

text \<open>
  The conversion to ABI names works operand by operand: the number of operands is kept, each register name is
  replaced by its ABI name and everything else is kept; two different registers never become the
  same name; and converting twice changes nothing more.
\<close>

theorem convert_operands_pointwise:
  "split_char (CHR '','') (convert_operands_to_abi s) = map abi_operand (split_char (CHR '','') s)
   \<and> distinct (map abi_operand (map fst abi_switcher))
   \<and> convert_operands_to_abi (convert_operands_to_abi s) = convert_operands_to_abi s"
proof -
  have op: "(let c = gpr_to_abi x in if c \<noteq> ''na'' then c else x) = abi_operand x" for x
    using abi_names(1) by (auto simp: gpr_to_abi_def abi_operand_def dest: map_of_SomeD split: option.splits)
  have conv: "convert_operands_to_abi s = py_join '','' (map abi_operand (split_char (CHR '','') s))" for s
    unfolding convert_operands_to_abi_def op ..
  have nc: "CHR '','' \<notin> set (abi_operand x)" if "CHR '','' \<notin> set x" for x
    using that abi_no_comma by (auto simp: abi_operand_def dest!: map_of_SomeD split: option.splits)
  have sp: "split_char (CHR '','') (convert_operands_to_abi s) = map abi_operand (split_char (CHR '','') s)" for s
    unfolding conv by (rule split_char_join) (auto intro!: nc dest: split_char_parts)
  have idem: "abi_operand (abi_operand x) = abi_operand x" for x
  proof (cases "map_of abi_switcher x")
    case (Some a)
    then have "a \<in> set (map snd abi_switcher)" by (force dest: map_of_SomeD)
    with abi_names(3) have "map_of abi_switcher a = None" by (auto simp: map_of_eq_None_iff)
    with Some show ?thesis by (simp add: abi_operand_def)
  qed (simp add: abi_operand_def)
  have "map abi_operand (map fst abi_switcher) = map snd abi_switcher"
    using abi_names(4) by (auto simp: abi_operand_def)
  with abi_names(2) have "distinct (map abi_operand (map fst abi_switcher))" by (simp only:)
  moreover have "convert_operands_to_abi (convert_operands_to_abi s) = convert_operands_to_abi s"
    unfolding conv [of "convert_operands_to_abi s"] sp by (simp add: idem comp_def) (simp add: conv)
  ultimately show ?thesis using sp by blast
qed

section \<open>The verdict on a UVM log\<close>

text \<open>The lines up to and including the first test result.\<close>

fun before_result :: "string list \<Rightarrow> string list" where
  "before_result [] = []"
| "before_result (l # ls) = l # (if is_pass_line l \<or> is_fail_line l then [] else before_result ls)"

lemma uvm_loop_fields:
  "u_failed (uvm_loop n ls st) \<longleftrightarrow>
     u_failed st \<or> list_ex is_fail_line ls \<or> \<not> u_seen st \<and> list_ex is_error_line (before_result ls)"
  "u_error (uvm_loop n ls st) = None \<longleftrightarrow>
     u_error st = None \<and> (u_seen st \<or> \<not> list_ex is_error_line (before_result ls))"
  "\<not> list_ex is_fail_line ls \<Longrightarrow> u_passed (uvm_loop n ls st) \<longleftrightarrow> u_passed st \<or> list_ex is_pass_line ls"
  by (induction n ls st rule: uvm_loop.induct) (auto simp: Let_def)

definition error_in :: "nat \<Rightarrow> string list \<Rightarrow> (nat \<times> string) option \<Rightarrow> bool" where
  "error_in n ls e = (case e of None \<Rightarrow> True
     | Some (m, l) \<Rightarrow> n \<le> m \<and> m < n + length ls \<and> ls ! (m - n) = l \<and> is_error_line l)"

lemma uvm_loop_error:
  "u_error (uvm_loop n ls st) = u_error st \<or> error_in n ls (u_error (uvm_loop n ls st))"
proof (induction n ls st rule: uvm_loop.induct)
  case (2 n line lines st)
  define st1 where "st1 = (if is_error_line line \<and> \<not> u_seen st
     then st\<lparr>u_error := Some (n, line), u_failed := True\<rparr> else st)"
  define st2 where "st2 = (if is_pass_line line then st1\<lparr>u_seen := True, u_passed := True\<rparr> else st1)"
  have e: "u_error st2 = u_error st \<or> u_error st2 = Some (n, line) \<and> is_error_line line"
    by (simp add: st1_def st2_def)
  have step: "uvm_loop n (line # lines) st =
      (if is_fail_line line then st2\<lparr>u_seen := True, u_failed := True\<rparr> else uvm_loop (Suc n) lines st2)"
    unfolding st2_def st1_def uvm_loop.simps Let_def ..
  show ?case
  proof (cases "is_fail_line line")
    case True
    with step e show ?thesis by (auto simp: error_in_def)
  next
    case False
    have "u_error (uvm_loop (Suc n) lines st2) = u_error st2 \<or> error_in (Suc n) lines (u_error (uvm_loop (Suc n) lines st2))"
      using "2.IH" False by (simp add: st1_def st2_def)
    moreover have "error_in n (line # lines) x" if "error_in (Suc n) lines x" for x
      using that by (auto simp: error_in_def nth_Cons' split: option.splits)
    ultimately show ?thesis using step False e by (auto simp: error_in_def)
  qed
qed simp


section \<open>The whole trace\<close>

definition somes :: "'a option list \<Rightarrow> 'a list" where
  "somes xs = map the (filter (\<lambda>x. x \<noteq> None) xs)"

lemma process_lines_spec:
  "process_lines ft ls csv n =
    rbind (rmap (trace_line ft) (takeWhile (\<lambda>l. \<not> contains l ''ecall'') ls))
      (\<lambda>es. Inr (csv @ concat (map write_trace_entry (somes es)), n + length (somes es)))"
  by (induction ls arbitrary: csv n)
    (auto simp: somes_def rbind_assoc rbind_def split: sum.splits option.splits)


end
