(* ===== verification/Test_Run.thy ===== *)
theory Test_Run
  imports Scripts_Lib Trace_Log
begin

text \<open>
  The result of one test and its evaluation: \<open>test_run_result.py\<close> (the record), \<open>test_entry.py\<close> (the name
  \<open>TEST.SEED\<close> and the entry of a test list) and \<open>check_logs.py\<close> (the verdict on one run), all in
  \<open>dv/uvm/core_ibex/scripts\<close>. A \<open>Path\<close> is its text.
\<close>

section \<open>test\_run\_result.py\<close>

datatype TestType = RISCVDV | DIRECTED

definition failure_mode_str :: "Failure_Modes \<Rightarrow> string" where
  "failure_mode_str m = (case m of
     NONE \<Rightarrow> ''NONE(0)'' | TIMEOUT \<Rightarrow> ''TIMEOUT(1)'' | FILE_ERROR \<Rightarrow> ''FILE_ERROR(2)'' | LOG_ERROR \<Rightarrow> ''LOG_ERROR(3)'')"

record TestRunResult =
  passed :: "bool option"
  failure_mode :: "Failure_Modes option"
  failure_message :: "string option"
  timeout_s :: "int option"
  testtype :: "TestType option"
  testdotseed :: "string option"
  testname :: "string option"
  seed :: "int option"
  binary :: "string option"
  rtl_simulator :: "string option"
  iss_cosim :: "string option"
  is_discrete_debug_module :: "bool option"
  binary_main :: "string option"
  binary_dm :: "string option"
  vmem_main :: "string option"
  vmem_dm :: "string option"
  ddm_sim_opts :: "string option"
  gen_test :: "string list option"
  gen_opts :: "string list option"
  rtl_test :: "pyval option"
  sim_opts :: "string list option"
  directed_data :: "pydict option"
  dir_test :: "string option"
  assembly :: "string option"
  objectfile :: "string option"
  riscvdv_run_gen_log :: "string option"
  riscvdv_run_gen_stdout :: "string option"
  riscvdv_run_log :: "string option"
  riscvdv_run_stdout :: "string option"
  compile_asm_gen_log :: "string option"
  compile_asm_log :: "string option"
  rtl_log :: "string option"
  rtl_stdout :: "string option"
  rtl_trace :: "string option"
  iss_cosim_log :: "string option"
  iss_cosim_trace :: "string option"
  trr_dir_fcov :: "string option"
  riscvdv_run_gen_cmds :: "string list list option"
  riscvdv_run_cmds :: "string list list option"
  compile_asm_gen_cmds :: "string list list option"
  compile_asm_cmds :: "string list list option"
  rtl_cmds :: "string list list option"
  metadata_pickle_file :: "string option"
  trr_pickle_file :: "string option"
  trr_yaml_file :: "string option"

definition empty_trr :: TestRunResult where
  "empty_trr = \<lparr>passed = None, failure_mode = None, failure_message = None, timeout_s = None, testtype = None,
     testdotseed = None, testname = None, seed = None, binary = None, rtl_simulator = None, iss_cosim = None,
     is_discrete_debug_module = None, binary_main = None, binary_dm = None, vmem_main = None, vmem_dm = None,
     ddm_sim_opts = None, gen_test = None, gen_opts = None, rtl_test = None, sim_opts = None, directed_data = None,
     dir_test = None, assembly = None, objectfile = None, riscvdv_run_gen_log = None, riscvdv_run_gen_stdout = None,
     riscvdv_run_log = None, riscvdv_run_stdout = None, compile_asm_gen_log = None, compile_asm_log = None, rtl_log = None,
     rtl_stdout = None, rtl_trace = None, iss_cosim_log = None, iss_cosim_trace = None, trr_dir_fcov = None,
     riscvdv_run_gen_cmds = None, riscvdv_run_cmds = None, compile_asm_gen_cmds = None, compile_asm_cmds = None, rtl_cmds = None, metadata_pickle_file = None, trr_pickle_file = None, trr_yaml_file = None\<rparr>"

text \<open>\<open>TestRunResult.format_to_printable_dict\<close>: a path below the test directory is shown relative to it.\<close>

definition relative_value :: "string \<Rightarrow> pyval \<Rightarrow> pyval" where
  "relative_value dir v = (case v of
     PPath p \<Rightarrow>
       if p = dir then PStr ''.''
       else if prefix (dir @ ''/'') p then PStr (drop (length dir + 1) p) else v
   | _ \<Rightarrow> v)"

definition trr_printable_dict :: "resolver \<Rightarrow> string \<Rightarrow> pydict \<Rightarrow> pydict" where
  "trr_printable_dict resolve dir attrs =
     format_dict_to_printable_dict resolve (map (\<lambda>(k, v). (k, relative_value dir v)) attrs)"

section \<open>test\_entry.py\<close>

definition not_dot :: "char \<Rightarrow> bool" where "not_dot c = (c \<noteq> CHR ''.'')"

definition tds_rx :: rx where
  "tds_rx = rseq [RGroup 1 (rplus (RSet not_dot)), rlit (CHR ''.''), RGroup 2 (rplus (RSet is_digit)), REos]"

definition read_test_dot_seed :: "string \<Rightarrow> (string \<times> int) res" where
  "read_test_dot_seed arg = (case re_match tds_rx arg of
     None \<Rightarrow> Inl (ArgumentTypeError (''Bad --test-dot-seed ('' @ arg @ ''): should be of the form TEST.SEED.''))
   | Some m \<Rightarrow> rbind (py_int 10 (group_str m 2)) (\<lambda>sd. Inr (group_str m 1, sd)))"

fun get_test_entry :: "string \<Rightarrow> pydict list \<Rightarrow> pydict res" where
  "get_test_entry name [] = Inl (RuntimeError (''No matching test entry for '' @ repr_str name))"
| "get_test_entry name (entry # entries) =
     (if map_of entry ''test'' = Some (PStr name) then Inr entry else get_test_entry name entries)"

section \<open>check\_logs.py\<close>

definition log_extract_message :: "string list \<Rightarrow> string" where
  "log_extract_message uvm_log_lines =
     (if uvm_log_lines = [] then []
      else ''---------------*LOG-EXTRACT*----------------'' @ nl @
           py_join nl uvm_log_lines @ nl @
           ''--------------------------------------------'' @ nl)"

definition str_opt :: "string option \<Rightarrow> string" where
  "str_opt o1 = (case o1 of None \<Rightarrow> ''None'' | Some s \<Rightarrow> s)"

definition int_opt_str :: "int option \<Rightarrow> string" where
  "int_opt_str o1 = (case o1 of None \<Rightarrow> ''None'' | Some i \<Rightarrow> int_str i)"

text \<open>
  The second part of the function: the UVM log. A log that cannot be opened is an \<open>IOError\<close>; any other
  exception of the check is not caught.
\<close>

definition compare_uvm_log :: "(string \<Rightarrow> string option) \<Rightarrow> TestRunResult \<Rightarrow> TestRunResult res" where
  "compare_uvm_log read_file trr =
     (case read_file (str_opt (rtl_log trr)) of
        None \<Rightarrow> Inr (trr\<lparr>passed := Some False, failure_mode := Some FILE_ERROR,
                  failure_message := Some (''[FAILED] Could not open simulation log: '' @ str_opt (rtl_log trr) @ nl)\<rparr>)
      | Some log \<Rightarrow>
          rbind (check_ibex_uvm_log log) (\<lambda>(uvm_pass, uvm_log_lines, uvm_failure_mode).
            if \<not> uvm_pass then
              Inr (trr\<lparr>failure_mode := Some uvm_failure_mode,
                   failure_message := Some (
                     (if uvm_failure_mode = TIMEOUT
                      then ''[FAILURE] Simulation ended gracefully due to timeout ['' @ int_opt_str (timeout_s trr) @ ''s].'' @ nl
                      else nl @ ''[FAILED]: error seen in '' @ [CHR 39] @ path_name (str_opt (rtl_log trr)) @ [CHR 39] @ nl)
                     @ log_extract_message uvm_log_lines)\<rparr>)
            else Inr (trr\<lparr>passed := Some True\<rparr>)))"

definition exc_text :: "py_exc \<Rightarrow> string" where
  "exc_text e = (case e of RuntimeError m \<Rightarrow> m | OSError m \<Rightarrow> m | _ \<Rightarrow> [])"

definition is_os_or_runtime :: "py_exc \<Rightarrow> bool" where
  "is_os_or_runtime e = (case e of RuntimeError _ \<Rightarrow> True | OSError _ \<Rightarrow> True | _ \<Rightarrow> False)"

definition compare_test_run :: "(string \<Rightarrow> string option) \<Rightarrow> TestRunResult \<Rightarrow> TestRunResult res" where
  "compare_test_run read_file trr =
     (if failure_mode trr = Some TIMEOUT then Inr (trr\<lparr>passed := Some False\<rparr>)
      else
        (case process_ibex_sim_log read_file (str_opt (rtl_trace trr)) True of
           Inl e \<Rightarrow>
             if is_os_or_runtime e then
               Inr (trr\<lparr>passed := Some False, failure_mode := Some FILE_ERROR,
                    failure_message := Some (''[FAILED]: Processing the ibex trace failed: '' @ exc_text e @ nl)\<rparr>)
             else Inl e
         | Inr csv \<Rightarrow> compare_uvm_log read_file trr))"

section \<open>TEST.SEED names\<close>

definition tds_str :: "string \<times> nat \<Rightarrow> string" where
  "tds_str ts = fst ts @ ''.'' @ nat_str (snd ts)"

definition read_tds :: "string \<Rightarrow> (string \<times> nat) option" where
  "read_tds s = (case read_test_dot_seed s of Inr (n, i) \<Rightarrow> Some (n, nat i) | Inl _ \<Rightarrow> None)"

definition tds_valid :: "string \<times> nat \<Rightarrow> bool" where
  "tds_valid ts = (fst ts \<noteq> [] \<and> list_all not_dot (fst ts))"

lemma read_test_dot_seed_tds:
  assumes "tds_valid (name, sd)"
  shows "read_test_dot_seed (tds_str (name, sd)) = Inr (name, int sd)"
proof -
  have n: "name \<noteq> []" "list_all not_dot name" using assms by (simp_all add: tds_valid_def)
  have dg: "list_all is_digit (nat_str sd)" using nat_str_is_digit by (auto simp: list_all_iff)
  have dot: "\<And>c cs p cp r. not_dot c \<Longrightarrow> rx_run (RSeq (rlit (CHR ''.'')) r) (MState p (c # cs) cp) = []"
    by (rule rlit_run(2)) (simp add: not_dot_def)
  have eos: "\<And>c cs p cp. is_digit c \<Longrightarrow> rx_run REos (MState p (c # cs) cp) = []"
    by (auto simp: nl_def newline_def is_digit_def)
  let ?ds = "nat_str sd" and ?G = "RGroup 2 (rplus (RSet is_digit))"
  have "rx_run tds_rx (MState [] (name @ CHR ''.'' # ?ds) []) =
      rx_run (RSeq (rlit (CHR ''.'')) (RSeq ?G REos)) (MState (rev name @ []) (CHR ''.'' # ?ds) (AList.update 1 name []))"
    unfolding tds_rx_def rseq.simps
    by (rule group_plus_then [OF n]) (simp add: not_dot_def, rule dot)
  also have "\<dots> = rx_run (RSeq ?G REos) (MState (CHR ''.'' # rev name @ []) (?ds @ []) (AList.update 1 name []))"
    by (simp only: rlit_run append_Nil2)
  also have "\<dots> = rx_run REos (MState (rev ?ds @ CHR ''.'' # rev name @ []) [] (AList.update 2 ?ds (AList.update 1 name [])))"
    by (rule group_plus_then [OF _ dg]) (simp, simp, rule eos)
  finally have "rx_run tds_rx (MState [] (name @ CHR ''.'' # ?ds) []) =
      [MState (rev ?ds @ CHR ''.'' # rev name) [] [(1, name), (2, ?ds)]]" by simp
  then have "re_match tds_rx (tds_str (name, sd)) =
      Some (MState (rev (nat_str sd) @ CHR ''.'' # rev name) [] [(1, name), (2, nat_str sd)])"
    by (simp add: re_match_def start_at_def tds_str_def first_of_def)
  moreover have "py_int 10 (nat_str sd) = Inr (int sd)"
    using py_int_int_str [of "int sd"] by (simp add: int_str_def)
  ultimately show ?thesis by (simp add: read_test_dot_seed_def group_str_def group_def)
qed

interpretation tds: codec tds_str read_tds tds_valid
  by unfold_locales (auto simp: read_tds_def read_test_dot_seed_tds)

text \<open>
  C35. The name \<open>TEST.SEED\<close> that the regression gives to a run is read back as that test and seed, for every test name
  without a dot, so different runs have different names.
\<close>

theorem test_dot_seed_roundtrip:
  assumes "tds_valid (name, sd)"
  shows "read_test_dot_seed (tds_str (name, sd)) = Inr (name, int sd)
    \<and> (\<forall>ts. tds_valid ts \<longrightarrow> tds_str ts = tds_str (name, sd) \<longrightarrow> ts = (name, sd))"
  using read_test_dot_seed_tds [OF assms] tds.enc_inject assms by blast

theorem test_dot_seed_roundtrip_witness:
  "read_test_dot_seed (tds_str (''riscv_arith_basic_test'', 42)) = Inr (''riscv_arith_basic_test'', int 42)"
  using test_dot_seed_roundtrip [of "''riscv_arith_basic_test''" 42] by (simp add: tds_valid_def not_dot_def)

section \<open>The verdict on a run\<close>

lemma compare_test_run_result:
  assumes "passed trr \<noteq> Some True" and "compare_test_run read_file trr = Inr trr'"
  shows "(passed trr' = Some True \<longleftrightarrow>
       failure_mode trr \<noteq> Some TIMEOUT \<and> is_ok (process_ibex_sim_log read_file (str_opt (rtl_trace trr)) True)
       \<and> (\<exists>log. read_file (str_opt (rtl_log trr)) = Some log \<and> check_ibex_uvm_log log = Inr (True, [], NONE)))
    \<and> (passed trr' = Some True \<or> failure_mode trr' \<noteq> None)"
proof -
  have pass: "check_ibex_uvm_log log = Inr (True, out, m) \<Longrightarrow> out = [] \<and> m = NONE" for log out m
    by (auto simp: check_ibex_uvm_log_def Let_def split: if_splits option.splits)
  have uvm: "(passed t = Some True \<longleftrightarrow>
        (\<exists>log. read_file (str_opt (rtl_log trr)) = Some log \<and> check_ibex_uvm_log log = Inr (True, [], NONE)))
      \<and> (passed t = Some True \<or> failure_mode t \<noteq> None)" if "compare_uvm_log read_file trr = Inr t" for t
  proof (cases "read_file (str_opt (rtl_log trr))")
    case None
    with that show ?thesis by (auto simp: compare_uvm_log_def)
  next
    case (Some log)
    with that obtain p out m where "check_ibex_uvm_log log = Inr (p, out, m)"
      by (auto simp: compare_uvm_log_def rbind_Inr_iff)
    with Some that pass [of log out m] assms(1) show ?thesis
      by (cases p) (auto simp: compare_uvm_log_def)
  qed
  show ?thesis
  proof (cases "failure_mode trr = Some TIMEOUT")
    case True
    with assms(2) show ?thesis by (auto simp: compare_test_run_def)
  next
    case False
    with assms(2) uvm show ?thesis
      by (cases "process_ibex_sim_log read_file (str_opt (rtl_trace trr)) True")
        (auto simp: compare_test_run_def split: if_splits)
  qed
qed


definition demo_log :: string where
  "demo_log = ''UVM_INFO @ 0: start'' @ nl @ ''RISC-V UVM TEST PASSED'' @ nl"

definition demo_trace :: string where
  "demo_trace = '' 10 2 80000080 00000093 addi x1,x0,0 x1=0x00000000'' @ nl"

definition demo_files :: "string \<Rightarrow> string option" where
  "demo_files f = (if f = ''trace'' then Some demo_trace else if f = ''log'' then Some demo_log
     else if f = ''bad'' then Some (''UVM_ERROR x'' @ nl @ ''RISC-V UVM TEST FAILED'' @ nl) else None)"

definition demo_trr :: TestRunResult where
  "demo_trr = empty_trr\<lparr>rtl_trace := Some ''trace'', rtl_log := Some ''log''\<rparr>"

lemma demo_trace_ok: "is_ok (process_ibex_sim_log demo_files ''trace'' True)"
  by code_simp


text \<open>
  A run that is checked again after its log has turned bad keeps its earlier pass: on the path for a failing UVM
  log the function sets the failure mode and message but not \<open>passed\<close>.
\<close>

theorem compare_test_run_stale_pass:
  "\<exists>trr'. compare_test_run demo_files (demo_trr\<lparr>passed := Some True, rtl_log := Some ''bad''\<rparr>) = Inr trr'
     \<and> passed trr' = Some True \<and> failure_mode trr' = Some LOG_ERROR"
proof -
  obtain csv where csv: "process_ibex_sim_log demo_files ''trace'' True = Inr csv"
    using demo_trace_ok by (cases "process_ibex_sim_log demo_files ''trace'' True") auto
  have "check_ibex_uvm_log (''UVM_ERROR x'' @ nl @ ''RISC-V UVM TEST FAILED'' @ nl) =
      Inr (False, [''[E] 1: UVM_ERROR x'', ''    2: RISC-V UVM TEST FAILED''], LOG_ERROR)"
    by code_simp
  with csv show ?thesis
    by (simp add: compare_test_run_def compare_uvm_log_def demo_trr_def empty_trr_def str_opt_def demo_files_def)
qed

end
