(* ===== verification/Directed_Tests.thy ===== *)
theory Directed_Tests
  imports Test_Run
begin

text \<open>
  The list of directed tests, \<open>dv/uvm/core_ibex/scripts/directed_test_schema.py\<close>: the fields of a configuration and
  of a test, their validators, and \<open>import_model\<close>, which lays each test over the configuration it names and resolves
  the files relative to the list. The \<open>pydantic\<close> library's check of one item against the declared fields is the
  parameter \<open>pyd\<close>; what the flow relies on of it is \<open>pydantic_ok\<close>. \<open>load\<close> and \<open>opened\<close> are the YAML parser and
  the file system, \<open>exists\<close> is \<open>Path.exists\<close>.
\<close>

section \<open>Paths as pathlib holds them\<close>

text \<open>\<open>str(Path(s))\<close>: empty and \<open>.\<close> components are dropped, two leading slashes are kept.\<close>

definition path_str :: "string \<Rightarrow> string" where
  "path_str s =
     (let slashes = (if prefix ''//'' s \<and> \<not> prefix ''///'' s then ''//'' else if prefix ''/'' s then ''/'' else []);
          p = slashes @ py_join ''/'' (filter (\<lambda>c. c \<noteq> [] \<and> c \<noteq> ''.'') (split_char (CHR ''/'') s))
      in if p = [] then ''.'' else p)"

definition path_join :: "string \<Rightarrow> string \<Rightarrow> string" where
  "path_join a b = path_str (if prefix ''/'' b then b else a @ ''/'' @ b)"

definition path_parent :: "string \<Rightarrow> string" where
  "path_parent p = (case rsplit_once (CHR ''/'') p of [a, _] \<Rightarrow> (if a = [] then ''/'' else a) | _ \<Rightarrow> ''.'')"

section \<open>The schema\<close>

text \<open>The declared types: \<open>str\<close>, \<open>dict\<close>, \<open>conint(gt=0)\<close>, \<open>pathlib.Path\<close>.\<close>

datatype field_type = FStr | FDict | FPosInt | FPath

type_synonym schema = "(string \<times> field_type) list"

definition DConfig_fields :: schema where
  "DConfig_fields =
     [(''config'', FStr),
      (''rtl_test'', FStr), (''rtl_params'', FDict), (''timeout_s'', FPosInt),
      (''gcc_opts'', FStr), (''ld_script'', FPath), (''includes'', FPath)]"

text \<open>A test has the fields of a configuration and its own.\<close>

definition DTest_fields :: schema where
  "DTest_fields = DConfig_fields @ [(''test'', FStr), (''desc'', FStr), (''test_srcs'', FPath), (''iterations'', FPosInt)]"

definition make_valid_pathlib_path :: "pyval \<Rightarrow> pyval res" where
  "make_valid_pathlib_path v = (case v of
     PPath p \<Rightarrow> Inr v
   | PStr s \<Rightarrow> Inr (PPath (path_str s))
   | _ \<Rightarrow> Inl (ValueError (''Could not convert input ('' @ py_str v @ '') to valid Path'')))"

text \<open>The validators that run before \<open>pydantic\<close>'s own check, on the path fields that are present.\<close>

definition make_valid_paths :: "schema \<Rightarrow> pydict \<Rightarrow> pydict res" where
  "make_valid_paths fds d =
     rmap (\<lambda>(k, v). if map_of fds k = Some FPath then rbind (make_valid_pathlib_path v) (\<lambda>p. Inr (k, p)) else Inr (k, v)) d"

definition validate_item :: "(schema \<Rightarrow> pydict \<Rightarrow> pydict res) \<Rightarrow> schema \<Rightarrow> pydict \<Rightarrow> pydict res" where
  "validate_item pyd fds d = rbind (make_valid_paths fds d) (pyd fds)"

definition validate_path_exists :: "(string \<Rightarrow> bool) \<Rightarrow> string \<Rightarrow> string \<Rightarrow> string res" where
  "validate_path_exists exists v dt =
     (let p = path_join (path_parent dt) v in
      if exists p then Inr p else Inl (ValueError (''Path object does not exist on disk : '' @ p)))"

definition check_model_path_fields_exist :: "(string \<Rightarrow> bool) \<Rightarrow> string \<Rightarrow> schema \<Rightarrow> pydict \<Rightarrow> pydict res" where
  "check_model_path_fields_exist exists yaml fds model =
     rfold (\<lambda>m (k, annotation).
       if annotation \<noteq> FPath then Inr m
       else (case map_of m k of
           Some (PPath v) \<Rightarrow> rbind (validate_path_exists exists v yaml) (\<lambda>p. Inr (AList.update k (PPath p) m))
         | _ \<Rightarrow> Inl (AttributeError k))) model fds"

definition test_config_must_exist :: "string \<Rightarrow> pydict list \<Rightarrow> pydict list \<Rightarrow> unit res" where
  "test_config_must_exist yaml configs tests =
     (let config_names = map (\<lambda>c. map_of c ''config'') configs in
      case find (\<lambda>test. map_of test ''config'' \<notin> set config_names) tests of
        Some test \<Rightarrow> Inl (ValueError (''Test gave a config that does not exist in the file '' @ yaml))
      | None \<Rightarrow> Inr ())"

text \<open>Building the whole model: the fields, then the two validators of the model in the order of their declaration.\<close>

definition DirectedTestsYaml ::
  "(schema \<Rightarrow> pydict \<Rightarrow> pydict res) \<Rightarrow> (string \<Rightarrow> bool) \<Rightarrow> string \<Rightarrow> pydict list \<Rightarrow> pydict list \<Rightarrow> (pydict list \<times> pydict list) res" where
  "DirectedTestsYaml pyd exists yaml configs tests =
     (if \<not> exists yaml then Inl (ValueError (''Path object not found in filesystem : '' @ yaml))
      else
        rbind (rmap (validate_item pyd DConfig_fields) configs) (\<lambda>configs.
        rbind (rmap (validate_item pyd DTest_fields) tests) (\<lambda>tests.
        rbind (test_config_must_exist yaml configs tests) (\<lambda>_.
        rbind (rmap (check_model_path_fields_exist exists yaml DConfig_fields) configs) (\<lambda>configs.
        rbind (rmap (check_model_path_fields_exist exists yaml DTest_fields) tests) (\<lambda>tests.
          Inr (configs, tests)))))))"

section \<open>import\_model\<close>

text \<open>
  What iterating over the parsed file gives: \<open>None\<close> and numbers are not iterable, and an item that is no mapping has
  no \<open>get\<close>. Only string keys are ever looked up.
\<close>

definition as_item :: "pyval \<Rightarrow> pydict res" where
  "as_item v = (case v of
     PDict kvs \<Rightarrow> Inr (concat (map (\<lambda>(k, x). case k of PStr s \<Rightarrow> [(s, x)] | _ \<Rightarrow> []) kvs))
   | _ \<Rightarrow> Inl (AttributeError ''get''))"

definition yaml_items :: "pyval \<Rightarrow> pydict list res" where
  "yaml_items v = (case v of
     PList xs \<Rightarrow> rmap as_item xs
   | PDict kvs \<Rightarrow> rmap as_item (map fst kvs)
   | PStr s \<Rightarrow> if s = [] then Inr [] else Inl (AttributeError ''get'')
   | _ \<Rightarrow> Inl (TypeError ''object is not iterable''))"

definition same_config :: "pydict \<Rightarrow> pydict \<Rightarrow> bool" where
  "same_config a b = (case (map_of a ''config'', map_of b ''config'') of
     (None, None) \<Rightarrow> True | (Some x, Some y) \<Rightarrow> py_eq x y | (None, Some y) \<Rightarrow> y = PNone | (Some x, None) \<Rightarrow> x = PNone)"

definition is_test_item :: "pydict \<Rightarrow> bool" where
  "is_test_item i = (case map_of i ''test'' of None \<Rightarrow> False | Some v \<Rightarrow> v \<noteq> PNone)"

text \<open>The first configuration with the name the test gives, and the entry of the test laid over it.\<close>

definition join_config :: "string \<Rightarrow> pydict list \<Rightarrow> pydict \<Rightarrow> pydict res" where
  "join_config yaml configs t = (case find (\<lambda>c. same_config c t) configs of
     None \<Rightarrow>
       (case map_of t ''config'' of
          None \<Rightarrow> Inl (KeyError ''config'')
        | Some c \<Rightarrow> Inl (ValueError (''Test '' @ [CHR 39] @ py_str (the (map_of t ''test'')) @ [CHR 39] @ '' gave the config ''
              @ [CHR 39] @ py_str c @ [CHR 39] @ '', but this config does not exist in the file '' @ [CHR 39] @ yaml @ [CHR 39] @ ''.'' @ nl)))
   | Some t_config \<Rightarrow> Inr (dict_merge t_config t))"

text \<open>A validation error is printed and ends the program; the error of a missing configuration is raised.\<close>

definition import_model ::
  "(schema \<Rightarrow> pydict \<Rightarrow> pydict res) \<Rightarrow> (string \<Rightarrow> bool) \<Rightarrow> (string \<Rightarrow> string + pyval) \<Rightarrow> (string \<Rightarrow> string res) \<Rightarrow> string
   \<Rightarrow> pydict list res" where
  "import_model pyd exists load opened yaml =
     rbind (rbind (read_yaml load opened yaml) yaml_items) (\<lambda>yaml_data.
       let configs = filter (\<lambda>i. \<not> is_test_item i) yaml_data in
       rbind (rmap (join_config yaml configs) (filter is_test_item yaml_data)) (\<lambda>tests.
         case DirectedTestsYaml pyd exists yaml configs tests of
           Inl _ \<Rightarrow> Inl (SystemExit 1)
         | Inr (_, ts) \<Rightarrow> Inr ts))"

section \<open>What the schema promises\<close>

definition has_field_type :: "field_type \<Rightarrow> pyval \<Rightarrow> bool" where
  "has_field_type ty v = (case (ty, v) of
     (FStr, PStr _) \<Rightarrow> True | (FDict, PDict _) \<Rightarrow> True | (FPosInt, PInt n) \<Rightarrow> n > 0 | (FPath, PPath _) \<Rightarrow> True | _ \<Rightarrow> False)"

definition complete :: "schema \<Rightarrow> pydict \<Rightarrow> bool" where
  "complete fds d = list_all (\<lambda>(k, ty). case map_of d k of None \<Rightarrow> False | Some v \<Rightarrow> has_field_type ty v) fds"

text \<open>
  What is relied on of \<open>pydantic\<close>: an accepted item has exactly the declared fields, each of its type; every field is
  required; a value that has the type already is kept (any other may be converted); and an item whose fields all
  have their types is accepted.
\<close>

definition pydantic_ok :: "(schema \<Rightarrow> pydict \<Rightarrow> pydict res) \<Rightarrow> bool" where
  "pydantic_ok pyd = (\<forall>fds d. (complete fds d \<longrightarrow> is_ok (pyd fds d))
     \<and> (\<forall>m. pyd fds d = Inr m \<longrightarrow> map fst m = map fst fds \<and> complete fds m
          \<and> (\<forall>(k, ty) \<in> set fds. \<exists>v. map_of d k = Some v \<and> (has_field_type ty v \<longrightarrow> map_of m k = Some v))))"

text \<open>A value \<open>v\<close> of the file and the value \<open>v'\<close> of the imported test.\<close>

definition imported_value :: "(string \<Rightarrow> bool) \<Rightarrow> string \<Rightarrow> field_type \<Rightarrow> pyval \<Rightarrow> pyval \<Rightarrow> bool" where
  "imported_value exists yaml ty v v' =
     (if ty = FPath
      then (case make_valid_pathlib_path v of
              Inr (PPath p) \<Rightarrow> v' = PPath (path_join (path_parent yaml) p) \<and> exists (path_join (path_parent yaml) p)
            | _ \<Rightarrow> False)
      else has_field_type ty v' \<and> (has_field_type ty v \<longrightarrow> v' = v))"

text \<open>The entry of a test and the configuration it names, and the imported test \<open>r\<close>.\<close>

definition imported_test :: "(string \<Rightarrow> bool) \<Rightarrow> string \<Rightarrow> pydict \<Rightarrow> pydict \<Rightarrow> pydict \<Rightarrow> bool" where
  "imported_test exists yaml c t r =
     (map fst r = map fst DTest_fields
      \<and> list_all (\<lambda>(k, ty). case (case map_of t k of Some v \<Rightarrow> Some v | None \<Rightarrow> map_of c k, map_of r k) of
            (Some v, Some v') \<Rightarrow> imported_value exists yaml ty v v' | _ \<Rightarrow> False) DTest_fields)"

lemma pydantic_okD:
  assumes "pydantic_ok pyd" "pyd fds d = Inr m"
  shows "map fst m = map fst fds" "complete fds m"
    "(k, ty) \<in> set fds \<Longrightarrow> \<exists>v. map_of d k = Some v \<and> (has_field_type ty v \<longrightarrow> map_of m k = Some v)"
proof -
  from assms have m: "map fst m = map fst fds \<and> complete fds m
    \<and> (\<forall>(k, ty) \<in> set fds. \<exists>v. map_of d k = Some v \<and> (has_field_type ty v \<longrightarrow> map_of m k = Some v))"
    unfolding pydantic_ok_def by blast
  then show "map fst m = map fst fds" "complete fds m" by simp_all
  show "\<exists>v. map_of d k = Some v \<and> (has_field_type ty v \<longrightarrow> map_of m k = Some v)" if "(k, ty) \<in> set fds"
    using m that by fast
qed

lemma completeD:
  "complete fds d \<Longrightarrow> (k, ty) \<in> set fds \<Longrightarrow> \<exists>v. map_of d k = Some v \<and> has_field_type ty v"
  by (auto simp: complete_def list_all_iff split: option.splits)

lemma completeI:
  "(\<And>k ty. (k, ty) \<in> set fds \<Longrightarrow> \<exists>v. map_of d k = Some v \<and> has_field_type ty v) \<Longrightarrow> complete fds d"
  by (fastforce simp: complete_def list_all_iff split: option.splits)

lemma DTest_fields_distinct: "distinct (map fst DTest_fields)" "distinct (map fst DConfig_fields)"
  by code_simp+

lemma make_valid_path_iff:
  "make_valid_pathlib_path v = Inr w \<longleftrightarrow> (\<exists>p. w = PPath p \<and> (v = PPath p \<or> (\<exists>s. v = PStr s \<and> p = path_str s)))"
  by (cases v) (auto simp: make_valid_pathlib_path_def)

lemma make_valid_paths_get:
  assumes "make_valid_paths fds d = Inr d'"
  shows "map_of d' k = (case map_of d k of None \<Rightarrow> None
    | Some v \<Rightarrow> if map_of fds k = Some FPath then (case make_valid_pathlib_path v of Inr w \<Rightarrow> Some w | Inl e \<Rightarrow> None) else Some v)"
    "map_of fds k = Some FPath \<Longrightarrow> map_of d k = Some v \<Longrightarrow> is_ok (make_valid_pathlib_path v)"
  using assms
proof (induction d arbitrary: d')
  case (Cons kv d)
  { case 1 then show ?case using Cons by (cases kv) (auto simp: make_valid_paths_def rbind_Inr_iff split: if_splits) }
  { case 2 then show ?case using Cons by (cases kv) (auto simp: make_valid_paths_def rbind_Inr_iff split: if_splits) }
qed (simp_all add: make_valid_paths_def)

text \<open>The loop over the path fields: each names a file that exists, the other fields are untouched.\<close>

lemma check_paths_loop:
  assumes "distinct (map fst fds)"
  shows "check_model_path_fields_exist exists yaml fds m = Inr m' \<Longrightarrow>
    map fst m' = map fst m \<and> (\<forall>k. k \<notin> fst ` set fds \<longrightarrow> map_of m' k = map_of m k)
    \<and> (\<forall>(k, ty) \<in> set fds. if ty = FPath
        then \<exists>v. map_of m k = Some (PPath v) \<and> map_of m' k = Some (PPath (path_join (path_parent yaml) v))
               \<and> exists (path_join (path_parent yaml) v)
        else map_of m' k = map_of m k)"
  using assms
proof (induction fds arbitrary: m)
  case Nil
  then show ?case by (simp add: check_model_path_fields_exist_def)
next
  case (Cons f fds)
  obtain k ty where f: "f = (k, ty)" by fastforce
  show ?case
  proof (cases "ty = FPath")
    case False
    then have "check_model_path_fields_exist exists yaml fds m = Inr m'"
      using Cons.prems(1) by (simp add: f check_model_path_fields_exist_def)
    from Cons.IH [OF this] Cons.prems(2) False show ?thesis by (auto simp: f)
  next
    case True
    let ?p = "\<lambda>v. path_join (path_parent yaml) v"
    from Cons.prems(1) True obtain v where v: "map_of m k = Some (PPath v)" "exists (?p v)"
      "check_model_path_fields_exist exists yaml fds (AList.update k (PPath (?p v)) m) = Inr m'"
      by (auto simp: f check_model_path_fields_exist_def validate_path_exists_def Let_def rbind_Inr_iff
          split: option.splits pyval.splits if_splits)
    from Cons.IH [OF v(3)] Cons.prems(2) have IH:
      "map fst m' = map fst (AList.update k (PPath (?p v)) m)"
      "\<forall>j. j \<notin> fst ` set fds \<longrightarrow> map_of m' j = map_of (AList.update k (PPath (?p v)) m) j"
      "\<forall>(j, ty) \<in> set fds. if ty = FPath
        then \<exists>w. map_of (AList.update k (PPath (?p v)) m) j = Some (PPath w) \<and> map_of m' j = Some (PPath (?p w)) \<and> exists (?p w)
        else map_of m' j = map_of (AList.update k (PPath (?p v)) m) j" by simp_all
    have k: "k \<notin> fst ` set fds" using Cons.prems(2) by (simp add: f)
    have "map fst m' = map fst m" using IH(1) v(1) by (simp add: map_fst_update)
    moreover have "map_of m' j = map_of m j" if "j \<notin> fst ` set (f # fds)" for j
      using IH(2) that by (simp add: f update_conv')
    moreover have "map_of m' k = Some (PPath (?p v))" using IH(2) k by (simp add: update_conv')
    moreover have "if ty = FPath then \<exists>w. map_of m j = Some (PPath w) \<and> map_of m' j = Some (PPath (?p w)) \<and> exists (?p w)
        else map_of m' j = map_of m j" if "(j, ty) \<in> set fds" for j ty
    proof -
      have "j \<noteq> k" using k that by force
      then show ?thesis using IH(3) that by (auto simp: update_conv')
    qed
    ultimately show ?thesis using v True by (auto simp: f)
  qed
qed

lemma validated_item:
  assumes "pydantic_ok pyd" "distinct (map fst fds)" "validate_item pyd fds d = Inr m"
    and "check_model_path_fields_exist exists yaml fds m = Inr r"
  shows "map fst r = map fst fds"
    and "(k, ty) \<in> set fds \<Longrightarrow> \<exists>v v'. map_of d k = Some v \<and> map_of r k = Some v' \<and> imported_value exists yaml ty v v'"
proof -
  from assms(3) obtain d' where d': "make_valid_paths fds d = Inr d'" "pyd fds d' = Inr m"
    by (auto simp: validate_item_def rbind_Inr_iff)
  note m = pydantic_okD [OF assms(1) d'(2)]
  note r = check_paths_loop [OF assms(2,4)]
  show "map fst r = map fst fds" using r m(1) by simp
  assume k: "(k, ty) \<in> set fds"
  have ty: "map_of fds k = Some ty" using assms(2) k by simp
  obtain v' where v': "map_of d' k = Some v'" "has_field_type ty v' \<longrightarrow> map_of m k = Some v'" using m(3) [OF k] by blast
  then obtain v where v: "map_of d k = Some v" using make_valid_paths_get(1) [OF d'(1), of k] by (auto split: option.splits)
  show "\<exists>v v'. map_of d k = Some v \<and> map_of r k = Some v' \<and> imported_value exists yaml ty v v'"
  proof (cases "ty = FPath")
    case True
    from make_valid_paths_get(2) [OF d'(1), of k v] True ty v obtain w where w: "make_valid_pathlib_path v = Inr w"
      by (auto simp: is_ok_iff)
    then obtain p where p: "w = PPath p" by (auto simp: make_valid_path_iff)
    have "v' = PPath p" using make_valid_paths_get(1) [OF d'(1), of k] v' v ty True w p by simp
    then have "map_of m k = Some (PPath p)" using v' True by (simp add: has_field_type_def)
    then show ?thesis using r k True v w p by (fastforce simp: imported_value_def)
  next
    case False
    have "v' = v" using make_valid_paths_get(1) [OF d'(1), of k] v'(1) v ty False by simp
    moreover obtain x where "map_of m k = Some x" "has_field_type ty x" using completeD [OF m(2) k] by blast
    moreover have "map_of r k = map_of m k" using r k False by fastforce
    ultimately show ?thesis using v v'(2) False by (auto simp: imported_value_def)
  qed
qed

text \<open>An item of the file whose fields all have their types and name existing files passes.\<close>

definition file_complete :: "(string \<Rightarrow> bool) \<Rightarrow> string \<Rightarrow> schema \<Rightarrow> pydict \<Rightarrow> bool" where
  "file_complete exists yaml fds d = list_all (\<lambda>(k, ty). case map_of d k of
     None \<Rightarrow> False
   | Some v \<Rightarrow> if ty = FPath then (case v of PStr s \<Rightarrow> exists (path_join (path_parent yaml) (path_str s)) | _ \<Rightarrow> False)
               else has_field_type ty v) fds"

lemma check_paths_ok:
  "distinct (map fst fds) \<Longrightarrow>
   (\<And>k. (k, FPath) \<in> set fds \<Longrightarrow> \<exists>v. map_of m k = Some (PPath v) \<and> exists (path_join (path_parent yaml) v)) \<Longrightarrow>
   is_ok (check_model_path_fields_exist exists yaml fds m)"
proof (induction fds arbitrary: m)
  case (Cons f fds)
  obtain k ty where f: "f = (k, ty)" by fastforce
  show ?case
  proof (cases "ty = FPath")
    case False
    then show ?thesis using Cons.IH [of m] Cons.prems by (simp add: f check_model_path_fields_exist_def)
  next
    case True
    then obtain v where v: "map_of m k = Some (PPath v)" "exists (path_join (path_parent yaml) v)"
      using Cons.prems(2) [of k] by (auto simp: f)
    have "is_ok (check_model_path_fields_exist exists yaml fds (AList.update k (PPath (path_join (path_parent yaml) v)) m))"
    proof (rule Cons.IH)
      fix j assume j: "(j, FPath) \<in> set fds"
      then have "j \<noteq> k" using Cons.prems(1) by (force simp: f)
      then show "\<exists>w. map_of (AList.update k (PPath (path_join (path_parent yaml) v)) m) j = Some (PPath w)
          \<and> exists (path_join (path_parent yaml) w)"
        using Cons.prems(2) [of j] j by (simp add: update_conv')
    qed (use Cons.prems(1) in simp)
    then show ?thesis using v True by (simp add: f check_model_path_fields_exist_def validate_path_exists_def)
  qed
qed (simp add: check_model_path_fields_exist_def)

lemma make_valid_paths_ok:
  assumes "distinct (map fst d)" "\<And>k v. map_of fds k = Some FPath \<Longrightarrow> map_of d k = Some v \<Longrightarrow> is_ok (make_valid_pathlib_path v)"
  shows "is_ok (make_valid_paths fds d)"
proof -
  have "is_ok (if map_of fds k = Some FPath then rbind (make_valid_pathlib_path v) (\<lambda>p. Inr (k, p)) else Inr (k, v))"
    if "(k, v) \<in> set d" for k v
    using assms(2) [of k v] assms(1) that by (auto simp: is_ok_iff)
  then show ?thesis unfolding make_valid_paths_def by (intro rmap_is_ok) auto
qed

lemma file_complete_ok:
  assumes "pydantic_ok pyd" "distinct (map fst fds)" "distinct (map fst d)" "file_complete exists yaml fds d"
  shows "\<exists>m r. validate_item pyd fds d = Inr m \<and> check_model_path_fields_exist exists yaml fds m = Inr r
    \<and> (\<forall>k ty. (k, ty) \<in> set fds \<and> ty \<noteq> FPath \<longrightarrow> map_of m k = map_of d k)"
proof -
  have fd: "\<exists>v. map_of d k = Some v \<and> (if ty = FPath then \<exists>s. v = PStr s \<and> exists (path_join (path_parent yaml) (path_str s))
      else has_field_type ty v)" if "(k, ty) \<in> set fds" for k ty
  proof -
    have "case map_of d k of None \<Rightarrow> False
      | Some v \<Rightarrow> if ty = FPath then (case v of PStr s \<Rightarrow> exists (path_join (path_parent yaml) (path_str s)) | _ \<Rightarrow> False)
                  else has_field_type ty v"
      using assms(4) that unfolding file_complete_def list_all_iff by fast
    then show ?thesis by (auto split: option.splits pyval.splits if_splits)
  qed
  have "is_ok (make_valid_paths fds d)"
  proof (rule make_valid_paths_ok [OF assms(3)])
    fix k v assume k: "map_of fds k = Some FPath" "map_of d k = Some v"
    then show "is_ok (make_valid_pathlib_path v)"
      using fd [OF map_of_SomeD [OF k(1)]] by (auto simp: make_valid_pathlib_path_def)
  qed
  then obtain d' where d': "make_valid_paths fds d = Inr d'" by (auto simp: is_ok_iff)
  have d'': "map_of d' k = (if ty = FPath then (case map_of d k of Some (PStr s) \<Rightarrow> Some (PPath (path_str s))) else map_of d k)"
    if "(k, ty) \<in> set fds" for k ty
    using make_valid_paths_get(1) [OF d', of k] fd [OF that] assms(2) that
    by (auto simp: make_valid_pathlib_path_def split: if_splits)
  have "complete fds d'"
  proof (rule completeI)
    fix k ty assume k: "(k, ty) \<in> set fds"
    show "\<exists>v. map_of d' k = Some v \<and> has_field_type ty v"
      using fd [OF k] d'' [OF k] by (cases "ty = FPath") (auto simp: has_field_type_def)
  qed
  then have "is_ok (pyd fds d')" using assms(1) unfolding pydantic_ok_def by blast
  then obtain m where m: "pyd fds d' = Inr m" by (auto simp: is_ok_iff)
  have keep: "map_of m k = map_of d' k" if "(k, ty) \<in> set fds" for k ty
    using pydantic_okD(3) [OF assms(1) m that] completeD [OF \<open>complete fds d'\<close> that] by auto
  have "is_ok (check_model_path_fields_exist exists yaml fds m)"
  proof (rule check_paths_ok [OF assms(2)])
    fix k assume k: "(k, FPath) \<in> set fds"
    show "\<exists>v. map_of m k = Some (PPath v) \<and> exists (path_join (path_parent yaml) v)"
      using fd [OF k] d'' [OF k] keep [OF k] by auto
  qed
  then show ?thesis using d' m keep d'' by (auto simp: validate_item_def is_ok_iff)
qed

section \<open>The imported list\<close>

text \<open>The configuration a test of the list names, and a list that has all it needs.\<close>

definition named_config :: "pydict list \<Rightarrow> pydict \<Rightarrow> pydict option" where
  "named_config items t = find (\<lambda>c. \<not> is_test_item c \<and> same_config c t) items"

definition list_complete :: "(string \<Rightarrow> bool) \<Rightarrow> string \<Rightarrow> pydict list \<Rightarrow> bool" where
  "list_complete exists yaml items =
     (exists yaml \<and> list_all (\<lambda>i. if is_test_item i
        then (case named_config items i of None \<Rightarrow> False | Some c \<Rightarrow> file_complete exists yaml DTest_fields (dict_merge c i))
        else file_complete exists yaml DConfig_fields i) items)"

lemma find_filter: "find P (filter Q xs) = find (\<lambda>x. Q x \<and> P x) xs"
  by (induction xs) auto

lemma join_config_named:
  "join_config yaml (filter (\<lambda>i. \<not> is_test_item i) items) t = Inr j \<longleftrightarrow> (\<exists>c. named_config items t = Some c \<and> j = dict_merge c t)"
  by (auto simp: join_config_def named_config_def find_filter split: option.splits)

lemma dict_merge_distinct: "distinct (map fst a) \<Longrightarrow> distinct (map fst (dict_merge a b))"
  by (induction b arbitrary: a) (auto simp: dict_merge_def distinct_update)

lemma imported_tests:
  assumes "pydantic_ok pyd" "list_all (\<lambda>i. distinct (map fst i)) items"
    and items: "rbind (read_yaml load opened yaml) yaml_items = Inr items" and ts: "import_model pyd exists load opened yaml = Inr ts"
  shows "list_all2 (\<lambda>t r. \<exists>c. named_config items t = Some c \<and> imported_test exists yaml c t r) (filter is_test_item items) ts"
proof -
  let ?cs = "filter (\<lambda>i. \<not> is_test_item i) items"
  from ts items obtain js ms where js: "rmap (join_config yaml ?cs) (filter is_test_item items) = Inr js"
    and ms: "rmap (validate_item pyd DTest_fields) js = Inr ms"
    and rs: "rmap (check_model_path_fields_exist exists yaml DTest_fields) ms = Inr ts"
    by (auto simp: import_model_def DirectedTestsYaml_def Let_def rbind_Inr_iff case_Inr_iff split: sum.splits if_splits)
  have "\<exists>c. named_config items t = Some c \<and> imported_test exists yaml c t r"
    if t: "t \<in> set items" and j: "join_config yaml ?cs t = Inr j" and m: "validate_item pyd DTest_fields j = Inr m"
      and r: "check_model_path_fields_exist exists yaml DTest_fields m = Inr r" for t j m r
  proof -
    obtain c where c: "named_config items t = Some c" "j = dict_merge c t" using j by (auto simp: join_config_named)
    have "distinct (map fst t)" using assms(2) t by (auto simp: list_all_iff)
    then have get: "map_of j k = (case map_of t k of Some v \<Rightarrow> Some v | None \<Rightarrow> map_of c k)" for k
      by (simp add: c(2) dict_merge_get_distinct map_add_def)
    note val = validated_item [OF assms(1) DTest_fields_distinct(1) m r]
    have "imported_test exists yaml c t r" unfolding imported_test_def get [symmetric] list_all_iff
      using val(1) val(2) by fastforce
    with c(1) show ?thesis by blast
  qed
  note one = this
  have len: "length js = length (filter is_test_item items)" "length ms = length js" "length ts = length ms"
    using js ms rs by (auto simp: rmap_Inr_iff dest: list_all2_lengthD)
  show ?thesis
  proof (rule list_all2_all_nthI)
    fix n assume n: "n < length (filter is_test_item items)"
    have "filter is_test_item items ! n \<in> set items" using n nth_mem [OF n] by simp
    then show "\<exists>c. named_config items (filter is_test_item items ! n) = Some c
        \<and> imported_test exists yaml c (filter is_test_item items ! n) (ts ! n)"
      using one n js ms rs len by (simp add: rmap_Inr_iff list_all2_conv_all_nth)
  qed (use len in simp)
qed

lemma file_complete_str:
  assumes "file_complete exists yaml fds d" "(k, FStr) \<in> set fds"
  shows "\<exists>s. map_of d k = Some (PStr s)"
proof -
  have "case map_of d k of None \<Rightarrow> False | Some v \<Rightarrow> has_field_type FStr v"
    using bspec [OF assms(1) [unfolded file_complete_def list_all_iff] assms(2)] by (simp split: option.splits)
  then show ?thesis by (auto simp: has_field_type_def split: option.splits pyval.splits)
qed

lemma config_is_str: "(''config'', FStr) \<in> set DConfig_fields" "(''config'', FStr) \<in> set DTest_fields"
  by (simp_all add: DTest_fields_def DConfig_fields_def)

abbreviation validated :: "(schema \<Rightarrow> pydict \<Rightarrow> pydict res) \<Rightarrow> schema \<Rightarrow> pydict \<Rightarrow> pydict" where
  "validated pyd fds d \<equiv> projr (validate_item pyd fds d)"

lemma file_complete_validated:
  assumes "pydantic_ok pyd" "distinct (map fst fds)" "(''config'', FStr) \<in> set fds"
    and "distinct (map fst d)" "file_complete exists yaml fds d"
  shows "validate_item pyd fds d = Inr (validated pyd fds d)"
    "is_ok (check_model_path_fields_exist exists yaml fds (validated pyd fds d))"
    "map_of (validated pyd fds d) ''config'' = map_of d ''config''"
  using file_complete_ok [OF assms(1,2,4,5)] assms(3) by auto

lemma named_config_joined:
  assumes "list_all (\<lambda>i. distinct (map fst i)) items" "list_complete exists yaml items" "t \<in> set items" "is_test_item t"
  shows "\<exists>c. named_config items t = Some c \<and> c \<in> set items \<and> \<not> is_test_item c
    \<and> distinct (map fst (dict_merge c t)) \<and> file_complete exists yaml DTest_fields (dict_merge c t)
    \<and> map_of (dict_merge c t) ''config'' = map_of c ''config''"
proof -
  obtain c where c: "named_config items t = Some c" "file_complete exists yaml DTest_fields (dict_merge c t)"
    using assms(2-4) by (auto simp: list_all_iff list_complete_def split: option.splits dest!: bspec)
  have cs: "c \<in> set items" "\<not> is_test_item c" "same_config c t" using c(1) by (auto simp: named_config_def find_Some_iff)
  have "file_complete exists yaml DConfig_fields c" using assms(2) cs by (auto simp: list_all_iff list_complete_def dest!: bspec)
  then obtain s where s: "map_of c ''config'' = Some (PStr s)" using file_complete_str config_is_str(1) by blast
  obtain s' where s': "map_of (dict_merge c t) ''config'' = Some (PStr s')" using file_complete_str [OF c(2) config_is_str(2)] by blast
  have "distinct (map fst c)" "distinct (map fst t)" using assms(1,3) cs(1) by (simp_all add: list_all_iff)
  moreover from this s s' cs(3) have "s' = s"
    by (auto simp: dict_merge_get_distinct map_add_def same_config_def py_eq_def split: option.splits)
  ultimately show ?thesis using s s' c cs by (simp add: dict_merge_distinct)
qed

lemma list_complete_accepted:
  assumes pyd: "pydantic_ok pyd" and d: "list_all (\<lambda>i. distinct (map fst i)) items" "list_complete exists yaml items"
    and items: "rbind (read_yaml load opened yaml) yaml_items = Inr items"
  shows "is_ok (import_model pyd exists load opened yaml)"
proof -
  let ?cs = "filter (\<lambda>i. \<not> is_test_item i) items"
  let ?j = "\<lambda>t. dict_merge (the (named_config items t)) t"
  let ?js = "map ?j (filter is_test_item items)"
  note tst = named_config_joined [OF d]
  have cfg: "distinct (map fst c)" "file_complete exists yaml DConfig_fields c" if "c \<in> set ?cs" for c
    using d that by (auto simp: list_all_iff list_complete_def)
  note V1 = file_complete_validated [OF pyd DTest_fields_distinct(2) config_is_str(1) cfg]
  have tj: "distinct (map fst x)" "file_complete exists yaml DTest_fields x" if "x \<in> set ?js" for x using tst that by fastforce+
  note V2 = file_complete_validated [OF pyd DTest_fields_distinct(1) config_is_str(2) tj]
  have js: "rmap (join_config yaml ?cs) (filter is_test_item items) = Inr ?js"
    by (rule rmap_ok_map) (use tst in \<open>force simp: join_config_named\<close>)
  have cV: "rmap (validate_item pyd DConfig_fields) ?cs = Inr (map (validated pyd DConfig_fields) ?cs)"
    by (rule rmap_ok_map) (use V1(1) in blast)
  have tV: "rmap (validate_item pyd DTest_fields) ?js = Inr (map (validated pyd DTest_fields) ?js)"
    by (rule rmap_ok_map) (use V2(1) in blast)
  have "map_of (validated pyd DTest_fields x) ''config'' \<in> (\<lambda>c. map_of (validated pyd DConfig_fields c) ''config'') ` set ?cs"
    if x: "x \<in> set ?js" for x
  proof -
    from x obtain t where t: "x = ?j t" "t \<in> set items" "is_test_item t" by auto
    from tst [OF t(2,3)] obtain c where c: "c \<in> set ?cs" "map_of x ''config'' = map_of c ''config''" by (auto simp: t(1))
    then show ?thesis using V1(3) [OF c(1,1)] V2(3) [OF x x] by force
  qed
  then have names: "test_config_must_exist yaml (map (validated pyd DConfig_fields) ?cs) (map (validated pyd DTest_fields) ?js) = Inr ()"
    unfolding test_config_must_exist_def Let_def
    by (subst find_None_iff [THEN iffD2]) (auto simp: image_image)
  have "is_ok (rmap (check_model_path_fields_exist exists yaml DConfig_fields) (map (validated pyd DConfig_fields) ?cs))"
    by (rule rmap_is_ok) (use V1(2) in auto)
  moreover have "is_ok (rmap (check_model_path_fields_exist exists yaml DTest_fields) (map (validated pyd DTest_fields) ?js))"
    by (rule rmap_is_ok) (use V2(2) in auto)
  ultimately show ?thesis
    using d(2) by (auto simp: import_model_def items Let_def js DirectedTestsYaml_def cV tV names list_complete_def is_ok_iff simp del: map_map)
qed

text \<open>
  C12. The imported list of directed tests: each test of the file gives one test of the result, in order. It has exactly the
  declared fields; a field of the test's own entry wins, any other comes from the first configuration of the name the test
  gives; every path of the entry is read relative to the list and exists on disk; the other values are those of the file when
  they have the declared type. And a list in which every configuration and every test joined with its configuration has all
  fields with their types, naming existing files, is imported and not refused.
\<close>

theorem import_model_tests:
  assumes "pydantic_ok pyd" and "rbind (read_yaml load opened yaml) yaml_items = Inr items"
    and "list_all (\<lambda>i. distinct (map fst i)) items"
  shows "(\<forall>ts. import_model pyd exists load opened yaml = Inr ts \<longrightarrow>
        list_all2 (\<lambda>t r. \<exists>c. named_config items t = Some c \<and> imported_test exists yaml c t r) (filter is_test_item items) ts)
    \<and> (list_complete exists yaml items \<longrightarrow> is_ok (import_model pyd exists load opened yaml))"
  using imported_tests [OF assms(1,3,2)] list_complete_accepted [OF assms(1,3) _ assms(2)] by blast

text \<open>A list of one configuration and two tests, one of which has its own linker script, and a check that converts nothing.\<close>

definition strict_check :: "schema \<Rightarrow> pydict \<Rightarrow> pydict res" where
  "strict_check fds d =
     (if complete fds d then Inr (map (\<lambda>(k, ty). (k, the (map_of d k))) fds) else Inl (ValueError ''validation error''))"

lemma strict_check_ok: "pydantic_ok strict_check"
proof -
  have keep: "map_of (map (\<lambda>(k, ty). (k, the (map_of d k))) fds) k = Some v"
    if "(k, ty) \<in> set fds" "map_of d k = Some v" for fds :: schema and d k ty v
    using that by (induction fds) (auto split: prod.splits)
  show ?thesis unfolding pydantic_ok_def
  proof (intro allI conjI impI ballI)
    fix fds d m assume "strict_check fds d = Inr m"
    then have c: "complete fds d" and m: "m = map (\<lambda>(k, ty). (k, the (map_of d k))) fds"
      by (simp_all add: strict_check_def split: if_splits)
    show "map fst m = map fst fds" by (simp add: m comp_def case_prod_unfold)
    have km: "\<exists>v. map_of d k = Some v \<and> has_field_type ty v \<and> map_of m k = Some v" if k: "(k, ty) \<in> set fds" for k ty
    proof -
      obtain v where v: "map_of d k = Some v" "has_field_type ty v" using completeD [OF c k] by blast
      with keep [OF k v(1)] show ?thesis by (simp add: m)
    qed
    show "complete fds m" by (rule completeI) (use km in blast)
    show "case x of (k, ty) \<Rightarrow> \<exists>v. map_of d k = Some v \<and> (has_field_type ty v \<longrightarrow> map_of m k = Some v)" if x: "x \<in> set fds" for x
    proof -
      obtain k ty where k: "x = (k, ty)" by fastforce
      then show ?thesis using km [of k ty] x by auto
    qed
  qed (simp add: strict_check_def)
qed

definition demo_list :: pyval where
  "demo_list = PList
     [PDict [(PStr ''config'', PStr ''asm''), (PStr ''rtl_test'', PStr ''core_ibex_base_test''), (PStr ''rtl_params'', PDict [(PStr ''PMPEnable'', PInt 0)]),
        (PStr ''timeout_s'', PInt 300), (PStr ''gcc_opts'', PStr ''-O2''), (PStr ''ld_script'', PStr ''common/link.ld''),
        (PStr ''includes'', PStr ''common'')],
      PDict [(PStr ''test'', PStr ''empty''), (PStr ''desc'', PStr ''Empty''), (PStr ''iterations'', PInt 1),
        (PStr ''test_srcs'', PStr ''./empty/empty.S''), (PStr ''config'', PStr ''asm'')],
      PDict [(PStr ''test'', PStr ''pmp''), (PStr ''desc'', PStr ''PMP''), (PStr ''iterations'', PInt 2),
        (PStr ''test_srcs'', PStr ''pmp/pmp.S''), (PStr ''config'', PStr ''asm''), (PStr ''ld_script'', PStr ''pmp/pmp.ld'')]]"

definition demo_exists :: "string \<Rightarrow> bool" where
  "demo_exists p = (p \<in> set [''tests/list.yaml'', ''tests/common/link.ld'', ''tests/common'', ''tests/empty/empty.S'',
     ''tests/pmp/pmp.S'', ''tests/pmp/pmp.ld''])"

abbreviation demo_import :: "pydict list res" where
  "demo_import \<equiv> import_model strict_check demo_exists (\<lambda>_. Inr demo_list) (\<lambda>_. Inr []) ''tests/list.yaml''"

theorem import_model_tests_witness:
  "is_ok demo_import \<and> map (\<lambda>t. (map_of t ''test_srcs'', map_of t ''ld_script'')) (projr demo_import)
     = [(Some (PPath ''tests/empty/empty.S''), Some (PPath ''tests/common/link.ld'')),
        (Some (PPath ''tests/pmp/pmp.S''), Some (PPath ''tests/pmp/pmp.ld''))]"
proof -
  let ?items = "projr (yaml_items demo_list)"
  have i: "rbind (read_yaml (\<lambda>_. Inr demo_list) (\<lambda>_. Inr []) ''tests/list.yaml'') yaml_items = Inr ?items"
    "list_all (\<lambda>i. distinct (map fst i)) ?items" "list_complete demo_exists ''tests/list.yaml'' ?items" by code_simp+
  have "is_ok demo_import" using import_model_tests [OF strict_check_ok i(1,2)] i(3) by blast
  moreover have "map (\<lambda>t. (map_of t ''test_srcs'', map_of t ''ld_script'')) (projr demo_import)
     = [(Some (PPath ''tests/empty/empty.S''), Some (PPath ''tests/common/link.ld'')),
        (Some (PPath ''tests/pmp/pmp.S''), Some (PPath ''tests/pmp/pmp.ld''))]" by code_simp
  ultimately show ?thesis by blast
qed

end
