(* ===== verification/Metadata.thy ===== *)
theory Metadata
  imports Ibex_Cmd Directed_Tests
begin

text \<open>
  The description of a regression, in \<open>dv/uvm/core_ibex/scripts\<close>: \<open>metadata.py\<close> (the \<open>RegressionMetadata\<close> object,
  the choice of tests, the creation of one \<open>TestRunResult\<close> per test and seed, and the lock on the stored object), and
  riscv-dv's \<open>process_regression_list\<close>. The directed tests come from \<open>w_directed\<close>, which is \<open>import_model\<close> of
  \<open>Directed_Tests\<close>. Times, git and the process environment are not modelled.
\<close>

datatype md_type = MStr | MInt | MBool | MPath | MOptInt | MOther

text \<open>The fields of the dataclass with their declared types; the flag is \<open>init\<close>.\<close>

definition md_fields :: "(string \<times> md_type \<times> bool) list" where
  "md_fields = [
     (''dir_out'', MPath, True), (''dir_metadata'', MPath, True), (''git_commit'', MStr, True),
     (''creation_datetime'', MOther, True), (''pickle_file'', MPath, False), (''yaml_file'', MPath, False),
     (''raw_args_str'', MStr, True), (''raw_args_dict'', MOther, True), (''seed'', MInt, True),
     (''waves'', MBool, True), (''cov'', MBool, True), (''cosim'', MBool, True), (''simulator'', MStr, True),
     (''iss'', MStr, True), (''test'', MStr, True), (''verbose'', MBool, True), (''iterations'', MOptInt, True),
     (''signature_addr'', MStr, True), (''ibex_config'', MStr, True), (''dut_cov_rtl_path'', MStr, True),
     (''tests_and_counts'', MOther, True), (''isa_ibex'', MOther, True), (''isa_iss'', MOther, True),
     (''run_rtl_timeout_s'', MInt, True),
     (''ibex_configs'', MPath, False), (''ibex_riscvdv_simulator_yaml'', MPath, False),
     (''ibex_riscvdv_customtarget'', MPath, False), (''ibex_riscvdv_testlist'', MPath, False),
     (''ibex_riscvdv_csr'', MPath, False), (''directed_test_dir'', MPath, False), (''directed_test_data'', MPath, False),
     (''riscvdv_build_log'', MOther, True), (''riscvdv_build_stdout'', MOther, True), (''riscvdv_build_cmds'', MOther, True),
     (''tb_build_log'', MOther, True), (''tb_build_stdout'', MOther, True), (''tb_build_cmds'', MOther, True),
     (''riscvdv_fcov_log'', MOther, True), (''riscvdv_fcov_stdout'', MOther, True), (''riscvdv_fcov_cmds'', MOther, True),
     (''cov_merge_db_list'', MOther, True), (''cov_merge_log'', MOther, True), (''cov_merge_stdout'', MOther, True),
     (''cov_merge_cmds'', MOther, True), (''cov_report_log'', MOther, True), (''cov_report_stdout'', MOther, True),
     (''cov_report_cmds'', MOther, True), (''regr_log'', MOther, True), (''regr_log_junit'', MOther, True),
     (''regr_log_junit_merged'', MOther, True), (''environment_variables'', MOther, False),
     (''ibex_root'', MPath, False), (''riscvdv_root'', MPath, False), (''ot_lowrisc_ip'', MPath, False),
     (''ot_xcelium_cov_scripts'', MPath, False), (''ibex_dv_root'', MPath, False), (''dir_build'', MPath, False),
     (''dir_instruction_generator'', MPath, False), (''dir_tb'', MPath, False), (''dir_run'', MPath, False),
     (''dir_cov'', MPath, False), (''dir_fcov'', MPath, False), (''dir_shared_cov'', MPath, False),
     (''dir_cov_merged'', MPath, False), (''dir_cov_report'', MPath, False), (''tests_pickle_files'', MOther, False)]"

record RegressionMetadata =
  md_dir_out :: string
  md_dir_metadata :: string
  md_git_commit :: string
  md_raw_args_str :: string
  md_seed :: int
  md_waves :: bool
  md_cov :: bool
  md_cosim :: bool
  md_simulator :: string
  md_iss :: string
  md_test :: string
  md_verbose :: bool
  md_iterations :: "int option"
  md_signature_addr :: string
  md_ibex_config :: string
  md_dut_cov_rtl_path :: string
  md_tests_and_counts :: "(string \<times> int \<times> TestType) list"
  md_isa_ibex :: "string option"
  md_isa_iss :: "string option"
  md_run_rtl_timeout_s :: int
  md_ibex_root :: string
  md_tests_pickle_files :: "string list"

text \<open>The paths that \<open>_setup_directories\<close> and \<open>__post_init__\<close> derive.\<close>

definition md_pickle_file :: "RegressionMetadata \<Rightarrow> string" where
  "md_pickle_file md = md_dir_metadata md @ ''/metadata.pickle''"
definition md_yaml_file :: "RegressionMetadata \<Rightarrow> string" where
  "md_yaml_file md = md_dir_metadata md @ ''/metadata.yaml''"
definition md_ibex_configs :: "RegressionMetadata \<Rightarrow> string" where
  "md_ibex_configs md = md_ibex_root md @ ''/ibex_configs.yaml''"
definition md_riscvdv_root :: "RegressionMetadata \<Rightarrow> string" where
  "md_riscvdv_root md = md_ibex_root md @ ''/vendor/google_riscv-dv''"
definition md_ibex_dv_root :: "RegressionMetadata \<Rightarrow> string" where
  "md_ibex_dv_root md = md_ibex_root md @ ''/dv/uvm/core_ibex''"
definition md_simulator_yaml :: "RegressionMetadata \<Rightarrow> string" where
  "md_simulator_yaml md = md_ibex_dv_root md @ ''/yaml/rtl_simulation.yaml''"
definition md_customtarget :: "RegressionMetadata \<Rightarrow> string" where
  "md_customtarget md = md_ibex_dv_root md @ ''/riscv_dv_extension''"
definition md_testlist :: "RegressionMetadata \<Rightarrow> string" where
  "md_testlist md = md_customtarget md @ ''/testlist.yaml''"
definition md_directed_test_data :: "RegressionMetadata \<Rightarrow> string" where
  "md_directed_test_data md = md_ibex_dv_root md @ ''/directed_tests/directed_testlist.yaml''"
definition md_dir_instruction_generator :: "RegressionMetadata \<Rightarrow> string" where
  "md_dir_instruction_generator md = md_dir_out md @ ''/build/instr_gen''"
definition md_dir_tb :: "RegressionMetadata \<Rightarrow> string" where
  "md_dir_tb md = md_dir_out md @ ''/build/tb''"
definition md_dir_run :: "RegressionMetadata \<Rightarrow> string" where
  "md_dir_run md = md_dir_out md @ ''/run''"
definition md_dir_tests :: "RegressionMetadata \<Rightarrow> string" where
  "md_dir_tests md = md_dir_run md @ ''/tests''"
definition md_dir_cov :: "RegressionMetadata \<Rightarrow> string" where
  "md_dir_cov md = md_dir_run md @ ''/coverage''"
definition md_dir_shared_cov :: "RegressionMetadata \<Rightarrow> string" where
  "md_dir_shared_cov md = md_dir_cov md @ ''/shared_cov''"
definition md_dir_cov_merged :: "RegressionMetadata \<Rightarrow> string" where
  "md_dir_cov_merged md = md_dir_cov md @ ''/merged''"
definition md_dir_cov_report :: "RegressionMetadata \<Rightarrow> string" where
  "md_dir_cov_report md = md_dir_cov md @ ''/report''"

definition parse_pair :: "string \<Rightarrow> (string \<times> string) res" where
  "parse_pair pr = (case split_once (CHR ''='') pr of
     [k, v] \<Rightarrow> Inr (k, v) | _ \<Rightarrow> Inl (ValueError ''not enough values to unpack (expected 2, got 1)''))"

definition cast_field :: "string \<Rightarrow> md_type \<Rightarrow> string \<Rightarrow> pyval res" where
  "cast_field key ty val = (case ty of
     MStr \<Rightarrow> Inr (PStr val)
   | MInt \<Rightarrow> rbind (py_int 10 val) (\<lambda>i. Inr (PInt i))
   | MBool \<Rightarrow> rbind (py_int 10 val) (\<lambda>i. Inr (PBool (i \<noteq> 0)))
   | MPath \<Rightarrow> Inr (PPath val)
   | MOptInt \<Rightarrow> if val = [] then Inr PNone else rbind (py_int 10 val) (\<lambda>i. Inr (PInt i))
   | MOther \<Rightarrow> Inl (RuntimeError (''Couldn't set key '' @ [CHR 39] @ key @ [CHR 39] @ '' in metadata object!'')))"

definition args_of_list :: "string \<Rightarrow> pydict res" where
  "args_of_list args_list =
     rbind (shlex_split args_list) (\<lambda>pairs.
     rbind (rmap parse_pair pairs) (\<lambda>kvs.
       let kv_dict = fold (\<lambda>(k, v). AList.update (py_lower k) v) kvs [] in
       rfold (\<lambda>d (name, ty, ini). case map_of kv_dict name of
           None \<Rightarrow> Inr d
         | Some val \<Rightarrow> rbind (cast_field name ty val) (\<lambda>v. Inr (AList.update name v d)))
         [(''raw_args_str'', PStr args_list)] md_fields))"

definition str_arg :: "pydict \<Rightarrow> string \<Rightarrow> string \<Rightarrow> string" where
  "str_arg d k dflt = (case map_of d k of Some (PStr s) \<Rightarrow> s | _ \<Rightarrow> dflt)"
definition int_arg :: "pydict \<Rightarrow> string \<Rightarrow> int \<Rightarrow> int" where
  "int_arg d k dflt = (case map_of d k of Some (PInt i) \<Rightarrow> i | _ \<Rightarrow> dflt)"
definition bool_arg :: "pydict \<Rightarrow> string \<Rightarrow> bool \<Rightarrow> bool" where
  "bool_arg d k dflt = (case map_of d k of Some (PBool b) \<Rightarrow> b | _ \<Rightarrow> dflt)"

text \<open>
  The call of the constructor: a key that is also passed by name, or that belongs to a field that is
  not a constructor argument, is a \<open>TypeError\<close>; the other fields have their default values.
\<close>

definition arg_list_initializer :: "string \<Rightarrow> string \<Rightarrow> string \<Rightarrow> string \<Rightarrow> string \<Rightarrow> RegressionMetadata res" where
  "arg_list_initializer root dir_metadata dir_out git_commit args_list =
     rbind (args_of_list args_list) (\<lambda>d.
       if list_ex (\<lambda>k. k \<in> set [''dir_out'', ''dir_metadata'', ''git_commit'', ''creation_datetime'']
                      \<or> map_of md_fields k \<noteq> None \<and> \<not> snd (the (map_of md_fields k))) (map fst d)
       then Inl (TypeError ''__init__() got an unexpected or repeated keyword argument'')
       else Inr \<lparr>md_dir_out = dir_out, md_dir_metadata = dir_metadata, md_git_commit = git_commit,
         md_raw_args_str = str_arg d ''raw_args_str'' '' '', md_seed = int_arg d ''seed'' 1,
         md_waves = bool_arg d ''waves'' False, md_cov = bool_arg d ''cov'' False, md_cosim = bool_arg d ''cosim'' True,
         md_simulator = str_arg d ''simulator'' '' '', md_iss = str_arg d ''iss'' '' '', md_test = str_arg d ''test'' '' '',
         md_verbose = bool_arg d ''verbose'' False,
         md_iterations = (case map_of d ''iterations'' of Some (PInt i) \<Rightarrow> Some i | _ \<Rightarrow> None),
         md_signature_addr = str_arg d ''signature_addr'' '' '', md_ibex_config = str_arg d ''ibex_config'' '' '',
         md_dut_cov_rtl_path = str_arg d ''dut_cov_rtl_path'' [], md_tests_and_counts = [], md_isa_ibex = None,
         md_isa_iss = None, md_run_rtl_timeout_s = int_arg d ''run_rtl_timeout_s'' 1800, md_ibex_root = root,
         md_tests_pickle_files = []\<rparr>)"

definition get_ibex_metadata :: "cfg_env \<Rightarrow> RegressionMetadata \<Rightarrow> RegressionMetadata res" where
  "get_ibex_metadata env md =
     (if (case md_iterations md of Some i \<Rightarrow> i \<le> 0 | None \<Rightarrow> False)
      then Inl (RuntimeError ''Bad --iterations argument: must be positive'')
      else if md_seed md < 0 then Inl (RuntimeError ''Bad --start_seed argument: must be non-negative'')
      else rbind (get_config env (md_ibex_config md)) (\<lambda>cfg.
           rbind (get_isas_for_config cfg) (\<lambda>(isa_ibex, isa_iss).
             Inr (md\<lparr>md_isa_ibex := Some isa_ibex, md_isa_iss := Some isa_iss\<rparr>))))"

section \<open>metadata.py: the choice of tests\<close>

text \<open>
  riscv-dv's \<open>process_regression_list\<close>, called with a \<open>Path\<close> as root directory: an \<open>import\<close> entry passes that
  object to \<open>re.sub\<close> as the replacement, which is a \<open>TypeError\<close>.
\<close>

definition item :: "pydict \<Rightarrow> string \<Rightarrow> pyval res" where
  "item d k = (case map_of d k of None \<Rightarrow> Inl (KeyError k) | Some v \<Rightarrow> Inr v)"

definition item_int :: "pydict \<Rightarrow> string \<Rightarrow> int res" where
  "item_int d k = rbind (item d k) (\<lambda>v. case v of
     PInt i \<Rightarrow> Inr i | PBool b \<Rightarrow> Inr (if b then 1 else 0) | _ \<Rightarrow> Inl (TypeError ''not supported between instances''))"

definition process_entry :: "string \<Rightarrow> int \<Rightarrow> pydict list \<Rightarrow> pydict \<Rightarrow> pydict list res" where
  "process_entry test iterations matched entry =
     (if map_of entry ''import'' \<noteq> None then Inl (TypeError ''decoding to str: need a bytes-like object, PosixPath found'')
      else
        rbind (item entry ''test'') (\<lambda>name.
          if name \<in> PStr ` set (split_char (CHR '','') test) \<or> test = ''all'' then
            rbind (if iterations > 0
                   then rbind (item_int entry ''iterations'') (\<lambda>n.
                          Inr (if n > 0 then AList.update ''iterations'' (PInt iterations) entry else entry))
                   else Inr entry) (\<lambda>entry.
            rbind (item_int entry ''iterations'') (\<lambda>n.
              Inr (if n > 0 then matched @ [entry] else matched)))
          else Inr matched))"

definition process_regression_list :: "string \<Rightarrow> int \<Rightarrow> pydict list \<Rightarrow> pydict list res" where
  "process_regression_list test iterations yaml_data = rfold (process_entry test iterations) [] yaml_data"

record md_world =
  w_env :: cfg_env
  w_testlist :: "string \<Rightarrow> pydict list res"
  w_directed :: "string \<Rightarrow> pydict list res"

definition process_riscvdv_testlist :: "md_world \<Rightarrow> RegressionMetadata \<Rightarrow> pydict list res" where
  "process_riscvdv_testlist w md =
     rbind (w_testlist w (md_testlist md)) (\<lambda>yaml_data.
       process_regression_list
         (if list_ex (\<lambda>x. x \<in> set (split_char (CHR '','') (md_test md))) [''all_riscvdv'', ''all''] then ''all'' else md_test md)
         (case md_iterations md of None \<Rightarrow> 0 | Some i \<Rightarrow> i) yaml_data)"

definition directed_entry :: "RegressionMetadata \<Rightarrow> pydict list \<Rightarrow> pydict \<Rightarrow> pydict list res" where
  "directed_entry md matched entry =
     (let names = split_char (CHR '','') (md_test md);
          select_test = (''all_directed'' \<in> set names
                         \<or> (case map_of entry ''test'' of Some (PStr t) \<Rightarrow> t \<in> set names | _ \<Rightarrow> False))
      in if \<not> select_test then Inr matched
         else
           rbind (case md_iterations md of
                    Some i \<Rightarrow> if i \<noteq> 0 then Inr (PInt i) else item entry ''iterations''
                  | None \<Rightarrow> item entry ''iterations'') (\<lambda>it.
             let entry = AList.update ''iterations'' it entry in
             rbind (item_int entry ''iterations'') (\<lambda>n. Inr (if n > 0 then matched @ [entry] else matched))))"

definition process_directed_testlist :: "md_world \<Rightarrow> RegressionMetadata \<Rightarrow> pydict list res" where
  "process_directed_testlist w md =
     rbind (w_directed w (md_directed_test_data md)) (\<lambda>tests. rfold (directed_entry md) [] tests)"

definition test_and_count :: "TestType \<Rightarrow> pydict \<Rightarrow> ((string \<times> int \<times> TestType) \<times> pydict) res" where
  "test_and_count tt test =
     rbind (item test ''test'') (\<lambda>name. rbind (item test ''iterations'') (\<lambda>it.
       case (name, it) of
         (PStr n, PInt i) \<Rightarrow> if i > 0 then Inr ((n, i, tt), test) else Inl (AssertionError [])
       | (PStr n, PBool True) \<Rightarrow> Inr ((n, 1, tt), test)
       | _ \<Rightarrow> Inl (AssertionError [])))"

definition get_tests_and_counts :: "md_world \<Rightarrow> RegressionMetadata \<Rightarrow> ((string \<times> int \<times> TestType) \<times> pydict) list res" where
  "get_tests_and_counts w md =
     rbind (process_riscvdv_testlist w md) (\<lambda>riscvdv_matched_list.
     rbind (process_directed_testlist w md) (\<lambda>directed_matched_list.
       if riscvdv_matched_list = [] \<and> directed_matched_list = []
       then Inl (RuntimeError ''No matching tests found in testlists.'')
       else
         rbind (parse_config (yaml_load (w_env w)) (open_file (w_env w)) (md_ibex_config md) (PStr (md_ibex_configs md))) (\<lambda>cfg.
         rbind (filter_tests_by_config cfg riscvdv_matched_list) (\<lambda>riscvdv_filtered_list.
         rbind (filter_tests_by_config cfg directed_matched_list) (\<lambda>directed_filtered_list.
         rbind (rmap (test_and_count RISCVDV) riscvdv_filtered_list) (\<lambda>a.
         rbind (rmap (test_and_count DIRECTED) directed_filtered_list) (\<lambda>b. Inr (a @ b))))))))"

section \<open>metadata.py: creating the metadata\<close>

definition shlex_if_not_empty :: "pydict \<Rightarrow> string \<Rightarrow> string list res" where
  "shlex_if_not_empty obj fld = (case map_of obj fld of
     Some (PStr s) \<Rightarrow> shlex_split s
   | None \<Rightarrow> shlex_split []
   | Some v \<Rightarrow> if truthy v then Inl (TypeError ''expected str'') else shlex_split [])"

text \<open>The loop over the plusargs: each has to split into a name and a value at its \<open>=\<close>.\<close>

definition debug_module_flag :: "bool option \<Rightarrow> string \<Rightarrow> bool option res" where
  "debug_module_flag cur arg = (case split_char (CHR ''='') arg of
     [plusarg, val] \<Rightarrow>
       if plusarg = ''+discrete_debug_module'' then rbind (py_int 10 val) (\<lambda>i. Inr (Some (i \<noteq> 0))) else Inr cur
   | _ \<Rightarrow> Inl (ValueError ''values to unpack (expected 2)''))"

definition init_trr :: "RegressionMetadata \<Rightarrow> string \<Rightarrow> TestType \<Rightarrow> int \<Rightarrow> TestRunResult" where
  "init_trr md test tt sd =
     (let tds = test @ ''.'' @ int_str sd in
      empty_trr\<lparr>testtype := Some tt, testdotseed := Some tds, testname := Some test, seed := Some sd,
        rtl_simulator := Some (md_simulator md), iss_cosim := Some (md_iss md),
        dir_test := Some (md_dir_tests md @ ''/'' @ tds), metadata_pickle_file := Some (md_pickle_file md),
        trr_pickle_file := Some (md_dir_metadata md @ ''/'' @ tds @ ''.pickle''),
        trr_yaml_file := Some (md_dir_tests md @ ''/'' @ tds @ ''/trr.yaml'')\<rparr>)"

definition make_trr :: "md_world \<Rightarrow> RegressionMetadata \<Rightarrow> string \<Rightarrow> TestType \<Rightarrow> pydict \<Rightarrow> int \<Rightarrow> TestRunResult res" where
  "make_trr w md test tt obj sd =
     (let trr = init_trr md test tt sd in
      case tt of
        RISCVDV \<Rightarrow>
          rbind (shlex_if_not_empty obj ''gen_test'') (\<lambda>gt.
          rbind (shlex_if_not_empty obj ''gen_opts'') (\<lambda>go.
          rbind (shlex_if_not_empty obj ''rtl_test'') (\<lambda>rt.
          rbind (shlex_if_not_empty obj ''sim_opts'') (\<lambda>so.
          rbind (rfold debug_module_flag None so) (\<lambda>ddm.
            Inr (trr\<lparr>gen_test := Some gt, gen_opts := Some go, rtl_test := Some (PList (map PStr rt)), sim_opts := Some so,
                 is_discrete_debug_module := ddm\<rparr>))))))
      | DIRECTED \<Rightarrow>
          rbind (w_directed w (md_directed_test_data md)) (\<lambda>tests.
            case find (\<lambda>i. map_of i ''test'' = Some (PStr test)) tests of
              None \<Rightarrow> Inl StopIteration
            | Some d \<Rightarrow> Inr (trr\<lparr>directed_data := Some d\<rparr>)))"

definition seeds :: "RegressionMetadata \<Rightarrow> int \<Rightarrow> int list" where
  "seeds md count = map (\<lambda>i. md_seed md + int i) [0..<nat count]"

text \<open>All runs of all tests, in order: the body of the nested loops, without the export to disk.\<close>

definition make_trrs ::
  "md_world \<Rightarrow> RegressionMetadata \<Rightarrow> ((string \<times> int \<times> TestType) \<times> pydict) list \<Rightarrow> TestRunResult list res" where
  "make_trrs w md tcs =
     rbind (rmap (\<lambda>((test, count, tt), obj). rmap (make_trr w md test tt obj) (seeds md count)) tcs)
       (\<lambda>trrss. Inr (concat trrss))"

definition create_metadata ::
  "md_world \<Rightarrow> string \<Rightarrow> string \<Rightarrow> string \<Rightarrow> string \<Rightarrow> (RegressionMetadata \<times> TestRunResult list) res" where
  "create_metadata w dir_metadata dir_out git_commit args_list =
     rbind (arg_list_initializer (ibex_root (w_env w)) dir_metadata dir_out git_commit args_list) (\<lambda>md.
     rbind (get_ibex_metadata (w_env w) md) (\<lambda>md.
     rbind (get_tests_and_counts w md) (\<lambda>tcs.
       let md = md\<lparr>md_tests_and_counts := map fst tcs\<rparr> in
       if md_tests_and_counts md = []
       then Inl (RuntimeError ''md.tests_and_counts is empty, cannot get TEST.SEED strings.'')
       else
         rbind (make_trrs w md tcs) (\<lambda>trrs.
           Inr (md\<lparr>md_tests_pickle_files := md_tests_pickle_files md @ map (str_opt \<circ> trr_pickle_file) trrs\<rparr>, trrs)))))"

definition print_tds :: "TestType \<Rightarrow> RegressionMetadata \<Rightarrow> string list" where
  "print_tds tt md = concat (map (\<lambda>(test, count, t).
     if t = tt then map (\<lambda>sd. test @ ''.'' @ int_str sd) (seeds md count) else []) (md_tests_and_counts md))"

section \<open>One run per test and seed\<close>

definition run_names :: "RegressionMetadata \<Rightarrow> (string \<times> int \<times> TestType) list \<Rightarrow> (string \<times> int) list" where
  "run_names md tcs = concat (map (\<lambda>(test, count, t). map (Pair test) (seeds md count)) tcs)"

definition int_tds :: "string \<times> int \<Rightarrow> string" where
  "int_tds ts = fst ts @ ''.'' @ int_str (snd ts)"

definition keeps_name :: "TestRunResult \<Rightarrow> TestRunResult \<Rightarrow> bool" where
  "keeps_name a b = (testdotseed a = testdotseed b \<and> testtype a = testtype b \<and> trr_pickle_file a = trr_pickle_file b
     \<and> testname a = testname b \<and> seed a = seed b \<and> dir_test a = dir_test b \<and> passed a = passed b \<and> failure_mode a = failure_mode b)"

lemma make_trr_name: "make_trr w md test tt obj sd = Inr trr \<Longrightarrow> keeps_name trr (init_trr md test tt sd)"
proof (cases tt)
  case RISCVDV
  moreover assume "make_trr w md test tt obj sd = Inr trr"
  ultimately show ?thesis by (auto simp: make_trr_def Let_def rbind_Inr_iff keeps_name_def)
next
  case DIRECTED
  moreover assume "make_trr w md test tt obj sd = Inr trr"
  ultimately show ?thesis
    by (auto simp: make_trr_def Let_def rbind_Inr_iff case_Inr_iff keeps_name_def)
qed

lemma init_trr_name [simp]:
  "testdotseed (init_trr md test tt sd) = Some (int_tds (test, sd))"
  "testtype (init_trr md test tt sd) = Some tt"
  "trr_pickle_file (init_trr md test tt sd) = Some (md_dir_metadata md @ ''/'' @ int_tds (test, sd) @ ''.pickle'')"
  by (simp_all add: init_trr_def Let_def int_tds_def)

definition init_trrs :: "RegressionMetadata \<Rightarrow> (string \<times> int \<times> TestType) list \<Rightarrow> TestRunResult list" where
  "init_trrs md tcs = concat (map (\<lambda>(test, count, tt). map (init_trr md test tt) (seeds md count)) tcs)"

lemma make_trrs_names:
  assumes "make_trrs w md tcs = Inr trrs"
  shows "list_all2 keeps_name trrs (init_trrs md (map fst tcs))"
proof -
  from assms obtain trrss where
    r: "rmap (\<lambda>((test, count, tt), obj). rmap (make_trr w md test tt obj) (seeds md count)) tcs = Inr trrss"
    and c: "trrs = concat trrss" by (auto simp: make_trrs_def rbind_Inr_iff)
  have one: "list_all2 keeps_name ts (map (init_trr md test tt) (seeds md count))"
    if "rmap (make_trr w md test tt obj) (seeds md count) = Inr ts" for test count tt obj ts
    using that make_trr_name unfolding rmap_Inr_iff list_all2_conv_all_nth by auto
  have "list_all2 (\<lambda>tc ts. list_all2 keeps_name ts
      (case tc of ((test, count, tt), obj) \<Rightarrow> map (init_trr md test tt) (seeds md count))) tcs trrss"
    by (rule list_all2_mono [OF r [unfolded rmap_Inr_iff [of _ tcs]]]) (auto intro: one split: prod.splits)
  then have "list_all2 (list_all2 keeps_name) trrss (map (\<lambda>((test, count, tt), obj). map (init_trr md test tt) (seeds md count)) tcs)"
    by (induction rule: list_all2_induct) (auto split: prod.splits)
  then have "list_all2 keeps_name (concat trrss)
      (concat (map (\<lambda>((test, count, tt), obj). map (init_trr md test tt) (seeds md count)) tcs))"
    by (rule concat_transfer [THEN rel_funD])
  then show ?thesis by (simp add: c init_trrs_def comp_def case_prod_unfold)
qed

lemma list_all2_keeps_map:
  assumes "list_all2 keeps_name as bs"
  shows "map testdotseed as = map testdotseed bs" "map trr_pickle_file as = map trr_pickle_file bs"
    "map testdotseed (filter (\<lambda>t. testtype t = x) as) = map testdotseed (filter (\<lambda>t. testtype t = x) bs)"
  using assms by (induction rule: list_all2_induct) (auto simp: keeps_name_def)

lemma init_trrs_pickles:
  "map trr_pickle_file (init_trrs md tcs) =
    map (\<lambda>ts. Some (md_dir_metadata md @ ''/'' @ int_tds ts @ ''.pickle'')) (run_names md tcs)"
  by (induction tcs) (auto simp: init_trrs_def run_names_def)

lemma init_trrs_tds:
  "map testdotseed (filter (\<lambda>t. testtype t = Some tt) (init_trrs md (md_tests_and_counts md))) = map Some (print_tds tt md)"
proof -
  have "map testdotseed (filter (\<lambda>t. testtype t = Some tt) (init_trrs md tcs)) =
      map Some (concat (map (\<lambda>(test, count, t). if t = tt then map (\<lambda>sd. test @ ''.'' @ int_str sd) (seeds md count) else []) tcs))"
    for tcs
    by (induction tcs) (auto simp: init_trrs_def filter_map comp_def int_tds_def)
  then show ?thesis by (simp add: print_tds_def)
qed

lemma int_tds_inj:
  assumes "list_all (\<lambda>ts. 0 \<le> snd ts \<and> fst ts \<noteq> [] \<and> list_all not_dot (fst ts)) xs" "distinct xs"
  shows "distinct (map int_tds xs)"
proof -
  have "int_tds ts = tds_str (fst ts, nat (snd ts))" if "0 \<le> snd ts" for ts
    using that by (simp add: int_tds_def tds_str_def int_str_def)
  then have "map int_tds xs = map tds_str (map (\<lambda>ts. (fst ts, nat (snd ts))) xs)"
    using assms(1) by (auto simp: list_all_iff)
  moreover have "inj_on (\<lambda>ts. (fst ts, nat (snd ts))) (set xs)"
    using assms(1) by (intro inj_onI) (auto simp: list_all_iff prod_eq_iff eq_nat_nat_iff dest!: bspec)
  then have "distinct (map tds_str (map (\<lambda>ts. (fst ts, nat (snd ts))) xs))"
    using assms by (intro tds.distinct_map_enc) (auto simp: list_all_iff tds_valid_def distinct_map)
  ultimately show ?thesis by (simp only:)
qed

lemma distinct_run_names: "distinct (map fst tcs) \<Longrightarrow> distinct (run_names md tcs)"
proof (induction tcs)
  case (Cons tc tcs)
  obtain t c tt where "tc = (t, c, tt)" by (cases tc)
  moreover have "distinct (seeds md c)" for c by (auto simp: seeds_def distinct_map inj_on_def)
  ultimately show ?case
    using Cons by (auto simp: run_names_def distinct_map inj_on_def image_iff split: prod.splits)
qed (simp add: run_names_def)

lemma create_metadata_parts:
  assumes "create_metadata w dir_metadata dir_out git_commit args_list = Inr (md, trrs)"
  obtains m tcs where "make_trrs w m tcs = Inr trrs" "md = m\<lparr>md_tests_pickle_files := map (str_opt \<circ> trr_pickle_file) trrs\<rparr>"
    "md_tests_and_counts m = map fst tcs" "md_dir_metadata m = dir_metadata" "0 \<le> md_seed m"
proof -
  from assms obtain md0 md1 tcs where
    init: "arg_list_initializer (ibex_root (w_env w)) dir_metadata dir_out git_commit args_list = Inr md0"
    and ibex: "get_ibex_metadata (w_env w) md0 = Inr md1"
    and mk: "make_trrs w (md1\<lparr>md_tests_and_counts := map fst tcs\<rparr>) tcs = Inr trrs"
    and md: "md = md1\<lparr>md_tests_and_counts := map fst tcs, md_tests_pickle_files := md_tests_pickle_files md1 @ map (str_opt \<circ> trr_pickle_file) trrs\<rparr>"
    by (auto simp: create_metadata_def rbind_Inr_iff Let_def split: if_splits)
  have "md_dir_metadata md0 = dir_metadata" "md_tests_pickle_files md0 = []"
    using init by (auto simp: arg_list_initializer_def rbind_Inr_iff split: if_splits)
  moreover have "md_dir_metadata md1 = md_dir_metadata md0" "md_tests_pickle_files md1 = md_tests_pickle_files md0" "0 \<le> md_seed md1"
    using ibex by (auto simp: get_ibex_metadata_def rbind_Inr_iff split: if_splits)
  ultimately show thesis using mk md by (intro that [of "md1\<lparr>md_tests_and_counts := map fst tcs\<rparr>" tcs]) simp_all
qed

text \<open>A directed run carries the entry of the imported list that has the name of its test.\<close>

lemma make_trrs_mem:
  assumes "make_trrs w m tcs = Inr trrs" "trr \<in> set trrs"
  obtains test tt obj sd where "make_trr w m test tt obj sd = Inr trr"
proof -
  from assms obtain trrss where r: "rmap (\<lambda>((test, count, tt), obj). rmap (make_trr w m test tt obj) (seeds m count)) tcs = Inr trrss"
    and t: "trr \<in> \<Union> (set ` set trrss)" by (auto simp: make_trrs_def rbind_Inr_iff)
  then obtain ts where "ts \<in> set trrss" "trr \<in> set ts" by blast
  with rmap_mem [OF r this(1)] show thesis by (auto dest: rmap_mem intro: that)
qed

lemma make_trr_directed:
  assumes "make_trr w m test tt obj sd = Inr trr" "testtype trr = Some DIRECTED"
  shows "\<exists>tests d. w_directed w (md_directed_test_data m) = Inr tests \<and> d \<in> set tests
    \<and> map_of d ''test'' = Some (PStr test) \<and> testname trr = Some test \<and> directed_data trr = Some d"
proof -
  have "tt = DIRECTED" using make_trr_name [OF assms(1)] assms(2) by (auto simp: keeps_name_def)
  with assms(1) show ?thesis
    by (auto simp: make_trr_def Let_def rbind_Inr_iff find_Some_iff init_trr_def case_Inr_iff; metis nth_mem)
qed

lemma create_metadata_directed:
  assumes "create_metadata w dir_metadata dir_out git_commit args_list = Inr (md, trrs)" "trr \<in> set trrs"
    and "testtype trr = Some DIRECTED"
  shows "\<exists>tests d name. w_directed w (md_directed_test_data md) = Inr tests \<and> d \<in> set tests
    \<and> map_of d ''test'' = Some (PStr name) \<and> testname trr = Some name \<and> directed_data trr = Some d"
proof -
  obtain m tcs where m: "make_trrs w m tcs = Inr trrs" "md = m\<lparr>md_tests_pickle_files := map (str_opt \<circ> trr_pickle_file) trrs\<rparr>"
    using assms(1) by (rule create_metadata_parts)
  from m(1) assms(2) obtain test tt obj sd where "make_trr w m test tt obj sd = Inr trr" by (rule make_trrs_mem)
  from make_trr_directed [OF this assms(3)] show ?thesis
    by (auto simp: m(2) md_directed_test_data_def md_ibex_dv_root_def)
qed

lemma seeds_update [simp]: "seeds (m\<lparr>md_tests_pickle_files := fs\<rparr>) = seeds m"
  by (rule ext) (simp add: seeds_def)

lemma run_names_update [simp]:
  "run_names (m\<lparr>md_tests_pickle_files := fs\<rparr>) tcs = run_names m tcs" "print_tds tt (m\<lparr>md_tests_pickle_files := fs\<rparr>) = print_tds tt m"
  by (simp_all add: run_names_def print_tds_def cong: if_cong)

lemma create_metadata_pickles:
  assumes "create_metadata w dir_metadata dir_out git_commit args_list = Inr (md, trrs)"
  shows "map trr_pickle_file trrs = map (\<lambda>ts. Some (dir_metadata @ ''/'' @ int_tds ts @ ''.pickle'')) (run_names md (md_tests_and_counts md))"
    and "map Some (md_tests_pickle_files md) = map trr_pickle_file trrs"
proof -
  obtain m tcs where m: "make_trrs w m tcs = Inr trrs" "md = m\<lparr>md_tests_pickle_files := map (str_opt \<circ> trr_pickle_file) trrs\<rparr>"
    "md_tests_and_counts m = map fst tcs" "md_dir_metadata m = dir_metadata"
    using assms by (rule create_metadata_parts)
  show pk: "map trr_pickle_file trrs = map (\<lambda>ts. Some (dir_metadata @ ''/'' @ int_tds ts @ ''.pickle'')) (run_names md (md_tests_and_counts md))"
    using list_all2_keeps_map(2) [OF make_trrs_names [OF m(1)]] by (simp add: init_trrs_pickles m(2,3,4))
  have "trr_pickle_file t \<noteq> None" if "t \<in> set trrs" for t
    using arg_cong [OF pk, of set] that by (auto simp: image_iff)
  then have "map (\<lambda>t. Some (str_opt (trr_pickle_file t))) trrs = map trr_pickle_file trrs"
    by (auto simp: str_opt_def split: option.splits)
  then show "map Some (md_tests_pickle_files md) = map trr_pickle_file trrs" by (simp add: m(2) comp_def)
qed

text \<open>The new test objects: their names, their directories, and no verdict yet.\<close>

definition fresh_run :: "RegressionMetadata \<Rightarrow> TestRunResult \<Rightarrow> string \<times> int \<Rightarrow> bool" where
  "fresh_run md t ts = (testname t = Some (fst ts) \<and> seed t = Some (snd ts)
     \<and> dir_test t = Some (md_dir_tests md @ ''/'' @ int_tds ts) \<and> passed t = None \<and> failure_mode t = None)"

lemma fresh_init_trrs: "list_all2 (fresh_run md) (init_trrs md tcs) (run_names md tcs)"
proof (induction tcs)
  case (Cons tc tcs)
  obtain test count tt where "tc = (test, count, tt)" by (cases tc)
  moreover have "list_all2 (fresh_run md) (map (init_trr md test tt) sds) (map (Pair test) sds)" for sds
    by (induction sds) (simp_all add: fresh_run_def init_trr_def Let_def empty_trr_def int_tds_def)
  ultimately show ?case using Cons by (simp add: init_trrs_def run_names_def list_all2_appendI)
qed (simp add: init_trrs_def run_names_def)

lemma create_metadata_fresh:
  assumes "create_metadata w dir_metadata dir_out git_commit args_list = Inr (md, trrs)"
  shows "list_all2 (fresh_run md) trrs (run_names md (md_tests_and_counts md))"
proof -
  obtain m tcs where m: "make_trrs w m tcs = Inr trrs" "md = m\<lparr>md_tests_pickle_files := map (str_opt \<circ> trr_pickle_file) trrs\<rparr>"
    "md_tests_and_counts m = map fst tcs"
    using assms by (rule create_metadata_parts)
  have "fresh_run md t ts" if "keeps_name t u" "fresh_run m u ts" for t u ts
    using that by (simp add: keeps_name_def fresh_run_def m(2) md_dir_tests_def md_dir_run_def)
  from list_all2_trans [OF this make_trrs_names [OF m(1)] fresh_init_trrs]
  show ?thesis by (simp add: m(2,3))
qed

text \<open>
  C9. Creating the metadata makes one test object for every chosen test and seed, in order: the object stores the list of
  their pickle files, the names printed for the Makefile are the names of the objects of that type,
  and when the chosen tests have different names without a dot, no two objects share a file.
\<close>

theorem create_metadata_runs:
  assumes "create_metadata w dir_metadata dir_out git_commit args_list = Inr (md, trrs)"
  shows "map trr_pickle_file trrs = map (\<lambda>ts. Some (dir_metadata @ ''/'' @ int_tds ts @ ''.pickle'')) (run_names md (md_tests_and_counts md))
    \<and> map Some (md_tests_pickle_files md) = map trr_pickle_file trrs
    \<and> map testdotseed (filter (\<lambda>t. testtype t = Some tt) trrs) = map Some (print_tds tt md)
    \<and> (distinct (map fst (md_tests_and_counts md)) \<and> list_all (\<lambda>tc. fst tc \<noteq> [] \<and> list_all not_dot (fst tc)) (md_tests_and_counts md)
        \<longrightarrow> distinct (md_tests_pickle_files md))"
proof -
  obtain m tcs where m: "make_trrs w m tcs = Inr trrs" "md = m\<lparr>md_tests_pickle_files := map (str_opt \<circ> trr_pickle_file) trrs\<rparr>"
    "md_tests_and_counts m = map fst tcs" "0 \<le> md_seed m"
    using assms by (rule create_metadata_parts)
  note pk = create_metadata_pickles [OF assms]
  have tds: "map testdotseed (filter (\<lambda>t. testtype t = Some tt) trrs) = map Some (print_tds tt md)"
    using list_all2_keeps_map(3) [OF make_trrs_names [OF m(1)], of "Some tt"] init_trrs_tds [of tt m] by (simp add: m(2,3))
  have "distinct (md_tests_pickle_files md)"
    if "distinct (map fst (md_tests_and_counts md))" "list_all (\<lambda>tc. fst tc \<noteq> [] \<and> list_all not_dot (fst tc)) (md_tests_and_counts md)"
  proof -
    have "list_all (\<lambda>ts. 0 \<le> snd ts \<and> fst ts \<noteq> [] \<and> list_all not_dot (fst ts)) (run_names md (md_tests_and_counts md))"
      using that(2) m(4) by (auto simp: list_all_iff run_names_def seeds_def m(2) split: prod.splits)
    then have "distinct (map int_tds (run_names md (md_tests_and_counts md)))"
      by (rule int_tds_inj) (rule distinct_run_names [OF that(1)])
    then have "distinct (map (\<lambda>ts. Some (dir_metadata @ ''/'' @ int_tds ts @ ''.pickle'')) (run_names md (md_tests_and_counts md)))"
      by (simp add: distinct_map inj_on_def)
    then show ?thesis unfolding pk(1) [symmetric] pk(2) [symmetric] by (simp add: distinct_map)
  qed
  with pk tds show ?thesis by blast
qed

definition demo_md_world :: "int \<Rightarrow> md_world" where
  "demo_md_world n = \<lparr>w_env = small_env,
     w_testlist = (\<lambda>_. Inr [[(''test'', PStr ''arith''), (''iterations'', PInt n)]]),
     w_directed = (\<lambda>_. Inr [])\<rparr>"

definition demo_args_text :: string where
  "demo_args_text = ''TEST=all IBEX_CONFIG=small SIMULATOR=questa''"

lemma demo_args: "args_of_list demo_args_text =
   Inr [(''raw_args_str'', PStr demo_args_text), (''simulator'', PStr ''questa''), (''test'', PStr ''all''), (''ibex_config'', PStr ''small'')]"
proof -
  have 1: "shlex_split demo_args_text = Inr [''TEST=all'', ''IBEX_CONFIG=small'', ''SIMULATOR=questa'']" by code_simp
  have 2: "rmap parse_pair [''TEST=all'', ''IBEX_CONFIG=small'', ''SIMULATOR=questa''] =
      Inr [(''TEST'', ''all''), (''IBEX_CONFIG'', ''small''), (''SIMULATOR'', ''questa'')]"
    by code_simp
  have 3: "py_lower ''TEST'' = ''test''" "py_lower ''IBEX_CONFIG'' = ''ibex_config''" "py_lower ''SIMULATOR'' = ''simulator''"
    by code_simp+
  show ?thesis
    unfolding args_of_list_def 1 2 rbind_simps Let_def
    by (simp add: 3 md_fields_def cast_field_def)
qed

definition demo_run :: "RegressionMetadata \<Rightarrow> int \<Rightarrow> TestRunResult" where
  "demo_run md sd = (init_trr md ''arith'' RISCVDV sd)\<lparr>gen_test := Some [], gen_opts := Some [], rtl_test := Some (PList []),
     sim_opts := Some [], is_discrete_debug_module := None\<rparr>"

lemma demo_make_trrs:
  "make_trrs w m [((''arith'', n, RISCVDV), [(''test'', PStr ''arith''), (''iterations'', PInt n)])] = Inr (map (demo_run m) (seeds m n))"
proof -
  have "shlex_split [] = Inr []" by (simp add: shlex_split_def)
  then have "make_trr w m ''arith'' RISCVDV [(''test'', PStr ''arith''), (''iterations'', PInt n)] sd = Inr (demo_run m sd)" for sd
    by (simp add: make_trr_def shlex_if_not_empty_def demo_run_def Let_def)
  then show ?thesis by (simp add: make_trrs_def rmap_ok_map [of _ _ "demo_run m"])
qed

lemma demo_create:
  assumes "0 < n"
  obtains m where "create_metadata (demo_md_world n) ''/m'' ''/o'' ''abc'' demo_args_text =
      Inr (m\<lparr>md_tests_pickle_files := map (str_opt \<circ> trr_pickle_file) (map (demo_run m) (seeds m n))\<rparr>, map (demo_run m) (seeds m n))"
    "md_ibex_config m = ''small''" "md_simulator m = ''questa''" "md_tests_and_counts m = [(''arith'', n, RISCVDV)]"
    "md_signature_addr m = '' ''" "md_seed m = 1"
proof -
  obtain md where md: "arg_list_initializer (ibex_root small_env) ''/m'' ''/o'' ''abc'' demo_args_text = Inr md"
    and f: "md_ibex_config md = ''small''" "md_iterations md = None" "md_seed md = 1" "md_test md = ''all''"
      "md_ibex_root md = ibex_root small_env" "md_simulator md = ''questa''" "md_tests_pickle_files md = []" "md_signature_addr md = '' ''"
    unfolding arg_list_initializer_def demo_args
    by (simp add: md_fields_def str_arg_def int_arg_def)
  obtain c where c: "get_config small_env ''small'' = Inr c" "Config_init small_config = Inr c" using small_env_config by blast
  obtain c' where "Config_init small_config = Inr c'" "rv32b c' = ''ibex_pkg::RV32BNone''" using small_config_ok by blast
  with c(2) have "rv32b c = ''ibex_pkg::RV32BNone''" by simp
  then obtain a b where isas: "get_isas_for_config c = Inr (a, b)"
    by (simp add: get_isas_for_config_def bitmanip_mapping_def Let_def)
  let ?md = "md\<lparr>md_isa_ibex := Some a, md_isa_iss := Some b\<rparr>"
  let ?m = "?md\<lparr>md_tests_and_counts := [(''arith'', n, RISCVDV)]\<rparr>"
  have ibex: "get_ibex_metadata small_env md = Inr ?md"
    by (simp add: get_ibex_metadata_def f c isas)
  have cfg: "parse_config (yaml_load small_env) (open_file small_env) ''small'' (PStr (md_ibex_configs ?md)) = Inr c"
    using c(2) by (simp add: parse_config_def small_env_def Configs_init_def)
  have tcs: "get_tests_and_counts (demo_md_world n) ?md = Inr [((''arith'', n, RISCVDV), [(''test'', PStr ''arith''), (''iterations'', PInt n)])]"
    using cfg f assms by (simp add: get_tests_and_counts_def process_riscvdv_testlist_def demo_md_world_def process_regression_list_def
        process_entry_def item_def item_int_def process_directed_testlist_def filter_tests_by_config_def test_and_count_def)
  have w: "w_env (demo_md_world n) = small_env" by (simp add: demo_md_world_def)
  show thesis
  proof (rule that [of ?m])
    show "create_metadata (demo_md_world n) ''/m'' ''/o'' ''abc'' demo_args_text =
      Inr (?m\<lparr>md_tests_pickle_files := map (str_opt \<circ> trr_pickle_file) (map (demo_run ?m) (seeds ?m n))\<rparr>, map (demo_run ?m) (seeds ?m n))"
      unfolding create_metadata_def w md rbind_simps ibex tcs Let_def by (simp add: demo_make_trrs f)
  qed (simp_all add: f)
qed

theorem create_metadata_runs_witness:
  "\<exists>md trrs. create_metadata (demo_md_world 3) ''/m'' ''/o'' ''abc'' demo_args_text = Inr (md, trrs)
     \<and> length trrs = 3 \<and> map Some (md_tests_pickle_files md) = map trr_pickle_file trrs"
proof -
  obtain md trrs where c: "create_metadata (demo_md_world 3) ''/m'' ''/o'' ''abc'' demo_args_text = Inr (md, trrs)" "length trrs = 3"
    by (rule demo_create [of 3]) (auto simp: seeds_def)
  from create_metadata_runs [OF c(1)] c show ?thesis by blast
qed

section \<open>metadata.py: LockedMetadata\<close>

text \<open>
  Scripts that share the stored object go through \<open>with LockedMetadata(...) as md:\<close>. A process waits for the
  lock on the file, loads the object, changes it in memory and, on leaving the block, writes it back
  and releases the lock; a process that waits for more than five seconds gives up with an
  \<open>OSError\<close>. The object is of any type \<open>'m\<close>; a change is a function on it.
\<close>

record 'm lock_state =
  disk :: 'm
  holder :: "nat option"
  mem :: "nat \<Rightarrow> 'm option"
  done_changes :: "('m \<Rightarrow> 'm) list"
  open_changes :: "('m \<Rightarrow> 'm) list"

inductive lock_step :: "'m lock_state \<Rightarrow> 'm lock_state \<Rightarrow> bool" where
  enter: "holder s = None \<Longrightarrow> mem s p = None \<Longrightarrow>
    lock_step s (s\<lparr>holder := Some p, mem := (mem s)(p := Some (disk s)), open_changes := []\<rparr>)"
| timed_out: "mem s p = None \<Longrightarrow> lock_step s s"
| change: "holder s = Some p \<Longrightarrow> mem s p = Some m \<Longrightarrow>
    lock_step s (s\<lparr>mem := (mem s)(p := Some (f m)), open_changes := open_changes s @ [f]\<rparr>)"
| leave: "holder s = Some p \<Longrightarrow> mem s p = Some m \<Longrightarrow>
    lock_step s (s\<lparr>disk := m, holder := None, mem := (mem s)(p := None),
      done_changes := done_changes s @ open_changes s, open_changes := []\<rparr>)"

definition lock_init :: "'m \<Rightarrow> 'm lock_state" where
  "lock_init m = \<lparr>disk = m, holder = None, mem = (\<lambda>_. None), done_changes = [], open_changes = []\<rparr>"

definition apply_all :: "('m \<Rightarrow> 'm) list \<Rightarrow> 'm \<Rightarrow> 'm" where
  "apply_all fs m = fold (\<lambda>f x. f x) fs m"

lemma apply_all_append: "apply_all (fs @ gs) m = apply_all gs (apply_all fs m)"
  by (simp add: apply_all_def)

definition lock_inv :: "'m \<Rightarrow> 'm lock_state \<Rightarrow> bool" where
  "lock_inv m0 s \<longleftrightarrow> disk s = apply_all (done_changes s) m0 \<and>
     (case holder s of
        None \<Rightarrow> (\<forall>p. mem s p = None) \<and> open_changes s = []
      | Some p \<Rightarrow> (\<forall>q. mem s q \<noteq> None \<longrightarrow> p = q) \<and> mem s p = Some (apply_all (open_changes s) (disk s)))"

lemma lock_inv_step: "lock_step s t \<Longrightarrow> lock_inv m0 s \<Longrightarrow> lock_inv m0 t"
  by (induction rule: lock_step.induct)
    (auto simp: lock_inv_def apply_all_append apply_all_def split: option.splits)

interpretation lock: transition_system lock_step "lock_init m0" "lock_inv m0" for m0
  by unfold_locales (simp add: lock_inv_def lock_init_def apply_all_def, rule lock_inv_step)



text \<open>A small regression, for examples.\<close>

definition demo_md :: RegressionMetadata where
  "demo_md = \<lparr>md_dir_out = ''o'', md_dir_metadata = ''m'', md_git_commit = [], md_raw_args_str = [], md_seed = 1,
     md_waves = False, md_cov = False, md_cosim = True, md_simulator = ''vcs'', md_iss = ''spike'', md_test = ''t'',
     md_verbose = False, md_iterations = None, md_signature_addr = [], md_ibex_config = ''small'', md_dut_cov_rtl_path = [],
     md_tests_and_counts = [], md_isa_ibex = None, md_isa_iss = None, md_run_rtl_timeout_s = 10, md_ibex_root = ''r'',
     md_tests_pickle_files = [''a'', ''b'']\<rparr>"

end
