(* ===== verification/Riscvdv_Interface.thy ===== *)
theory Riscvdv_Interface
  imports Scripts_Lib Py_Regex
begin

text \<open>
  \<open>dv/uvm/core_ibex/scripts/riscvdv_interface.py\<close>: the commands of riscv-dv and the construction of a
  tool command from the simulator description, with its three rounds of substitution and the final
  check that no parameter is left. \<open>read_yaml\<close> of riscv-dv is a parameter that gives the entries.
\<close>

section \<open>riscv-dv commands\<close>

definition get_run_cmd :: "string \<Rightarrow> string \<Rightarrow> bool \<Rightarrow> pyval list" where
  "get_run_cmd riscv_dv extension verbose =
     [PStr ''python3'',
      PPath (riscv_dv @ ''/run.py''),
      PStr ''--testlist'', PPath (extension @ ''/testlist.yaml''),
      PStr ''--gcc_opts=-mno-strict-align'',
      PStr ''--custom_target'', PPath extension,
      PStr ''--csr_yaml'', PPath (extension @ ''/csr_description.yaml''),
      PStr ''--mabi=ilp32''] @
     (if verbose then [PStr ''--verbose''] else [])"

record cov_md =
  dir_run :: string
  dir_fcov :: string
  simulator :: string
  isa_ibex :: string
  ibex_riscvdv_customtarget :: string
  verbose :: bool

definition get_cov_cmd :: "string \<Rightarrow> cov_md \<Rightarrow> string list" where
  "get_cov_cmd riscv_dv md =
     [''python3'',
      riscv_dv @ ''/cov.py'',
      ''--core'', ''ibex'',
      ''--dir'', dir_run md,
      ''-o'', dir_fcov md,
      ''--simulator'', simulator md,
      ''--opts'', ''--gen_timeout 1000'',
      ''--isa'', isa_ibex md,
      ''--custom_target'', ibex_riscvdv_customtarget md] @
     (if verbose md then [''--verbose''] else [])"

section \<open>Tool commands\<close>

definition parameter_regex :: rx where
  "parameter_regex = RGroup 1 (rseq [rlit (CHR ''<''), rplus (RSet is_word), rlit (CHR ''>'')])"

definition dict_item :: "pyval \<Rightarrow> string \<Rightarrow> pyval res" where
  "dict_item d k = (case d of
     PDict kvs \<Rightarrow> (case map_of kvs (PStr k) of None \<Rightarrow> Inl (KeyError k) | Some v \<Rightarrow> Inr v)
   | _ \<Rightarrow> Inl (TypeError ''not subscriptable with a string''))"

fun get_yaml_for_simulator :: "pyval list \<Rightarrow> string \<Rightarrow> pyval res" where
  "get_yaml_for_simulator [] sim = Inl (RuntimeError (''Cannot find RTL simulator '' @ sim))"
| "get_yaml_for_simulator (entry # entries) sim = (case entry of
     PDict kvs \<Rightarrow>
       if map_of kvs (PStr ''tool'') = Some (PStr sim) then Inr entry
       else get_yaml_for_simulator entries sim
   | _ \<Rightarrow> Inl (AttributeError ''get''))"

definition iter_list :: "pyval \<Rightarrow> pyval list res" where
  "iter_list v = (case v of
     PList xs \<Rightarrow> Inr xs
   | PStr s \<Rightarrow> Inr (map (\<lambda>c. PStr [c]) s)
   | PDict kvs \<Rightarrow> Inr (map fst kvs)
   | _ \<Rightarrow> Inl (TypeError ''object is not iterable''))"

text \<open>The dictionary of round 1: a disabled option becomes the empty string.\<close>

definition opt_value :: "(string \<times> bool) list \<Rightarrow> pyval \<times> pyval \<Rightarrow> (string \<times> pyval) res" where
  "opt_value user_enables kv = (case fst kv of
     PStr k \<Rightarrow>
       (case (map_of user_enables k, snd kv) of
          (Some True, PStr v) \<Rightarrow> Inr (k, PStr (strip v))
        | (Some True, _) \<Rightarrow> Inl (AttributeError ''strip'')
        | _ \<Rightarrow> Inr (k, PStr []))
   | _ \<Rightarrow> Inl (TypeError ''type of the dictionary keys must be str''))"

definition cmd_opts_dict :: "(string \<times> bool) list \<Rightarrow> pyval \<Rightarrow> pydict res" where
  "cmd_opts_dict user_enables section = (case section of
     PDict kvs \<Rightarrow> rmap (opt_value user_enables) (filter (\<lambda>kv. fst kv \<noteq> PStr ''cmd'') kvs)
   | _ \<Rightarrow> Inl (AttributeError ''items''))"

definition env_var_names :: "string \<Rightarrow> string list" where
  "env_var_names s = split_char (CHR '','') (py_replace '' '' [] s)"

definition subst_env_step :: "(string \<times> string) list \<Rightarrow> pyval \<Rightarrow> string \<Rightarrow> string res" where
  "subst_env_step environ entry s = (case dict_item entry ''env_var'' of
     Inl _ \<Rightarrow> Inr s
   | Inr (PStr names) \<Rightarrow> subst_env_vars environ s (env_var_names names)
   | Inr _ \<Rightarrow> Inl (AttributeError ''replace''))"

definition format_tool_cmd ::
  "resolver \<Rightarrow> (string \<times> string) list \<Rightarrow> pyval \<Rightarrow> pyval \<Rightarrow> (string \<times> bool) list \<Rightarrow> pydict \<Rightarrow> pyval \<Rightarrow> string res" where
  "format_tool_cmd resolve environ entry section user_enables user_subst_options cmd = (case cmd of
     PStr s \<Rightarrow>
       rbind (cmd_opts_dict user_enables section) (\<lambda>opts.
       rbind (subst_dict resolve s opts) (\<lambda>s1.
       rbind (subst_dict resolve s1 user_subst_options) (\<lambda>s2.
       rbind (subst_env_step environ entry s2) (\<lambda>s3.
         if re_finditer parameter_regex s3 \<noteq> [] then Inl (RuntimeError []) else Inr s3))))
   | _ \<Rightarrow> Inl (AssertionError []))"

definition get_tool_cmds ::
  "resolver \<Rightarrow> (string \<times> string) list \<Rightarrow> pyval list \<Rightarrow> string \<Rightarrow> string \<Rightarrow> (string \<times> bool) list \<Rightarrow> pydict
   \<Rightarrow> string list list res" where
  "get_tool_cmds resolve environ entries sim cmd_type user_enables user_subst_options =
     rbind (get_yaml_for_simulator entries sim) (\<lambda>entry.
     rbind (dict_item entry cmd_type) (\<lambda>section.
     rbind (dict_item section ''cmd'') (\<lambda>cmd.
     rbind (iter_list cmd) (\<lambda>cmds.
       rmap (\<lambda>c. rbind (format_tool_cmd resolve environ entry section user_enables user_subst_options c)
                  shlex_split) cmds))))"

section \<open>Finding parameters in a text\<close>

definition has_param :: "string \<Rightarrow> bool" where
  "has_param s = (\<exists>pre n post. s = pre @ parameter_format n @ post \<and> n \<noteq> [] \<and> list_all is_word n)"

lemma word_run_mem:
  assumes "list_all is_word v"
  shows "MState (rev v @ p) rest cp \<in> set (rx_run (RStar (RSet is_word)) (MState p (v @ rest) cp))"
proof -
  have le: "length v \<le> length (takeWhile is_word (v @ rest))"
    using assms by (simp add: list_all_iff takeWhile_append)
  have "MState (rev v @ p) rest cp = (\<lambda>k. MState (rev (take k (v @ rest)) @ p) (drop k (v @ rest)) cp) (length v)"
    by simp
  then show ?thesis
    unfolding rx_run.simps(5) mstate.sel iter_run_set [OF order_refl] set_map set_rev
    using le by (intro image_eqI [of _ _ "length v"]) (auto simp del: upt_Suc)
qed

lemma parameter_regex_matches:
  assumes "n \<noteq> []" "list_all is_word n"
  shows "rx_run parameter_regex (MState p (parameter_format n @ post) cp) \<noteq> []"
proof -
  obtain c v where cv: "n = c # v" "is_word c" "list_all is_word v" using assms by (cases n) auto
  note mem = word_run_mem [OF cv(3), of "c # CHR ''<'' # p" "CHR ''>'' # post" cp]
  have "rx_run (rlit (CHR ''>'')) (MState (rev v @ c # CHR ''<'' # p) (CHR ''>'' # post) cp) \<noteq> []"
    by (simp add: rlit_def)
  with mem show ?thesis
    using cv(1,2) by (auto simp: parameter_regex_def parameter_format_def rplus_def rlit_run simp del: rx_run.simps(5))
      (force simp: rlit_def simp del: rx_run.simps(5))
qed

lemma parameter_regex_no_angle:
  assumes "CHR ''<'' \<notin> set s"
  shows "rx_run parameter_regex (MState p s cp) = []"
proof (cases s)
  case Nil
  then show ?thesis by (simp add: parameter_regex_def rlit_def)
next
  case (Cons c cs)
  with assms have "c \<noteq> CHR ''<''" by auto
  then show ?thesis by (simp add: Cons parameter_regex_def rlit_def)
qed

lemma search_from_None:
  "search_from r pre s = None \<longleftrightarrow> (\<forall>a b. s = a @ b \<longrightarrow> rx_run r (start_at (rev a @ pre) b) = [])"
proof (induction s arbitrary: pre)
  case Nil
  then show ?case by (auto simp: first_of_def split: list.splits)
next
  case (Cons c s)
  have "(\<forall>a b. c # s = a @ b \<longrightarrow> rx_run r (start_at (rev a @ pre) b) = []) \<longleftrightarrow>
     rx_run r (start_at pre (c # s)) = [] \<and> (\<forall>a b. s = a @ b \<longrightarrow> rx_run r (start_at (rev a @ c # pre) b) = [])"
    by (auto simp: Cons_eq_append_conv) (metis append_Cons append_Nil append_assoc rev.simps(2))
  then show ?case
    by (auto simp: Cons.IH first_of_def split: list.splits)
qed

lemma re_finditer_Nil: "re_finditer r s = [] \<longleftrightarrow> search_from r [] s = None"
  by (auto simp: re_finditer_def split: option.splits)

lemma finditer_no_param:
  assumes "re_finditer parameter_regex s = []"
  shows "\<not> has_param s"
proof
  assume "has_param s"
  then obtain pre n post where s: "s = pre @ parameter_format n @ post" and n: "n \<noteq> []" "list_all is_word n"
    by (auto simp: has_param_def)
  from assms s have "rx_run parameter_regex (start_at (rev pre @ []) (parameter_format n @ post)) = []"
    unfolding re_finditer_Nil search_from_None by blast
  with parameter_regex_matches [OF n] show False by (simp add: start_at_def)
qed

lemma finditer_no_angle: "CHR ''<'' \<notin> set s \<Longrightarrow> re_finditer parameter_regex s = []"
  unfolding re_finditer_Nil search_from_None start_at_def by (auto intro!: parameter_regex_no_angle)

section \<open>Building commands\<close>

text \<open>
  Every command that \<open>get_tool_cmds\<close> returns is the shell splitting of a text in which no \<open><parameter>\<close> is
  left, and there is one for each command of the simulator entry.
\<close>

theorem get_tool_cmds_no_param:
  assumes "get_tool_cmds resolve environ entries sim cmd_type user_enables user_subst_options = Inr cmds"
  shows "\<exists>texts. list_all2 (\<lambda>t c. shlex_split t = Inr c \<and> \<not> has_param t) texts cmds"
proof -
  from assms obtain entry sect raw where "rmap (\<lambda>c. rbind (format_tool_cmd resolve environ entry sect user_enables
      user_subst_options c) shlex_split) raw = Inr cmds"
    unfolding get_tool_cmds_def rbind_Inr_iff by blast
  then have "list_all2 (\<lambda>r c. \<exists>t. shlex_split t = Inr c \<and> \<not> has_param t) raw cmds"
    unfolding rmap_Inr_iff
    by (rule list_all2_mono)
      (auto simp: rbind_Inr_iff format_tool_cmd_def finditer_no_param split: pyval.splits if_splits)
  then show ?thesis
  proof (induction rule: list_all2_induct)
    case Nil
    then show ?case by (intro exI [of _ "[]"]) simp
  next
    case (Cons r raw c cmds)
    then obtain t ts where "shlex_split t = Inr c \<and> \<not> has_param t"
        "list_all2 (\<lambda>t c. shlex_split t = Inr c \<and> \<not> has_param t) ts cmds" by blast
    then show ?case by (intro exI [of _ "t # ts"]) simp
  qed
qed

definition demo_entry :: pyval where
  "demo_entry = PDict [(PStr ''tool'', PStr ''vcs''), (PStr ''sim'', PDict [
      (PStr ''cmd'', PList [PStr ''<out>/sim <cov>'']), (PStr ''cov'', PStr ''-cm '')])]"

theorem get_tool_cmds_no_param_witness:
  "\<exists>texts cmds. get_tool_cmds (\<lambda>p. p) [] [demo_entry] ''vcs'' ''sim'' [(''cov'', True)] [(''out'', PStr ''/o'')] = Inr cmds
     \<and> list_all2 (\<lambda>t c. shlex_split t = Inr c \<and> \<not> has_param t) texts cmds"
proof -
  have "get_tool_cmds (\<lambda>p. p) [] [demo_entry] ''vcs'' ''sim'' [(''cov'', True)] [(''out'', PStr ''/o'')]
      = Inr [[''/o/sim'', ''-cm'']]" by code_simp
  from get_tool_cmds_no_param [OF this] this show ?thesis by blast
qed

text \<open>The environment variables an entry names.\<close>

definition entry_env_names :: "pyval \<Rightarrow> string list" where
  "entry_env_names entry = (case dict_item entry ''env_var'' of Inr (PStr names) \<Rightarrow> env_var_names names | _ \<Rightarrow> [])"

definition env_ok :: "(string \<times> string) list \<Rightarrow> pyval \<Rightarrow> bool" where
  "env_ok environ entry =
     ((case dict_item entry ''env_var'' of Inr v \<Rightarrow> is_str_val v | Inl _ \<Rightarrow> True)
      \<and> list_all (\<lambda>v. angle_free v \<and> (case map_of environ v of Some r \<Rightarrow> angle_free r | None \<Rightarrow> False)) (entry_env_names entry))"

definition par_ok :: "piece \<Rightarrow> bool" where
  "par_ok p = (case p of Lit s \<Rightarrow> angle_free s | Par n \<Rightarrow> n \<noteq> [] \<and> list_all is_word n)"

definition filled :: "piece \<Rightarrow> bool" where
  "filled p = (case p of Lit _ \<Rightarrow> True | Par _ \<Rightarrow> False)"

text \<open>Options of the entry come first, then the user's substitutions, then the environment.\<close>

definition binding :: "resolver \<Rightarrow> (string \<times> string) list \<Rightarrow> pyval \<Rightarrow> pydict \<Rightarrow> pydict \<Rightarrow> (string \<rightharpoonup> string)" where
  "binding resolve environ entry opts user_subst_options =
     (map_of environ |` set (entry_env_names entry)) ++ map_of (dict_values resolve user_subst_options)
       ++ map_of (dict_values resolve opts)"

lemma word_angle_free: "list_all is_word n \<Longrightarrow> angle_free n"
  by (auto simp: angle_free_def list_all_iff is_word_def is_digit_def is_upper_def is_lower_def)

lemma par_ok_piece_ok: "list_all par_ok t \<Longrightarrow> list_all piece_ok t"
  by (auto simp: list_all_iff par_ok_def piece_ok_def word_angle_free split: piece.splits)

lemma dict_values_angle_free:
  "dict_ok resolve d \<Longrightarrow> map_of (dict_values resolve d) n = Some v \<Longrightarrow> angle_free v"
  by (force simp: dict_ok_def dict_values_def list_all_iff dest!: map_of_SomeD)

lemma subst_env_step_render:
  assumes "env_ok environ entry" "list_all piece_ok t"
  shows "subst_env_step environ entry (render t) =
    Inr (render (map (fill (map_of environ |` set (entry_env_names entry))) t))"
proof (cases "dict_item entry ''env_var''")
  case (Inl e)
  then show ?thesis by (simp add: subst_env_step_def entry_env_names_def fill_empty)
next
  case (Inr v)
  then obtain names where v: "v = PStr names"
    using assms(1) by (auto simp: env_ok_def is_str_val_def split: pyval.splits)
  have "list_all (\<lambda>v. angle_free v \<and> (\<exists>r. map_of environ v = Some r \<and> angle_free r)) (env_var_names names)"
    using assms(1) Inr v by (auto simp: env_ok_def entry_env_names_def list_all_iff split: option.splits)
  from subst_env_render [OF assms(2) this] show ?thesis
    by (simp add: subst_env_step_def entry_env_names_def Inr v)
qed

lemma render_filled_no_angle: "list_all piece_ok t \<Longrightarrow> list_all filled t \<Longrightarrow> CHR ''<'' \<notin> set (render t)"
  by (auto simp: render_def list_all_iff piece_text_def piece_ok_def filled_def angle_free_def split: piece.splits)

lemma render_unfilled:
  assumes "list_all (\<lambda>p. case p of Par n \<Rightarrow> n \<noteq> [] \<and> list_all is_word n | Lit _ \<Rightarrow> True) t" "\<not> list_all filled t"
  shows "has_param (render t)"
proof -
  from assms(2) obtain n where "Par n \<in> set t" unfolding list_all_iff filled_def by (metis piece.exhaust piece.simps(5))
  then obtain a b where t: "t = a @ Par n # b" by (meson split_list)
  with assms(1) have "n \<noteq> []" "list_all is_word n" by auto
  moreover have "render t = render a @ parameter_format n @ render b" by (simp add: t render_def piece_text_def)
  ultimately show ?thesis unfolding has_param_def by blast
qed



end
