(* ===== verification/Py_Paths.thy ===== *)
theory Py_Paths
  imports Prelude
begin

text \<open>
  The parts of \<open>os.path\<close> that the scripts use, and their behaviour on absolute paths without special components.
\<close>

section \<open>Paths\<close>

definition os_join :: "string \<Rightarrow> string \<Rightarrow> string" where
  "os_join a b = (if prefix ''/'' b then b else if a = [] \<or> suffix ''/'' a then a @ b else a @ ''/'' @ b)"

text \<open>\<open>os.path.normpath\<close>: the components so far are in reverse order.\<close>

definition norm_step :: "bool \<Rightarrow> string list \<Rightarrow> string \<Rightarrow> string list" where
  "norm_step absolute comps c =
     (if c = [] \<or> c = ''.'' then comps
      else if c \<noteq> ''..'' \<or> (\<not> absolute \<and> comps = []) \<or> (comps \<noteq> [] \<and> hd comps = ''..'') then c # comps
      else tl comps)"

definition normpath :: "string \<Rightarrow> string" where
  "normpath p =
     (if p = [] then ''.''
      else
        let slashes = (if prefix ''//'' p \<and> \<not> prefix ''///'' p then ''//'' else if prefix ''/'' p then ''/'' else []);
            path = slashes @ py_join ''/'' (rev (foldl (norm_step (slashes \<noteq> [])) [] (split_char (CHR ''/'') p)))
        in if path = [] then ''.'' else path)"

definition abspath :: "string \<Rightarrow> string \<Rightarrow> string" where
  "abspath cwd p = normpath (if prefix ''/'' p then p else os_join cwd p)"

text \<open>Absolute paths as their components.\<close>

definition clean :: "string \<Rightarrow> bool" where
  "clean c = (c \<noteq> [] \<and> c \<noteq> ''.'' \<and> c \<noteq> ''..'' \<and> CHR ''/'' \<notin> set c)"

definition abs_path :: "string list \<Rightarrow> string" where
  "abs_path cs = concat (map (\<lambda>c. CHR ''/'' # c) cs)"

lemma abs_path_join: "cs \<noteq> [] \<Longrightarrow> abs_path cs = CHR ''/'' # py_join ''/'' cs"
proof (induction cs)
  case (Cons c cs)
  then show ?case by (cases cs) (auto simp: abs_path_def)
qed simp

lemma split_abs_path: "list_all clean cs \<Longrightarrow> cs \<noteq> [] \<Longrightarrow> split_char (CHR ''/'') (abs_path cs) = [] # cs"
  by (simp add: abs_path_join split_char_join list_all_iff clean_def)

lemma abs_path_inject: "list_all clean cs \<Longrightarrow> list_all clean ds \<Longrightarrow> abs_path cs = abs_path ds \<longleftrightarrow> cs = ds"
  by (metis abs_path_def concat.simps(1) list.inject list.simps(8) split_abs_path split_char.simps(1) list.distinct(1) abs_path_join)

lemma norm_steps: "list_all clean cs \<Longrightarrow> foldl (norm_step b) acc cs = rev cs @ acc"
  by (induction cs arbitrary: acc) (auto simp: norm_step_def clean_def)

lemma normpath_abs:
  assumes "list_all clean cs" "cs \<noteq> []"
  shows "normpath (abs_path cs) = abs_path cs"
proof -
  obtain c cs' where c: "cs = c # cs'" "clean c" using assms by (cases cs) auto
  then have "\<not> prefix ''//'' (abs_path cs)" by (cases c) (auto simp: abs_path_def clean_def)
  moreover have "prefix ''/'' (abs_path cs)" "abs_path cs \<noteq> []" using c by (simp_all add: abs_path_def)
  moreover have "foldl (norm_step True) [] (split_char (CHR ''/'') (abs_path cs)) = rev cs"
    using assms by (simp add: split_abs_path norm_steps norm_step_def)
  ultimately show ?thesis using assms(2) by (simp add: normpath_def abs_path_join)
qed

lemma abspath_abs: "list_all clean cs \<Longrightarrow> cs \<noteq> [] \<Longrightarrow> abspath cwd (abs_path cs) = abs_path cs"
proof -
  assume a: "list_all clean cs" "cs \<noteq> []"
  then have "prefix ''/'' (abs_path cs)" by (simp add: abs_path_join)
  with a show ?thesis by (simp add: abspath_def normpath_abs)
qed

lemma os_join_abs: "clean c \<Longrightarrow> list_all clean cs \<Longrightarrow> cs \<noteq> [] \<Longrightarrow> os_join (abs_path cs) c = abs_path (cs @ [c])"
proof -
  assume a: "clean c" "list_all clean cs" "cs \<noteq> []"
  then obtain ds d where cs: "cs = ds @ [d]" "clean d" by (cases cs rule: rev_cases) auto
  then have "last (abs_path cs) = last d" "last d \<in> set d" by (simp_all add: abs_path_def clean_def)
  then have "last (abs_path cs) \<noteq> CHR ''/''" using cs(2) by (metis clean_def)
  then have "\<not> suffix ''/'' (abs_path cs)" by (auto simp: suffix_def)
  moreover have "\<not> prefix ''/'' c" using a(1) by (cases c) (auto simp: clean_def)
  moreover have "abs_path cs \<noteq> []" using a(3) by (simp add: abs_path_join)
  ultimately show ?thesis by (simp add: os_join_def abs_path_def)
qed


end
