(* ===== verification/Instr_Reloc.thy ===== *)
theory Instr_Reloc
  imports Py_Paths Py_Regex Py_Shlex
begin

text \<open>
  The relocation of commands and the copying of results in \<open>dv/uvm/core_ibex/scripts/run_instr_gen.py\<close>: riscv-dv
  prints commands for its own directory layout below a placeholder, which are rewritten for the layout of
  the flow.
\<close>

section \<open>run\_instr\_gen.py: relocation\<close>

definition sim_relocs :: "string \<Rightarrow> string \<Rightarrow> (string \<times> (string \<times> string) list) list" where
  "sim_relocs placeholder_dir build_dir = [
     (''vcs'', [(os_join placeholder_dir ''vcs_simv'', os_join build_dir ''vcs_simv'')]),
     (''xlm'', [(placeholder_dir, build_dir)]),
     (''dsim'', [(os_join placeholder_dir ''dsim'', os_join build_dir ''dsim'')])]"

definition always_relocs :: "string \<Rightarrow> string \<Rightarrow> string \<Rightarrow> (string \<times> string) list" where
  "always_relocs placeholder_dir scratch_dir test = [
     (os_join (os_join placeholder_dir ''asm_test'') test, os_join scratch_dir ''test''),
     (os_join placeholder_dir ''asm_test'', scratch_dir),
     (os_join placeholder_dir (''sim_'' @ test @ ''_0.log''), os_join scratch_dir ''gen.log'')]"

text \<open>\<open>(\+[A-Za-z0-9_]+=)(.*)\<close>.\<close>

definition plusarg_rx :: rx where
  "plusarg_rx = rseq [RGroup 1 (rseq [rlit (CHR ''+''), rplus (RSet is_word), rlit (CHR ''='')]), RGroup 2 (RStar rany)]"

definition split_plusarg :: "string \<Rightarrow> string \<times> string" where
  "split_plusarg word = (case re_match plusarg_rx word of
     Some m \<Rightarrow> (group_str m 1, group_str m 2) | None \<Rightarrow> ([], word))"

record reloc_ctx =
  r_cwd :: string
  r_simulator :: string
  r_placeholder :: string
  r_build :: string
  r_scratch :: string
  r_test :: string

definition reloc_word :: "reloc_ctx \<Rightarrow> string \<Rightarrow> string res" where
  "reloc_word c word = (case split_plusarg word of (pre, post) \<Rightarrow>
     (case map_of (sim_relocs (r_placeholder c) (r_build c)) (r_simulator c) of
        None \<Rightarrow> Inl (KeyError (r_simulator c))
      | Some sr \<Rightarrow>
          (let abs_post = abspath (r_cwd c) post;
               hit = find (\<lambda>p. abspath (r_cwd c) (fst p) = abs_post) (sr @ always_relocs (r_placeholder c) (r_scratch c) (r_test c));
               reloc = pre @ (case hit of Some p \<Rightarrow> snd p | None \<Rightarrow> post)
           in if contains reloc (r_placeholder c)
              then Inl (RuntimeError (''Failed to replace an occurrence of the placeholder in '' @ word @ '' (got '' @ reloc @ '')''))
              else Inr reloc)))"

definition reloc_commands :: "reloc_ctx \<Rightarrow> string \<Rightarrow> string list list res" where
  "reloc_commands c text =
     rmap (\<lambda>line. rbind (shlex_split line) (rmap (reloc_word c))) (filter (\<lambda>l. l \<noteq> []) (map strip (file_lines text)))"

text \<open>A file system is a map from paths to contents.\<close>

definition do_file_copies :: "string \<Rightarrow> string \<Rightarrow> (string \<times> string \<times> bool) list \<Rightarrow> bool \<Rightarrow> (string \<rightharpoonup> string)
    \<Rightarrow> (string \<rightharpoonup> string) res" where
  "do_file_copies src_dir dst_dir copy_rules run_failed fs =
     rfold (\<lambda>fs (src_name, dst_name, copy_on_fail).
         if run_failed \<and> \<not> copy_on_fail then Inr fs
         else (case fs (os_join src_dir src_name) of
                 Some content \<Rightarrow> Inr (fs(os_join dst_dir dst_name \<mapsto> content))
               | None \<Rightarrow>
                   if run_failed then Inr fs
                   else Inl (RuntimeError (''Generation commands exited with zero status but left no '' @ src_name
                          @ '' in scratch directory.''))))
       fs copy_rules"

section \<open>Relocation\<close>

lemma reloc_word_clean:
  assumes "reloc_word c a = Inr w" shows "\<not> contains w (r_placeholder c)"
proof -
  obtain pre post where sp: "split_plusarg a = (pre, post)" by fastforce
  show ?thesis
    using assms
    by (simp add: reloc_word_def sp Let_def split: option.split_asm if_split_asm)
qed

lemma reloc_commands_clean:
  assumes "reloc_commands c text = Inr cmds" "cmd \<in> set cmds" "w \<in> set cmd"
  shows "\<not> contains w (r_placeholder c)"
proof -
  obtain line where "rbind (shlex_split line) (rmap (reloc_word c)) = Inr cmd"
    using rmap_mem [OF assms(1) [unfolded reloc_commands_def] assms(2)] by blast
  then obtain ws where "rmap (reloc_word c) ws = Inr cmd" by (auto simp: rbind_Inr_iff)
  from rmap_mem [OF this assms(3)] obtain a where "reloc_word c a = Inr w" by blast
  then show ?thesis by (rule reloc_word_clean)
qed

lemma split_plusarg_path: "split_plusarg (CHR ''/'' # s) = ([], CHR ''/'' # s)"
proof -
  have "rx_run (RSeq (rlit (CHR ''+'')) r) (MState [] (CHR ''/'' # s) []) = []" for r by (simp add: rlit_def)
  then have "rx_run plusarg_rx (MState [] (CHR ''/'' # s) []) = []"
    unfolding plusarg_rx_def rseq.simps rx_run.simps(3) [of "RGroup _ _"] rx_run.simps(7) by simp
  then show ?thesis by (simp add: split_plusarg_def re_match_def start_at_def first_of_def)
qed

lemma sim_relocs_other:
  assumes "map_of (sim_relocs (abs_path P) build) sim = Some sr" "P \<noteq> []" "list_all clean P"
    and "cs \<noteq> P" "cs \<noteq> P @ [''vcs_simv'']" "cs \<noteq> P @ [''dsim'']" "cs \<noteq> []" "list_all clean cs"
  shows "find (\<lambda>p. abspath cwd (fst p) = abs_path cs) sr = None"
proof -
  have c: "clean ''vcs_simv''" "clean ''dsim''" by (simp_all add: clean_def)
  have "fst p \<in> {abs_path P, abs_path (P @ [''vcs_simv'']), abs_path (P @ [''dsim''])}" if "p \<in> set sr" for p
    using assms(1-3) that c by (auto simp: sim_relocs_def os_join_abs split: if_splits)
  then have "abspath cwd (fst p) \<noteq> abs_path cs" if "p \<in> set sr" for p
    using that assms(2-) c by (fastforce simp: abspath_abs abs_path_inject)
  then show ?thesis unfolding find_None_iff by blast
qed




end
