(* ===== verification/Test_Build.thy ===== *)
theory Test_Build
  imports Metadata Riscvdv_Interface Instr_Reloc
begin

text \<open>
  The scripts of \<open>dv/uvm/core_ibex/scripts\<close> that build and run one test: \<open>run_instr_gen.py\<close>, \<open>compile_test.py\<close>,
  \<open>run_rtl.py\<close>, and those that build for all tests: \<open>build_instr_gen.py\<close>, \<open>compile_tb.py\<close>, \<open>get_fcov.py\<close>. The
  outcomes of external programs and the texts they leave behind are parameters; making directories and
  writing logs is not modelled.
\<close>

section \<open>Running commands\<close>

record tool_env =
  x_run :: "string list \<Rightarrow> int option \<Rightarrow> run_outcome"
  x_can_open :: "string \<Rightarrow> bool"
  x_resolve :: resolver
  x_environ :: "(string \<times> string) list"
  x_cwd :: string

definition exec_cmd :: "tool_env \<Rightarrow> bool \<Rightarrow> redirect option \<Rightarrow> int option \<Rightarrow> bool \<Rightarrow> string list \<Rightarrow> int res" where
  "exec_cmd x verb redir tmo reraise cmd =
     fst (run_one (x_run x) (x_can_open x) verb cmd redir tmo reraise \<lparr>stderr_lines = [], open_files = []\<rparr>)"

text \<open>The common loop: run in order, stop at the first code that is not zero.\<close>

fun exec_all :: "tool_env \<Rightarrow> bool \<Rightarrow> redirect option \<Rightarrow> string list list \<Rightarrow> int res" where
  "exec_all x verb redir [] = Inr 0"
| "exec_all x verb redir (cmd # cmds) =
     rbind (exec_cmd x verb redir None False cmd) (\<lambda>ret. if ret \<noteq> 0 then Inr ret else exec_all x verb redir cmds)"

section \<open>run\_instr\_gen.py: generating one test\<close>

definition int_hex :: "int \<Rightarrow> string" where
  "int_hex i = (if i < 0 then ''-'' @ hex_str (nat (- i)) else hex_str (nat i))"

definition need :: "string \<Rightarrow> 'a option \<Rightarrow> 'a res" where
  "need what v = (case v of None \<Rightarrow> Inl (TypeError what) | Some x \<Rightarrow> Inr x)"

text \<open>The address of the signature; the CSR test uses the word below it.\<close>

definition test_sig :: "RegressionMetadata \<Rightarrow> string \<Rightarrow> string res" where
  "test_sig md test =
     (if \<not> contains test ''riscv_csr_test'' then Inr (md_signature_addr md)
      else rbind (py_int 16 (md_signature_addr md)) (\<lambda>a. Inr (int_hex (a - 4))))"

definition gen_sim_opts :: "Config \<Rightarrow> string \<Rightarrow> (string \<times> string) list" where
  "gen_sim_opts cfg sig = [
     (''uvm_set_inst_override'', ''riscv_asm_program_gen,ibex_asm_program_gen,uvm_test_top.asm_gen''),
     (''require_signature_addr'', ''1''), (''signature_addr'', sig),
     (''pmp_num_regions'', int_str (pmp_num_regions cfg)), (''pmp_granularity'', int_str (pmp_granularity cfg)),
     (''tvec_alignment'', ''8'')]"

definition opt_val :: "('a \<Rightarrow> pyval) \<Rightarrow> 'a option \<Rightarrow> pyval" where
  "opt_val f x = (case x of None \<Rightarrow> PNone | Some y \<Rightarrow> f y)"

definition gen_cmd :: "RegressionMetadata \<Rightarrow> Config \<Rightarrow> string \<Rightarrow> int \<Rightarrow> string \<Rightarrow> string \<Rightarrow> pyval list" where
  "gen_cmd md cfg test sd sig td =
     get_run_cmd (md_riscvdv_root md) (md_customtarget md) (md_verbose md) @
     [PStr ''--so'', PStr ''--steps=gen'', PStr ''--output'', PStr (td @ ''/@@PLACEHOLDER@@''),
      PStr ''--simulator'', PStr (md_simulator md), PStr ''--isa'', opt_val PStr (md_isa_ibex md),
      PStr ''--test'', PStr test, PStr ''--start_seed'', PStr (int_str sd), PStr ''--iterations'', PStr ''1'',
      PStr ''--end_signature_addr'', PStr sig, PStr ''--debug'', PStr (td @ ''/cmds.list''),
      PStr ''--sim_opts'', PStr (py_join '' '' (map (\<lambda>(k, v). ''+'' @ k @ ''='' @ v) (gen_sim_opts cfg sig)))]"

definition file_copy_rules :: "string \<Rightarrow> (string \<times> string \<times> bool) list" where
  "file_copy_rules test = (if test = ''riscv_csr_test'' then [(''riscv_csr_test_0.S'', ''test.S'', False)]
     else [(''gen.log'', ''gen.log'', True), (''test_0.S'', ''test.S'', False)])"

text \<open>
  \<open>_main\<close>: the return code, the test object that is exported (none when riscv-dv failed) and the files.
  \<open>cmds_list\<close> is the text riscv-dv leaves in the temporary directory \<open>td\<close>; \<open>fs\<close> the files after the commands.
\<close>

definition instr_gen_main :: "tool_env \<Rightarrow> cfg_env \<Rightarrow> RegressionMetadata \<Rightarrow> TestRunResult \<Rightarrow> string \<Rightarrow> string option
    \<Rightarrow> (string \<rightharpoonup> string) \<Rightarrow> (int \<times> TestRunResult option \<times> (string \<rightharpoonup> string)) res" where
  "instr_gen_main x env md trr td cmds_list fs =
     rbind (get_config env (md_ibex_config md)) (\<lambda>cfg.
     rbind (need ''testname'' (testname trr)) (\<lambda>test.
     rbind (need ''seed'' (seed trr)) (\<lambda>sd.
     rbind (need ''dir_test'' (dir_test trr)) (\<lambda>dir.
     rbind (test_sig md test) (\<lambda>sig.
     rbind (format_to_cmd (x_resolve x) (gen_cmd md cfg test sd sig td)) (\<lambda>cmd.
       let trr = trr\<lparr>riscvdv_run_gen_stdout := Some (md_dir_instruction_generator md @ ''/riscvdv_cmds.log''),
                     riscvdv_run_gen_cmds := Some [cmd]\<rparr>
       in rbind (exec_cmd x (md_verbose md) (map_option RPath (riscvdv_run_gen_stdout trr)) None False cmd) (\<lambda>ret.
            if ret \<noteq> 0 then Inr (ret, None, fs)
            else
              rbind (case cmds_list of None \<Rightarrow> Inl (OSError (td @ ''/cmds.list'')) | Some t \<Rightarrow> Inr t) (\<lambda>text.
              rbind (reloc_commands \<lparr>r_cwd = x_cwd x, r_simulator = md_simulator md, r_placeholder = td @ ''/@@PLACEHOLDER@@'',
                       r_build = x_resolve x (md_dir_instruction_generator md), r_scratch = td, r_test = test\<rparr> text) (\<lambda>cmds.
              rbind (rmap (\<lambda>c. format_to_cmd (x_resolve x) (map PStr c)) cmds) (\<lambda>cmds.
                let trr = trr\<lparr>riscvdv_run_cmds := Some cmds,
                      riscvdv_run_stdout := Some (md_dir_instruction_generator md @ ''/riscvdv_run.log''),
                      assembly := Some (dir @ ''/test.S'')\<rparr>
                in rbind (exec_all x (md_verbose md) (Some (RIO (str_opt (riscvdv_run_stdout trr)))) cmds) (\<lambda>ret.
                   rbind (do_file_copies td dir (file_copy_rules test) (ret \<noteq> 0) fs) (\<lambda>fs.
                     Inr (0, Some trr, fs)))))))))))))"
section \<open>compile\_test.py\<close>

definition compile_gen_cmd :: "RegressionMetadata \<Rightarrow> string \<Rightarrow> int \<Rightarrow> string \<Rightarrow> pyval list" where
  "compile_gen_cmd md test sd td =
     get_run_cmd (md_riscvdv_root md) (md_customtarget md) (md_verbose md) @
     [PStr ''--verbose'', PStr ''--output'', PPath (td @ ''/@@PLACEHOLDER@@''), PStr ''--steps=gcc_compile'',
      PStr ''--test'', PStr test, PStr ''--start_seed'', PStr (int_str sd), PStr ''--iterations'', PStr ''1'',
      PStr ''--isa'', opt_val PStr (md_isa_ibex md), PStr ''--debug'', PPath (td @ ''/orig-cmds.list'')]"

definition rewrite_word :: "string \<Rightarrow> (string \<times> string) list \<Rightarrow> string \<Rightarrow> string res" where
  "rewrite_word placeholder rewrites word =
     (let w = fold (\<lambda>(old, new) w. py_replace old new w) rewrites word in
      if contains w placeholder then Inl (RuntimeError ''Couldn't replace every copy of placeholder'') else Inr w)"

definition compile_rewrites :: "string \<Rightarrow> string \<Rightarrow> TestRunResult \<Rightarrow> (string \<times> string) list" where
  "compile_rewrites placeholder test trr = [
     (placeholder @ ''/asm_test/'' @ test @ ''_0.S'', str_opt (assembly trr)),
     (placeholder @ ''/asm_test/'' @ test @ ''_0.o'', str_opt (objectfile trr)),
     (placeholder @ ''/asm_test/'' @ test @ ''_0.bin'', str_opt (binary trr))]"

definition dm_sections :: "string list" where
  "dm_sections = [''.debug_module'', ''.dm_scratch'']"

definition objcopy_cmd :: "pyval \<Rightarrow> string \<Rightarrow> string \<Rightarrow> string \<Rightarrow> string \<Rightarrow> pyval list" where
  "objcopy_cmd objcopy fmt flag obj out =
     [objcopy, PStr ''-O'', PStr fmt] @ concat (map (\<lambda>s. [PStr flag, PStr s]) dm_sections) @ [PStr obj, PStr out]"

text \<open>The commands for the memory layout with a separate debug module.\<close>

definition discrete_debug_cmds :: "tool_env \<Rightarrow> RegressionMetadata \<Rightarrow> string \<Rightarrow> TestRunResult \<Rightarrow> pyval list list
    \<Rightarrow> (pyval list list \<times> TestRunResult) res" where
  "discrete_debug_cmds x md dir trr new_cmds =
     (if new_cmds = [] then Inl (IndexError ''pop from empty list'')
      else
        let link = (\<lambda>t. case t of
                PStr s \<Rightarrow> if startswith s ''-T'' then PStr (''-T'' @ md_customtarget md @ ''/ddm_link.ld'') else t
              | _ \<Rightarrow> t);
            cmds = map (map link) (butlast new_cmds);
            trr = trr\<lparr>vmem_main := Some (dir @ ''/test.main.vmem''), vmem_dm := Some (dir @ ''/test.dm.vmem''),
                      binary_main := Some (dir @ ''/test.main.bin''), binary_dm := Some (dir @ ''/test.dm.bin'')\<rparr>;
            objcopy = opt_val PStr (map_of (x_environ x) ''RISCV_OBJCOPY'');
            obj = str_opt (objectfile trr)
        in Inr (cmds @ [objcopy_cmd objcopy ''verilog'' ''--only-section'' obj (str_opt (vmem_dm trr)),
                        objcopy_cmd objcopy ''verilog'' ''--remove-section'' obj (str_opt (vmem_main trr)),
                        objcopy_cmd objcopy ''binary'' ''--only-section'' obj (str_opt (binary_dm trr)),
                        objcopy_cmd objcopy ''binary'' ''--remove-section'' obj (str_opt (binary_main trr))], trr))"

text \<open>
  When riscv-dv fails the function returns its code instead of a list of commands (\<open>Inl\<close> below).
  \<open>orig_list\<close> is the text riscv-dv leaves behind.
\<close>

definition get_riscvdv_compile_cmds :: "tool_env \<Rightarrow> RegressionMetadata \<Rightarrow> TestRunResult \<Rightarrow> string \<Rightarrow> string option
    \<Rightarrow> ((int + pyval list list) \<times> TestRunResult) res" where
  "get_riscvdv_compile_cmds x md trr td orig_list =
     rbind (need ''testname'' (testname trr)) (\<lambda>test.
     rbind (need ''seed'' (seed trr)) (\<lambda>sd.
     rbind (need ''dir_test'' (dir_test trr)) (\<lambda>dir.
     rbind (format_to_cmd (x_resolve x) (compile_gen_cmd md test sd td)) (\<lambda>cmd.
       let trr = trr\<lparr>compile_asm_gen_log := Some (dir @ ''/compile_gen.riscv-dv.log''), compile_asm_gen_cmds := Some [cmd]\<rparr> in
       rbind (exec_cmd x (md_verbose md) (map_option RPath (compile_asm_gen_log trr)) None False cmd) (\<lambda>dv_ret.
         if dv_ret \<noteq> 0 then Inr (Inl dv_ret, trr)
         else
           rbind (case orig_list of None \<Rightarrow> Inl (OSError (td @ ''/orig-cmds.list'')) | Some t \<Rightarrow> Inr t) (\<lambda>text.
           rbind (rmap shlex_split (filter (\<lambda>l. l \<noteq> []) (map strip (file_lines text)))) (\<lambda>orig_cmds.
             let trr = trr\<lparr>objectfile := Some (dir @ ''/test.o''), binary := Some (dir @ ''/test.bin'')\<rparr>;
                 placeholder = td @ ''/@@PLACEHOLDER@@''
             in rbind (rmap (rmap (rewrite_word placeholder (compile_rewrites placeholder test trr))) orig_cmds) (\<lambda>new_cmds.
                  let cmds = map (map PStr) new_cmds in
                  if testtype trr = Some RISCVDV \<and> is_discrete_debug_module trr = Some True then
                    rbind (discrete_debug_cmds x md dir trr cmds) (\<lambda>(cmds, trr). Inr (Inr cmds, trr))
                  else Inr (Inr cmds, trr)))))))))"

definition data_str :: "pydict \<Rightarrow> string \<Rightarrow> string" where
  "data_str d k = (case map_of d k of None \<Rightarrow> ''None'' | Some v \<Rightarrow> py_str v)"

definition get_directed_compile_cmds :: "tool_env \<Rightarrow> TestRunResult \<Rightarrow> (string list list \<times> TestRunResult) res" where
  "get_directed_compile_cmds x trr =
     (if list_ex (\<lambda>e. map_of (x_environ x) e = None) [''RISCV_TOOLCHAIN'', ''RISCV_GCC'', ''RISCV_OBJCOPY'']
      then Inl (RuntimeError ''Missing required environment variables for the RISCV TOOLCHAIN'')
      else
        rbind (need ''directed_data'' (directed_data trr)) (\<lambda>data.
        rbind (need ''dir_test'' (dir_test trr)) (\<lambda>dir.
          let trr = trr\<lparr>assembly := (case map_of data ''test_srcs'' of Some (PPath p) \<Rightarrow> Some p | _ \<Rightarrow> None),
                        objectfile := Some (dir @ ''/test.o''), binary := Some (dir @ ''/test.bin'')\<rparr>
          in rbind (case map_of data ''gcc_opts'' of Some (PStr o1) \<Rightarrow> Inr o1
                      | _ \<Rightarrow> Inl (TypeError ''sequence item 1: expected str instance'')) (\<lambda>gcc_opts.
             rbind (shlex_split (py_join '' '' [the (map_of (x_environ x) ''RISCV_GCC''), gcc_opts,
                 ''-I'' @ data_str data ''includes'', ''-T'' @ data_str data ''ld_script'',
                 ''-o '' @ str_opt (objectfile trr), str_opt (assembly trr)])) (\<lambda>gcc_cmd.
             rbind (shlex_split (py_join '' '' [the (map_of (x_environ x) ''RISCV_OBJCOPY''),
                 ''-O binary '' @ str_opt (objectfile trr), str_opt (binary trr)])) (\<lambda>bin_cmd.
               Inr ([gcc_cmd, bin_cmd], trr)))))))"

text \<open>\<open>_main\<close>: iterating over a return code is a \<open>TypeError\<close>; an object without a type leaves \<open>cmds\<close> unbound.\<close>

definition compile_main :: "tool_env \<Rightarrow> RegressionMetadata \<Rightarrow> TestRunResult \<Rightarrow> string \<Rightarrow> string option \<Rightarrow> (int \<times> TestRunResult) res" where
  "compile_main x md trr td orig_list =
     rbind (case testtype trr of
              Some RISCVDV \<Rightarrow>
                rbind (get_riscvdv_compile_cmds x md trr td orig_list) (\<lambda>(r, trr).
                  case r of
                    Inl _ \<Rightarrow> Inl (TypeError ''int object is not iterable'')
                  | Inr cmds \<Rightarrow> Inr (cmds, trr\<lparr>compile_asm_log := map_option (\<lambda>d. d @ ''/compile.riscvdv.log'') (dir_test trr)\<rparr>))
            | Some DIRECTED \<Rightarrow>
                rbind (get_directed_compile_cmds x trr) (\<lambda>(cmds, trr).
                  Inr (map (map PStr) cmds, trr\<lparr>compile_asm_log := map_option (\<lambda>d. d @ ''/compile.directed.log'') (dir_test trr)\<rparr>))
            | None \<Rightarrow> Inl (NameError ''cmds'')) (\<lambda>(cmds, trr).
     rbind (rmap (format_to_cmd (x_resolve x)) cmds) (\<lambda>cmds.
     rbind (exec_all x (md_verbose md) (Some (RIO (str_opt (compile_asm_log trr)))) cmds) (\<lambda>ret.
       Inr (ret, trr\<lparr>compile_asm_cmds := Some cmds\<rparr>))))"

section \<open>run\_rtl.py\<close>

definition ddm_opts :: "TestRunResult \<Rightarrow> string" where
  "ddm_opts trr = (if testtype trr = Some RISCVDV \<and> is_discrete_debug_module trr = Some True
     then '' +vmem_main='' @ str_opt (vmem_main trr) @ nl @ '' +vmem_dm='' @ str_opt (vmem_dm trr) @ nl
          @ '' +bin_main='' @ str_opt (binary_main trr) @ nl @ '' +bin_dm='' @ str_opt (binary_dm trr) @ nl
     else [])"

text \<open>The timeout of the test entry when it is set and not zero, else the one of the regression.\<close>

definition test_timeout :: "RegressionMetadata \<Rightarrow> pydict \<Rightarrow> pyval" where
  "test_timeout md testopts = (case map_of testopts ''timeout_s'' of
     None \<Rightarrow> PInt (md_run_rtl_timeout_s md)
   | Some v \<Rightarrow> if truthy v then v else PInt (md_run_rtl_timeout_s md))"

definition test_sim_opts :: "pydict \<Rightarrow> string res" where
  "test_sim_opts testopts = (case map_of testopts ''sim_opts'' of
     None \<Rightarrow> Inr []
   | Some v \<Rightarrow> if truthy v then (case v of PStr s \<Rightarrow> Inr (py_replace nl [] s) | _ \<Rightarrow> Inl (AttributeError ''replace'')) else Inr [])"

definition rtl_subst_vars :: "RegressionMetadata \<Rightarrow> TestRunResult \<Rightarrow> string \<Rightarrow> pyval \<Rightarrow> pyval \<Rightarrow> string \<Rightarrow> string \<Rightarrow> pydict" where
  "rtl_subst_vars md trr dir rtl tmo cfg_opts opts = [
     (''cwd'', PPath (md_ibex_root md)), (''test_name'', opt_val PStr (testname trr)), (''rtl_test'', rtl),
     (''seed'', PStr (int_opt_str (seed trr))), (''binary'', opt_val PPath (binary trr)), (''test_dir'', PPath dir),
     (''tb_dir'', PPath (md_dir_tb md)), (''dir_shared_cov'', PPath (md_dir_shared_cov md)),
     (''rtl_sim_log'', PPath (dir @ ''/rtl_sim.log'')), (''rtl_trace'', PPath (dir @ ''/trace_core'')),
     (''iss_cosim_trace'', PPath (dir @ ''/'' @ md_iss md @ ''_cosim_trace_core_00000000.log'')),
     (''core_ibex'', PPath (md_ibex_dv_root md)),
     (''sim_opts'', PStr (''+signature_addr='' @ md_signature_addr md @ nl @ ''+test_timeout_s='' @ py_str tmo @ nl
        @ cfg_opts @ nl @ ddm_opts trr @ opts))]"

text \<open>The simulation: return codes are ignored, a timeout ends the loop and is recorded.\<close>

fun sim_loop :: "tool_env \<Rightarrow> bool \<Rightarrow> redirect option \<Rightarrow> int \<Rightarrow> string list list \<Rightarrow> TestRunResult \<Rightarrow> TestRunResult res" where
  "sim_loop x verb redir tmo [] trr = Inr trr"
| "sim_loop x verb redir tmo (cmd # cmds) trr = (case exec_cmd x verb redir (Some tmo) True cmd of
     Inr _ \<Rightarrow> sim_loop x verb redir tmo cmds trr
   | Inl TimeoutExpired \<Rightarrow> Inr (trr\<lparr>failure_mode := Some TIMEOUT,
       failure_message := Some (''[FAILURE] Simulation process killed due to timeout ['' @ int_str tmo @ ''s].'' @ nl)\<rparr>)
   | Inl e \<Rightarrow> Inl e)"

text \<open>\<open>testlist\<close> and \<open>sim_yaml\<close> are the parsed test list and simulator description.\<close>

definition run_rtl_main :: "tool_env \<Rightarrow> cfg_env \<Rightarrow> RegressionMetadata \<Rightarrow> pydict list \<Rightarrow> pyval list \<Rightarrow> TestRunResult \<Rightarrow> TestRunResult res" where
  "run_rtl_main x env md testlist sim_yaml trr =
     rbind (need ''testname'' (testname trr)) (\<lambda>test.
     rbind (need ''dir_test'' (dir_test trr)) (\<lambda>dir.
     rbind (case testtype trr of
              Some RISCVDV \<Rightarrow> get_test_entry test testlist
            | Some DIRECTED \<Rightarrow> need ''directed_data'' (directed_data trr)
            | None \<Rightarrow> Inl (NameError ''testopts'')) (\<lambda>testopts.
     rbind (item testopts ''rtl_test'') (\<lambda>rtl.
     rbind (test_sim_opts testopts) (\<lambda>opts.
     rbind (get_sim_opts env (md_ibex_config md) (md_simulator md)) (\<lambda>cfg_opts.
       let tmo = test_timeout md testopts;
           trr = trr\<lparr>rtl_test := Some rtl, timeout_s := (case tmo of PInt i \<Rightarrow> Some i | _ \<Rightarrow> None),
                     ddm_sim_opts := Some (ddm_opts trr), rtl_log := Some (dir @ ''/rtl_sim.log''),
                     rtl_trace := Some (dir @ ''/trace_core_00000000.log''),
                     iss_cosim_trace := Some (dir @ ''/'' @ md_iss md @ ''_cosim_trace_core_00000000.log'')\<rparr>
       in rbind (get_tool_cmds (x_resolve x) (x_environ x) sim_yaml (md_simulator md) ''sim''
                   [(''cov_opts'', md_cov md), (''wave_opts'', md_waves md)]
                   (rtl_subst_vars md trr dir rtl tmo cfg_opts opts)) (\<lambda>sim_cmds.
          rbind (rmap (\<lambda>c. format_to_cmd (x_resolve x) (map PStr c)) sim_cmds) (\<lambda>cmds.
            let trr = trr\<lparr>rtl_cmds := Some cmds, rtl_stdout := Some (dir @ ''/rtl_sim_stdstreams.log'')\<rparr>;
                trr = (if md_simulator md = ''vcs'' then trr\<lparr>rtl_log := rtl_stdout trr\<rparr> else trr)
            in sim_loop x (md_verbose md) (Some (RIO (str_opt (rtl_stdout trr)))) (md_run_rtl_timeout_s md + 60) cmds trr))))))))"

section \<open>compile\_tb.py, build\_instr\_gen.py and get\_fcov.py\<close>

definition rpath_prefix :: string where "rpath_prefix = ''-Wl,-rpath,''"

definition fixup_xcelium_rpath_token :: "string \<Rightarrow> string \<Rightarrow> string" where
  "fixup_xcelium_rpath_token sim t =
     (if sim = ''xlm'' \<and> startswith t rpath_prefix
      then ''-Wld,-Xlinker,-rpath,'' @ py_join '','' (map (\<lambda>p. ''-Xlinker,'' @ p) (split_char (CHR '','') (drop (length rpath_prefix) t)))
      else t)"

text \<open>\<open>pkg_config\<close> gives the output of a call, or the exception of a call that failed.\<close>

definition get_iss_pkgconfig_flags :: "(string list \<Rightarrow> string res) \<Rightarrow> string list \<Rightarrow> string list \<Rightarrow> string \<Rightarrow> string res" where
  "get_iss_pkgconfig_flags pkg_config specifiers iss_pc sim =
     rbind (rmap (\<lambda>s. rbind (pkg_config ([''pkg-config'', s] @ iss_pc)) (\<lambda>out.
              rbind (shlex_split (strip out)) (\<lambda>tokens. Inr (map (fixup_xcelium_rpath_token sim) tokens)))) specifiers) (\<lambda>tokss.
       Inr (py_join '' '' (map shlex_quote (concat tokss))))"

definition spike_iss_pc :: "string list" where
  "spike_iss_pc = [''riscv-riscv'', ''riscv-disasm'', ''riscv-fdt'', ''riscv-fesvr'']"

definition iss_pkgconfig_dict :: "(string \<times> string list) list" where
  "iss_pkgconfig_dict = [(''ISS_CFLAGS'', [''--cflags'']), (''ISS_LDFLAGS'', [''--libs-only-other'']),
     (''ISS_LIBS'', [''--libs-only-l'', ''--libs-only-L''])]"

definition tb_defines :: string where
  "tb_defines = '' +define+DM_ADDR=1A11_0000 '' @ '' +define+DM_ADDR_MASK=0000_0FFF'' @ '' +define+BOOT_ADDR=8000_0000 ''
     @ '' +define+DEBUG_MODE_HALT_ADDR=8000_0000 '' @ '' +define+DEBUG_MODE_EXCEPTION_ADDR=8000_0008 ''"

definition tb_subst_vars :: "RegressionMetadata \<Rightarrow> string \<Rightarrow> pydict \<Rightarrow> pydict" where
  "tb_subst_vars md cmp_opts iss_vars = dict_merge [
     (''core_ibex'', PPath (md_ibex_dv_root md)), (''tb_dir'', PPath (md_dir_tb md)),
     (''tb_build_log'', PPath (md_dir_tb md @ ''/compile_tb.log'')), (''cmp_opts'', PStr (cmp_opts @ tb_defines)),
     (''dir_shared_cov'', if md_cov md then PPath (md_dir_shared_cov md) else PStr []),
     (''xlm_cov_cfg_file'', PStr (md_ibex_root md @ ''/vendor/lowrisc_ip/dv/tools/xcelium/cover.ccf'')),
     (''dut_cov_rtl_path'', PStr (md_dut_cov_rtl_path md))] iss_vars"

text \<open>The commands that are stored in the metadata, and the return code of running them.\<close>

definition compile_tb_main :: "tool_env \<Rightarrow> cfg_env \<Rightarrow> (string list \<Rightarrow> string res) \<Rightarrow> pyval list \<Rightarrow> RegressionMetadata
    \<Rightarrow> (int \<times> string list list) res" where
  "compile_tb_main x env pkg_config sim_yaml md =
     (case find (\<lambda>v. map_of (x_environ x) v = None) [''PRJ_DIR'', ''LOWRISC_IP_DIR''] of
        Some v \<Rightarrow> Inl (RuntimeError (''The environment variable '' @ repr_str v @ '' is not set.''))
      | None \<Rightarrow>
          (case pkg_config ([''pkg-config'', ''--exists''] @ spike_iss_pc) of
             Inl _ \<Rightarrow> Inl (RuntimeError ''Failed to find pkg-config packages'')
           | Inr _ \<Rightarrow>
               rbind (rmap (\<lambda>(k, specs). rbind (get_iss_pkgconfig_flags pkg_config specs spike_iss_pc (md_simulator md)) (\<lambda>f.
                        Inr (k, PStr f))) iss_pkgconfig_dict) (\<lambda>iss_vars.
               rbind (get_compile_opts env (md_ibex_config md) (md_simulator md)) (\<lambda>cmp_opts.
               rbind (get_tool_cmds (x_resolve x) (x_environ x) sim_yaml (md_simulator md) ''compile''
                        [(''cov_opts'', md_cov md), (''wave_opts'', md_waves md), (''cosim_opts'', True)]
                        (tb_subst_vars md cmp_opts iss_vars)) (\<lambda>cmds.
               rbind (exec_all x (md_verbose md) (Some (RIO (md_dir_tb md @ ''/compile_tb_stdstreams.log''))) cmds) (\<lambda>ret.
                 Inr (ret, cmds)))))))"

definition build_instr_gen_main :: "tool_env \<Rightarrow> RegressionMetadata \<Rightarrow> (int \<times> string list) res" where
  "build_instr_gen_main x md =
     rbind (format_to_cmd (x_resolve x) (get_run_cmd (md_riscvdv_root md) (md_customtarget md) (md_verbose md) @
              [PStr ''--co'', PStr ''--steps=gen'', PStr ''--simulator'', PStr (md_simulator md),
               PStr ''--output'', PPath (md_dir_instruction_generator md), PStr ''--isa'', opt_val PStr (md_isa_ibex md),
               PStr ''--end_signature_addr'', PStr (md_signature_addr md)])) (\<lambda>cmd.
     rbind (exec_cmd x (md_verbose md) (Some (RPath (md_dir_instruction_generator md @ ''/build_stdout.log''))) None False cmd) (\<lambda>ret.
       Inr (ret, cmd)))"

definition get_fcov_main :: "tool_env \<Rightarrow> RegressionMetadata \<Rightarrow> (int \<times> string list) res" where
  "get_fcov_main x md =
     (let cmd = get_cov_cmd (md_riscvdv_root md) \<lparr>dir_run = md_dir_run md, dir_fcov = md_dir_cov md @ ''/fcov'',
            simulator = md_simulator md, isa_ibex = str_opt (md_isa_ibex md),
            ibex_riscvdv_customtarget = md_customtarget md, verbose = md_verbose md\<rparr>
      in rbind (exec_cmd x (md_verbose md) (Some (RPath (md_dir_cov md @ ''/fcov/riscvdv_fcov_stdout.log''))) None False cmd) (\<lambda>ret.
           Inr (ret, cmd)))"

section \<open>What the scripts keep of a run\<close>

text \<open>Two states of the same run that has not been judged in between.\<close>

definition same_run :: "TestRunResult \<Rightarrow> TestRunResult \<Rightarrow> bool" where
  "same_run a b = (passed a = passed b \<and> failure_mode a = failure_mode b \<and> testname a = testname b \<and> seed a = seed b
     \<and> testtype a = testtype b \<and> dir_test a = dir_test b \<and> trr_pickle_file a = trr_pickle_file b
     \<and> is_discrete_debug_module a = is_discrete_debug_module b)"

lemma same_run_trans: "same_run a b \<Longrightarrow> same_run b c \<Longrightarrow> same_run a c"
  by (simp add: same_run_def)

lemma need_Inr: "need what v = Inr y \<longleftrightarrow> v = Some y"
  by (cases v) (simp_all add: need_def)

lemma instr_gen_same_run: "instr_gen_main x env md trr td cl fs = Inr (ret, Some p, fs') \<Longrightarrow> same_run trr p"
proof -
  have "res_all (\<lambda>(ret, q, fs'). \<forall>p. q = Some p \<longrightarrow> same_run trr p) (instr_gen_main x env md trr td cl fs)"
    unfolding instr_gen_main_def Let_def by (intro res_all_rules) (simp_all add: same_run_def)
  then show "instr_gen_main x env md trr td cl fs = Inr (ret, Some p, fs') \<Longrightarrow> ?thesis" by simp
qed

lemma discrete_debug_same_run: "discrete_debug_cmds x md dir trr cmds = Inr (r, b) \<Longrightarrow> same_run trr b"
  by (auto simp: discrete_debug_cmds_def Let_def same_run_def split: if_splits)

lemma get_riscvdv_compile_same_run: "get_riscvdv_compile_cmds x md trr td ol = Inr (r, b) \<Longrightarrow> same_run trr b"
proof -
  have "res_all (\<lambda>(r, b). same_run trr b) (get_riscvdv_compile_cmds x md trr td ol)"
    unfolding get_riscvdv_compile_cmds_def Let_def
    by (intro res_all_rules) (auto simp: same_run_def dest: discrete_debug_same_run)
  then show "get_riscvdv_compile_cmds x md trr td ol = Inr (r, b) \<Longrightarrow> ?thesis" by simp
qed

lemma get_directed_compile_same_run: "get_directed_compile_cmds x trr = Inr (cmds, b) \<Longrightarrow> same_run trr b"
proof -
  have "res_all (\<lambda>(cmds, b). same_run trr b) (get_directed_compile_cmds x trr)"
    unfolding get_directed_compile_cmds_def Let_def by (intro res_all_rules) (simp_all add: same_run_def)
  then show "get_directed_compile_cmds x trr = Inr (cmds, b) \<Longrightarrow> ?thesis" by simp
qed

lemma compile_same_run:
  assumes "compile_main x md trr td ol = Inr (ret, b)" shows "same_run trr b"
proof (cases "testtype trr")
  case None
  with assms show ?thesis by (simp add: compile_main_def)
next
  case (Some tt)
  with assms show ?thesis
    by (cases tt) (auto simp: compile_main_def rbind_Inr_iff case_Inr_iff same_run_def
      dest!: get_riscvdv_compile_same_run get_directed_compile_same_run)
qed

text \<open>The log that is judged later: the simulator's own, or what it printed for VCS.\<close>

definition uvm_log_of :: "RegressionMetadata \<Rightarrow> string \<Rightarrow> string" where
  "uvm_log_of md dir = dir @ (if md_simulator md = ''vcs'' then ''/rtl_sim_stdstreams.log'' else ''/rtl_sim.log'')"

definition timed_out_cmd :: "tool_env \<Rightarrow> int \<Rightarrow> string list \<Rightarrow> bool" where
  "timed_out_cmd x tmo c = (x_run x c (Some tmo) = RunTimeout)"

lemma exec_cmd_RIO:
  "exec_cmd x verb (Some (RIO f)) tmo reraise cmd =
     (case x_run x cmd tmo of
        Completed rc \<Rightarrow> Inr rc | RunOSError _ \<Rightarrow> Inr 1 | RunTimeout \<Rightarrow> if reraise then Inl TimeoutExpired else Inr 1)"
  by (simp add: exec_cmd_def run_one_def open_dest_def Let_def split: run_outcome.splits)

lemma sim_loop_result:
  "sim_loop x verb (Some (RIO f)) tmo cmds trr = Inr
     (if list_ex (timed_out_cmd x tmo) cmds
      then trr\<lparr>failure_mode := Some TIMEOUT,
        failure_message := Some (''[FAILURE] Simulation process killed due to timeout ['' @ int_str tmo @ ''s].'' @ nl)\<rparr>
      else trr)"
  by (induction cmds) (auto simp: exec_cmd_RIO timed_out_cmd_def split: run_outcome.splits)

lemma run_rtl_result:
  assumes "run_rtl_main x env md testlist sim_yaml b = Inr s"
  shows "\<exists>dir cmds. dir_test b = Some dir \<and> rtl_cmds s = Some cmds \<and> rtl_log s = Some (uvm_log_of md dir)
    \<and> rtl_trace s = Some (dir @ ''/trace_core_00000000.log'')
    \<and> passed s = passed b \<and> testname s = testname b \<and> seed s = seed b \<and> dir_test s = dir_test b
    \<and> failure_mode s = (if list_ex (timed_out_cmd x (md_run_rtl_timeout_s md + 60)) cmds then Some TIMEOUT else failure_mode b)"
  using assms unfolding run_rtl_main_def
  by (auto simp: rbind_Inr_iff Let_def need_Inr sim_loop_result uvm_log_of_def)

end
