(* ===== verification/Directed_Runs.thy ===== *)
theory Directed_Runs
  imports Test_Build
begin

text \<open>
  The directed tests from the list on disk to the command that compiles them: \<open>import_model\<close> (\<open>Directed_Tests\<close>), the
  creation of the runs (\<open>Metadata\<close>) and \<open>get_directed_compile_cmds\<close> of \<open>compile_test.py\<close> (\<open>Test_Build\<close>) composed.
\<close>

section \<open>Compiling a directed test\<close>

text \<open>Words that a shell reads as they are.\<close>

definition plain :: "string \<Rightarrow> bool" where
  "plain w = (w \<noteq> [] \<and> list_all shell_safe w)"

lemma shlex_split_plain: "list_all plain ws \<Longrightarrow> shlex_split (py_join '' '' ws) = Inr ws"
proof -
  assume "list_all plain ws"
  then have "map shlex_quote ws = ws" by (induction ws) (auto simp: plain_def shlex_quote_def)
  then show ?thesis using shlex_split_quote [of ws] by simp
qed

lemma plain_append: "plain a \<Longrightarrow> list_all shell_safe b \<Longrightarrow> plain (a @ b) \<and> plain (b @ a)"
  by (simp add: plain_def)

lemma py_join_prefix: "py_join sep ((w @ x) # b) = w @ py_join sep (x # b)"
  by (cases b) simp_all

lemma py_join_nested: "ws \<noteq> [] \<Longrightarrow> py_join sep (a @ [py_join sep ws] @ b) = py_join sep (a @ ws @ b)"
proof (induction a)
  case Nil
  then show ?case
  proof (induction ws rule: induct_list012)
    case (3 x y zs)
    then show ?case by (simp add: py_join_prefix [of sep "x @ sep", simplified] py_join_Cons)
  qed simp_all
next
  case (Cons x a)
  then show ?case by (simp add: py_join_Cons)
qed

lemma directed_compile_cmds:
  assumes "directed_data trr = Some data" "dir_test trr = Some dir"
    and "map_of data ''gcc_opts'' = Some (PStr (py_join '' '' opts))" "opts \<noteq> []"
    and "map_of data ''includes'' = Some (PPath inc)" "map_of data ''ld_script'' = Some (PPath ld)"
      "map_of data ''test_srcs'' = Some (PPath src)"
    and env: "map_of (x_environ x) ''RISCV_GCC'' = Some gcc" "map_of (x_environ x) ''RISCV_OBJCOPY'' = Some objcopy"
      "map_of (x_environ x) ''RISCV_TOOLCHAIN'' \<noteq> None"
    and plain: "list_all plain ([gcc, objcopy, dir, inc, ld, src] @ opts)"
  shows "get_directed_compile_cmds x trr = Inr
    ([[gcc] @ opts @ [''-I'' @ inc, ''-T'' @ ld, ''-o'', dir @ ''/test.o'', src],
      [objcopy, ''-O'', ''binary'', dir @ ''/test.o'', dir @ ''/test.bin'']],
     trr\<lparr>assembly := Some src, objectfile := Some (dir @ ''/test.o''), binary := Some (dir @ ''/test.bin'')\<rparr>)"
proof -
  have lits: "list_all shell_safe ''-I''" "list_all shell_safe ''-T''" "plain ''-o''" "plain ''-O''" "plain ''binary''"
    "list_all shell_safe ''/test.o''" "list_all shell_safe ''/test.bin''" by code_simp+
  note p = plain_append [THEN conjunct1] plain_append [THEN conjunct2]
  have gcc: "list_all plain ([gcc] @ opts @ [''-I'' @ inc, ''-T'' @ ld, ''-o'', dir @ ''/test.o'', src])"
    using plain p [OF _ lits(1)] p [OF _ lits(2)] p [OF _ lits(6)] lits(3) by simp
  have bin: "list_all plain [objcopy, ''-O'', ''binary'', dir @ ''/test.o'', dir @ ''/test.bin'']"
    using plain p [OF _ lits(6)] p [OF _ lits(7)] lits(4,5) by simp
  have "py_join '' '' [gcc, py_join '' '' opts, ''-I'' @ inc, ''-T'' @ ld, ''-o '' @ dir @ ''/test.o'', src]
      = py_join '' '' ([gcc] @ [py_join '' '' opts] @ [''-I'' @ inc, ''-T'' @ ld, ''-o'', dir @ ''/test.o'', src])" by simp
  also have "\<dots> = py_join '' '' ([gcc] @ opts @ [''-I'' @ inc, ''-T'' @ ld, ''-o'', dir @ ''/test.o'', src])"
    using assms(4) by (rule py_join_nested)
  finally have g: "shlex_split (py_join '' '' [gcc, py_join '' '' opts, ''-I'' @ inc, ''-T'' @ ld, ''-o '' @ dir @ ''/test.o'', src])
      = Inr ([gcc] @ opts @ [''-I'' @ inc, ''-T'' @ ld, ''-o'', dir @ ''/test.o'', src])"
    using shlex_split_plain [OF gcc] by simp
  have "py_join '' '' [objcopy, ''-O binary '' @ dir @ ''/test.o'', dir @ ''/test.bin'']
      = py_join '' '' [objcopy, ''-O'', ''binary'', dir @ ''/test.o'', dir @ ''/test.bin'']" by simp
  then have b: "shlex_split (py_join '' '' [objcopy, ''-O binary '' @ dir @ ''/test.o'', dir @ ''/test.bin''])
      = Inr [objcopy, ''-O'', ''binary'', dir @ ''/test.o'', dir @ ''/test.bin'']"
    using shlex_split_plain [OF bin] by simp
  have vals: "data_str data ''includes'' = inc" "data_str data ''ld_script'' = ld" using assms(5,6) by (simp_all add: data_str_def py_str_def)
  show ?thesis using env assms(1-3,7) g b
    by (auto simp: get_directed_compile_cmds_def need_def Let_def vals str_opt_def simp del: py_join.simps)
qed

lemma imported_test_paths:
  assumes "imported_test exists yaml c t data"
  shows "\<exists>inc ld src. map_of data ''includes'' = Some (PPath inc) \<and> map_of data ''ld_script'' = Some (PPath ld)
    \<and> map_of data ''test_srcs'' = Some (PPath src) \<and> exists inc \<and> exists ld \<and> exists src"
proof -
  have path: "\<exists>p. map_of data k = Some (PPath p) \<and> exists p" if "(k, FPath) \<in> set DTest_fields" for k
    using assms that unfolding imported_test_def list_all_iff
    by (fastforce simp: imported_value_def split: option.splits sum.splits pyval.splits)
  have "(''includes'', FPath) \<in> set DTest_fields" "(''ld_script'', FPath) \<in> set DTest_fields" "(''test_srcs'', FPath) \<in> set DTest_fields"
    by (simp_all add: DTest_fields_def DConfig_fields_def)
  from this [THEN path] show ?thesis by blast
qed

text \<open>
  C11. From the list of directed tests to the compiler: a directed run that the creation of the metadata makes carries the
  imported entry of its own test, whose include directory, linker script and source exist on disk; and, when the words
  involved need no quoting, it is compiled by exactly the two expected commands, with the options, the directory, the script
  and the source of that entry, into the object and the binary of the run's own directory.
\<close>

theorem directed_runs_compile:
  assumes "pydantic_ok pyd" and "w_directed w = import_model pyd exists load opened"
    and "create_metadata w dir_metadata dir_out git_commit args_list = Inr (md, trrs)"
    and "rbind (read_yaml load opened (md_directed_test_data md)) yaml_items = Inr items"
    and "list_all (\<lambda>i. distinct (map fst i)) items"
    and "trr \<in> set trrs" "testtype trr = Some DIRECTED"
  shows "\<exists>data c t name inc ld src. directed_data trr = Some data \<and> testname trr = Some name \<and> map_of data ''test'' = Some (PStr name)
    \<and> t \<in> set items \<and> named_config items t = Some c \<and> imported_test exists (md_directed_test_data md) c t data
    \<and> map_of data ''includes'' = Some (PPath inc) \<and> map_of data ''ld_script'' = Some (PPath ld) \<and> map_of data ''test_srcs'' = Some (PPath src)
    \<and> exists inc \<and> exists ld \<and> exists src
    \<and> (\<forall>x gcc objcopy dir opts. map_of (x_environ x) ''RISCV_GCC'' = Some gcc \<and> map_of (x_environ x) ''RISCV_OBJCOPY'' = Some objcopy
        \<and> map_of (x_environ x) ''RISCV_TOOLCHAIN'' \<noteq> None \<and> dir_test trr = Some dir
        \<and> map_of data ''gcc_opts'' = Some (PStr (py_join '' '' opts)) \<and> opts \<noteq> [] \<and> list_all plain ([gcc, objcopy, dir, inc, ld, src] @ opts)
        \<longrightarrow> rbind (get_directed_compile_cmds x trr) (\<lambda>(cmds, _). Inr cmds) = Inr
          [[gcc] @ opts @ [''-I'' @ inc, ''-T'' @ ld, ''-o'', dir @ ''/test.o'', src],
           [objcopy, ''-O'', ''binary'', dir @ ''/test.o'', dir @ ''/test.bin'']])"
proof -
  obtain tests data name where d: "w_directed w (md_directed_test_data md) = Inr tests" "data \<in> set tests"
    "map_of data ''test'' = Some (PStr name)" "testname trr = Some name" "directed_data trr = Some data"
    using create_metadata_directed [OF assms(3,6,7)] by blast
  have "import_model pyd exists load opened (md_directed_test_data md) = Inr tests" using d(1) by (simp add: assms(2))
  from list_all2_right [OF imported_tests [OF assms(1,5,4) this] d(2)] obtain t c where t: "t \<in> set items"
    "named_config items t = Some c" "imported_test exists (md_directed_test_data md) c t data" by auto
  from imported_test_paths [OF t(3)] obtain inc ld src where p: "map_of data ''includes'' = Some (PPath inc)"
    "map_of data ''ld_script'' = Some (PPath ld)" "map_of data ''test_srcs'' = Some (PPath src)" "exists inc" "exists ld" "exists src" by blast
  have "rbind (get_directed_compile_cmds x trr) (\<lambda>(cmds, _). Inr cmds) = Inr
          [[gcc] @ opts @ [''-I'' @ inc, ''-T'' @ ld, ''-o'', dir @ ''/test.o'', src],
           [objcopy, ''-O'', ''binary'', dir @ ''/test.o'', dir @ ''/test.bin'']]"
    if "map_of (x_environ x) ''RISCV_GCC'' = Some gcc \<and> map_of (x_environ x) ''RISCV_OBJCOPY'' = Some objcopy
        \<and> map_of (x_environ x) ''RISCV_TOOLCHAIN'' \<noteq> None \<and> dir_test trr = Some dir
        \<and> map_of data ''gcc_opts'' = Some (PStr (py_join '' '' opts)) \<and> opts \<noteq> [] \<and> list_all plain ([gcc, objcopy, dir, inc, ld, src] @ opts)"
    for x gcc objcopy dir opts
  proof -
    from that have q: "dir_test trr = Some dir" "map_of data ''gcc_opts'' = Some (PStr (py_join '' '' opts))" "opts \<noteq> []"
      "map_of (x_environ x) ''RISCV_GCC'' = Some gcc" "map_of (x_environ x) ''RISCV_OBJCOPY'' = Some objcopy"
      "map_of (x_environ x) ''RISCV_TOOLCHAIN'' \<noteq> None" "list_all plain ([gcc, objcopy, dir, inc, ld, src] @ opts)" by blast+
    show ?thesis by (simp only: directed_compile_cmds [OF d(5) q(1-3) p(1-3) q(4-7)] rbind_simps prod.case)
  qed
  with d(3-5) t p show ?thesis by blast
qed

text \<open>The list of \<open>demo_list\<close> and a regression of its test \<open>pmp\<close>, which has two iterations.\<close>

definition directed_world :: md_world where
  "directed_world = \<lparr>w_env = small_env, w_testlist = (\<lambda>_. Inr []),
     w_directed = import_model strict_check (\<lambda>p. prefix ''/ibex/'' p) (\<lambda>_. Inr demo_list) (\<lambda>_. Inr [])\<rparr>"

definition directed_args_text :: string where
  "directed_args_text = ''TEST=pmp IBEX_CONFIG=small''"

abbreviation directed_data_file :: string where
  "directed_data_file \<equiv> ''/ibex/dv/uvm/core_ibex/directed_tests/directed_testlist.yaml''"

definition pmp_entry :: pydict where
  "pmp_entry = [(''config'', PStr ''asm''), (''rtl_test'', PStr ''core_ibex_base_test''), (''rtl_params'', PDict [(PStr ''PMPEnable'', PInt 0)]),
     (''timeout_s'', PInt 300), (''gcc_opts'', PStr ''-O2''),
     (''ld_script'', PPath ''/ibex/dv/uvm/core_ibex/directed_tests/pmp/pmp.ld''), (''includes'', PPath ''/ibex/dv/uvm/core_ibex/directed_tests/common''),
     (''test'', PStr ''pmp''), (''desc'', PStr ''PMP''), (''test_srcs'', PPath ''/ibex/dv/uvm/core_ibex/directed_tests/pmp/pmp.S''), (''iterations'', PInt 2)]"

lemma directed_args: "args_of_list directed_args_text =
   Inr [(''raw_args_str'', PStr directed_args_text), (''test'', PStr ''pmp''), (''ibex_config'', PStr ''small'')]"
proof -
  have 1: "shlex_split directed_args_text = Inr [''TEST=pmp'', ''IBEX_CONFIG=small'']" by code_simp
  have 2: "rmap parse_pair [''TEST=pmp'', ''IBEX_CONFIG=small''] = Inr [(''TEST'', ''pmp''), (''IBEX_CONFIG'', ''small'')]"
    by code_simp
  have 3: "py_lower ''TEST'' = ''test''" "py_lower ''IBEX_CONFIG'' = ''ibex_config''" by code_simp+
  show ?thesis
    unfolding args_of_list_def 1 2 rbind_simps Let_def
    by (simp add: 3 md_fields_def cast_field_def)
qed

lemma directed_import: "\<exists>e. w_directed directed_world directed_data_file = Inr [e, pmp_entry] \<and> map_of e ''test'' = Some (PStr ''empty'')"
proof -
  have "(case w_directed directed_world directed_data_file of
      Inr [e, p] \<Rightarrow> p = pmp_entry \<and> map_of e ''test'' = Some (PStr ''empty'') | _ \<Rightarrow> False)" by code_simp
  then show ?thesis by (auto split: sum.splits list.splits)
qed

lemma directed_create:
  "\<exists>md trrs. create_metadata directed_world ''/m'' ''/o'' ''abc'' directed_args_text = Inr (md, trrs)
     \<and> md_directed_test_data md = directed_data_file \<and> (\<exists>t t'. trrs = [t, t'] \<and> testtype t = Some DIRECTED
       \<and> directed_data t = Some pmp_entry \<and> dir_test t = Some ''/o/run/tests/pmp.1'')"
proof -
  obtain md where md: "arg_list_initializer (ibex_root small_env) ''/m'' ''/o'' ''abc'' directed_args_text = Inr md"
    and f: "md_ibex_config md = ''small''" "md_iterations md = None" "md_seed md = 1" "md_test md = ''pmp''" "md_ibex_root md = ''/ibex''" "md_dir_out md = ''/o''"
    unfolding arg_list_initializer_def directed_args
    by (simp add: md_fields_def str_arg_def int_arg_def small_env_def)
  obtain c where c: "get_config small_env ''small'' = Inr c" "Config_init small_config = Inr c" using small_env_config by blast
  obtain c' where "Config_init small_config = Inr c'" "rv32b c' = ''ibex_pkg::RV32BNone''" using small_config_ok by blast
  with c(2) have "rv32b c = ''ibex_pkg::RV32BNone''" by simp
  then obtain a b where isas: "get_isas_for_config c = Inr (a, b)"
    by (simp add: get_isas_for_config_def bitmanip_mapping_def Let_def)
  let ?md = "md\<lparr>md_isa_ibex := Some a, md_isa_iss := Some b\<rparr>"
  let ?m = "?md\<lparr>md_tests_and_counts := [(''pmp'', 2, DIRECTED)]\<rparr>"
  have ibex: "get_ibex_metadata small_env md = Inr ?md" by (simp add: get_ibex_metadata_def f c isas)
  have cfg: "parse_config (yaml_load small_env) (open_file small_env) ''small'' (PStr (md_ibex_configs ?md)) = Inr c"
    using c(2) by (simp add: parse_config_def small_env_def Configs_init_def)
  have data_file: "md_directed_test_data m = directed_data_file" if "md_ibex_root m = ''/ibex''" for m
    using that by (simp add: md_directed_test_data_def md_ibex_dv_root_def)
  obtain e where e: "w_directed directed_world directed_data_file = Inr [e, pmp_entry]" "map_of e ''test'' = Some (PStr ''empty'')"
    using directed_import by blast
  have upd: "AList.update ''iterations'' (PInt 2) pmp_entry = pmp_entry" by (simp add: pmp_entry_def)
  have names: "split_char (CHR '','') ''pmp'' = [''pmp'']" by code_simp
  have sel: "process_directed_testlist directed_world ?md = Inr [pmp_entry]"
    using upd by (simp add: process_directed_testlist_def data_file f e directed_entry_def names Let_def)
      (simp add: pmp_entry_def item_def item_int_def)
  have keep: "filter_tests_by_config c [pmp_entry] = Inr [pmp_entry]"
    by (simp add: filter_tests_by_config_def pmp_entry_def small_config_matches [OF c(2)])
  have w: "w_env directed_world = small_env" by (simp add: directed_world_def)
  have tcs: "get_tests_and_counts directed_world ?md = Inr [((''pmp'', 2, DIRECTED), pmp_entry)]"
    using cfg f sel keep
    by (simp add: get_tests_and_counts_def w process_riscvdv_testlist_def process_regression_list_def filter_tests_by_config_def)
      (simp add: directed_world_def test_and_count_def item_def pmp_entry_def)
  let ?run = "\<lambda>sd. (init_trr ?m ''pmp'' DIRECTED sd)\<lparr>directed_data := Some pmp_entry\<rparr>"
  have pmp: "map_of pmp_entry ''test'' = Some (PStr ''pmp'')" by (simp add: pmp_entry_def)
  have root: "md_ibex_root ?m = ''/ibex''" using f by simp
  have "make_trr directed_world ?m ''pmp'' DIRECTED pmp_entry = (\<lambda>sd. Inr (?run sd))"
    by (rule ext) (simp add: make_trr_def Let_def data_file [OF root] e pmp)
  then have trrs: "make_trrs directed_world ?m [((''pmp'', 2, DIRECTED), pmp_entry)] = Inr (map ?run (seeds ?m 2))"
    by (simp add: make_trrs_def rmap_ok_map [of _ _ ?run])
  have run1: "seeds ?m 2 = [1, 2]" by (simp add: seeds_def f upt_rec)
  have dir: "dir_test (?run 1) = Some ''/o/run/tests/pmp.1''"
  proof -
    have "int_str 1 = ''1''" by code_simp
    then show ?thesis using f by (simp add: init_trr_def Let_def md_dir_tests_def md_dir_run_def)
  qed
  show ?thesis
    unfolding create_metadata_def w md rbind_simps ibex tcs Let_def
    using dir by (simp add: trrs run1 f md_directed_test_data_def md_ibex_dv_root_def)
qed

definition directed_env :: tool_env where
  "directed_env = \<lparr>x_run = (\<lambda>_ _. Completed 0), x_can_open = (\<lambda>_. True), x_resolve = (\<lambda>p. p),
     x_environ = [(''RISCV_TOOLCHAIN'', ''/opt''), (''RISCV_GCC'', ''gcc''), (''RISCV_OBJCOPY'', ''objcopy'')], x_cwd = ''/w''\<rparr>"

theorem directed_runs_compile_witness:
  "\<exists>md trrs trr src. create_metadata directed_world ''/m'' ''/o'' ''abc'' directed_args_text = Inr (md, trrs) \<and> trr \<in> set trrs
     \<and> prefix ''/ibex/'' src
     \<and> rbind (get_directed_compile_cmds directed_env trr) (\<lambda>(cmds, _). Inr cmds) = Inr
         [[''gcc'', ''-O2'', ''-I/ibex/dv/uvm/core_ibex/directed_tests/common'', ''-T/ibex/dv/uvm/core_ibex/directed_tests/pmp/pmp.ld'',
           ''-o'', ''/o/run/tests/pmp.1/test.o'', src],
          [''objcopy'', ''-O'', ''binary'', ''/o/run/tests/pmp.1/test.o'', ''/o/run/tests/pmp.1/test.bin'']]"
proof -
  let ?items = "projr (yaml_items demo_list)"
  obtain md trr trr' where m: "create_metadata directed_world ''/m'' ''/o'' ''abc'' directed_args_text = Inr (md, [trr, trr'])"
    "md_directed_test_data md = directed_data_file" and t: "testtype trr = Some DIRECTED" "directed_data trr = Some pmp_entry"
    "dir_test trr = Some ''/o/run/tests/pmp.1''"
    using directed_create by blast
  have i: "rbind (read_yaml (\<lambda>_. Inr demo_list) (\<lambda>_. Inr []) directed_data_file) yaml_items = Inr ?items"
    "list_all (\<lambda>i. distinct (map fst i)) ?items" by code_simp+
  have w: "w_directed directed_world = import_model strict_check (\<lambda>p. prefix ''/ibex/'' p) (\<lambda>_. Inr demo_list) (\<lambda>_. Inr [])"
    by (simp add: directed_world_def)
  let ?src = "''/ibex/dv/uvm/core_ibex/directed_tests/pmp/pmp.S''" and ?inc = "''/ibex/dv/uvm/core_ibex/directed_tests/common''"
  let ?ld = "''/ibex/dv/uvm/core_ibex/directed_tests/pmp/pmp.ld''"
  have e: "map_of pmp_entry ''includes'' = Some (PPath ?inc)" "map_of pmp_entry ''ld_script'' = Some (PPath ?ld)"
    "map_of pmp_entry ''test_srcs'' = Some (PPath ?src)" "map_of pmp_entry ''gcc_opts'' = Some (PStr (py_join '' '' [''-O2'']))"
    by (simp_all add: pmp_entry_def)
  have pl: "list_all plain ([''gcc'', ''objcopy'', ''/o/run/tests/pmp.1'', ?inc, ?ld, ?src] @ [''-O2''])" by code_simp
  have env: "map_of (x_environ directed_env) ''RISCV_GCC'' = Some ''gcc''" "map_of (x_environ directed_env) ''RISCV_OBJCOPY'' = Some ''objcopy''"
    "map_of (x_environ directed_env) ''RISCV_TOOLCHAIN'' \<noteq> None" by (simp_all add: directed_env_def)
  obtain data inc ld src where d: "directed_data trr = Some data" "map_of data ''includes'' = Some (PPath inc)"
    "map_of data ''ld_script'' = Some (PPath ld)" "map_of data ''test_srcs'' = Some (PPath src)" "prefix ''/ibex/'' src"
    and cmds: "\<And>x gcc objcopy dir opts. map_of (x_environ x) ''RISCV_GCC'' = Some gcc \<and> map_of (x_environ x) ''RISCV_OBJCOPY'' = Some objcopy
        \<and> map_of (x_environ x) ''RISCV_TOOLCHAIN'' \<noteq> None \<and> dir_test trr = Some dir
        \<and> map_of data ''gcc_opts'' = Some (PStr (py_join '' '' opts)) \<and> opts \<noteq> [] \<and> list_all plain ([gcc, objcopy, dir, inc, ld, src] @ opts)
        \<Longrightarrow> rbind (get_directed_compile_cmds x trr) (\<lambda>(cmds, _). Inr cmds) = Inr
          [[gcc] @ opts @ [''-I'' @ inc, ''-T'' @ ld, ''-o'', dir @ ''/test.o'', src],
           [objcopy, ''-O'', ''binary'', dir @ ''/test.o'', dir @ ''/test.bin'']]"
    using directed_runs_compile [OF strict_check_ok w m(1) _ i(2) _ t(1)] i(1) m(2) by auto
  have same: "data = pmp_entry" "inc = ?inc" "ld = ?ld" "src = ?src" using d t(2) e by simp_all
  have "rbind (get_directed_compile_cmds directed_env trr) (\<lambda>(cmds, _). Inr cmds) = Inr
      [[''gcc''] @ [''-O2''] @ [''-I'' @ ?inc, ''-T'' @ ?ld, ''-o'', ''/o/run/tests/pmp.1'' @ ''/test.o'', ?src],
       [''objcopy'', ''-O'', ''binary'', ''/o/run/tests/pmp.1'' @ ''/test.o'', ''/o/run/tests/pmp.1'' @ ''/test.bin'']]"
    using cmds [of directed_env "''gcc''" "''objcopy''" "''/o/run/tests/pmp.1''" "[''-O2'']", unfolded same] env t(3) e(4) pl by blast
  then show ?thesis using m(1) d(5) [unfolded same]
    by (intro exI [of _ md] exI [of _ "[trr, trr']"] exI [of _ trr] exI [of _ ?src]) simp
qed

end
