(* ===== verification/Merge_Cov.thy ===== *)
theory Merge_Cov
  imports Test_Build
begin

text \<open>
  \<open>dv/uvm/core_ibex/scripts/merge_cov.py\<close>: merging the coverage databases of a regression. The databases found
  below a directory are a parameter, listed in the order in which the program's set is iterated; a script
  sees the outcomes of the tools through \<open>tool_env\<close>, as in \<open>Test_Build\<close>.
\<close>

text \<open>The fields of the metadata that the script sets.\<close>

record cov_fields =
  cov_merge_db_list :: "string option"
  cov_merge_log :: "string option"
  cov_merge_stdout :: "string option"
  cov_merge_cmds :: "string list list option"
  cov_report_log :: "string option"
  cov_report_stdout :: "string option"
  cov_report_cmds :: "string list list option"

definition no_cov_fields :: cov_fields where
  "no_cov_fields = \<lparr>cov_merge_db_list = None, cov_merge_log = None, cov_merge_stdout = None, cov_merge_cmds = None,
     cov_report_log = None, cov_report_stdout = None, cov_report_cmds = None\<rparr>"

text \<open>\<open>find_cov_dbs\<close> returns the number 1 (\<open>Inl\<close>) instead of a set when there is no database.\<close>

definition find_cov_dbs :: "(string \<Rightarrow> string \<Rightarrow> string list) \<Rightarrow> string \<Rightarrow> string \<Rightarrow> int + string list" where
  "find_cov_dbs glob start_dir sim =
     (let dbs = (if sim = ''xlm'' then glob start_dir ''**/*.ucd'' else [])
              @ (if sim = ''vcs'' then glob start_dir ''**/test.vdb'' else [])
      in if dbs = [] then Inl 1 else Inr dbs)"

definition iterate :: "int + string list \<Rightarrow> string list res" where
  "iterate dbs = (case dbs of Inl _ \<Rightarrow> Inl (TypeError ''int object is not iterable'') | Inr ds \<Rightarrow> Inr ds)"

text \<open>The command for VCS is built before the metadata is touched.\<close>

definition merge_cov_vcs :: "tool_env \<Rightarrow> RegressionMetadata \<Rightarrow> cov_fields \<Rightarrow> int + string list \<Rightarrow> cov_fields \<times> int res" where
  "merge_cov_vcs x md cf cov_dirs = (case iterate cov_dirs of
     Inl e \<Rightarrow> (cf, Inl e)
   | Inr ds \<Rightarrow>
       (let cmd = [''urg'', ''-full64'', ''-format'', ''both'', ''-dbname'', md_dir_cov md @ ''/merged.vdb'',
              ''-report'', md_dir_cov md @ ''/report'', ''-log'', md_dir_cov md @ ''/merge.log'', ''-dir''] @ ds;
            cf = cf\<lparr>cov_merge_log := Some (md_dir_cov md @ ''/merge.log''),
                    cov_merge_stdout := Some (md_dir_cov md @ ''/merge.log.stdout''), cov_merge_cmds := Some [cmd]\<rparr>
        in (cf, exec_cmd x (md_verbose md) (Some (RIO (md_dir_cov md @ ''/merge.log.stdout''))) None False cmd)))"

definition imc_cmd :: "string list" where "imc_cmd = [''imc'', ''-64bit'', ''-licqueue'']"

definition xcelium_scripts :: "RegressionMetadata \<Rightarrow> string" where
  "xcelium_scripts md = md_ibex_root md @ ''/vendor/lowrisc_ip/dv/tools/xcelium''"

definition xlm_merge_cmd :: "RegressionMetadata \<Rightarrow> string list" where
  "xlm_merge_cmd md = imc_cmd @ [''-exec'', xcelium_scripts md @ ''/cov_merge.tcl'', ''-logfile'', md_dir_cov md @ ''/merge.log'']"

definition xlm_report_cmd :: "RegressionMetadata \<Rightarrow> string list" where
  "xlm_report_cmd md = imc_cmd @ [''-load'', md_dir_cov_merged md,
     ''-init'', md_ibex_dv_root md @ ''/waivers/coverage_waivers_xlm.tcl'',
     ''-exec'', xcelium_scripts md @ ''/cov_report.tcl'', ''-logfile'', md_dir_cov md @ ''/report.log'']"

definition xlm_fields :: "RegressionMetadata \<Rightarrow> cov_fields \<Rightarrow> cov_fields" where
  "xlm_fields md cf = cf\<lparr>cov_merge_db_list := Some (md_dir_cov md @ ''/cov_db_runfile''),
     cov_merge_log := Some (md_dir_cov md @ ''/merge.log''), cov_merge_stdout := Some (md_dir_cov md @ ''/merge.log.stdout''),
     cov_merge_cmds := Some [xlm_merge_cmd md],
     cov_report_log := Some (md_dir_cov md @ ''/report.log''), cov_report_stdout := Some (md_dir_cov md @ ''/report.log.stdout''),
     cov_report_cmds := Some [xlm_report_cmd md]\<rparr>"

text \<open>The variables added to the environment of both commands, and the text of the list of databases.\<close>

definition xlm_cov_dirs :: "RegressionMetadata \<Rightarrow> (string \<times> string) list" where
  "xlm_cov_dirs md = [(''cov_merge_db_dir'', md_dir_cov_merged md), (''cov_report_dir'', md_dir_cov_report md),
     (''cov_db_dirs'', []), (''cov_db_runfile'', md_dir_cov md @ ''/cov_db_runfile''), (''DUT_TOP'', md_dut_cov_rtl_path md)]"

definition runfile_text :: "string list \<Rightarrow> string" where
  "runfile_text dbs = py_join nl (map path_parent dbs) @ nl"

definition xlm_env :: "tool_env \<Rightarrow> RegressionMetadata \<Rightarrow> tool_env" where
  "xlm_env x md = x\<lparr>x_environ := foldl (\<lambda>env (k, v). AList.update k v env) (x_environ x) (xlm_cov_dirs md)\<rparr>"

text \<open>
  \<open>tools\<close> gives the outcomes of the tools for an environment and the files written before. The metadata is
  updated and stored first.
\<close>

definition merge_cov_xlm :: "(tool_env \<Rightarrow> string \<Rightarrow> tool_env) \<Rightarrow> tool_env \<Rightarrow> RegressionMetadata \<Rightarrow> cov_fields \<Rightarrow> int + string list
    \<Rightarrow> cov_fields \<times> int res" where
  "merge_cov_xlm tools x md cf cov_dbs =
     (xlm_fields md cf,
      rbind (iterate cov_dbs) (\<lambda>ds.
        let x = tools (xlm_env x md) (runfile_text ds) in
        rbind (exec_cmd x (md_verbose md) (Some (RIO (md_dir_cov md @ ''/merge.log.stdout''))) None False (xlm_merge_cmd md)) (\<lambda>merge_ret.
          if merge_ret \<noteq> 0 then Inr merge_ret
          else exec_cmd x (md_verbose md) (Some (RIO (md_dir_cov md @ ''/report.log.stdout''))) None False (xlm_report_cmd md))))"

text \<open>The message for another simulator reads an argument the parser does not have.\<close>

definition merge_cov_main :: "(tool_env \<Rightarrow> string \<Rightarrow> tool_env) \<Rightarrow> tool_env \<Rightarrow> (string \<Rightarrow> string \<Rightarrow> string list) \<Rightarrow> RegressionMetadata
    \<Rightarrow> cov_fields \<Rightarrow> cov_fields \<times> int res" where
  "merge_cov_main tools x glob md cf =
     (if md_simulator md \<notin> set [''xlm'', ''vcs''] then (cf, Inl (AttributeError ''Namespace object has no attribute simulator''))
      else
        let cov_dbs = find_cov_dbs glob (md_dir_run md) (md_simulator md) in
        if md_simulator md = ''vcs'' then merge_cov_vcs x md cf cov_dbs else merge_cov_xlm tools x md cf cov_dbs)"

section \<open>What a merge returns\<close>

lemma exec_cmd_zero:
  "exec_cmd x verb (Some (RIO f)) tmo False cmd = Inr 0 \<longleftrightarrow> x_run x cmd tmo = Completed 0"
  by (simp add: exec_cmd_RIO split: run_outcome.splits)

lemma then_zero: "rbind r (\<lambda>c. if c \<noteq> 0 then Inr c else k) = Inr (0 :: int) \<longleftrightarrow> r = Inr 0 \<and> k = Inr 0"
  by (cases r) auto


definition demo_tools :: tool_env where
  "demo_tools = \<lparr>x_run = (\<lambda>_ _. Completed 0), x_can_open = (\<lambda>_. True), x_resolve = (\<lambda>p. p), x_environ = [], x_cwd = ''/''\<rparr>"


end
