(* ===== verification/Reports.thy ===== *)
theory Reports
  imports Metadata Py_Floats
begin

text \<open>
  Collecting the results of a regression, in \<open>dv/uvm/core_ibex/scripts\<close>: \<open>collect_results.py\<close> and the writers of
  \<open>report_lib\<close> (\<open>util.py\<close>, \<open>text.py\<close>, \<open>junit_xml.py\<close>, \<open>html.py\<close>, \<open>dvsim_json.py\<close>, \<open>svg.py\<close>). Percentages are rational
  numbers (the program has floats). Elements of the libraries \<open>svg\<close> and \<open>junit_xml\<close> are recorded as data with the
  arguments they are made from; turning them into text, and the HTML template, are parameters.
\<close>

section \<open>report\_lib/util.py\<close>

definition CSS_RG_GRADIENT_YELLOW_POINT :: rat where "CSS_RG_GRADIENT_YELLOW_POINT = 7 / 10"

definition red_green :: "rat \<Rightarrow> int \<times> int" where
  "red_green v =
     (let (red, green) =
        (if v < CSS_RG_GRADIENT_YELLOW_POINT then (1, v / CSS_RG_GRADIENT_YELLOW_POINT)
         else ((1 - v) / (1 - CSS_RG_GRADIENT_YELLOW_POINT), 1))
      in (trunc (red * 255), trunc (green * 255)))"

definition css_red_green_gradient :: "rat \<Rightarrow> string" where
  "css_red_green_gradient v = (case red_green v of (red, green) \<Rightarrow> ''rgb('' @ int_str red @ '','' @ int_str green @ '',0)'')"

definition rel_to :: "string option \<Rightarrow> string option \<Rightarrow> pyval res" where
  "rel_to dir v = (case v of
     None \<Rightarrow> Inr (PStr ''MISSING'')
   | Some p \<Rightarrow>
       (case dir of
          None \<Rightarrow> Inl (TypeError ''expected str, bytes or os.PathLike object, not NoneType'')
        | Some d \<Rightarrow>
            if p = d then Inr (PStr ''.'')
            else if prefix (d @ ''/'') p then Inr (PStr (drop (length d + 1) p))
            else Inl (ValueError (p @ '' is not in the subpath of '' @ d))))"

definition run_label :: "TestRunResult \<Rightarrow> string" where
  "run_label trr = str_opt (testname trr) @ ''.'' @ int_opt_str (seed trr)"

definition strip_nl :: "string \<Rightarrow> string" where
  "strip_nl s = rev (dropWhile (\<lambda>c. c = newline) (rev (dropWhile (\<lambda>c. c = newline) s)))"

definition passed_ok :: "TestRunResult \<Rightarrow> bool" where
  "passed_ok trr = (passed trr = Some True)"

definition gen_test_run_result_text :: "resolver \<Rightarrow> TestRunResult \<Rightarrow> string res" where
  "gen_test_run_result_text resolve trr =
     rbind (rmap (\<lambda>(k, v). rbind (rel_to (dir_test trr) v) (\<lambda>r. Inr (k, r)))
       [(''binary'', binary trr), (''rtl_log'', rtl_log trr), (''rtl_trace'', rtl_trace trr),
        (''iss_cosim_trace'', iss_cosim_trace trr)]) (\<lambda>lesskeys.
       let yaml = pprint_dict (format_dict_to_printable_dict resolve lesskeys);
           info_lines = [run_label trr, replicate (length (run_label trr)) (CHR ''-'')] @ map strip_nl (file_lines yaml)
             @ [if passed_ok trr then nl @ ''[PASSED]'' else str_opt (failure_message trr)]
       in Inr (nl @ py_join nl info_lines @ nl))"

text \<open>Runs per test name: how many passed and how many failed.\<close>

type_synonym test_summary = "(string option \<times> nat \<times> nat) list"

definition count_run :: "test_summary \<Rightarrow> TestRunResult \<Rightarrow> test_summary" where
  "count_run d trr =
     (let (p, f) = (case map_of d (testname trr) of None \<Rightarrow> (0, 0) | Some pf \<Rightarrow> pf)
      in AList.update (testname trr) (if passed_ok trr then (p + 1, f) else (p, f + 1)) d)"

definition create_test_summary_dict :: "TestRunResult list \<Rightarrow> test_summary" where
  "create_test_summary_dict tests = foldl count_run [] tests"

section \<open>report\_lib/util.py: coverage\<close>

datatype cov_metric = Covered int int | Average rat

type_synonym cov_dict = "(string \<times> (string \<times> cov_metric) list) list"

text \<open>\<open>(\w+)\*?\s+((?:average)|(?:covered))\<close>, \<open>\((\d+)/(\d+).*\)\<close>, \<open>(\d+(?:.\d+)?)%\<close> and \<open>%\s+\(\<close>.\<close>

definition XLM_TABLE_HEADER_RE :: rx where
  "XLM_TABLE_HEADER_RE = rseq [RGroup 1 (rplus (RSet is_word)), ropt (rlit (CHR ''*'')), rplus (RSet is_space),
     RGroup 2 (RAlt (rstr ''average'') (rstr ''covered''))]"

definition XLM_TABLE_COVERAGE_RE :: rx where
  "XLM_TABLE_COVERAGE_RE = rseq [rlit (CHR ''(''), RGroup 1 (rplus (RSet is_digit)), rlit (CHR ''/''),
     RGroup 2 (rplus (RSet is_digit)), RStar rany, rlit (CHR '')'')]"

definition XLM_TABLE_AVERAGE_RE :: rx where
  "XLM_TABLE_AVERAGE_RE = rseq [RGroup 1 (rseq [rplus (RSet is_digit), ropt (rseq [rany, rplus (RSet is_digit)])]), rlit (CHR ''%'')]"

definition pct_space_rx :: rx where
  "pct_space_rx = rseq [rlit (CHR ''%''), rplus (RSet is_space), rlit (CHR ''('')]"

text \<open>\<open>re.sub(r'%\s+\(', '%(', line)\<close>: the parts between the matches, joined by the replacement.\<close>

definition close_gaps :: "string \<Rightarrow> string" where
  "close_gaps line = py_join ''%('' (map (case_option [] (\<lambda>x. x)) (re_split 0 pct_space_rx line))"

definition splitlines :: "string \<Rightarrow> string list" where
  "splitlines s = map (\<lambda>l. if l \<noteq> [] \<and> last l = newline then butlast l else l) (file_lines s)"

text \<open>The first loop: the metrics of the header lines, and the line after the last header and its separator.\<close>

definition header_step :: "(string \<times> string) list \<times> nat option \<Rightarrow> nat \<times> string \<Rightarrow> (string \<times> string) list \<times> nat option" where
  "header_step acc nl1 = (case acc of (info, start_line) \<Rightarrow> (case nl1 of (line_no, line) \<Rightarrow>
     if contains line ''name'' then
       (info @ map (\<lambda>(_, m). (group_str m 1, group_str m 2))
          (re_finditer XLM_TABLE_HEADER_RE (py_join '' '' (tl (py_words (py_lower line))))), Some (line_no + 2))
     else acc))"

text \<open>One value of a row: the metric of its column, when the value has the form of the column.\<close>

definition cov_value :: "(string \<times> string) list \<Rightarrow> (string \<times> cov_metric) list \<Rightarrow> nat \<times> string \<Rightarrow> (string \<times> cov_metric) list res" where
  "cov_value info d iv = (case iv of (i, v) \<Rightarrow>
     if i < length info then
       (case info ! i of (nm, ty) \<Rightarrow>
         (let metric = nm @ ''-'' @ ty in
          if ty = ''covered'' then
            (case re_search XLM_TABLE_COVERAGE_RE v of
               None \<Rightarrow> Inr d
             | Some m \<Rightarrow> rbind (py_int 10 (group_str m 1)) (\<lambda>c. rbind (py_int 10 (group_str m 2)) (\<lambda>t.
                 Inr (AList.update metric (Covered c t) d))))
          else
            (case re_search XLM_TABLE_AVERAGE_RE v of
               None \<Rightarrow> Inr d
             | Some m \<Rightarrow> rbind (read_decimal (group_str m 1)) (\<lambda>a. Inr (AList.update metric (Average a) d)))))
     else Inl (IndexError ''list index out of range''))"

definition cov_row :: "(string \<times> string) list \<Rightarrow> cov_dict \<Rightarrow> string \<Rightarrow> cov_dict res" where
  "cov_row info d line = (case py_words (strip (close_gaps line)) of
     [] \<Rightarrow> Inr d
   | mname # vals \<Rightarrow>
       rbind (rfold (cov_value info) [] (zip [0..<length vals] vals)) (\<lambda>ms. Inr (AList.update mname ms d)))"

definition parse_xcelium_cov_report :: "string \<Rightarrow> cov_dict res" where
  "parse_xcelium_cov_report cov_report =
     (let ls = splitlines cov_report in
      case foldl header_step ([], None) (zip [0..<length ls] ls) of
        (_, None) \<Rightarrow> Inl (RuntimeError ''Could not read xcelium coverage report'')
      | (info, Some k) \<Rightarrow> rfold (cov_row info) [] (drop k ls))"

definition IBEX_COVERAGE_METRICS :: "string list" where
  "IBEX_COVERAGE_METRICS = [''block'', ''branch'', ''statement'', ''expression'', ''toggle'', ''fsm'', ''assertion'']"

definition COVERGROUP_IGNORE :: "string list" where "COVERGROUP_IGNORE = [''push_pull_agent_pkg'']"

type_synonym cov_summary = "(string \<times> rat option) list"

definition add_cov_to_summary :: "(string \<times> cov_metric) list \<Rightarrow> cov_summary \<Rightarrow> string \<Rightarrow> cov_summary res" where
  "add_cov_to_summary metric_data d metric_name = (case map_of metric_data (metric_name @ ''-covered'') of
     None \<Rightarrow> Inr d
   | Some (Covered c t) \<Rightarrow>
       if t = 0 then Inl (ZeroDivisionError ''division by zero'')
       else Inr (AList.update metric_name (Some (of_int c / of_int t)) d)
   | Some (Average _) \<Rightarrow> Inl (KeyError ''covered''))"

definition cg_averages :: "cov_dict \<Rightarrow> rat list" where
  "cg_averages cg = concat (map (\<lambda>(mname, ms). if mname \<in> set COVERGROUP_IGNORE then []
     else (case map_of ms ''covergroup-average'' of Some (Average a) \<Rightarrow> [a] | _ \<Rightarrow> [])) cg)"

definition calc_cg_average :: "cov_dict \<Rightarrow> rat option" where
  "calc_cg_average cg = (let as = cg_averages cg in
     if as = [] then None else Some (sum_list as / 100 / of_nat (length as)))"

text \<open>\<open>read_file\<close> reads the two reports next to the log of the metadata.\<close>

definition create_cov_summary_dict :: "(string \<Rightarrow> string res) \<Rightarrow> string option \<Rightarrow> cov_summary option res" where
  "create_cov_summary_dict read_file cov_report_log = (case cov_report_log of
     None \<Rightarrow> Inr None
   | Some cov_log \<Rightarrow>
       (let dir = path_join (path_parent cov_log) ''report'' in
        rbind (rbind (read_file (path_join dir ''cov_report.txt'')) parse_xcelium_cov_report) (\<lambda>cov.
        rbind (rbind (read_file (path_join dir ''cov_report_cg.txt'')) parse_xcelium_cov_report) (\<lambda>cg.
        rbind (case map_of cov ''ibex_top'' of
                 None \<Rightarrow> Inr []
               | Some ms \<Rightarrow> rfold (add_cov_to_summary ms) [] IBEX_COVERAGE_METRICS) (\<lambda>summary.
          Inr (Some (AList.update ''covergroup'' (calc_cg_average cg) summary)))))))"

section \<open>report\_lib/text.py\<close>

definition box_comment :: "string \<Rightarrow> string" where
  "box_comment line = (let hr = replicate 80 (CHR ''#'') in hr @ nl @ ''# '' @ line @ nl @ hr)"

definition gen_summary_line :: "nat \<Rightarrow> nat \<Rightarrow> string res" where
  "gen_summary_line passing failing =
     (if passing + failing = 0 then Inl (ZeroDivisionError ''division by zero'')
      else Inr (fixed 2 (of_nat passing / of_nat (passing + failing) * 100) @ ''% PASS '' @ nat_str passing @ '' PASSED, ''
        @ nat_str failing @ '' FAILED''))"

definition run_details :: "resolver \<Rightarrow> string \<Rightarrow> string \<Rightarrow> TestRunResult list \<Rightarrow> string res" where
  "run_details resolve heading none tests =
     rbind (rmap (gen_test_run_result_text resolve) tests) (\<lambda>texts.
       Inr (nl @ box_comment heading @ nl @ (if tests = [] then none @ nl else []) @ concat (map (\<lambda>t. t @ nl) texts)))"

definition output_results_text :: "resolver \<Rightarrow> TestRunResult list \<Rightarrow> TestRunResult list \<Rightarrow> pydict \<Rightarrow> string res" where
  "output_results_text resolve passing failing summary_dict =
     rbind (gen_summary_line (length passing) (length failing)) (\<lambda>line.
     rbind (run_details resolve ''Details of failing tests'' ''No failing tests. Nice job!'' failing) (\<lambda>fails.
     rbind (run_details resolve ''Details of passing tests'' ''No passing tests. Hmmmm...'' passing) (\<lambda>passes.
       Inr (line @ nl @ pprint_dict summary_dict @ nl @ fails @ passes))))"

section \<open>report\_lib/junit\_xml.py\<close>

record test_case =
  tc_name :: string
  tc_stdout :: string
  tc_failures :: "string list"

record suite_info =
  su_cases :: "test_case list"
  su_stdout :: string
  su_failures :: string

definition new_suite :: suite_info where "new_suite = \<lparr>su_cases = [], su_stdout = [], su_failures = []\<rparr>"

definition junit_run :: "resolver \<Rightarrow> (string option \<times> suite_info) list \<Rightarrow> TestRunResult \<Rightarrow> (string option \<times> suite_info) list res" where
  "junit_run resolve info trr =
     rbind (gen_test_run_result_text resolve trr) (\<lambda>result_text.
       let s = (case map_of info (testname trr) of None \<Rightarrow> new_suite | Some s \<Rightarrow> s);
           tc = \<lparr>tc_name = run_label trr, tc_stdout = result_text, tc_failures = if passed_ok trr then [] else [result_text]\<rparr>
       in Inr (AList.update (testname trr) \<lparr>su_cases = su_cases s @ [tc], su_stdout = su_stdout s @ result_text @ nl,
            su_failures = su_failures s @ (if passed_ok trr then [] else result_text)\<rparr> info))"

text \<open>The suites of the normal and of the merged report; a failure is added to every merged case.\<close>

definition junit_suites :: "resolver \<Rightarrow> TestRunResult list \<Rightarrow> TestRunResult list
    \<Rightarrow> ((string option \<times> test_case list) list \<times> (string option \<times> test_case list) list) res" where
  "junit_suites resolve passing failing =
     rbind (rfold (junit_run resolve) [] (passing @ failing)) (\<lambda>info.
       Inr (map (\<lambda>(n, s). (n, su_cases s)) info,
            map (\<lambda>(n, s). (n, [\<lparr>tc_name = str_opt n, tc_stdout = su_stdout s, tc_failures = [su_failures s]\<rparr>])) info))"

section \<open>report\_lib/html.py and report\_lib/dvsim\_json.py\<close>

record html_data =
  h_summaries :: "(string option \<times> nat \<times> nat \<times> rat) list"
  h_passing :: nat
  h_total :: nat
  h_rate :: rat

definition pct_str :: "rat \<Rightarrow> string" where "pct_str v = fixed 1 (v * 100) @ ''%''"

definition pct_style :: "rat \<Rightarrow> string" where "pct_style v = ''background-color: '' @ css_red_green_gradient v @ '';''"

definition summary_rate :: "nat \<times> nat \<Rightarrow> rat res" where
  "summary_rate pf = (if fst pf + snd pf = 0 then Inl (ZeroDivisionError ''division by zero'')
     else Inr (of_nat (fst pf) / of_nat (fst pf + snd pf)))"

definition summary_total :: "test_summary \<Rightarrow> nat \<times> nat" where
  "summary_total d = (sum_list (map (fst \<circ> snd) d), sum_list (map (snd \<circ> snd) d))"

definition html_summary :: "test_summary \<Rightarrow> html_data res" where
  "html_summary d =
     rbind (rmap (\<lambda>(n, pf). rbind (summary_rate pf) (\<lambda>r. Inr (n, fst pf, fst pf + snd pf, r))) d) (\<lambda>rows.
     rbind (summary_rate (summary_total d)) (\<lambda>r.
       Inr \<lparr>h_summaries = rows, h_passing = fst (summary_total d),
            h_total = fst (summary_total d) + snd (summary_total d), h_rate = r\<rparr>))"

record dvsim_report =
  d_tool :: string
  d_coverage :: "(string \<times> rat) list"
  d_tests :: "(string option \<times> nat \<times> nat \<times> rat) list"

definition create_dvsim_report_dict :: "string \<Rightarrow> test_summary \<Rightarrow> cov_summary option \<Rightarrow> dvsim_report res" where
  "create_dvsim_report_dict tool d cov =
     rbind (rmap (\<lambda>(n, pf). rbind (summary_rate pf) (\<lambda>r.
              Inr (n, fst pf, fst pf + snd pf, of_int (round_even (r * 100 * 100)) / 100))) d) (\<lambda>tests.
     rbind (case cov of
              None \<Rightarrow> Inr []
            | Some c \<Rightarrow> rmap (\<lambda>(k, v). case v of Some q \<Rightarrow> Inr (k, q * 100) | None \<Rightarrow> Inl (TypeError ''NoneType * int'')) c) (\<lambda>cs.
       Inr \<lparr>d_tool = (if tool = ''xlm'' then ''xcelium'' else tool), d_coverage = cs, d_tests = tests\<rparr>))"

section \<open>report\_lib/svg.py\<close>

record DashboardElement =
  de_name :: string
  de_value :: string
  de_name_width :: int
  de_value_width :: int
  de_value_colour :: string

definition new_element :: "string \<Rightarrow> string \<Rightarrow> int \<Rightarrow> string \<Rightarrow> DashboardElement" where
  "new_element nm v w colour = \<lparr>de_name = nm, de_value = v, de_name_width = w, de_value_width = 60, de_value_colour = colour\<rparr>"

definition de_total_width :: "DashboardElement \<Rightarrow> int" where
  "de_total_width e = de_name_width e + de_value_width e"

text \<open>The library's elements, with the arguments the program gives them (the constant style sheet is left out).\<close>

datatype svg_el =
    G int "svg_el list"
  | Rect int int string
  | Text rat rat "string list" string

definition SVG_DASHBOARD_HEIGHT :: int where "SVG_DASHBOARD_HEIGHT = 20"

definition SVG_DASHBOARD_GAP :: int where "SVG_DASHBOARD_GAP = 5"

definition label_elements :: "DashboardElement \<Rightarrow> svg_el list" where
  "label_elements e = [Rect (de_name_width e) SVG_DASHBOARD_HEIGHT ''#666'',
     Text (of_int (de_name_width e) / 2) (of_int SVG_DASHBOARD_HEIGHT / 2) [''text'', ''name''] (de_name e)]"

definition value_elements :: "DashboardElement \<Rightarrow> svg_el list" where
  "value_elements e = [Rect (de_value_width e) SVG_DASHBOARD_HEIGHT (de_value_colour e),
     Text (of_int (de_value_width e) / 2) (of_int SVG_DASHBOARD_HEIGHT / 2) [''text'', ''value''] (de_value e)]"

definition element_svg :: "DashboardElement \<Rightarrow> svg_el list" where
  "element_svg e = [G 0 (label_elements e), G (de_name_width e) (value_elements e)]"

text \<open>The dashboard: each element is moved to the right of the one before it.\<close>

fun dashboard_svg :: "int \<Rightarrow> int \<Rightarrow> DashboardElement list \<Rightarrow> svg_el list" where
  "dashboard_svg gap cur_x [] = []"
| "dashboard_svg gap cur_x (e # es) = G cur_x (element_svg e) # dashboard_svg gap (cur_x + de_total_width e + gap) es"

definition dashboard_width :: "int \<Rightarrow> DashboardElement list \<Rightarrow> int" where
  "dashboard_width gap es = foldl (\<lambda>acc e. acc + de_total_width e + gap) 0 es - gap"

definition cov_item :: "cov_summary \<Rightarrow> string \<Rightarrow> rat res" where
  "cov_item c k = (case map_of c k of
     None \<Rightarrow> Inl (KeyError k) | Some None \<Rightarrow> Inl (TypeError ''NoneType'') | Some (Some q) \<Rightarrow> Inr q)"

definition dashboard_elements :: "test_summary \<Rightarrow> cov_summary \<Rightarrow> DashboardElement list res" where
  "dashboard_elements d cov =
     rbind (summary_rate (summary_total d)) (\<lambda>pct.
       let tests = [new_element ''Total Tests'' (nat_str (fst (summary_total d) + snd (summary_total d))) 120 ''#6cf'',
                    new_element ''Tests Passing'' (pct_str pct) 120 (css_red_green_gradient pct)]
       in if cov = [] then Inr tests
          else
            rbind (rmap (cov_item cov) [''block'', ''branch'', ''statement'', ''expression'', ''fsm'']) (\<lambda>code.
            rbind (cov_item cov ''covergroup'') (\<lambda>cg.
              let cc = sum_list code / 5 in
              Inr (tests @ [new_element ''Functional Coverage'' (pct_str cg) 150 (css_red_green_gradient cg),
                            new_element ''Code Coverage'' (pct_str cc) 120 (css_red_green_gradient cc)]))))"

definition output_results_svg :: "test_summary \<Rightarrow> cov_summary \<Rightarrow> (int \<times> int \<times> svg_el list) res" where
  "output_results_svg d cov =
     rbind (dashboard_elements d cov) (\<lambda>es.
       Inr (dashboard_width SVG_DASHBOARD_GAP es, SVG_DASHBOARD_HEIGHT, dashboard_svg SVG_DASHBOARD_GAP 0 es))"

section \<open>collect\_results.py\<close>

definition verdict_text :: "TestRunResult \<Rightarrow> string" where
  "verdict_text trr = (if passed_ok trr then ''PASS'' else ''FAILED'' @ (if failure_mode trr = Some TIMEOUT then '' {T}'' else []))"

record collected =
  c_summary :: pydict
  c_passing :: "TestRunResult list"
  c_failing :: "TestRunResult list"

text \<open>
  One stored object: the handler for an object that cannot be read makes a \<open>TestRunResult\<close> with a field it does not
  have, which is a \<open>TypeError\<close>.
\<close>

definition collect_one :: "(string \<Rightarrow> TestRunResult res) \<Rightarrow> collected \<Rightarrow> string \<Rightarrow> collected res" where
  "collect_one load c f = (case load f of
     Inl (RuntimeError m) \<Rightarrow> Inl (TypeError (''__init__() got an unexpected keyword argument '' @ repr_str ''name''))
   | Inl e \<Rightarrow> Inl e
   | Inr trr \<Rightarrow>
       (let c = c\<lparr>c_summary := AList.update (run_label trr) (PStr (verdict_text trr)) (c_summary c)\<rparr> in
        Inr (if passed_ok trr then c\<lparr>c_passing := c_passing c @ [trr]\<rparr> else c\<lparr>c_failing := c_failing c @ [trr]\<rparr>)))"

definition collect :: "(string \<Rightarrow> TestRunResult res) \<Rightarrow> string list \<Rightarrow> collected res" where
  "collect load files = rfold (collect_one load) \<lparr>c_summary = [], c_passing = [], c_failing = []\<rparr> files"

text \<open>What is written, in order; \<open>svg_present\<close>: the module could be imported.\<close>

record reports =
  rp_junit :: "(string option \<times> test_case list) list"
  rp_junit_merged :: "(string option \<times> test_case list) list"
  rp_text :: string
  rp_html :: html_data
  rp_dvsim :: dvsim_report
  rp_svg :: "(int \<times> int \<times> svg_el list) option"
  rp_line :: string

definition collect_results :: "resolver \<Rightarrow> (string \<Rightarrow> TestRunResult res) \<Rightarrow> (string \<Rightarrow> string res) \<Rightarrow> string option \<Rightarrow> bool
    \<Rightarrow> RegressionMetadata \<Rightarrow> (int \<times> reports) res" where
  "collect_results resolve load read_file cov_report_log svg_present md =
     rbind (collect load (md_tests_pickle_files md)) (\<lambda>c.
     rbind (junit_suites resolve (c_passing c) (c_failing c)) (\<lambda>(junit, merged).
     rbind (output_results_text resolve (c_passing c) (c_failing c) (c_summary c)) (\<lambda>txt1.
       let d = create_test_summary_dict (c_passing c @ c_failing c) in
       rbind (if md_simulator md = ''xlm'' then create_cov_summary_dict read_file cov_report_log else Inr (Some [])) (\<lambda>cov.
       rbind (html_summary d) (\<lambda>html.
       rbind (create_dvsim_report_dict (md_simulator md) d cov) (\<lambda>dv.
       rbind (if svg_present
              then rbind (output_results_svg d (case cov of None \<Rightarrow> [] | Some c \<Rightarrow> c)) (\<lambda>s. Inr (Some s))
              else Inr None) (\<lambda>sv.
       rbind (gen_summary_line (length (c_passing c)) (length (c_failing c))) (\<lambda>line.
         Inr (if c_failing c \<noteq> [] then 1 else 0,
              \<lparr>rp_junit = junit, rp_junit_merged = merged, rp_text = txt1, rp_html = html, rp_dvsim = dv, rp_svg = sv,
               rp_line = line\<rparr>)))))))))"

section \<open>Counting runs\<close>

lemma sum_update:
  fixes g :: "'v \<Rightarrow> nat"
  shows "sum_list (map (g \<circ> snd) (AList.update k v d)) + (case map_of d k of None \<Rightarrow> 0 | Some u \<Rightarrow> g u)
    = sum_list (map (g \<circ> snd) d) + g v"
  by (induction d) auto

definition runs_of :: "(TestRunResult \<Rightarrow> bool) \<Rightarrow> string option \<Rightarrow> TestRunResult list \<Rightarrow> nat" where
  "runs_of P n tests = length (filter (\<lambda>t. testname t = n \<and> P t) tests)"

lemma runs_of_snoc: "runs_of P n (ts @ [t]) = runs_of P n ts + (if testname t = n \<and> P t then 1 else 0)"
  by (simp add: runs_of_def)

lemma summary_lookup:
  "map_of (create_test_summary_dict tests) n =
     (if n \<in> testname ` set tests then Some (runs_of passed_ok n tests, runs_of (\<lambda>t. \<not> passed_ok t) n tests) else None)"
proof (induction tests rule: rev_induct)
  case Nil
  show ?case by (simp add: create_test_summary_dict_def)
next
  case (snoc t ts)
  have s: "create_test_summary_dict (ts @ [t]) = count_run (create_test_summary_dict ts) t"
    by (simp add: create_test_summary_dict_def)
  have "runs_of P n ts = 0" if "n \<notin> testname ` set ts" for P n using that by (auto simp: runs_of_def filter_empty_conv)
  then show ?case
    using snoc by (cases "testname t = n") (auto simp: s count_run_def update_conv' runs_of_snoc split: prod.split)
qed

lemma summary_lookup_self:
  "map_of d (testname t) = Some (p, f) \<Longrightarrow> count_run d t = AList.update (testname t) (if passed_ok t then (p + 1, f) else (p, f + 1)) d"
  "map_of d (testname t) = None \<Longrightarrow> count_run d t = AList.update (testname t) (if passed_ok t then (1, 0) else (0, 1)) d"
  by (simp_all add: count_run_def)

lemma count_run_total:
  "summary_total (count_run d t) =
     (fst (summary_total d) + (if passed_ok t then 1 else 0), snd (summary_total d) + (if passed_ok t then 0 else 1))"
proof (cases "map_of d (testname t)")
  case None
  then show ?thesis
    using sum_update [of fst "testname t" "if passed_ok t then (1, 0) else (0, 1)" d]
      sum_update [of snd "testname t" "if passed_ok t then (1, 0) else (0, 1)" d]
    by (simp add: summary_total_def summary_lookup_self(2))
next
  case (Some pf)
  obtain p f where pf: "pf = (p, f)" by fastforce
  let ?v = "if passed_ok t then (p + 1, f) else (p, f + 1)"
  have "count_run d t = AList.update (testname t) ?v d" using Some by (simp only: pf summary_lookup_self(1))
  with Some pf sum_update [of fst "testname t" ?v d] sum_update [of snd "testname t" ?v d] show ?thesis
    by (cases "passed_ok t") (simp_all add: summary_total_def)
qed

lemma summary_total_tests:
  "summary_total (create_test_summary_dict tests) = (length (filter passed_ok tests), length (filter (\<lambda>t. \<not> passed_ok t) tests))"
proof (induction tests rule: rev_induct)
  case Nil
  show ?case by (simp add: create_test_summary_dict_def summary_total_def)
next
  case (snoc t ts)
  have s: "create_test_summary_dict (ts @ [t]) = count_run (create_test_summary_dict ts) t"
    by (simp add: create_test_summary_dict_def)
  show ?case by (simp add: s count_run_total snoc)
qed

lemma summary_distinct: "distinct (map fst (create_test_summary_dict tests))"
proof (induction tests rule: rev_induct)
  case Nil
  show ?case by (simp add: create_test_summary_dict_def)
next
  case (snoc t ts)
  have s: "create_test_summary_dict (ts @ [t]) = count_run (create_test_summary_dict ts) t"
    by (simp add: create_test_summary_dict_def)
  show ?case
    using snoc by (cases "map_of (create_test_summary_dict ts) (testname t)")
      (auto simp: s summary_lookup_self intro: distinct_update)
qed

section \<open>The verdict of a regression\<close>

lemma collect_one_Inr:
  "collect_one load c f = Inr c' \<longleftrightarrow> (\<exists>t. load f = Inr t
     \<and> c' = (let c = c\<lparr>c_summary := AList.update (run_label t) (PStr (verdict_text t)) (c_summary c)\<rparr> in
         if passed_ok t then c\<lparr>c_passing := c_passing c @ [t]\<rparr> else c\<lparr>c_failing := c_failing c @ [t]\<rparr>))"
  by (auto simp: collect_one_def Let_def split: sum.splits py_exc.splits)

lemma collect_runs:
  "rfold (collect_one load) c files = Inr c' \<Longrightarrow>
   \<exists>runs. list_all2 (\<lambda>f t. load f = Inr t) files runs \<and> c_passing c' = c_passing c @ filter passed_ok runs
     \<and> c_failing c' = c_failing c @ filter (\<lambda>t. \<not> passed_ok t) runs"
proof (induction files arbitrary: c)
  case (Cons f files)
  then obtain c1 t where t: "load f = Inr t" "rfold (collect_one load) c1 files = Inr c'"
    "c_passing c1 = c_passing c @ filter passed_ok [t]" "c_failing c1 = c_failing c @ filter (\<lambda>t. \<not> passed_ok t) [t]"
    by (auto simp: rbind_Inr_iff collect_one_Inr Let_def)
  from Cons.IH [OF t(2)] obtain runs where "list_all2 (\<lambda>f t. load f = Inr t) files runs"
    "c_passing c' = c_passing c1 @ filter passed_ok runs" "c_failing c' = c_failing c1 @ filter (\<lambda>t. \<not> passed_ok t) runs"
    by blast
  with t show ?case by (intro exI [of _ "t # runs"]) simp
qed simp

text \<open>Number of test cases of a kind in the suites.\<close>

definition cases_in :: "(test_case \<Rightarrow> bool) \<Rightarrow> (string option \<times> test_case list) list \<Rightarrow> nat" where
  "cases_in P suites = sum_list (map (\<lambda>s. length (filter P (snd s))) suites)"

lemma junit_run_cases:
  assumes "junit_run resolve info t = Inr info'"
  shows "cases_in (\<lambda>c. Q (tc_failures c \<noteq> [])) (map (\<lambda>(n, s). (n, su_cases s)) info') =
     cases_in (\<lambda>c. Q (tc_failures c \<noteq> [])) (map (\<lambda>(n, s). (n, su_cases s)) info) + (if Q (\<not> passed_ok t) then 1 else 0)"
proof -
  let ?g = "\<lambda>s. length (filter (\<lambda>c. Q (tc_failures c \<noteq> [])) (su_cases s))"
  have c: "cases_in (\<lambda>c. Q (tc_failures c \<noteq> [])) (map (\<lambda>(n, s). (n, su_cases s)) i) = sum_list (map (?g \<circ> snd) i)" for i
    by (simp add: cases_in_def comp_def split_beta)
  from assms obtain x s' where "info' = AList.update (testname t) s' info"
    "su_cases s' = su_cases (case map_of info (testname t) of None \<Rightarrow> new_suite | Some s \<Rightarrow> s) @ [x]"
    "(tc_failures x \<noteq> []) = (\<not> passed_ok t)"
    by (auto simp: junit_run_def rbind_Inr_iff Let_def)
  with sum_update [of ?g "testname t" s' info] show ?thesis
    by (cases "map_of info (testname t)") (simp_all add: c new_suite_def)
qed

lemma junit_runs_cases:
  "rfold (junit_run resolve) info ts = Inr info' \<Longrightarrow>
   cases_in (\<lambda>c. Q (tc_failures c \<noteq> [])) (map (\<lambda>(n, s). (n, su_cases s)) info') =
     cases_in (\<lambda>c. Q (tc_failures c \<noteq> [])) (map (\<lambda>(n, s). (n, su_cases s)) info) + length (filter (\<lambda>t. Q (\<not> passed_ok t)) ts)"
proof (induction ts arbitrary: info)
  case (Cons t ts)
  then obtain i where i: "junit_run resolve info t = Inr i" "rfold (junit_run resolve) i ts = Inr info'"
    by (auto simp: rbind_Inr_iff)
  from Cons.IH [OF i(2)] junit_run_cases [OF i(1), of Q] show ?case by simp
qed simp

lemma junit_suites_cases:
  assumes "junit_suites resolve passing failing = Inr (suites, merged)"
  shows "cases_in (\<lambda>c. Q (tc_failures c \<noteq> [])) suites = length (filter (\<lambda>t. Q (\<not> passed_ok t)) (passing @ failing))"
proof -
  from assms obtain info where "rfold (junit_run resolve) [] (passing @ failing) = Inr info"
    "suites = map (\<lambda>(n, s). (n, su_cases s)) info"
    by (auto simp: junit_suites_def rbind_Inr_iff)
  with junit_runs_cases [of resolve "[]" "passing @ failing" info Q] show ?thesis by (simp add: cases_in_def)
qed

lemma filter_partition_length: "length (filter P xs) + length (filter (\<lambda>x. \<not> P x) xs) = length xs"
  by (rule sum_length_filter_compl)

lemma collect_results_parts:
  assumes "collect_results resolve load read_file crl svg md = Inr (ret, rep)"
  shows "\<exists>runs. list_all2 (\<lambda>f t. load f = Inr t) (md_tests_pickle_files md) runs \<and> runs \<noteq> []
    \<and> ret = (if \<forall>t \<in> set runs. passed_ok t then 0 else 1)
    \<and> h_passing (rp_html rep) = length (filter passed_ok runs) \<and> h_total (rp_html rep) = length runs
    \<and> cases_in (\<lambda>c. tc_failures c = []) (rp_junit rep) = length (filter passed_ok runs)
    \<and> cases_in (\<lambda>c. tc_failures c \<noteq> []) (rp_junit rep) = length (filter (\<lambda>t. \<not> passed_ok t) runs)
    \<and> gen_summary_line (length (filter passed_ok runs)) (length (filter (\<lambda>t. \<not> passed_ok t) runs)) = Inr (rp_line rep)"
proof -
  from assms obtain c junit merged html line where c: "collect load (md_tests_pickle_files md) = Inr c"
    and j: "junit_suites resolve (c_passing c) (c_failing c) = Inr (junit, merged)"
    and h: "html_summary (create_test_summary_dict (c_passing c @ c_failing c)) = Inr html"
    and l: "gen_summary_line (length (c_passing c)) (length (c_failing c)) = Inr line"
    and r: "ret = (if c_failing c \<noteq> [] then 1 else 0)" "rp_html rep = html" "rp_junit rep = junit" "rp_line rep = line"
    unfolding collect_results_def Let_def by (auto simp: rbind_Inr_iff)
  from collect_runs [of load "\<lparr>c_summary = [], c_passing = [], c_failing = []\<rparr>" "md_tests_pickle_files md" c] c
  obtain runs where runs: "list_all2 (\<lambda>f t. load f = Inr t) (md_tests_pickle_files md) runs"
    and p: "c_passing c = filter passed_ok runs" "c_failing c = filter (\<lambda>t. \<not> passed_ok t) runs"
    by (auto simp: collect_def)
  have f: "filter passed_ok (c_passing c @ c_failing c) = filter passed_ok runs"
    "filter (\<lambda>t. \<not> passed_ok t) (c_passing c @ c_failing c) = filter (\<lambda>t. \<not> passed_ok t) runs"
    by (simp_all add: p)
  have "h_passing html = length (filter passed_ok runs)" "h_total html = length runs"
    using h filter_partition_length [of passed_ok runs]
    by (auto simp: html_summary_def rbind_Inr_iff summary_total_tests f simp del: filter_append)
  moreover have "runs \<noteq> []" using l p by (auto simp: gen_summary_line_def)
  moreover have "(c_failing c = []) = (\<forall>t \<in> set runs. passed_ok t)" by (auto simp: p filter_empty_conv)
  ultimately show ?thesis
    using runs r l p junit_suites_cases [OF j, of "\<lambda>b. \<not> b"] junit_suites_cases [OF j, of "\<lambda>b. b"] f
    by (intro exI [of _ runs]) simp
qed

text \<open>
  C14. The verdict of a regression: when collecting succeeds, every stored run was read, in order, there is one at least, and
  the program returns 0 exactly when all of them passed and 1 otherwise. The reports agree with the runs: the
  HTML report counts them and the passed ones, the JUnit report has one case per passed run without a failure
  and one per failed run with a failure, and the summary line is the one for these two counts.
\<close>

theorem collect_results_verdict:
  assumes "collect_results resolve load read_file crl svg md = Inr (ret, rep)"
  shows "\<exists>runs. list_all2 (\<lambda>f t. load f = Inr t) (md_tests_pickle_files md) runs \<and> runs \<noteq> []
    \<and> ret = (if \<forall>t \<in> set runs. passed t = Some True then 0 else 1)
    \<and> h_passing (rp_html rep) = length (filter passed_ok runs) \<and> h_total (rp_html rep) = length runs
    \<and> cases_in (\<lambda>c. tc_failures c = []) (rp_junit rep) = length (filter passed_ok runs)
    \<and> cases_in (\<lambda>c. tc_failures c \<noteq> []) (rp_junit rep) = length (filter (\<lambda>t. \<not> passed_ok t) runs)
    \<and> gen_summary_line (length (filter passed_ok runs)) (length (filter (\<lambda>t. \<not> passed_ok t) runs)) = Inr (rp_line rep)"
  using collect_results_parts [OF assms] by (simp add: passed_ok_def)

definition good_run :: TestRunResult where
  "good_run = empty_trr\<lparr>testname := Some ''t'', seed := Some 1, passed := Some True\<rparr>"

definition bad_run :: TestRunResult where
  "bad_run = empty_trr\<lparr>testname := Some ''t'', seed := Some 2, failure_message := Some ''bad''\<rparr>"

definition demo_runs :: "string \<Rightarrow> TestRunResult res" where
  "demo_runs f = Inr (if f = ''a'' then good_run else bad_run)"

lemma demo_collect: "is_ok (collect_results (\<lambda>p. p) demo_runs (\<lambda>_. Inl (OSError [])) None False demo_md)"
proof -
  have "is_ok (gen_test_run_result_text (\<lambda>p. p) good_run)" "is_ok (gen_test_run_result_text (\<lambda>p. p) bad_run)" by code_simp+
  then obtain a b where t: "gen_test_run_result_text (\<lambda>p. p) good_run = Inr a" "gen_test_run_result_text (\<lambda>p. p) bad_run = Inr b"
    by (auto simp: is_ok_iff)
  have p: "passed_ok good_run" "\<not> passed_ok bad_run" "testname good_run = Some ''t''" "testname bad_run = Some ''t''"
    by (simp_all add: passed_ok_def good_run_def bad_run_def empty_trr_def)
  have c: "collect demo_runs [''a'', ''b''] = Inr \<lparr>c_summary = AList.update (run_label bad_run) (PStr (verdict_text bad_run))
      (AList.update (run_label good_run) (PStr (verdict_text good_run)) []), c_passing = [good_run], c_failing = [bad_run]\<rparr>"
    by (simp add: collect_def collect_one_def demo_runs_def p Let_def)
  show ?thesis
    by (simp add: collect_results_def demo_md_def c junit_suites_def junit_run_def t output_results_text_def run_details_def
        gen_summary_line_def html_summary_def create_test_summary_dict_def count_run_def summary_rate_def summary_total_def
        create_dvsim_report_dict_def p)
qed

theorem collect_results_verdict_witness:
  "\<exists>rep. collect_results (\<lambda>p. p) demo_runs (\<lambda>_. Inl (OSError [])) None False demo_md = Inr (1, rep) \<and> h_total (rp_html rep) = 2"
proof -
  obtain ret rep where r: "collect_results (\<lambda>p. p) demo_runs (\<lambda>_. Inl (OSError [])) None False demo_md = Inr (ret, rep)"
    using demo_collect by (auto simp: is_ok_iff)
  from collect_results_verdict [OF r] obtain runs where runs: "list_all2 (\<lambda>f t. demo_runs f = Inr t) [''a'', ''b''] runs"
    "ret = (if \<forall>t \<in> set runs. passed t = Some True then 0 else 1)" "h_total (rp_html rep) = length runs"
    by (auto simp: demo_md_def)
  then obtain a b where "runs = [a, b]" "demo_runs ''b'' = Inr b" by (auto simp: list_all2_Cons1)
  with runs r show ?thesis by (auto simp: demo_runs_def bad_run_def empty_trr_def)
qed

text \<open>
  The summary per test: a test name is a key exactly when a run has it, its numbers are those of the passed
  and of the other runs of that name, no name is listed twice, and the columns add up to all passed and all
  other runs.
\<close>

theorem test_summary_counts:
  "map_of (create_test_summary_dict tests) n =
       (if n \<in> testname ` set tests then Some (runs_of passed_ok n tests, runs_of (\<lambda>t. \<not> passed_ok t) n tests) else None)
     \<and> distinct (map fst (create_test_summary_dict tests))
     \<and> summary_total (create_test_summary_dict tests) = (length (filter passed_ok tests), length (filter (\<lambda>t. \<not> passed_ok t) tests))"
  by (simp add: summary_lookup summary_distinct summary_total_tests)

section \<open>Colours and layout of the dashboard\<close>

lemma trunc_bounds: "0 \<le> q \<Longrightarrow> q \<le> 255 \<Longrightarrow> 0 \<le> trunc q \<and> trunc q \<le> 255"
  by (simp add: trunc_def floor_le_iff)

lemma trunc_mono: "0 \<le> p \<Longrightarrow> p \<le> q \<Longrightarrow> trunc p \<le> trunc q"
  by (simp add: trunc_def floor_mono)

lemma red_green_low: "v < 7 / 10 \<Longrightarrow> red_green v = (255, trunc (v / (7 / 10) * 255))"
  by (simp add: red_green_def CSS_RG_GRADIENT_YELLOW_POINT_def trunc_def)

lemma red_green_high: "\<not> v < 7 / 10 \<Longrightarrow> red_green v = (trunc ((1 - v) / (3 / 10) * 255), 255)"
  by (simp add: red_green_def CSS_RG_GRADIENT_YELLOW_POINT_def trunc_def)

lemmas red_green_cases = red_green_low red_green_high

text \<open>
  The colour of a rate between 0 and 1 is a valid one: both channels are between 0 and 255 and one of them is 255;
  a higher rate never has more red and never less green, so better results are never shown worse.
\<close>

theorem red_green_gradient:
  assumes "0 \<le> v" "v \<le> w" "w \<le> 1"
  shows "fst (red_green v) \<in> {0..255} \<and> snd (red_green v) \<in> {0..255} \<and> max (fst (red_green v)) (snd (red_green v)) = 255
    \<and> fst (red_green w) \<le> fst (red_green v) \<and> snd (red_green v) \<le> snd (red_green w)"
proof -
  have g: "v < 7 / 10 \<Longrightarrow> 0 \<le> v / (7 / 10) * 255 \<and> v / (7 / 10) * 255 \<le> 255"
    and r: "\<not> u < 7 / 10 \<Longrightarrow> u \<le> 1 \<Longrightarrow> 0 \<le> (1 - u) / (3 / 10) * 255 \<and> (1 - u) / (3 / 10) * 255 \<le> 255" for u :: rat
    using assms by auto
  show ?thesis
  proof (cases "w < 7 / 10")
    case True
    with assms(1,2) g trunc_bounds [of "v / (7 / 10) * 255"] trunc_mono [of "v / (7 / 10) * 255" "w / (7 / 10) * 255"]
    show ?thesis by (simp add: red_green_low)
  next
    case False
    with assms g r [of v] r [of w] trunc_bounds [of "v / (7 / 10) * 255"] trunc_bounds [of "(1 - v) / (3 / 10) * 255"]
      trunc_bounds [of "(1 - w) / (3 / 10) * 255"] trunc_mono [of "(1 - w) / (3 / 10) * 255" "(1 - v) / (3 / 10) * 255"]
    show ?thesis by (cases "v < 7 / 10") (auto simp: red_green_cases)
  qed
qed

theorem red_green_gradient_witness: "fst (red_green 1) \<le> fst (red_green (1 / 2)) \<and> red_green (7 / 10) = (255, 255)"
  using red_green_gradient [of "1 / 2" 1] by (simp add: red_green_high trunc_def)

text \<open>Left and right border of an element of the dashboard.\<close>

fun borders :: "int \<Rightarrow> int \<Rightarrow> DashboardElement list \<Rightarrow> (int \<times> int) list" where
  "borders gap x [] = []"
| "borders gap x (e # es) = (x, x + de_total_width e) # borders gap (x + de_total_width e + gap) es"

lemma dashboard_svg_borders:
  "dashboard_svg gap x es = map2 (\<lambda>b e. G (fst b) (element_svg e)) (borders gap x es) es"
  by (induction es arbitrary: x) simp_all

lemma borders_length [simp]: "length (borders gap x es) = length es"
  by (induction es arbitrary: x) simp_all

lemma borders_adjacent:
  "Suc i < length es \<Longrightarrow> fst (borders gap x es ! Suc i) = snd (borders gap x es ! i) + gap"
proof (induction es arbitrary: x i)
  case (Cons e es)
  show ?case
  proof (cases i)
    case 0
    with Cons.prems show ?thesis by (cases es) simp_all
  next
    case (Suc j)
    with Cons show ?thesis by simp
  qed
qed simp

lemma borders_last:
  "es \<noteq> [] \<Longrightarrow> snd (last (borders gap x es)) = foldl (\<lambda>acc e. acc + de_total_width e + gap) x es - gap"
proof (induction es arbitrary: x)
  case (Cons e es)
  show ?case
  proof (cases "es = []")
    case False
    then have "borders gap (x + de_total_width e + gap) es \<noteq> []" by (cases es) simp_all
    with False Cons.IH show ?thesis by simp
  qed simp
qed simp

text \<open>
  The layout of the SVG dashboard: its elements are the given ones in order, the first starts at 0, each starts
  exactly the gap after the right border of the one before it, and the width of the picture is the right border
  of the last.
\<close>

theorem dashboard_layout:
  assumes "es \<noteq> []"
  shows "dashboard_svg gap 0 es = map2 (\<lambda>b e. G (fst b) (element_svg e)) (borders gap 0 es) es
    \<and> fst (hd (borders gap 0 es)) = 0
    \<and> (\<forall>i. Suc i < length es \<longrightarrow> fst (borders gap 0 es ! Suc i) = snd (borders gap 0 es ! i) + gap)
    \<and> dashboard_width gap es = snd (last (borders gap 0 es))"
proof -
  have "fst (hd (borders gap 0 es)) = 0" using assms by (cases es) simp_all
  with dashboard_svg_borders borders_adjacent borders_last [OF assms] show ?thesis
    by (simp add: dashboard_width_def)
qed

theorem dashboard_layout_witness:
  "dashboard_width 5 [new_element ''a'' ''1'' 120 ''x'', new_element ''b'' ''2'' 150 ''y''] = 395"
  using dashboard_layout [of "[new_element ''a'' ''1'' 120 ''x'', new_element ''b'' ''2'' 150 ''y'']" 5]
  by (simp add: new_element_def de_total_width_def)

end
