(* ===== verification/Metadata_Main.thy ===== *)
theory Metadata_Main
  imports Metadata
begin

text \<open>
  The program \<open>metadata.py\<close>: creating the stored objects of a regression, and printing a field for the Makefile. The
  stored objects are maps from pickle files to objects (the text that \<open>pickle\<close> writes is in \<open>Scripts_Lib\<close>), and the
  metadata directory is an absolute path. Also \<open>render_config_template.py\<close>, which renders a template for the configuration of
  the regression. The field of an object by its name is a parameter. When an exception leaves
  the program, the objects it had stored before are not described.
\<close>

section \<open>The program\<close>

datatype Ops = CREATE | PRINT_FIELD string

record stored_objects =
  stored_md :: "string \<rightharpoonup> RegressionMetadata"
  stored_trr :: "string \<rightharpoonup> TestRunResult"

definition metadata_pickle :: "string \<Rightarrow> string" where
  "metadata_pickle dir_metadata = dir_metadata @ ''/metadata.pickle''"

definition construct_from_metadata_dir :: "stored_objects \<Rightarrow> string \<Rightarrow> RegressionMetadata res" where
  "construct_from_metadata_dir st dir_metadata = (case stored_md st (metadata_pickle dir_metadata) of
     None \<Rightarrow> Inl (OSError (metadata_pickle dir_metadata)) | Some md \<Rightarrow> Inr md)"

definition export_trr :: "TestRunResult \<Rightarrow> stored_objects \<Rightarrow> stored_objects" where
  "export_trr t st = st\<lparr>stored_trr := (stored_trr st)(str_opt (trr_pickle_file t) \<mapsto> t)\<rparr>"

definition export_md :: "RegressionMetadata \<Rightarrow> stored_objects \<Rightarrow> stored_objects" where
  "export_md md st = st\<lparr>stored_md := (stored_md st)(md_pickle_file md \<mapsto> md)\<rparr>"

text \<open>The output, if any, and the stored objects.\<close>

definition metadata_main :: "md_world \<Rightarrow> (RegressionMetadata \<Rightarrow> string \<Rightarrow> pyval option res) \<Rightarrow> string \<Rightarrow> string \<Rightarrow> string \<Rightarrow> string
    \<Rightarrow> Ops \<Rightarrow> stored_objects \<Rightarrow> (stored_objects \<times> string option) res" where
  "metadata_main w getattr dir_metadata dir_out git_commit args_list op st = (case op of
     CREATE \<Rightarrow>
       if stored_md st (metadata_pickle dir_metadata) \<noteq> None then Inr (st, None)
       else rbind (create_metadata w dir_metadata dir_out git_commit args_list) (\<lambda>(md, trrs).
              Inr (export_md md (fold export_trr trrs st), None))
   | PRINT_FIELD field \<Rightarrow>
       rbind (construct_from_metadata_dir st dir_metadata) (\<lambda>md.
         if field = ''riscvdv_tds'' then Inr (st, Some (py_join '' '' (print_tds RISCVDV md)))
         else if field = ''directed_tds'' then Inr (st, Some (py_join '' '' (print_tds DIRECTED md)))
         else rbind (getattr md field) (\<lambda>value. case value of
                None \<Rightarrow> Inl (RuntimeError ''Field requested is not present or not set in the regression metadata object'')
              | Some v \<Rightarrow> Inr (st, Some (py_str v)))))"

section \<open>render\_config\_template.py\<close>

text \<open>
  \<open>mako\<close> is the constructor of the library's \<open>Template\<close>, which gives its \<open>render\<close> method. The object is read under the lock
  and not changed; the result is what is printed.
\<close>

definition render_template :: "(string \<Rightarrow> (yaml_map \<Rightarrow> string res) res) \<Rightarrow> cfg_env \<Rightarrow> string \<Rightarrow> string \<Rightarrow> string res" where
  "render_template mako env config_name template_filename =
     rbind (mako template_filename) (\<lambda>render_with. rbind (get_config env config_name) (\<lambda>cfg. render_with (params cfg)))"

definition render_config_main ::
    "(string \<Rightarrow> (yaml_map \<Rightarrow> string res) res) \<Rightarrow> cfg_env \<Rightarrow> string \<Rightarrow> string \<Rightarrow> stored_objects \<Rightarrow> string res" where
  "render_config_main mako env template_filename dir_metadata st =
     rbind (construct_from_metadata_dir st dir_metadata) (\<lambda>md.
     rbind (render_template mako env (md_ibex_config md) template_filename) (\<lambda>s. Inr (s @ nl)))"

section \<open>Creating once and printing\<close>

lemma stored_md_trrs [simp]: "stored_md (fold export_trr trrs st) = stored_md st"
  by (induction trrs arbitrary: st) (simp_all add: export_trr_def)

lemma stored_trr_file:
  assumes "t \<in> set trrs" "\<And>t. t \<in> set trrs \<Longrightarrow> trr_pickle_file t \<noteq> None"
  shows "\<exists>u \<in> set trrs. stored_trr (fold export_trr trrs st) (str_opt (trr_pickle_file t)) = Some u \<and> trr_pickle_file u = trr_pickle_file t"
  using assms
proof (induction trrs rule: rev_induct)
  case (snoc v trrs)
  show ?case
  proof (cases "trr_pickle_file v = trr_pickle_file t")
    case True
    then show ?thesis by (intro bexI [of _ v]) (simp_all add: export_trr_def)
  next
    case False
    then have "t \<in> set trrs" using snoc.prems(1) by auto
    moreover have "str_opt (trr_pickle_file t) \<noteq> str_opt (trr_pickle_file v)"
      using False snoc.prems(1) snoc.prems(2) [of t] snoc.prems(2) [of v] by (auto simp: str_opt_def)
    ultimately show ?thesis using snoc by (auto simp: export_trr_def)
  qed
qed simp

text \<open>A new object's file is named after the run.\<close>

definition named_run :: "string \<Rightarrow> TestRunResult \<Rightarrow> bool" where
  "named_run dir t = (\<exists>n. testdotseed t = Some n \<and> trr_pickle_file t = Some (dir @ ''/'' @ n @ ''.pickle''))"

lemma create_metadata_named:
  assumes "create_metadata w dir_metadata dir_out git_commit args_list = Inr (md, trrs)"
  shows "list_all (named_run dir_metadata) trrs" "md_pickle_file md = metadata_pickle dir_metadata"
    "map testdotseed (filter (\<lambda>t. testtype t = Some tt) trrs) = map Some (print_tds tt md)"
proof -
  obtain m tcs where m: "make_trrs w m tcs = Inr trrs" "md = m\<lparr>md_tests_pickle_files := map (str_opt \<circ> trr_pickle_file) trrs\<rparr>"
    "md_tests_and_counts m = map fst tcs" "md_dir_metadata m = dir_metadata"
    using assms by (rule create_metadata_parts)
  have "list_all (named_run dir_metadata) (init_trrs m ts)" for ts
    by (induction ts) (auto simp: init_trrs_def named_run_def list_all_iff m(4))
  moreover have "named_run d a" if "keeps_name a b" "named_run d b" for a b d
    using that by (simp add: keeps_name_def named_run_def)
  ultimately show "list_all (named_run dir_metadata) trrs"
    using make_trrs_names [OF m(1)] by (auto simp: list_all_length list_all2_conv_all_nth)
  show "md_pickle_file md = metadata_pickle dir_metadata"
    by (simp add: md_pickle_file_def metadata_pickle_def m(2,4))
  show "map testdotseed (filter (\<lambda>t. testtype t = Some tt) trrs) = map Some (print_tds tt md)"
    using list_all2_keeps_map(3) [OF make_trrs_names [OF m(1)], of "Some tt"] init_trrs_tds [of tt m] by (simp add: m(2,3))
qed

text \<open>
  C10. The metadata of a regression is created once: a second creation, for whatever arguments, changes nothing. What is then
  printed for the Makefile are the names of the runs, a name that has no space is one word of it, and every printed
  name leads to a stored object of that name below the metadata directory.
\<close>

theorem metadata_created_once:
  assumes "stored_md st (metadata_pickle dir) = None"
    and "metadata_main w getattr dir dir_out git_commit args_list CREATE st = Inr (st', out)"
  shows "metadata_main w2 getattr2 dir dir_out2 git_commit2 args_list2 CREATE st' = Inr (st', None)
    \<and> (\<forall>(field, tt) \<in> {(''riscvdv_tds'', RISCVDV), (''directed_tds'', DIRECTED)}. \<exists>names.
         metadata_main w2 getattr2 dir dir_out2 git_commit2 args_list2 (PRINT_FIELD field) st' = Inr (st', Some (py_join '' '' names))
       \<and> (list_all is_token names \<longrightarrow> py_words (py_join '' '' names) = names)
       \<and> (\<forall>n \<in> set names. \<exists>t. stored_trr st' (dir @ ''/'' @ n @ ''.pickle'') = Some t \<and> testdotseed t = Some n))"
proof -
  from assms obtain md trrs where c: "create_metadata w dir dir_out git_commit args_list = Inr (md, trrs)"
    and st': "st' = export_md md (fold export_trr trrs st)" by (auto simp: metadata_main_def rbind_Inr_iff)
  note named = create_metadata_named [OF c]
  have md: "stored_md st' (metadata_pickle dir) = Some md" by (simp add: st' export_md_def named(2))
  have run: "\<exists>t. stored_trr st' (dir @ ''/'' @ n @ ''.pickle'') = Some t \<and> testdotseed t = Some n" if n: "n \<in> set (print_tds tt md)" for n tt
  proof -
    have "Some n \<in> set (map testdotseed (filter (\<lambda>t. testtype t = Some tt) trrs))" unfolding named(3) using n by simp
    then obtain t where t: "t \<in> set trrs" "testdotseed t = Some n" by auto
    have pf: "trr_pickle_file t = Some (dir @ ''/'' @ n @ ''.pickle'')"
      using named(1) t by (auto simp: list_all_iff named_run_def)
    have "trr_pickle_file u \<noteq> None" if "u \<in> set trrs" for u using named(1) that by (auto simp: list_all_iff named_run_def)
    from stored_trr_file [OF t(1) this, of st] obtain u where
      u: "u \<in> set trrs" "stored_trr (fold export_trr trrs st) (dir @ ''/'' @ n @ ''.pickle'') = Some u" "trr_pickle_file u = trr_pickle_file t"
      by (auto simp: pf str_opt_def)
    then have "testdotseed u = Some n" using named(1) pf by (auto simp: list_all_iff named_run_def)
    with u(2) show ?thesis by (simp add: st' export_md_def)
  qed
  show ?thesis
    using md run py_words_join by (auto simp: metadata_main_def construct_from_metadata_dir_def)
qed

theorem metadata_created_once_witness:
  "\<exists>st'. metadata_main (demo_md_world 1) (\<lambda>_ _. Inr None) ''/m'' ''/o'' ''abc'' demo_args_text CREATE \<lparr>stored_md = Map.empty, stored_trr = Map.empty\<rparr>
       = Inr (st', None)
     \<and> metadata_main (demo_md_world 2) (\<lambda>_ _. Inr None) ''/m'' ''/o'' ''abc'' demo_args_text CREATE st' = Inr (st', None)"
proof -
  let ?st = "\<lparr>stored_md = Map.empty, stored_trr = Map.empty\<rparr> :: stored_objects"
  obtain md trrs where "create_metadata (demo_md_world 1) ''/m'' ''/o'' ''abc'' demo_args_text = Inr (md, trrs)"
    using demo_create [of 1] by (metis zero_less_one)
  then obtain st' where st': "metadata_main (demo_md_world 1) (\<lambda>_ _. Inr None) ''/m'' ''/o'' ''abc'' demo_args_text CREATE ?st = Inr (st', None)"
    by (auto simp: metadata_main_def)
  have "stored_md ?st (metadata_pickle ''/m'') = None" by simp
  from metadata_created_once [OF this st'] st' show ?thesis by blast
qed

end
