(* ===== verification/Regression_Flow.thy ===== *)
theory Regression_Flow
  imports Directed_Runs Merge_Cov Reports Metadata_Main
begin

text \<open>
  The UVM flow as a whole. First the programs that the Makefile calls for one run, in order, as a relation between test
  objects; then the flow as a state machine over the stored objects and the files, in which the programs of different runs
  interleave and any program may fail. The theorems about both are in the root theory.
\<close>

section \<open>The programs of one run\<close>

text \<open>
  What the Makefile of the UVM flow does with one test object: a random test is generated first, a directed one
  has its source; then the test is compiled, simulated, and its logs are checked.
\<close>

inductive regression_run :: "tool_env \<Rightarrow> cfg_env \<Rightarrow> RegressionMetadata \<Rightarrow> pydict list \<Rightarrow> pyval list \<Rightarrow> (string \<Rightarrow> string option)
    \<Rightarrow> TestRunResult \<Rightarrow> TestRunResult \<Rightarrow> bool" for x env md testlist sim_yaml read_file where
  generated: "testtype t = Some RISCVDV \<Longrightarrow> instr_gen_main x env md t td cmds_list fs = Inr (0, Some p, fs') \<Longrightarrow>
     compile_main x md p td orig_list = Inr (0, b) \<Longrightarrow> run_rtl_main x env md testlist sim_yaml b = Inr s \<Longrightarrow>
     compare_test_run read_file s = Inr r \<Longrightarrow> regression_run x env md testlist sim_yaml read_file t r"
| directed: "testtype t = Some DIRECTED \<Longrightarrow>
     compile_main x md t td orig_list = Inr (0, b) \<Longrightarrow> run_rtl_main x env md testlist sim_yaml b = Inr s \<Longrightarrow>
     compare_test_run read_file s = Inr r \<Longrightarrow> regression_run x env md testlist sim_yaml read_file t r"

text \<open>The log of a run passes.\<close>

definition log_passes :: "RegressionMetadata \<Rightarrow> (string \<Rightarrow> string option) \<Rightarrow> string \<times> int \<Rightarrow> bool" where
  "log_passes md read_file ts = (case read_file (uvm_log_of md (md_dir_tests md @ ''/'' @ int_tds ts)) of
     None \<Rightarrow> False | Some text1 \<Rightarrow> check_ibex_uvm_log text1 = Inr (True, [], NONE))"

lemma judged_run:
  assumes "run_rtl_main x env md testlist sim_yaml b = Inr s" "compare_test_run read_file s = Inr r"
    and "passed b = None" "dir_test b = Some (md_dir_tests md @ ''/'' @ int_tds ts)"
  shows "(passed r = Some True \<longrightarrow> log_passes md read_file ts) \<and> (passed r = Some True \<or> failure_mode r \<noteq> None)"
proof -
  from run_rtl_result [OF assms(1)] assms(3,4)
  have s: "rtl_log s = Some (uvm_log_of md (md_dir_tests md @ ''/'' @ int_tds ts))" "passed s = None" by auto
  show ?thesis
    using compare_test_run_result [OF _ assms(2)] s by (auto simp: log_passes_def str_opt_def)
qed

lemma regression_run_judged:
  assumes "regression_run x env md testlist sim_yaml read_file t r" "fresh_run md t ts"
  shows "(passed r = Some True \<longrightarrow> log_passes md read_file ts) \<and> (passed r = Some True \<or> failure_mode r \<noteq> None)"
  using assms
proof (induction rule: regression_run.induct)
  case (generated t td cmds_list fs p fs' orig_list b s r)
  then have "same_run t b" using instr_gen_same_run compile_same_run same_run_trans by blast
  with generated show ?case by (intro judged_run [of x env md testlist sim_yaml b s]) (simp_all add: same_run_def fresh_run_def)
next
  case (directed t td orig_list b s r)
  then have "same_run t b" using compile_same_run by blast
  with directed show ?case by (intro judged_run [of x env md testlist sim_yaml b s]) (simp_all add: same_run_def fresh_run_def)
qed

text \<open>A regression of one run, with tools that succeed and a log that passes.\<close>

definition demo_sim_yaml :: "pyval list" where
  "demo_sim_yaml = [PDict [(PStr ''tool'', PStr ''questa''), (PStr ''sim'', PDict [(PStr ''cmd'', PList [PStr ''vsim''])])]]"

definition demo_testlist :: "pydict list" where
  "demo_testlist = [[(''test'', PStr ''arith''), (''rtl_test'', PStr ''core_ibex_base_test'')]]"

definition reg_files :: "string \<Rightarrow> string option" where
  "reg_files f = (if endswith f ''/rtl_sim.log'' then Some demo_log else Some demo_trace)"

lemma reg_files_Some: "reg_files = (\<lambda>f. Some (if endswith f ''/rtl_sim.log'' then demo_log else demo_trace))"
  by (rule ext) (simp add: reg_files_def)

lemma format_to_cmd_ok: "list_all (\<lambda>v. is_ok (format_to_str resolve v)) xs \<Longrightarrow> \<exists>c. format_to_cmd resolve xs = Inr c"
  by (induction xs) (auto simp: is_ok_iff)

lemma demo_exec [simp]:
  "exec_cmd demo_tools v (Some (RPath f)) tmo rr c = Inr 0" "exec_cmd demo_tools v (Some (RIO f)) tmo rr c = Inr 0"
  by (simp_all add: exec_cmd_def run_one_def open_dest_def demo_tools_def Let_def)

lemma demo_generate:
  assumes "md_ibex_config md = ''small''" "testname t = Some ''arith''" "seed t = Some sd" "dir_test t = Some dir"
  shows "\<exists>p fs'. instr_gen_main demo_tools small_env md t ''/t'' (Some []) (\<lambda>f. Some (g f)) = Inr (0, Some p, fs')"
proof -
  obtain cfg where cfg: "get_config small_env ''small'' = Inr cfg" using small_env_config by blast
  have sig: "test_sig md ''arith'' = Inr (md_signature_addr md)" by (simp add: test_sig_def)
  have r: "x_resolve demo_tools = (\<lambda>p. p)" by (simp add: demo_tools_def)
  have f: "list_all (\<lambda>v. is_ok (format_to_str (\<lambda>p. p) v)) (gen_cmd md cfg ''arith'' sd sig1 td)" for sig1 td
    by (simp add: gen_cmd_def get_run_cmd_def format_to_str_def opt_val_def split: option.split)
  obtain cmd where cmd: "format_to_cmd (\<lambda>p. p) (gen_cmd md cfg ''arith'' sd (md_signature_addr md) ''/t'') = Inr cmd"
    using format_to_cmd_ok [OF f] by blast
  show ?thesis
    using assms(2-4)
    by (simp add: instr_gen_main_def need_def sig assms(1) cfg r cmd reloc_commands_def file_lines_def do_file_copies_def
        file_copy_rules_def Let_def)
qed

lemma demo_compile:
  assumes "testtype p = Some RISCVDV" "testname p = Some ''arith''" "seed p = Some sd" "dir_test p = Some dir"
    "is_discrete_debug_module p = None"
  shows "\<exists>b. compile_main demo_tools md p ''/t'' (Some []) = Inr (0, b) \<and> binary b = Some (dir @ ''/test.bin'')"
proof -
  have r: "x_resolve demo_tools = (\<lambda>p. p)" by (simp add: demo_tools_def)
  have f: "list_all (\<lambda>v. is_ok (format_to_str (\<lambda>p. p) v)) (compile_gen_cmd md ''arith'' sd td)" for td
    by (simp add: compile_gen_cmd_def get_run_cmd_def format_to_str_def opt_val_def split: option.split)
  obtain cmd where cmd: "format_to_cmd (\<lambda>p. p) (compile_gen_cmd md ''arith'' sd ''/t'') = Inr cmd"
    using format_to_cmd_ok [OF f] by blast
  show ?thesis
    using assms(2-5)
    by (simp add: compile_main_def assms(1) get_riscvdv_compile_cmds_def need_def r cmd file_lines_def Let_def)
qed

lemma demo_sim_opts: "is_ok (get_sim_opts small_env ''small'' ''questa'')"
  by code_simp

lemma demo_sim_cmds:
  assumes "list_all (\<lambda>kv. is_ok (subst_value (\<lambda>p. p) (snd kv))) d"
  shows "get_tool_cmds (\<lambda>p. p) [] demo_sim_yaml ''questa'' ''sim'' en d = Inr [[''vsim'']]"
proof -
  have opt: "subst_opt ''vsim'' k r = ''vsim''" for k r
    by (simp add: subst_opt_def parameter_format_def py_replace.simps)
  have s: "subst_dict (\<lambda>p. p) ''vsim'' d = Inr ''vsim''"
    using assms unfolding subst_dict_def by (induction d) (auto simp: is_ok_iff opt)
  have "shlex_split ''vsim'' = Inr [''vsim'']" "re_finditer parameter_regex ''vsim'' = []" by code_simp+
  then show ?thesis
    by (simp add: get_tool_cmds_def demo_sim_yaml_def dict_item_def iter_list_def format_tool_cmd_def cmd_opts_dict_def s
        subst_env_step_def) (simp add: subst_dict_def s [unfolded subst_dict_def])
qed

lemma demo_simulate:
  assumes "md_ibex_config md = ''small''" "md_simulator md = ''questa''" "testtype b = Some RISCVDV"
    "testname b = Some ''arith''" "dir_test b = Some dir" "passed b = None" "failure_mode b = None" "binary b = Some (dir @ ''/test.bin'')"
  shows "\<exists>s. run_rtl_main demo_tools small_env md demo_testlist demo_sim_yaml b = Inr s
    \<and> binary s = Some (dir @ ''/test.bin'') \<and> rtl_log s = Some (dir @ ''/rtl_sim.log'')
    \<and> rtl_trace s = Some (dir @ ''/trace_core_00000000.log'') \<and> dir_test s = Some dir
    \<and> iss_cosim_trace s = Some (dir @ ''/'' @ md_iss md @ ''_cosim_trace_core_00000000.log'') \<and> failure_mode s = None"
proof -
  have r: "x_resolve demo_tools = (\<lambda>p. p)" "x_environ demo_tools = []" "x_run demo_tools = (\<lambda>_ _. Completed 0)"
    by (simp_all add: demo_tools_def)
  obtain opts where opts: "get_sim_opts small_env ''small'' ''questa'' = Inr opts" using demo_sim_opts by (auto simp: is_ok_iff)
  let ?te = "[(''test'', PStr ''arith''), (''rtl_test'', PStr ''core_ibex_base_test'')]"
  have e: "get_test_entry ''arith'' demo_testlist = Inr ?te" "test_sim_opts ?te = Inr []" "item ?te ''rtl_test'' = Inr (PStr ''core_ibex_base_test'')"
    "test_timeout md ?te = PInt (md_run_rtl_timeout_s md)"
    by (simp_all add: demo_testlist_def test_sim_opts_def item_def test_timeout_def)
  have v: "list_all (\<lambda>kv. is_ok (subst_value (\<lambda>p. p) (snd kv))) (rtl_subst_vars md t dir (PStr rtl) tmo c o1)"
    if "binary t = Some f" "testname t = Some n" for t f n rtl tmo c o1
    using that by (simp add: rtl_subst_vars_def subst_value_def format_to_str_def opt_val_def)
  show ?thesis
    using assms(3-8)
    by (simp add: run_rtl_main_def need_def assms(1,2) e opts r demo_sim_cmds [OF v] format_to_str_def Let_def sim_loop_result
        timed_out_cmd_def)
qed

lemma demo_judge:
  assumes "rtl_log s = Some (dir @ ''/rtl_sim.log'')" "rtl_trace s = Some (dir @ ''/trace_core_00000000.log'')" "failure_mode s = None"
  shows "compare_test_run reg_files s = Inr (s\<lparr>passed := Some True\<rparr>)"
proof -
  have files: "reg_files (dir @ ''/rtl_sim.log'') = Some demo_log" "reg_files (dir @ ''/trace_core_00000000.log'') = Some demo_trace"
    by (simp_all add: reg_files_def endswith_def suffix_def)
  have "is_ok (process_ibex_sim_log demo_files ''trace'' True)" by (rule demo_trace_ok)
  then have "is_ok (process_ibex_sim_log reg_files (dir @ ''/trace_core_00000000.log'') True)"
    by (simp add: process_ibex_sim_log_def files demo_files_def is_ok_def rbind_def split: sum.splits prod.splits if_splits)
  moreover have "check_ibex_uvm_log demo_log = Inr (True, [], NONE)" by code_simp
  ultimately show ?thesis
    using assms by (auto simp: compare_test_run_def compare_uvm_log_def str_opt_def files is_ok_iff)
qed

lemma demo_result_text:
  assumes "binary r = Some (dir @ ''/test.bin'')" "rtl_log r = Some (dir @ ''/rtl_sim.log'')"
    "rtl_trace r = Some (dir @ ''/trace_core_00000000.log'')" "dir_test r = Some dir" "iss_cosim_trace r = Some (dir @ ''/'' @ nm)"
  shows "\<exists>text1. gen_test_run_result_text (\<lambda>p. p) r = Inr text1"
  using assms by (simp add: gen_test_run_result_text_def rel_to_def Let_def)

lemma demo_collect_one:
  assumes "gen_test_run_result_text (\<lambda>p. p) r = Inr text1" "passed r = Some True" "md_simulator md = ''questa''"
  shows "\<exists>ret rep. collect_results (\<lambda>p. p) (\<lambda>_. Inr r) rf None False (md\<lparr>md_tests_pickle_files := [f]\<rparr>) = Inr (ret, rep)"
  by (simp add: collect_results_def collect_def collect_one_def junit_suites_def junit_run_def assms output_results_text_def
      run_details_def gen_summary_line_def html_summary_def create_test_summary_dict_def count_run_def summary_rate_def
      summary_total_def create_dvsim_report_dict_def passed_ok_def Let_def)

text \<open>The programs of that run one after the other, and the final program.\<close>

lemma demo_programs:
  obtains md t p fs' b s ret rep where "create_metadata (demo_md_world 1) ''/m'' ''/o'' ''abc'' demo_args_text = Inr (md, [t])"
    "run_names md (md_tests_and_counts md) = [(''arith'', 1)]" "md_tests_and_counts md = [(''arith'', 1, RISCVDV)]"
    "trr_pickle_file t = Some ''/m/arith.1.pickle''" "testtype t = Some RISCVDV"
    "instr_gen_main demo_tools small_env md t ''/t'' (Some []) reg_files = Inr (0, Some p, fs')"
    "compile_main demo_tools md p ''/t'' (Some []) = Inr (0, b)"
    "run_rtl_main demo_tools small_env md demo_testlist demo_sim_yaml b = Inr s"
    "compare_test_run reg_files s = Inr (s\<lparr>passed := Some True\<rparr>)"
    "\<And>load. load ''/m/arith.1.pickle'' = Inr (s\<lparr>passed := Some True\<rparr>) \<Longrightarrow>
      collect_results (\<lambda>p. p) load (\<lambda>_. Inl StopIteration) None False md = Inr (ret, rep)"
    "md_tests_pickle_files md = [''/m/arith.1.pickle'']"
proof -
  obtain m where m: "create_metadata (demo_md_world 1) ''/m'' ''/o'' ''abc'' demo_args_text =
      Inr (m\<lparr>md_tests_pickle_files := map (str_opt \<circ> trr_pickle_file) (map (demo_run m) (seeds m 1))\<rparr>, map (demo_run m) (seeds m 1))"
    "md_ibex_config m = ''small''" "md_simulator m = ''questa''" "md_tests_and_counts m = [(''arith'', 1, RISCVDV)]" "md_seed m = 1"
    by (rule demo_create [of 1]) auto
  let ?md = "m\<lparr>md_tests_pickle_files := map (str_opt \<circ> trr_pickle_file) (map (demo_run m) (seeds m 1))\<rparr>"
  let ?t = "demo_run m 1" and ?dir = "md_dir_tests m @ ''/'' @ int_tds (''arith'', 1)"
  have sd: "seeds m 1 = [1]" using m(5) by (simp add: seeds_def)
  have cr: "create_metadata (demo_md_world 1) ''/m'' ''/o'' ''abc'' demo_args_text = Inr (?md, [?t])"
    using m(1) by (simp add: sd)
  have names: "run_names ?md (md_tests_and_counts ?md) = [(''arith'', 1)]" by (simp add: run_names_def m(4) sd)
  have one: "int_tds (''arith'', 1) = ''arith.1''" by code_simp
  have pk: "trr_pickle_file ?t = Some ''/m/arith.1.pickle''" "md_tests_pickle_files ?md = [''/m/arith.1.pickle'']"
    using create_metadata_pickles(1) [OF cr] names by (simp_all add: one sd str_opt_def)
  have t: "testtype ?t = Some RISCVDV" "testname ?t = Some ''arith''" "seed ?t = Some 1" "dir_test ?t = Some ?dir"
    "is_discrete_debug_module ?t = None" "passed ?t = None" "failure_mode ?t = None"
    by (simp_all add: demo_run_def init_trr_def Let_def empty_trr_def int_tds_def)
  obtain p fs' where p: "instr_gen_main demo_tools small_env ?md ?t ''/t'' (Some []) reg_files = Inr (0, Some p, fs')"
    using demo_generate [of ?md ?t 1 ?dir "\<lambda>f. if endswith f ''/rtl_sim.log'' then demo_log else demo_trace"] t m(2)
    by (auto simp: reg_files_Some)
  note p' = instr_gen_same_run [OF p, unfolded same_run_def]
  obtain b where b: "compile_main demo_tools ?md p ''/t'' (Some []) = Inr (0, b)" "binary b = Some (?dir @ ''/test.bin'')"
    using demo_compile [of p 1 ?dir ?md] t p' by auto
  note b' = compile_same_run [OF b(1), unfolded same_run_def]
  obtain s where s: "run_rtl_main demo_tools small_env ?md demo_testlist demo_sim_yaml b = Inr s"
    "binary s = Some (?dir @ ''/test.bin'')" "rtl_log s = Some (?dir @ ''/rtl_sim.log'')"
    "rtl_trace s = Some (?dir @ ''/trace_core_00000000.log'')" "dir_test s = Some ?dir"
    "iss_cosim_trace s = Some (?dir @ ''/'' @ md_iss ?md @ ''_cosim_trace_core_00000000.log'')" "failure_mode s = None"
    using demo_simulate [of ?md b ?dir] t p' b b' m(2,3) by auto
  let ?r = "s\<lparr>passed := Some True\<rparr>"
  have j: "compare_test_run reg_files s = Inr ?r" by (rule demo_judge) (rule s)+
  obtain text1 where "gen_test_run_result_text (\<lambda>p. p) ?r = Inr text1"
    using demo_result_text [of ?r ?dir "md_iss ?md @ ''_cosim_trace_core_00000000.log''"] s by auto
  then obtain ret rep where c: "collect_results (\<lambda>p. p) (\<lambda>_. Inr ?r) (\<lambda>_. Inl StopIteration) None False ?md = Inr (ret, rep)"
    using demo_collect_one [of ?r text1 m "\<lambda>_. Inl StopIteration" "str_opt (trr_pickle_file ?t)"] m(3) by (auto simp: sd)
  have "collect_results (\<lambda>p. p) load (\<lambda>_. Inl StopIteration) None False ?md = Inr (ret, rep)" if "load ''/m/arith.1.pickle'' = Inr ?r" for load
  proof -
    have "collect load (md_tests_pickle_files ?md) = collect (\<lambda>_. Inr ?r) (md_tests_pickle_files ?md)"
      unfolding pk(2) by (simp add: collect_def collect_one_def that)
    then show ?thesis using c by (simp only: collect_results_def)
  qed
  then show thesis using that [OF cr names _ pk(1) t(1) p b(1) s(1) j _ pk(2)] m(4) by simp
qed

section \<open>The flow as a state machine\<close>

text \<open>
  How far the Makefile (\<open>wrapper.mk\<close>) has come with a run. A run whose program raises or returns an error stops: its later programs are
  not started, but the objects of all runs are still collected.
\<close>

datatype phase = NEW | GENERATED | COMPILED | SIMULATED | CHECKED | STOPPED

record flow_state =
  fl_trr :: "string \<rightharpoonup> TestRunResult"
  fl_files :: "string \<rightharpoonup> string"
  fl_phase :: "string \<Rightarrow> phase"

definition run_dir :: "RegressionMetadata \<Rightarrow> string \<Rightarrow> string" where
  "run_dir md n = md_dir_tests md @ ''/'' @ n"

definition trr_file :: "string \<Rightarrow> string \<Rightarrow> string" where
  "trr_file dir_metadata n = dir_metadata @ ''/'' @ n @ ''.pickle''"

text \<open>\<open>trr.export\<close> writes to the file that the object itself names.\<close>

definition export_run :: "string \<Rightarrow> phase \<Rightarrow> TestRunResult \<Rightarrow> (string \<rightharpoonup> string) \<Rightarrow> flow_state \<Rightarrow> flow_state" where
  "export_run n ph t files s = s\<lparr>fl_trr := (fl_trr s)(str_opt (trr_pickle_file t) \<mapsto> t), fl_files := files, fl_phase := (fl_phase s)(n := ph)\<rparr>"

text \<open>The programs of a run and the tools they start write files of the run only.\<close>

definition writes_within :: "RegressionMetadata \<Rightarrow> string \<Rightarrow> (string \<rightharpoonup> string) \<Rightarrow> (string \<rightharpoonup> string) \<Rightarrow> bool" where
  "writes_within md n files files' = (\<forall>f. prefix (run_dir md n @ ''/'') f \<or> files' f = files f)"

text \<open>
  One program for the run \<open>n\<close>, started in the phase in which the Makefile starts it: it loads the object by its name, and
  the object it exports replaces the stored one. Tools may behave differently at every call. A program that fails may
  have exported an intermediate object of the same run, and may not.
\<close>

inductive flow_step :: "RegressionMetadata \<Rightarrow> string \<Rightarrow> pydict list \<Rightarrow> pyval list \<Rightarrow> string list \<Rightarrow> flow_state \<Rightarrow> flow_state \<Rightarrow> bool"
  for md dir_metadata testlist sim_yaml names where
  generate: "n \<in> set names \<Longrightarrow> fl_phase s n = NEW \<Longrightarrow> fl_trr s (trr_file dir_metadata n) = Some t \<Longrightarrow> testtype t = Some RISCVDV \<Longrightarrow>
     instr_gen_main x env md t td cmds_list (fl_files s) = Inr (0, Some p, fs') \<Longrightarrow> writes_within md n (fl_files s) files' \<Longrightarrow>
     flow_step md dir_metadata testlist sim_yaml names s (export_run n GENERATED p files' s)"
| compile: "n \<in> set names \<Longrightarrow> fl_trr s (trr_file dir_metadata n) = Some t \<Longrightarrow>
     fl_phase s n = (if testtype t = Some DIRECTED then NEW else GENERATED) \<Longrightarrow>
     compile_main x md t td orig_list = Inr (0, b) \<Longrightarrow> writes_within md n (fl_files s) files' \<Longrightarrow>
     flow_step md dir_metadata testlist sim_yaml names s (export_run n COMPILED b files' s)"
| simulate: "n \<in> set names \<Longrightarrow> fl_phase s n = COMPILED \<Longrightarrow> fl_trr s (trr_file dir_metadata n) = Some t \<Longrightarrow>
     run_rtl_main x env md testlist sim_yaml t = Inr r \<Longrightarrow> writes_within md n (fl_files s) files' \<Longrightarrow>
     flow_step md dir_metadata testlist sim_yaml names s (export_run n SIMULATED r files' s)"
| judge: "n \<in> set names \<Longrightarrow> fl_phase s n = SIMULATED \<Longrightarrow> fl_trr s (trr_file dir_metadata n) = Some t \<Longrightarrow>
     compare_test_run (fl_files s) t = Inr r \<Longrightarrow>
     flow_step md dir_metadata testlist sim_yaml names s (export_run n CHECKED r (fl_files s) s)"
| stop: "n \<in> set names \<Longrightarrow> fl_phase s n \<notin> {CHECKED, STOPPED} \<Longrightarrow> fl_trr s (trr_file dir_metadata n) = Some t \<Longrightarrow>
     same_run t t' \<Longrightarrow> writes_within md n (fl_files s) files' \<Longrightarrow>
     flow_step md dir_metadata testlist sim_yaml names s (export_run n STOPPED t' files' s)"

text \<open>What holds of the stored object of a run in every state.\<close>

definition run_ok :: "RegressionMetadata \<Rightarrow> string \<Rightarrow> flow_state \<Rightarrow> string \<times> int \<Rightarrow> bool" where
  "run_ok md dir_metadata s ts = (case fl_trr s (trr_file dir_metadata (int_tds ts)) of
     None \<Rightarrow> False
   | Some t \<Rightarrow> trr_pickle_file t = Some (trr_file dir_metadata (int_tds ts)) \<and> dir_test t = Some (run_dir md (int_tds ts))
       \<and> (if fl_phase s (int_tds ts) = CHECKED
          then (passed t = Some True \<longrightarrow> log_passes md (fl_files s) ts) \<and> (passed t = Some True \<or> failure_mode t \<noteq> None)
          else passed t = None)
       \<and> (fl_phase s (int_tds ts) = SIMULATED \<longrightarrow> rtl_log t = Some (uvm_log_of md (run_dir md (int_tds ts)))))"

definition flow_inv :: "RegressionMetadata \<Rightarrow> string \<Rightarrow> (string \<times> int) list \<Rightarrow> flow_state \<Rightarrow> bool" where
  "flow_inv md dir_metadata tss s = list_all (run_ok md dir_metadata s) tss"

lemma trr_file_inject [simp]: "trr_file d n = trr_file d m \<longleftrightarrow> n = m"
  by (simp add: trr_file_def)

text \<open>The log of a run is not a file of another run.\<close>

lemma log_of_other_run:
  assumes "CHR ''/'' \<notin> set n" "CHR ''/'' \<notin> set m" "prefix (run_dir md n @ ''/'') (uvm_log_of md (run_dir md m))"
  shows "n = m"
proof -
  obtain l where l: "uvm_log_of md (run_dir md m) = run_dir md m @ CHR ''/'' # l" by (cases "md_simulator md = ''vcs''") (auto simp: uvm_log_of_def)
  have "prefix (n @ ''/'') (m @ CHR ''/'' # l)" using assms(3) unfolding l by (simp add: run_dir_def)
  then obtain zs where "m @ CHR ''/'' # l = n @ CHR ''/'' # zs" by (auto simp: prefix_def)
  from arg_cong [OF this, of "split_char (CHR ''/'')"] show ?thesis using assms(1,2) by (simp add: split_char_append)
qed

lemma int_tds_no_slash: "CHR ''/'' \<notin> set n \<Longrightarrow> CHR ''/'' \<notin> set (int_tds (n, i))"
proof -
  have "CHR ''/'' \<notin> set (nat_str k)" for k
    using nat_str_no_slash .
  then show "CHR ''/'' \<notin> set n \<Longrightarrow> CHR ''/'' \<notin> set (int_tds (n, i))" by (simp add: int_tds_def int_str_def)
qed

lemma log_passes_run: "log_passes md files ts = (case files (uvm_log_of md (run_dir md (int_tds ts))) of
    None \<Rightarrow> False | Some text1 \<Rightarrow> check_ibex_uvm_log text1 = Inr (True, [], NONE))"
  by (simp add: log_passes_def run_dir_def)

text \<open>Every program exports the object to the file it was loaded from, and only the last one judges it.\<close>

lemma run_rtl_pickle: "run_rtl_main x env md testlist sim_yaml b = Inr s \<Longrightarrow> trr_pickle_file s = trr_pickle_file b"
  unfolding run_rtl_main_def by (auto simp: rbind_Inr_iff Let_def sim_loop_result)

lemma compare_pickle:
  "compare_test_run read_file t = Inr r \<Longrightarrow> trr_pickle_file r = trr_pickle_file t \<and> dir_test r = dir_test t"
  by (auto simp: compare_test_run_def compare_uvm_log_def rbind_Inr_iff split: if_splits sum.splits option.splits prod.splits)

text \<open>A step for the run \<open>n\<close> leaves the other runs alone.\<close>

lemma other_run_ok:
  assumes "run_ok md dir_metadata s ts" "int_tds ts \<noteq> n" "trr_pickle_file t = Some (trr_file dir_metadata n)"
    and "writes_within md n (fl_files s) files'" "CHR ''/'' \<notin> set n" "CHR ''/'' \<notin> set (int_tds ts)"
  shows "run_ok md dir_metadata (export_run n ph t files' s) ts"
proof -
  have "files' (uvm_log_of md (run_dir md (int_tds ts))) = fl_files s (uvm_log_of md (run_dir md (int_tds ts)))"
    using assms(2,4-6) log_of_other_run unfolding writes_within_def by blast
  then have "log_passes md files' ts = log_passes md (fl_files s) ts" by (simp add: log_passes_run)
  moreover have "fl_trr (export_run n ph t files' s) (trr_file dir_metadata (int_tds ts)) = fl_trr s (trr_file dir_metadata (int_tds ts))"
    "fl_phase (export_run n ph t files' s) (int_tds ts) = fl_phase s (int_tds ts)" "fl_files (export_run n ph t files' s) = files'"
    using assms(2,3) by (simp_all add: export_run_def str_opt_def)
  ultimately show ?thesis using assms(1) by (simp only: run_ok_def)
qed

lemma writes_within_refl [simp]: "writes_within md n files files"
  by (simp add: writes_within_def)

lemma flow_inv_export:
  assumes "flow_inv md dir_metadata tss s" "n \<in> set (map int_tds tss)" "list_all (\<lambda>ts. CHR ''/'' \<notin> set (int_tds ts)) tss"
    and "fl_trr s (trr_file dir_metadata n) = Some t" "writes_within md n (fl_files s) files'"
    and "trr_pickle_file t' = trr_pickle_file t" "dir_test t' = dir_test t"
    and own: "\<And>ts. ts \<in> set tss \<Longrightarrow> int_tds ts = n \<Longrightarrow> dir_test t = Some (run_dir md n) \<Longrightarrow> run_ok md dir_metadata s ts \<Longrightarrow>
      (if ph = CHECKED then (passed t' = Some True \<longrightarrow> log_passes md files' ts) \<and> (passed t' = Some True \<or> failure_mode t' \<noteq> None)
       else passed t' = None) \<and> (ph = SIMULATED \<longrightarrow> rtl_log t' = Some (uvm_log_of md (run_dir md n)))"
  shows "flow_inv md dir_metadata tss (export_run n ph t' files' s)"
proof -
  have ok: "run_ok md dir_metadata s ts" if "ts \<in> set tss" for ts using assms(1) that by (simp add: flow_inv_def list_all_iff)
  from assms(2) obtain ts0 where ts0: "ts0 \<in> set tss" "n = int_tds ts0" by auto
  have t: "trr_pickle_file t = Some (trr_file dir_metadata n)" "dir_test t = Some (run_dir md n)"
    using ok [OF ts0(1)] assms(4) by (simp_all add: run_ok_def ts0(2))
  have "run_ok md dir_metadata (export_run n ph t' files' s) ts" if ts: "ts \<in> set tss" for ts
  proof (cases "int_tds ts = n")
    case True
    from own [OF ts True t(2) ok [OF ts]] show ?thesis
      using t assms(6,7) True by (simp add: run_ok_def export_run_def str_opt_def split: if_splits)
  next
    case False
    with ts ok assms(3,5,6) t ts0 show ?thesis by (intro other_run_ok) (auto simp: list_all_iff)
  qed
  then show ?thesis by (simp add: flow_inv_def list_all_iff)
qed

lemma run_okD:
  assumes "run_ok md d s ts" "fl_trr s (trr_file d (int_tds ts)) = Some t" "fl_phase s (int_tds ts) \<noteq> CHECKED"
  shows "passed t = None" "fl_phase s (int_tds ts) = SIMULATED \<Longrightarrow> rtl_log t = Some (uvm_log_of md (run_dir md (int_tds ts)))"
  using assms by (simp_all add: run_ok_def)

lemma flow_inv_step:
  assumes "flow_step md d testlist sim_yaml (map int_tds tss) s s'" "flow_inv md d tss s"
    and "list_all (\<lambda>ts. CHR ''/'' \<notin> set (int_tds ts)) tss"
  shows "flow_inv md d tss s'"
  using assms(1,2)
proof (induction rule: flow_step.induct)
  case (generate n s t x env td cmds_list p fs' files')
  note same = instr_gen_same_run [OF generate.hyps(5), unfolded same_run_def]
  show ?case
    by (rule flow_inv_export [OF generate.prems generate.hyps(1) assms(3) generate.hyps(3,6)])
      (use same generate.hyps run_okD(1) in auto)
next
  case (compile n s t x td orig_list b files')
  note same = compile_same_run [OF compile.hyps(4), unfolded same_run_def]
  show ?case
    by (rule flow_inv_export [OF compile.prems compile.hyps(1) assms(3) compile.hyps(2,5)])
      (use same compile.hyps run_okD(1) in \<open>auto split: if_splits\<close>)
next
  case (simulate n s t x env r files')
  from run_rtl_result [OF simulate.hyps(4)] obtain dir where r: "dir_test t = Some dir" "rtl_log r = Some (uvm_log_of md dir)"
    "passed r = passed t" "dir_test r = dir_test t" by blast
  show ?case
    by (rule flow_inv_export [OF simulate.prems simulate.hyps(1) assms(3) simulate.hyps(3,5)])
      (use r run_rtl_pickle [OF simulate.hyps(4)] simulate.hyps run_okD(1) in auto)
next
  case (judge n s t r)
  show ?case
  proof (rule flow_inv_export [OF judge.prems judge.hyps(1) assms(3) judge.hyps(3)])
    fix ts assume ts: "int_tds ts = n" "run_ok md d s ts"
    have t: "passed t = None" "rtl_log t = Some (uvm_log_of md (run_dir md n))"
      using run_okD [OF ts(2), of t] judge.hyps(2,3) ts(1) by simp_all
    show "(if CHECKED = CHECKED then (passed r = Some True \<longrightarrow> log_passes md (fl_files s) ts) \<and> (passed r = Some True \<or> failure_mode r \<noteq> None)
       else passed r = None) \<and> (CHECKED = SIMULATED \<longrightarrow> rtl_log r = Some (uvm_log_of md (run_dir md n)))"
      using compare_test_run_result [OF _ judge.hyps(4)] t ts(1) by (auto simp: log_passes_run str_opt_def)
  qed (use compare_pickle [OF judge.hyps(4)] in simp_all)
next
  case (stop n s t t' files')
  note same = stop.hyps(4) [unfolded same_run_def]
  show ?case
    by (rule flow_inv_export [OF stop.prems stop.hyps(1) assms(3) stop.hyps(3,5)])
      (use same stop.hyps run_okD(1) in auto)
qed

text \<open>The machine is an instance of the shared contract, from any state in which the invariant holds.\<close>

interpretation flow: transition_system "flow_step md d testlist sim_yaml (map int_tds tss)" s0
    "\<lambda>s. list_all (\<lambda>ts. CHR ''/'' \<notin> set (int_tds ts)) tss \<and> flow_inv md d tss s0 \<longrightarrow> flow_inv md d tss s"
  for md d testlist sim_yaml tss s0
  by unfold_locales (blast, use flow_inv_step in blast)

text \<open>The state in which \<open>metadata.py\<close> leaves the flow.\<close>

definition flow_start :: "stored_objects \<Rightarrow> (string \<rightharpoonup> string) \<Rightarrow> flow_state" where
  "flow_start st files = \<lparr>fl_trr = stored_trr st, fl_files = files, fl_phase = (\<lambda>_. NEW)\<rparr>"

definition load_run :: "flow_state \<Rightarrow> string \<Rightarrow> TestRunResult res" where
  "load_run s f = (case fl_trr s f of None \<Rightarrow> Inl (OSError f) | Some t \<Rightarrow> Inr t)"

lemma flow_inv_start:
  assumes "stored_md st (metadata_pickle dir) = None"
    and "metadata_main w getattr dir dir_out git_commit args_list CREATE st = Inr (st', out)"
    and "stored_md st' (metadata_pickle dir) = Some md"
  shows "flow_inv md dir (run_names md (md_tests_and_counts md)) (flow_start st' files)"
    "md_tests_pickle_files md = map (\<lambda>ts. trr_file dir (int_tds ts)) (run_names md (md_tests_and_counts md))"
proof -
  from assms(1,2) obtain m trrs where c: "create_metadata w dir dir_out git_commit args_list = Inr (m, trrs)"
    and st': "st' = export_md m (fold export_trr trrs st)" by (auto simp: metadata_main_def rbind_Inr_iff)
  have m: "m = md" using assms(3) by (simp add: st' export_md_def create_metadata_named(2) [OF c])
  note c = c [unfolded m] and named = create_metadata_named [OF c [unfolded m]] and fresh = create_metadata_fresh [OF c [unfolded m]]
  note pk = create_metadata_pickles [OF c]
  have files: "map Some (md_tests_pickle_files md) = map (\<lambda>ts. Some (trr_file dir (int_tds ts))) (run_names md (md_tests_and_counts md))"
    using pk by (simp add: trr_file_def)
  have "map the (map Some (md_tests_pickle_files md)) = map the (map (\<lambda>ts. Some (trr_file dir (int_tds ts))) (run_names md (md_tests_and_counts md)))"
    unfolding files ..
  then show "md_tests_pickle_files md = map (\<lambda>ts. trr_file dir (int_tds ts)) (run_names md (md_tests_and_counts md))"
    by (simp add: comp_def)
  have some: "trr_pickle_file u \<noteq> None" if "u \<in> set trrs" for u using named(1) that by (auto simp: list_all_iff named_run_def)
  have "run_ok md dir (flow_start st' files) ts" if ts: "ts \<in> set (run_names md (md_tests_and_counts md))" for ts
  proof -
    have pks: "map trr_pickle_file trrs = map (\<lambda>ts. Some (trr_file dir (int_tds ts))) (run_names md (md_tests_and_counts md))"
      using pk files by simp
    then have "Some (trr_file dir (int_tds ts)) \<in> set (map trr_pickle_file trrs)" using ts by simp
    then obtain t where t: "t \<in> set trrs" "trr_pickle_file t = Some (trr_file dir (int_tds ts))" by auto
    obtain u where u: "u \<in> set trrs" "stored_trr (fold export_trr trrs st) (trr_file dir (int_tds ts)) = Some u"
      "trr_pickle_file u = Some (trr_file dir (int_tds ts))"
      using stored_trr_file [OF t(1) some, of st] t(2) by (auto simp: str_opt_def)
    have "list_all2 (\<lambda>u v. fresh_run md u v \<and> trr_pickle_file u = Some (trr_file dir (int_tds v))) trrs (run_names md (md_tests_and_counts md))"
      using fresh pks by (auto simp: list_all2_conv_all_nth dest: arg_cong [of _ _ "\<lambda>xs. xs ! _"]) (metis length_map nth_map)
    from list_all2_left [OF this u(1)] obtain v where v: "fresh_run md u v" "trr_pickle_file u = Some (trr_file dir (int_tds v))" by blast
    then have "int_tds v = int_tds ts" using u(3) by simp
    then show ?thesis using u v by (simp add: run_ok_def flow_start_def st' export_md_def fresh_run_def run_dir_def)
  qed
  then show "flow_inv md dir (run_names md (md_tests_and_counts md)) (flow_start st' files)" by (simp add: flow_inv_def list_all_iff)
qed

end
