(* ===== verification/Sv2v.thy ===== *)
theory Sv2v
  imports Py_Paths Py_Shlex Py_Data
begin

text \<open>
  \<open>util/sv2v_in_place.py\<close> of the Ibex core: converting a list of SystemVerilog files in place with the external
  tool \<open>sv2v\<close>. The file system is a map from paths to texts; a run of the tool is a parameter that sees the
  files and the command and gives a return code with its output, or an exception when it cannot be started.
  Compiling the regular expressions of \<open>--define-if\<close> is a parameter too. Log output is not modelled, writing
  a file does not fail, and the temporary directory is new and is removed at the end.
\<close>

type_synonym fsys = "string \<rightharpoonup> string"

type_synonym sv2v_tool = "fsys \<Rightarrow> string list \<Rightarrow> (int \<times> string) res"

definition read_file_list :: "fsys \<Rightarrow> string \<Rightarrow> string list res" where
  "read_file_list fs path = (case fs path of
     None \<Rightarrow> Inl (OSError path) | Some content \<Rightarrow> Inr (map strip (file_lines content)))"

definition sv2v_cmd :: "string \<Rightarrow> string list \<Rightarrow> string list \<Rightarrow> string list \<Rightarrow> string \<Rightarrow> string list" where
  "sv2v_cmd sv2v defines incdirs pkg_paths sv_path =
     [sv2v, ''--exclude=assert''] @ map (\<lambda>d. ''--define='' @ d) defines @ map (\<lambda>d. ''--incdir='' @ d) incdirs @
     pkg_paths @ (if sv_path \<in> set pkg_paths then [] else [sv_path])"

text \<open>The destination is opened, and so emptied, before the tool runs.\<close>

definition transform_one :: "sv2v_tool \<Rightarrow> string \<Rightarrow> string list \<Rightarrow> string list \<Rightarrow> string list \<Rightarrow> string \<Rightarrow> string \<Rightarrow> fsys \<Rightarrow> fsys res" where
  "transform_one tool sv2v defines incdirs pkg_paths sv_path dst_path fs =
     (let cmd = sv2v_cmd sv2v defines incdirs pkg_paths sv_path in
      rbind (tool (fs(dst_path \<mapsto> [])) cmd) (\<lambda>(returncode, out).
        if returncode \<noteq> 0
        then Inl (RuntimeError (''Failed to run sv2v on '' @ sv_path @ ''. Exit code: '' @ int_str returncode
               @ ''. Full command: '' @ py_join '' '' (map shlex_quote cmd)))
        else Inr (fs(dst_path \<mapsto> out))))"

text \<open>\<open>compile\<close> gives the search of a regular expression, or the text of its error.\<close>

definition parse_define_if :: "(string \<Rightarrow> string + (string \<Rightarrow> bool)) \<Rightarrow> string \<Rightarrow> ((string \<Rightarrow> bool) \<times> string) res" where
  "parse_define_if compile arg = (case rsplit_once (CHR '':'') arg of
     [re_str, def] \<Rightarrow>
       (case compile re_str of
          Inl err \<Rightarrow> Inl (ArgumentTypeError (''The regex for the --define-if argument ('' @ repr_str re_str
                       @ '') is malformed: '' @ err @ ''.''))
        | Inr search \<Rightarrow> Inr (search, def))
   | _ \<Rightarrow> Inl (ArgumentTypeError (''The --define-if argument '' @ repr_str arg
            @ '' contains no colon. The correct syntax is \"--define-if regex:define\".'')))"

definition file_defines :: "string list \<Rightarrow> ((string \<Rightarrow> bool) \<times> string) list \<Rightarrow> string \<Rightarrow> string list" where
  "file_defines defines defines_if src_path = defines @ map snd (filter (\<lambda>(search, def). search src_path) defines_if)"

definition tmp_path :: "string \<Rightarrow> nat \<Rightarrow> string" where
  "tmp_path tmpdir idx = os_join tmpdir (nat_str idx)"

text \<open>The first loop writes every result to the temporary directory, the second copies them over the sources.\<close>

definition convert_all :: "sv2v_tool \<Rightarrow> string \<Rightarrow> string \<Rightarrow> string list \<Rightarrow> ((string \<Rightarrow> bool) \<times> string) list \<Rightarrow> string list
    \<Rightarrow> string list \<Rightarrow> string list \<Rightarrow> fsys \<Rightarrow> fsys res" where
  "convert_all tool tmpdir sv2v defines defines_if incdirs pkg_paths sv_paths fs =
     rfold (\<lambda>fs (idx, src_path).
         transform_one tool sv2v (file_defines defines defines_if src_path) incdirs pkg_paths src_path (tmp_path tmpdir idx) fs)
       fs (zip [0..<length sv_paths] sv_paths)"

definition copy_back :: "string \<Rightarrow> string list \<Rightarrow> fsys \<Rightarrow> fsys" where
  "copy_back tmpdir sv_paths fs =
     fold (\<lambda>(idx, src_path) fs. fs(src_path := fs (tmp_path tmpdir idx))) (zip [0..<length sv_paths] sv_paths) fs"

definition in_dir :: "string \<Rightarrow> string \<Rightarrow> bool" where
  "in_dir d p = prefix (d @ ''/'') p"

definition remove_dir :: "string \<Rightarrow> fsys \<Rightarrow> fsys" where
  "remove_dir d fs = (\<lambda>p. if in_dir d p then None else fs p)"

definition transform :: "sv2v_tool \<Rightarrow> string \<Rightarrow> string \<Rightarrow> string list \<Rightarrow> ((string \<Rightarrow> bool) \<times> string) list \<Rightarrow> string list
    \<Rightarrow> string list \<Rightarrow> string list \<Rightarrow> fsys \<Rightarrow> fsys res" where
  "transform tool tmpdir sv2v defines defines_if incdirs pkg_paths sv_paths fs =
     rbind (convert_all tool tmpdir sv2v defines defines_if incdirs pkg_paths sv_paths fs) (\<lambda>fs.
       Inr (remove_dir tmpdir (copy_back tmpdir sv_paths fs)))"

text \<open>\<open>os.path.splitext(p)[1]\<close>: from the last dot of the last component, unless only dots come before it there.\<close>

definition file_ext :: "string \<Rightarrow> string" where
  "file_ext p = (let base = rev (takeWhile (\<lambda>c. c \<noteq> CHR ''/'') (rev p)) in
     case rsplit_once (CHR ''.'') base of
       [stem, ext] \<Rightarrow> if list_ex (\<lambda>c. c \<noteq> CHR ''.'') stem then CHR ''.'' # ext else []
     | _ \<Rightarrow> [])"

record sv2v_args =
  arg_file_list :: string
  arg_defines :: "string list"
  arg_defines_if :: "((string \<Rightarrow> bool) \<times> string) list"
  arg_incdirs :: "string list"
  arg_incdir_list :: "string option"
  arg_sv2v :: string

definition sv_files :: "string list \<Rightarrow> string list" where "sv_files = filter (\<lambda>p. file_ext p = ''.sv'')"

definition svh_files :: "string list \<Rightarrow> string list" where "svh_files = filter (\<lambda>p. file_ext p = ''.svh'')"

definition pkg_files :: "string list \<Rightarrow> string list" where "pkg_files = filter (\<lambda>p. endswith p ''pkg.sv'')"

text \<open>
  \<open>main\<close>: the exit code and the files. A list that cannot be read and a conversion that fails are 1; an exception
  that is not a \<open>RuntimeError\<close> leaves the program.
\<close>

definition all_incdirs :: "fsys \<Rightarrow> sv2v_args \<Rightarrow> string list res" where
  "all_incdirs fs args = (case arg_incdir_list args of
     None \<Rightarrow> Inr (arg_incdirs args) | Some f \<Rightarrow> rbind (read_file_list fs f) (\<lambda>ds. Inr (arg_incdirs args @ ds)))"

definition sv2v_main :: "sv2v_tool \<Rightarrow> string \<Rightarrow> sv2v_args \<Rightarrow> fsys \<Rightarrow> (int \<times> fsys) res" where
  "sv2v_main tool tmpdir args fs =
     (case read_file_list fs (arg_file_list args) of
        Inl _ \<Rightarrow> Inr (1, fs)
      | Inr paths \<Rightarrow>
          (case all_incdirs fs args of
             Inl _ \<Rightarrow> Inr (1, fs)
           | Inr dirs \<Rightarrow>
               (case transform tool tmpdir (arg_sv2v args) (arg_defines args) (arg_defines_if args) dirs (pkg_files paths) (sv_files paths) fs of
                  Inl (RuntimeError _) \<Rightarrow> Inr (1, fs)
                | Inl e \<Rightarrow> Inl e
                | Inr fs \<Rightarrow> Inr (0, fold (\<lambda>p fs. fs(p \<mapsto> [])) (svh_files paths) fs))))"

section \<open>Packages are sources\<close>

lemma rsplit_once_append: "CHR ''.'' \<notin> set e \<Longrightarrow> rsplit_once (CHR ''.'') (s @ CHR ''.'' # e) = [s, e]"
proof -
  assume e: "CHR ''.'' \<notin> set e"
  then have "dropWhile (\<lambda>x. x \<noteq> CHR ''.'') (rev e @ CHR ''.'' # rev s) = CHR ''.'' # rev s"
    "takeWhile (\<lambda>x. x \<noteq> CHR ''.'') (rev e @ CHR ''.'' # rev s) = rev e"
    by (auto simp: dropWhile_append takeWhile_append dropWhile_eq_Nil_conv)
  then show ?thesis by (simp add: rsplit_once_def)
qed

lemma pkg_is_sv: "endswith p ''pkg.sv'' \<Longrightarrow> file_ext p = ''.sv''"
proof -
  assume "endswith p ''pkg.sv''"
  then obtain q where p: "p = q @ ''pkg.sv''" by (auto simp: endswith_def suffix_def)
  let ?b = "rev (takeWhile (\<lambda>c. c \<noteq> CHR ''/'') (rev q))"
  have "rev (takeWhile (\<lambda>c. c \<noteq> CHR ''/'') (rev p)) = (?b @ ''pkg'') @ CHR ''.'' # ''sv''" by (simp add: p)
  with rsplit_once_append [of "''sv''" "?b @ ''pkg''"] show ?thesis
    by (simp add: file_ext_def Let_def list_ex_append)
qed

lemma pkg_files_sv: "set (pkg_files paths) \<subseteq> set (sv_files paths)"
  by (auto simp: pkg_files_def sv_files_def pkg_is_sv)

section \<open>Conversion in place\<close>

text \<open>The tool does not look into the temporary directory.\<close>

definition isolated :: "sv2v_tool \<Rightarrow> string \<Rightarrow> bool" where
  "isolated tool tmpdir = (\<forall>f g c. (\<forall>p. \<not> in_dir tmpdir p \<longrightarrow> f p = g p) \<longrightarrow> tool f c = tool g c)"

definition tmp_ok :: "string \<Rightarrow> bool" where
  "tmp_ok tmpdir = (tmpdir \<noteq> [] \<and> \<not> suffix ''/'' tmpdir)"

lemma nat_str_no_slash_prefix: "\<not> prefix ''/'' (nat_str n)"
  using nat_str_no_slash [of n] by (auto simp: prefix_def)

lemma tmp_path_eq: "tmp_ok tmpdir \<Longrightarrow> tmp_path tmpdir i = tmpdir @ ''/'' @ nat_str i"
  by (simp add: tmp_path_def os_join_def tmp_ok_def nat_str_no_slash_prefix)

lemma tmp_path_in_dir [simp]: "tmp_ok tmpdir \<Longrightarrow> in_dir tmpdir (tmp_path tmpdir i)"
  by (simp add: tmp_path_eq in_dir_def)

lemma tmp_path_inj [simp]: "tmp_ok tmpdir \<Longrightarrow> tmp_path tmpdir i = tmp_path tmpdir j \<longleftrightarrow> i = j"
  by (simp add: tmp_path_eq nat_str_inject)

lemma isolatedD: "isolated tool d \<Longrightarrow> (\<And>p. \<not> in_dir d p \<Longrightarrow> f p = g p) \<Longrightarrow> tool f c = tool g c"
  by (auto simp: isolated_def)

text \<open>The first loop: every file is converted as if it were the only one, and only temporary files are written.\<close>

lemma convert_loop:
  assumes "isolated tool d" "tmp_ok d"
  shows "rfold (\<lambda>fs (idx, src). transform_one tool b (ds src) inc pkgs src (tmp_path d idx) fs) fs (zip [k..<k + length xs] xs) = Inr fs'
    \<Longrightarrow> (\<And>p. \<not> in_dir d p \<Longrightarrow> fs p = g p)
    \<Longrightarrow> (\<forall>p. \<not> in_dir d p \<longrightarrow> fs' p = g p) \<and> (\<forall>j < k. fs' (tmp_path d j) = fs (tmp_path d j))
      \<and> (\<forall>i < length xs. \<exists>out. tool g (sv2v_cmd b (ds (xs ! i)) inc pkgs (xs ! i)) = Inr (0, out) \<and> fs' (tmp_path d (k + i)) = Some out)"
proof (induction xs arbitrary: k fs)
  case (Cons x xs)
  have z: "zip [k..<k + length (x # xs)] (x # xs) = (k, x) # zip [Suc k..<Suc k + length xs] xs"
    by (simp add: upt_conv_Cons del: upt_Suc)
  from Cons.prems(1) obtain fs1 where one: "transform_one tool b (ds x) inc pkgs x (tmp_path d k) fs = Inr fs1"
    and rest: "rfold (\<lambda>fs (idx, src). transform_one tool b (ds src) inc pkgs src (tmp_path d idx) fs) fs1
      (zip [Suc k..<Suc k + length xs] xs) = Inr fs'"
    unfolding z by (auto simp: rbind_Inr_iff)
  from one obtain out where out: "tool (fs(tmp_path d k \<mapsto> [])) (sv2v_cmd b (ds x) inc pkgs x) = Inr (0, out)"
    "fs1 = fs(tmp_path d k \<mapsto> out)"
    by (auto simp: transform_one_def Let_def rbind_Inr_iff split: if_splits)
  have g1: "\<not> in_dir d p \<Longrightarrow> fs1 p = g p" for p using Cons.prems(2) assms(2) out(2) by auto
  have "tool (fs(tmp_path d k \<mapsto> [])) (sv2v_cmd b (ds x) inc pkgs x) = tool g (sv2v_cmd b (ds x) inc pkgs x)"
    using Cons.prems(2) assms(2) by (intro isolatedD [OF assms(1)]) auto
  with out(1) have x: "tool g (sv2v_cmd b (ds x) inc pkgs x) = Inr (0, out)" by simp
  from Cons.IH [OF rest g1] have IH: "\<forall>p. \<not> in_dir d p \<longrightarrow> fs' p = g p" "\<forall>j < Suc k. fs' (tmp_path d j) = fs1 (tmp_path d j)"
    "\<And>i. i < length xs \<Longrightarrow> \<exists>out. tool g (sv2v_cmd b (ds (xs ! i)) inc pkgs (xs ! i)) = Inr (0, out) \<and> fs' (tmp_path d (Suc k + i)) = Some out"
    by blast+
  have "\<exists>out. tool g (sv2v_cmd b (ds ((x # xs) ! i)) inc pkgs ((x # xs) ! i)) = Inr (0, out) \<and> fs' (tmp_path d (k + i)) = Some out"
    if "i < length (x # xs)" for i
    using that x IH(2,3) out(2) by (cases i) auto
  then show ?case using IH(1,2) out(2) assms(2) by auto
qed simp

text \<open>The second loop: each source gets its result.\<close>

lemma copy_loop:
  assumes "tmp_ok d"
  shows "(\<And>i. i < length xs \<Longrightarrow> fs (tmp_path d (k + i)) = Some (out (xs ! i))) \<Longrightarrow> (\<And>x. x \<in> set xs \<Longrightarrow> \<not> in_dir d x)
    \<Longrightarrow> fold (\<lambda>(idx, src) fs. fs(src := fs (tmp_path d idx))) (zip [k..<k + length xs] xs) fs p =
      (if p \<in> set xs then Some (out p) else fs p)"
proof (induction xs arbitrary: k fs)
  case (Cons x xs)
  have z: "zip [k..<k + length (x # xs)] (x # xs) = (k, x) # zip [Suc k..<Suc k + length xs] xs"
    by (simp add: upt_conv_Cons del: upt_Suc)
  let ?fs = "fs(x \<mapsto> out x)"
  have x: "fs (tmp_path d k) = Some (out x)" using Cons.prems(1) [of 0] by simp
  have ih: "fold (\<lambda>(idx, src) fs. fs(src := fs (tmp_path d idx))) (zip [Suc k..<Suc k + length xs] xs) ?fs p =
      (if p \<in> set xs then Some (out p) else ?fs p)"
  proof (rule Cons.IH)
    show "?fs (tmp_path d (Suc k + i)) = Some (out (xs ! i))" if "i < length xs" for i
      using Cons.prems(1) [of "Suc i"] Cons.prems(2) [of x] that assms by auto
  qed (use Cons.prems(2) in auto)
  have e: "fold (\<lambda>(idx, src) fs. fs(src := fs (tmp_path d idx))) (zip [k..<k + length (x # xs)] (x # xs)) fs =
      fold (\<lambda>(idx, src) fs. fs(src := fs (tmp_path d idx))) (zip [Suc k..<Suc k + length xs] xs) ?fs"
    unfolding z by (simp add: x del: upt_Suc)
  show ?case unfolding e ih by simp
qed simp

lemma transform_files:
  assumes "isolated tool d" "tmp_ok d" "\<And>p. in_dir d p \<Longrightarrow> fs p = None" "\<And>p. p \<in> set xs \<Longrightarrow> \<not> in_dir d p"
    and "transform tool d b ds dif inc pkgs xs fs = Inr fs'"
  shows "(\<forall>p \<in> set xs. \<exists>out. tool fs (sv2v_cmd b (file_defines ds dif p) inc pkgs p) = Inr (0, out) \<and> fs' p = Some out)
    \<and> (\<forall>p. p \<notin> set xs \<longrightarrow> fs' p = fs p)"
proof -
  from assms(5) obtain fs1 where c: "convert_all tool d b ds dif inc pkgs xs fs = Inr fs1"
    and fs': "fs' = remove_dir d (copy_back d xs fs1)"
    by (auto simp: transform_def rbind_Inr_iff)
  from convert_loop [OF assms(1,2), of b "file_defines ds dif" inc pkgs fs 0 xs fs1 fs] c
  have loop: "\<forall>p. \<not> in_dir d p \<longrightarrow> fs1 p = fs p"
    "\<forall>i < length xs. \<exists>out. tool fs (sv2v_cmd b (file_defines ds dif (xs ! i)) inc pkgs (xs ! i)) = Inr (0, out) \<and> fs1 (tmp_path d i) = Some out"
    by (simp_all add: convert_all_def)
  define out where "out p = (case tool fs (sv2v_cmd b (file_defines ds dif p) inc pkgs p) of Inr (_, t) \<Rightarrow> t | Inl _ \<Rightarrow> [])" for p
  have "fs1 (tmp_path d (0 + i)) = Some (out (xs ! i))" if "i < length xs" for i
    using loop(2) that by (fastforce simp: out_def)
  then have cb: "copy_back d xs fs1 p = (if p \<in> set xs then Some (out p) else fs1 p)" for p
    using copy_loop [OF assms(2), of xs fs1 0 out p] assms(4) by (simp add: copy_back_def)
  have "\<exists>out. tool fs (sv2v_cmd b (file_defines ds dif p) inc pkgs p) = Inr (0, out) \<and> fs' p = Some out" if "p \<in> set xs" for p
  proof -
    from that obtain i where "i < length xs" "p = xs ! i" by (auto simp: in_set_conv_nth)
    with loop(2) obtain t where "tool fs (sv2v_cmd b (file_defines ds dif p) inc pkgs p) = Inr (0, t)" by blast
    then show ?thesis using that assms(4) by (simp add: fs' remove_dir_def cb out_def)
  qed
  moreover have "fs' p = fs p" if "p \<notin> set xs" for p
    using that assms(3) loop(1) by (simp add: fs' remove_dir_def cb)
  ultimately show ?thesis by blast
qed

lemma fold_truncate: "fold (\<lambda>p fs. fs(p \<mapsto> [])) ps fs q = (if q \<in> set ps then Some [] else fs q)"
  by (induction ps arbitrary: fs) auto

text \<open>
  C20. Converting in place does not depend on the order of the files. When the program returns 1 no file has changed.
  When it returns 0, every listed \<open>.sv\<close> file holds the output of \<open>sv2v\<close> on the files as they were at the start
  (although the sources, which other conversions include, are overwritten), with the packages of the list and the defines
  that match its path; every \<open>.svh\<close> file is empty; and nothing else has changed. The tool may not look into the
  temporary directory, which is new, and the listed files are outside of it.
\<close>

theorem sv2v_in_place:
  assumes "isolated tool d" "tmp_ok d" "\<forall>p. in_dir d p \<longrightarrow> fs p = None"
    and "read_file_list fs (arg_file_list args) = Inr paths" "\<forall>p \<in> set paths. \<not> in_dir d p"
    and "sv2v_main tool d args fs = Inr (ret, fs')"
  shows "if ret = 0 then \<exists>dirs. all_incdirs fs args = Inr dirs
      \<and> (\<forall>p \<in> set (sv_files paths). \<exists>out. fs' p = Some out \<and>
          tool fs (sv2v_cmd (arg_sv2v args) (file_defines (arg_defines args) (arg_defines_if args) p) dirs (pkg_files paths) p) = Inr (0, out))
      \<and> (\<forall>p \<in> set (svh_files paths). fs' p = Some [])
      \<and> (\<forall>p. p \<notin> set (sv_files paths) \<union> set (svh_files paths) \<longrightarrow> fs' p = fs p)
    else ret = 1 \<and> fs' = fs"
proof (cases "all_incdirs fs args")
  case (Inl e)
  with assms(4,6) show ?thesis by (simp add: sv2v_main_def)
next
  case (Inr dirs)
  let ?t = "transform tool d (arg_sv2v args) (arg_defines args) (arg_defines_if args) dirs (pkg_files paths) (sv_files paths) fs"
  show ?thesis
  proof (cases ?t)
    case (Inl e)
    with Inr assms(4,6) show ?thesis by (cases e) (auto simp: sv2v_main_def)
  next
    case r: (Inr fs1)
    have disj: "p \<notin> set (svh_files paths)" if "p \<in> set (sv_files paths)" for p
      using that by (simp add: sv_files_def svh_files_def)
    have "(\<forall>p \<in> set (sv_files paths). \<exists>out. tool fs (sv2v_cmd (arg_sv2v args)
          (file_defines (arg_defines args) (arg_defines_if args) p) dirs (pkg_files paths) p) = Inr (0, out) \<and> fs1 p = Some out)
        \<and> (\<forall>p. p \<notin> set (sv_files paths) \<longrightarrow> fs1 p = fs p)"
      by (rule transform_files [OF assms(1,2) _ _ r]) (use assms(3,5) in \<open>auto simp: sv_files_def\<close>)
    moreover have "ret = 0" "fs' = fold (\<lambda>p fs. fs(p \<mapsto> [])) (svh_files paths) fs1"
      using assms(4,6) Inr r by (simp_all add: sv2v_main_def)
    ultimately show ?thesis using Inr disj by (fastforce simp: fold_truncate)
  qed
qed

definition demo_sv2v :: sv2v_tool where
  "demo_sv2v fs cmd = (case fs (last cmd) of None \<Rightarrow> Inr (1, []) | Some t \<Rightarrow> Inr (0, ''conv '' @ t))"

definition demo_sv_args :: sv2v_args where
  "demo_sv_args = \<lparr>arg_file_list = ''files'', arg_defines = [], arg_defines_if = [], arg_incdirs = [], arg_incdir_list = None, arg_sv2v = ''sv2v''\<rparr>"

definition demo_fs :: fsys where
  "demo_fs = [''files'' \<mapsto> ''a.sv'' @ nl @ ''b.svh'' @ nl, ''a.sv'' \<mapsto> ''module'', ''b.svh'' \<mapsto> ''x'']"

text \<open>The example tool reads the last file of its command, outside of the temporary directory.\<close>

lemma demo_sv_isolated: "isolated (\<lambda>fs cmd. if in_dir ''/t'' (last cmd) then Inr (1, []) else demo_sv2v fs cmd) ''/t''"
  by (auto simp: isolated_def demo_sv2v_def)

theorem sv2v_in_place_witness:
  "\<exists>fs'. sv2v_main (\<lambda>fs cmd. if in_dir ''/t'' (last cmd) then Inr (1, []) else demo_sv2v fs cmd) ''/t'' demo_sv_args demo_fs = Inr (0, fs')
     \<and> fs' ''a.sv'' = Some ''conv module'' \<and> fs' ''files'' = demo_fs ''files''"
proof -
  let ?tool = "\<lambda>fs cmd. if in_dir ''/t'' (last cmd) then Inr (1, []) else demo_sv2v fs cmd"
  have paths: "read_file_list demo_fs (arg_file_list demo_sv_args) = Inr [''a.sv'', ''b.svh'']" by code_simp
  have sv: "sv_files [''a.sv'', ''b.svh''] = [''a.sv'']" "svh_files [''a.sv'', ''b.svh''] = [''b.svh'']" by code_simp+
  have "map_sum id fst (sv2v_main ?tool ''/t'' demo_sv_args demo_fs) = Inr 0" by code_simp
  then obtain fs' where r: "sv2v_main ?tool ''/t'' demo_sv_args demo_fs = Inr (0, fs')"
    by (cases "sv2v_main ?tool ''/t'' demo_sv_args demo_fs") auto
  have none: "\<forall>p. in_dir ''/t'' p \<longrightarrow> demo_fs p = None" by (auto simp: demo_fs_def in_dir_def)
  have out: "\<forall>p \<in> set [''a.sv'', ''b.svh'']. \<not> in_dir ''/t'' p" by (simp add: in_dir_def)
  have ok: "tmp_ok ''/t''" by (simp add: tmp_ok_def suffix_def)
  have a: "arg_defines demo_sv_args = []" "arg_defines_if demo_sv_args = []" by (simp_all add: demo_sv_args_def)
  have pkg: "pkg_files [''a.sv'', ''b.svh''] = []" by code_simp
  have last: "last (sv2v_cmd b ds dirs [] ''a.sv'') = ''a.sv''" for b ds dirs by (simp add: sv2v_cmd_def)
  have spec: "(\<exists>dirs. \<exists>out. fs' ''a.sv'' = Some out \<and>
        ?tool demo_fs (sv2v_cmd (arg_sv2v demo_sv_args) (file_defines [] [] ''a.sv'') dirs [] ''a.sv'') = Inr (0, out))
      \<and> fs' ''files'' = demo_fs ''files''"
  proof -
    have "(if (0 :: int) = 0 then A else B) = A" for A B by simp
    note m = sv2v_in_place [OF demo_sv_isolated ok none paths out r, unfolded sv a pkg this]
    then obtain dirs where m: "\<forall>p \<in> set [''a.sv'']. \<exists>out. fs' p = Some out \<and>
        ?tool demo_fs (sv2v_cmd (arg_sv2v demo_sv_args) (file_defines [] [] p) dirs [] p) = Inr (0, out)"
      "\<forall>p. p \<notin> set [''a.sv''] \<union> set [''b.svh''] \<longrightarrow> fs' p = demo_fs p" by blast
    have "fs' ''files'' = demo_fs ''files''" using m(2) by simp
    moreover have "''a.sv'' \<in> set [''a.sv'']" by simp
    ultimately show ?thesis using m(1) by blast
  qed
  then have "fs' ''a.sv'' = Some ''conv module''" by (auto simp: last in_dir_def demo_sv2v_def demo_fs_def)
  with spec r show ?thesis by blast
qed

end
