(* ===== verification/Synth_Flow.thy ===== *)
theory Synth_Flow
  imports Py_Floats Py_Regex
begin

text \<open>
  The scripts of the Ibex synthesis flow, in \<open>syn/python\<close>: \<open>flow_utils.py\<close>, \<open>build_translated_names.py\<close> and
  \<open>translate_timing_csv.py\<close> (readable names in timing reports) and \<open>get_kge.py\<close> (the area in gate equivalents).
  The file system is a map; the set of cells is a list in the order of iteration; starting Yosys is left out. How a
  number is printed is a parameter.
\<close>

section \<open>Reading CSV files\<close>

text \<open>\<open>csv.reader\<close> with its default dialect, on the text of a file: before a record, before a field, in a plain field,
  in a quoted field, after a quote in a quoted field.\<close>

datatype csv_state = CRecord | CField | CPlain | CQuoted | CEscape

definition quote_char :: char where "quote_char = CHR 34"

fun csv_run :: "csv_state \<Rightarrow> string \<Rightarrow> string list \<Rightarrow> string \<Rightarrow> string list list" where
  "csv_run st f fs [] = (if st = CRecord then [] else [rev (rev f # fs)])"
| "csv_run st f fs (c # cs) =
     (if st = CQuoted then
        (if c = quote_char then csv_run CEscape f fs cs else csv_run CQuoted (c # f) fs cs)
      else if c = newline then (if st = CRecord then [] else rev (rev f # fs)) # csv_run CRecord [] [] cs
      else if c = CHR '','' then csv_run CField [] (rev f # fs) cs
      else if c = quote_char \<and> (st = CRecord \<or> st = CField) then csv_run CQuoted f fs cs
      else if c = quote_char \<and> st = CEscape then csv_run CQuoted (c # f) fs cs
      else csv_run CPlain (c # f) fs cs)"

definition csv_rows :: "string \<Rightarrow> string list list" where
  "csv_rows s = csv_run CRecord [] [] s"

section \<open>flow\_utils.py\<close>

definition ys_translate_script_filename :: string where "ys_translate_script_filename = ''translate_names.ys''"

definition ys_translated_names :: string where "ys_translated_names = ''ys_translated_names''"

definition ys_tcl :: string where "ys_tcl = ''./tcl/yosys_post_synth.tcl''"

text \<open>\<open>(_\w+_)/(\w+)\<close>.\<close>

definition generated_cell_re :: rx where
  "generated_cell_re = rseq [RGroup 1 (rseq [rlit (CHR ''_''), rplus (RSet is_word), rlit (CHR ''_'')]), rlit (CHR ''/''),
     RGroup 2 (rplus (RSet is_word))]"

definition create_translate_names_script :: "string list \<Rightarrow> string \<Rightarrow> string \<Rightarrow> string" where
  "create_translate_names_script cells_to_translate top_level gen_out =
     ''tcl '' @ ys_tcl @ nl @ ''cd '' @ top_level @ nl @
     concat (map (\<lambda>cell. ''select '' @ cell @ '' %x:+[Q]'' @ nl @
       ''tee -a '' @ gen_out @ ''/'' @ ys_translated_names @ '' select -list'' @ nl) cells_to_translate)"

definition at_index :: "'a list \<Rightarrow> nat \<Rightarrow> 'a res" where
  "at_index xs i = (if i < length xs then Inr (xs ! i) else Inl (IndexError ''list index out of range''))"

definition add_new :: "'a \<Rightarrow> 'a list \<Rightarrow> 'a list" where
  "add_new x xs = (if x \<in> set xs then xs else xs @ [x])"

text \<open>The loop body for one of the two points: the cells so far and the point.\<close>

definition path_point :: "string list \<Rightarrow> string \<Rightarrow> string list \<times> string" where
  "path_point cells s = (case re_search generated_cell_re s of
     Some m \<Rightarrow> (add_new (group_str m 1) cells, group_str m 1) | None \<Rightarrow> (cells, s))"

type_synonym path_info = "string \<times> string \<times> rat"

definition path_row :: "string list \<times> path_info list \<Rightarrow> string list \<Rightarrow> (string list \<times> path_info list) res" where
  "path_row acc line = (case acc of (cells, info) \<Rightarrow>
     rbind (at_index line 0) (\<lambda>l0. rbind (at_index line 1) (\<lambda>l1. rbind (at_index line 2) (\<lambda>l2. rbind (read_float l2) (\<lambda>wns.
       case path_point cells l0 of (cells, p0) \<Rightarrow>
         (case path_point cells l1 of (cells, p1) \<Rightarrow> Inr (cells, info @ [(p0, p1, wns)])))))))"

definition extract_path_info :: "string \<Rightarrow> (string list \<times> path_info list) res" where
  "extract_path_info timing_csv = rfold path_row ([], []) (csv_rows timing_csv)"

text \<open>\<open>line[:-1].split('/', 1)[1]\<close>.\<close>

definition after_slash :: "string \<Rightarrow> string res" where
  "after_slash line = at_index (split_once (CHR ''/'') (butlast line)) 1"

fun names_dict :: "string list \<Rightarrow> (string \<times> string) list \<Rightarrow> (string \<times> string) list res" where
  "names_dict [] d = Inr d"
| "names_dict [l1] d = rbind (after_slash l1) (\<lambda>_. Inl (IndexError ''list index out of range''))"
| "names_dict (l1 # l2 # ls) d =
     rbind (after_slash l1) (\<lambda>translated_name. rbind (after_slash l2) (\<lambda>cell_name.
       names_dict ls (AList.update cell_name translated_name d)))"

definition build_translated_names_dict :: "string \<Rightarrow> (string \<times> string) list res" where
  "build_translated_names_dict translated_names = names_dict (file_lines translated_names) []"

definition translate_point :: "(string \<times> string) list \<Rightarrow> string \<Rightarrow> string" where
  "translate_point d p = (case map_of d p of None \<Rightarrow> p | Some n \<Rightarrow> n)"

definition translate_path_info :: "path_info list \<Rightarrow> string \<Rightarrow> path_info list res" where
  "translate_path_info path_info translated_names =
     rbind (build_translated_names_dict translated_names) (\<lambda>d.
       Inr (map (\<lambda>(p0, p1, wns). (translate_point d p0, translate_point d p1, wns)) path_info))"

section \<open>build\_translated\_names.py and translate\_timing\_csv.py\<close>

type_synonym files = "string \<rightharpoonup> string"

definition open_text :: "files \<Rightarrow> string \<Rightarrow> string res" where
  "open_text fs p = (case fs p of None \<Rightarrow> Inl (OSError p) | Some t \<Rightarrow> Inr t)"

text \<open>The files after the script is written, and the command that is started.\<close>

definition build_translated_names_main :: "string \<Rightarrow> string \<Rightarrow> string list \<Rightarrow> files \<Rightarrow> (files \<times> string list) res" where
  "build_translated_names_main top_level gen_out rpts fs =
     rbind (rfold (\<lambda>cells rpt. rbind (open_text fs rpt) (\<lambda>t. rbind (extract_path_info t) (\<lambda>(new_cells, _).
              Inr (fold add_new new_cells cells)))) [] rpts) (\<lambda>cells.
       let script = gen_out @ ''/'' @ ys_translate_script_filename
       in Inr (fs(script \<mapsto> create_translate_names_script cells top_level gen_out), [''yosys'', ''-s'', script]))"

definition header_line :: string where "header_line = ''Start Point, End Point, WNS (ns)'' @ nl"

definition report_text :: "(rat \<Rightarrow> string) \<Rightarrow> path_info list \<Rightarrow> string" where
  "report_text show_float info = header_line @ concat (map (\<lambda>(p0, p1, wns). p0 @ '','' @ p1 @ '','' @ show_float wns @ nl) info)"

text \<open>The result is written to \<open>sys.argv[1]\<close>, which is the report that was read.\<close>

definition translate_timing_main :: "(rat \<Rightarrow> string) \<Rightarrow> string \<Rightarrow> string \<Rightarrow> files \<Rightarrow> files res" where
  "translate_timing_main show_float rpt_file gen_out fs =
     rbind (open_text fs rpt_file) (\<lambda>t.
     rbind (extract_path_info t) (\<lambda>(_, info).
     rbind (open_text fs (gen_out @ ''/'' @ ys_translated_names)) (\<lambda>names.
     rbind (translate_path_info info names) (\<lambda>info.
       Inr (fs(rpt_file \<mapsto> report_text show_float info))))))"

section \<open>get\_kge.py\<close>

text \<open>\<open>s.strip(chars)\<close>.\<close>

definition strip_chars :: "string \<Rightarrow> string \<Rightarrow> string" where
  "strip_chars cs s = rev (dropWhile (\<lambda>c. c \<in> set cs) (rev (dropWhile (\<lambda>c. c \<in> set cs) s)))"

text \<open>\<open>except (IndexError, ValueError): raise RuntimeError(msg)\<close>.\<close>

definition misformatted :: "'a res \<Rightarrow> string \<Rightarrow> 'a res" where
  "misformatted r msg = (case r of
     Inl (IndexError _) \<Rightarrow> Inl (RuntimeError msg) | Inl (ValueError _) \<Rightarrow> Inl (RuntimeError msg) | _ \<Rightarrow> r)"

definition lib_line :: "string \<Rightarrow> (string \<times> rat) list \<times> string option \<Rightarrow> nat \<times> string \<Rightarrow> ((string \<times> rat) list \<times> string option) res" where
  "lib_line path acc il = (case acc of (cell_dict, cell_name) \<Rightarrow> (case il of (line_idx, line) \<Rightarrow>
     let loc = path @ '':'' @ nat_str (line_idx + 1) in
     if startswith line ''  cell ('' then
       (case cell_name of
          Some _ \<Rightarrow> Inl (RuntimeError (loc @ '' Found cell while searching for area''))
        | None \<Rightarrow> rbind (at_index (py_words line) 1) (\<lambda>w. Inr (cell_dict, Some (strip_chars ''()'' w))))
     else if startswith line (CHR 9 # ''area'') then
       (case cell_name of
          None \<Rightarrow> Inl (RuntimeError (loc @ '' Found area while searching for cell''))
        | Some nm \<Rightarrow>
            misformatted (rbind (at_index (py_words line) 2) (\<lambda>w. rbind (read_float (strip_chars '';'' w)) (\<lambda>area.
              Inr (AList.update nm area cell_dict, None)))) (loc @ '' Area declaration misformatted''))
     else Inr acc))"

definition numbered :: "string list \<Rightarrow> (nat \<times> string) list" where
  "numbered ls = zip [0..<length ls] ls"

definition read_lib :: "string \<Rightarrow> string \<Rightarrow> string \<Rightarrow> (string \<times> rat) list res" where
  "read_lib path lib_text ref_cell =
     rbind (rfold (lib_line path) ([], None) (numbered (file_lines lib_text))) (\<lambda>(cell_dict, _).
       case map_of cell_dict ref_cell of
         None \<Rightarrow> Inl (RuntimeError (''Specified reference cell: '' @ ref_cell @ '' was not found in library: '' @ path))
       | Some ref \<Rightarrow>
           rmap (\<lambda>(cell, area). if ref = 0 then Inl (ZeroDivisionError ''float division by zero'') else Inr (cell, area / ref)) cell_dict)"

definition kge_line :: "string \<Rightarrow> (string \<times> rat) list \<Rightarrow> rat \<Rightarrow> nat \<times> string \<Rightarrow> rat res" where
  "kge_line path weighted_dict ge il = (case il of (line_idx, line) \<Rightarrow>
     (case py_words line of
        [] \<Rightarrow> Inr ge
      | cell # rest \<Rightarrow>
          (case map_of weighted_dict cell of
             None \<Rightarrow> Inr ge
           | Some weight \<Rightarrow>
               misformatted (rbind (at_index (cell # rest) 1) (\<lambda>w. rbind (read_float w) (\<lambda>n. Inr (ge + n * weight))))
                 (path @ '':'' @ nat_str (line_idx + 1) @ '' Cell '' @ cell @ '' matched but was misformatted''))))"

text \<open>The number that is printed.\<close>

definition get_kge :: "string \<Rightarrow> string \<Rightarrow> (string \<times> rat) list \<Rightarrow> rat res" where
  "get_kge path report weighted_dict =
     rbind (rfold (kge_line path weighted_dict) 0 (numbered (file_lines report))) (\<lambda>ge.
       Inr (of_int (round_even (ge / 1000 * 100)) / 100))"

definition kge_main :: "files \<Rightarrow> string \<Rightarrow> string \<Rightarrow> string \<Rightarrow> rat res" where
  "kge_main fs lib_file_path report_path cell =
     rbind (open_text fs lib_file_path) (\<lambda>lib. rbind (read_lib lib_file_path lib cell) (\<lambda>weighted.
     rbind (open_text fs report_path) (\<lambda>report. get_kge report_path report weighted)))"

section \<open>CSV files are read back\<close>

definition plain_field :: "string \<Rightarrow> bool" where
  "plain_field f = list_all (\<lambda>c. c \<noteq> newline \<and> c \<noteq> CHR '','' \<and> c \<noteq> quote_char) f"

lemma csv_run_plain:
  "plain_field g \<Longrightarrow> g \<noteq> [] \<Longrightarrow> st \<noteq> CQuoted \<Longrightarrow> csv_run st f fs (g @ s) = csv_run CPlain (rev g @ f) fs s"
proof (induction g arbitrary: st f)
  case (Cons c g)
  then show ?case by (cases g) (auto simp: plain_field_def)
qed simp

lemma csv_run_field:
  assumes "plain_field g" "st = CField \<or> (st = CRecord \<and> (g \<noteq> [] \<or> sep = CHR '',''))" "sep = newline \<or> sep = CHR '',''"
  shows "csv_run st [] fs (g @ sep # s) = (if sep = newline then rev (g # fs) # csv_run CRecord [] [] s else csv_run CField [] (g # fs) s)"
  using assms csv_run_plain [of g st "[]" fs "sep # s"]
  by (cases "g = []") (auto simp: newline_def)

lemma csv_run_row:
  "row \<noteq> [] \<Longrightarrow> list_all plain_field row \<Longrightarrow> st = CField \<or> (st = CRecord \<and> row \<noteq> [[]]) \<Longrightarrow>
   csv_run st [] fs (py_join '','' row @ nl @ s) = (rev fs @ row) # csv_run CRecord [] [] s"
proof (induction "'',''" row arbitrary: st fs rule: py_join.induct)
  case (2 x)
  then show ?case using csv_run_field [of x st newline fs s] by (auto simp: nl_def)
next
  case (3 x y zs)
  have "csv_run st [] fs (x @ CHR '','' # (py_join '','' (y # zs) @ nl @ s)) = csv_run CField [] (x # fs) (py_join '','' (y # zs) @ nl @ s)"
    using "3.prems" csv_run_field [of x st "CHR '',''" fs] by (auto simp: newline_def)
  moreover have "csv_run CField [] (x # fs) (py_join '','' (y # zs) @ nl @ s) = (rev (x # fs) @ (y # zs)) # csv_run CRecord [] [] s"
    by (rule "3.hyps") (use "3.prems" in auto)
  ultimately show ?case by simp
qed simp

definition row_text :: "string list \<Rightarrow> string" where "row_text row = py_join '','' row @ nl"

definition row_ok :: "string list \<Rightarrow> bool" where
  "row_ok row = (row \<noteq> [] \<and> row \<noteq> [[]] \<and> list_all plain_field row)"

lemma csv_rows_text: "list_all row_ok rows \<Longrightarrow> csv_rows (concat (map row_text rows)) = rows"
  unfolding csv_rows_def
proof (induction rows)
  case (Cons row rows)
  then have "csv_run CRecord [] [] (row_text row @ concat (map row_text rows)) = row # csv_run CRecord [] [] (concat (map row_text rows))"
    using csv_run_row [of row CRecord "[]" "concat (map row_text rows)"] by (simp only: row_text_def row_ok_def append_assoc) simp
  with Cons show ?case by simp
qed simp

lemma csv_rows_header: "csv_rows (header_line @ s) = [''Start Point'', '' End Point'', '' WNS (ns)''] # csv_rows s"
proof -
  let ?row = "[''Start Point'', '' End Point'', '' WNS (ns)'']"
  have "header_line @ s = py_join '','' ?row @ nl @ s" by (simp add: header_line_def)
  moreover have "list_all plain_field ?row" by (simp add: plain_field_def newline_def quote_char_def)
  then have "csv_run CRecord [] [] (py_join '','' ?row @ nl @ s) = (rev [] @ ?row) # csv_run CRecord [] [] s"
    by (intro csv_run_row) simp_all
  ultimately show ?thesis unfolding csv_rows_def by (simp only: rev.simps append_Nil)
qed

section \<open>Names are read back\<close>

lemma after_slash_line: "CHR ''/'' \<notin> set modu \<Longrightarrow> after_slash (modu @ ''/'' @ n @ nl) = Inr n"
proof -
  assume "CHR ''/'' \<notin> set modu"
  moreover have "butlast (modu @ ''/'' @ n @ nl) = modu @ CHR ''/'' # n"
    by (simp add: nl_def butlast_append)
  ultimately show ?thesis by (simp add: after_slash_def at_index_def split_once_sep)
qed

text \<open>What Yosys writes for the script: a line with the readable name and a line with the cell, below the modu level.\<close>

definition names_text :: "string \<Rightarrow> (string \<times> string) list \<Rightarrow> string" where
  "names_text modu ps = concat (map (\<lambda>(cell, n). (modu @ ''/'' @ n @ nl) @ (modu @ ''/'' @ cell @ nl)) ps)"

definition line_free :: "string \<Rightarrow> bool" where "line_free s = (newline \<notin> set s)"

lemma names_dict_text:
  "line_free modu \<Longrightarrow> CHR ''/'' \<notin> set modu \<Longrightarrow> list_all (\<lambda>(c, n). line_free c \<and> line_free n) ps \<Longrightarrow>
   names_dict (file_lines (names_text modu ps)) d = Inr (fold (\<lambda>(c, n). AList.update c n) ps d)"
proof (induction ps arbitrary: d)
  case Nil
  show ?case by (simp add: names_text_def file_lines_def)
next
  case (Cons p ps)
  obtain c n where p: "p = (c, n)" by (cases p)
  have l: "newline \<notin> set (modu @ ''/'' @ n)" "newline \<notin> set (modu @ ''/'' @ c)"
    using Cons.prems(1,3) by (auto simp: p line_free_def newline_def)
  have "file_lines (names_text modu (p # ps)) = (modu @ ''/'' @ n @ nl) # (modu @ ''/'' @ c @ nl) # file_lines (names_text modu ps)"
    using file_lines_line [OF l(1)] file_lines_line [OF l(2)] by (simp add: names_text_def p)
  then show ?case using Cons after_slash_line [OF Cons.prems(2)] by (simp add: p)
qed

lemma lookup_fold_update: "map_of (fold (\<lambda>(c, n). AList.update c n) ps d) = map_of d ++ map_of (rev ps)"
  by (induction ps arbitrary: d) (auto simp: update_conv' map_add_def fun_eq_iff split: option.splits)

section \<open>Translating a timing report\<close>

lemma header_not_number: "read_float '' WNS (ns)'' = Inl (ValueError (''could not convert string to float: '' @ repr_str ''WNS (ns)''))"
  by code_simp

definition point_name :: "string \<Rightarrow> string" where
  "point_name s = (case re_search generated_cell_re s of Some m \<Rightarrow> group_str m 1 | None \<Rightarrow> s)"

lemma path_point_name: "snd (path_point cells s) = point_name s"
  by (simp add: path_point_def point_name_def split: option.split)

definition row_readable :: "string list \<Rightarrow> bool" where
  "row_readable row = (3 \<le> length row \<and> is_ok (read_float (row ! 2)))"

definition row_info :: "(string \<Rightarrow> string) \<Rightarrow> string list \<Rightarrow> path_info \<Rightarrow> bool" where
  "row_info tr row p = (fst p = tr (row ! 0) \<and> fst (snd p) = tr (row ! 1) \<and> read_float (row ! 2) = Inr (snd (snd p)))"

lemma path_rows:
  "list_all row_readable rows \<Longrightarrow>
   \<exists>cells' info. rfold path_row (cells, info0) rows = Inr (cells', info0 @ info) \<and> list_all2 (row_info point_name) rows info"
proof (induction rows arbitrary: cells info0)
  case (Cons row rows)
  then obtain q where q: "3 \<le> length row" "read_float (row ! 2) = Inr q" by (auto simp: row_readable_def is_ok_iff)
  obtain cells1 p0 where p0: "path_point cells (row ! 0) = (cells1, p0)" by fastforce
  obtain cells2 p1 where p1: "path_point cells1 (row ! Suc 0) = (cells2, p1)" by fastforce
  have "row \<noteq> []" using q(1) by auto
  then have step: "path_row (cells, info0) row = Inr (cells2, info0 @ [(p0, p1, q)])"
    using q by (simp add: path_row_def at_index_def p0 p1)
  have "list_all row_readable rows" using Cons.prems by simp
  from Cons.IH [OF this, of cells2 "info0 @ [(p0, p1, q)]"] obtain cells' info where
    "rfold path_row (cells2, info0 @ [(p0, p1, q)]) rows = Inr (cells', (info0 @ [(p0, p1, q)]) @ info)"
    "list_all2 (row_info point_name) rows info" by blast
  moreover have "row_info point_name row (p0, p1, q)"
    using path_point_name [of cells "row ! 0"] path_point_name [of cells1 "row ! Suc 0"] q by (simp add: row_info_def p0 p1)
  ultimately show ?case using step by (intro exI [of _ cells'] exI [of _ "(p0, p1, q) # info"]) simp
qed simp

text \<open>A translated report is no report any more: its first line is not a path.\<close>

lemma extract_translated: "\<exists>e. extract_path_info (report_text show_float info) = Inl (ValueError e)"
proof -
  have "path_row ([], []) [''Start Point'', '' End Point'', '' WNS (ns)''] =
      Inl (ValueError (''could not convert string to float: '' @ repr_str ''WNS (ns)''))"
    by (simp add: path_row_def at_index_def header_not_number)
  then show ?thesis by (simp add: extract_path_info_def report_text_def csv_rows_header)
qed

text \<open>
  C38. Translating a timing report: from a report whose rows have two points and a number, and the names Yosys wrote for
  the cells, every generated cell name is replaced by its readable name and every other point and all numbers and
  their order are kept. The result replaces the report that was read, and since its header is no path, running the program
  again on it raises \<open>ValueError\<close>.
\<close>

theorem translate_timing:
  assumes "fs rpt = Some (concat (map row_text rows))" "list_all row_ok rows" "list_all row_readable rows"
    and "fs (gen_out @ ''/'' @ ys_translated_names) = Some (names_text modu ps)"
    and "line_free modu" "CHR ''/'' \<notin> set modu" "list_all (\<lambda>(c, n). line_free c \<and> line_free n) ps" "distinct (map fst ps)"
  shows "\<exists>info. translate_timing_main show_float rpt gen_out fs = Inr (fs(rpt \<mapsto> report_text show_float info))
    \<and> list_all2 (row_info (\<lambda>s. translate_point ps (point_name s))) rows info
    \<and> (\<exists>e. translate_timing_main show_float rpt gen_out (fs(rpt \<mapsto> report_text show_float info)) = Inl (ValueError e))"
proof -
  from path_rows [OF assms(3), of "[]" "[]"] obtain cells info0 where
    ex: "extract_path_info (concat (map row_text rows)) = Inr (cells, info0)" and i: "list_all2 (row_info point_name) rows info0"
    by (auto simp: extract_path_info_def csv_rows_text [OF assms(2)])
  obtain d where d: "build_translated_names_dict (names_text modu ps) = Inr d" "map_of d = map_of (rev ps)"
    using names_dict_text [OF assms(5-7), of "[]"] lookup_fold_update [of ps "[]"] by (simp add: build_translated_names_dict_def)
  have "map_of (rev ps) = map_of ps" using assms(8) map_of_inject_set [of "rev ps" ps] by (simp flip: rev_map)
  then have tp: "translate_point d = translate_point ps" using d(2) by (simp add: fun_eq_iff translate_point_def)
  let ?info = "map (\<lambda>(p0, p1, wns). (translate_point d p0, translate_point d p1, wns)) info0"
  have "translate_timing_main show_float rpt gen_out fs = Inr (fs(rpt \<mapsto> report_text show_float ?info))"
    using assms(1,4) by (simp add: translate_timing_main_def open_text_def ex translate_path_info_def d(1))
  moreover have "list_all2 (row_info (\<lambda>s. translate_point ps (point_name s))) rows ?info"
    using i by (auto simp: list_all2_conv_all_nth row_info_def tp split: prod.splits)
  moreover obtain e where "extract_path_info (report_text show_float ?info) = Inl (ValueError e)"
    using extract_translated by blast
  then have "translate_timing_main show_float rpt gen_out (fs(rpt \<mapsto> report_text show_float ?info)) = Inl (ValueError e)"
    by (simp add: translate_timing_main_def open_text_def)
  ultimately show ?thesis by blast
qed

definition demo_timing :: files where
  "demo_timing = [''rpt.csv'' \<mapsto> concat (map row_text [[''_12_/Q'', ''io_out'', ''-0.25'']]),
     ''gen/ys_translated_names'' \<mapsto> names_text ''modu'' [(''_12_'', ''cs_registers/q'')]]"

theorem translate_timing_witness:
  "\<exists>p. translate_timing_main (\<lambda>_. ''-0.25'') ''rpt.csv'' ''gen'' demo_timing = Inr (demo_timing(''rpt.csv'' \<mapsto> report_text (\<lambda>_. ''-0.25'') [p]))
     \<and> fst p = ''cs_registers/q'' \<and> fst (snd p) = ''io_out''"
proof -
  let ?rows = "[[''_12_/Q'', ''io_out'', ''-0.25'']]" and ?ps = "[(''_12_'', ''cs_registers/q'')]"
  have r: "list_all row_ok ?rows" "list_all row_readable ?rows" "CHR ''/'' \<notin> set ''modu''" "line_free ''modu''"
    "list_all (\<lambda>(c, n). line_free c \<and> line_free n) ?ps" "distinct (map fst ?ps)" by code_simp+
  have f: "demo_timing ''rpt.csv'' = Some (concat (map row_text ?rows))"
    "demo_timing (''gen'' @ ''/'' @ ys_translated_names) = Some (names_text ''modu'' ?ps)"
    by (simp_all add: demo_timing_def ys_translated_names_def)
  have n: "point_name ''_12_/Q'' = ''_12_''" "point_name ''io_out'' = ''io_out''" by code_simp+
  from translate_timing [OF f(1) r(1,2) f(2) r(4,3,5,6), of "\<lambda>_. ''-0.25''"]
  obtain info where "translate_timing_main (\<lambda>_. ''-0.25'') ''rpt.csv'' ''gen'' demo_timing =
      Inr (demo_timing(''rpt.csv'' \<mapsto> report_text (\<lambda>_. ''-0.25'') info))"
    "list_all2 (row_info (\<lambda>s. translate_point ?ps (point_name s))) ?rows info" by blast
  then show ?thesis by (auto simp: list_all2_Cons1 row_info_def n translate_point_def)
qed

section \<open>The area in gate equivalents\<close>

text \<open>A library as the script reads it: for every cell its opening line and its area.\<close>

definition cell_line :: "string \<Rightarrow> string" where "cell_line n = ''  cell ('' @ n @ '') {''"

definition area_line :: "string \<Rightarrow> string" where "area_line a = CHR 9 # ''area : '' @ a @ '';''"

definition lib_text :: "(string \<times> string) list \<Rightarrow> string" where
  "lib_text cells = concat (map (\<lambda>(n, a). (cell_line n @ nl) @ (area_line a @ nl)) cells)"

definition cell_ok :: "string \<times> string \<Rightarrow> bool" where
  "cell_ok = (\<lambda>(n, a). is_token n \<and> CHR ''('' \<notin> set n \<and> CHR '')'' \<notin> set n \<and> is_token a \<and> CHR '';'' \<notin> set a \<and> is_ok (read_float a))"

definition float_of :: "string \<Rightarrow> rat" where
  "float_of s = (case read_float s of Inl _ \<Rightarrow> 0 | Inr q \<Rightarrow> q)"

text \<open>The area of the cells that a line of the report counts, \<open>None\<close> when it names a cell and gives no count.\<close>

definition line_area :: "(string \<times> string) list \<Rightarrow> string \<Rightarrow> rat option" where
  "line_area cells line = (case py_words line of
     [] \<Rightarrow> Some 0
   | cell # rest \<Rightarrow> (case map_of cells cell of
       None \<Rightarrow> Some 0
     | Some a \<Rightarrow> (case rest of [] \<Rightarrow> None
         | n # _ \<Rightarrow> if is_ok (read_float n) then Some (float_of n * float_of a) else None)))"

lemma read_float_error: "read_float s = Inl e \<Longrightarrow> \<exists>m. e = ValueError m"
  by (auto simp: read_float_def read_decimal_def py_int_def Let_def rbind_def split: if_splits list.splits option.splits sum.splits)

lemma words_token: "is_token w \<Longrightarrow> is_space c \<Longrightarrow> py_words (w @ c # s) = w # py_words s"
  using words_acc_nonspace [of w "[]" "c # s"] by (simp add: is_token_def py_words_def)

lemma words_space: "is_space c \<Longrightarrow> py_words (c # s) = py_words s"
  by (simp add: py_words_def)

lemma strip_chars_inner:
  assumes "list_all (\<lambda>c. c \<in> set cs) p" "list_all (\<lambda>c. c \<in> set cs) q" "list_all (\<lambda>c. c \<notin> set cs) s" "s \<noteq> []"
  shows "strip_chars cs (p @ s @ q) = s"
proof -
  have drop: "dropWhile (\<lambda>c. c \<in> set cs) (u @ v @ w) = v @ w"
    if "list_all (\<lambda>c. c \<in> set cs) u" "list_all (\<lambda>c. c \<notin> set cs) v" "v \<noteq> []" for u v w
    using that by (induction u) (auto simp: neq_Nil_conv)
  show ?thesis using assms drop [of p s q] drop [of "rev q" "rev s" "[]"] by (simp add: strip_chars_def)
qed

lemma cell_line_words:
  assumes "cell_ok (n, a)"
  shows "startswith (cell_line n @ nl) ''  cell (''" "py_words (cell_line n @ nl) = [''cell'', ''('' @ n @ '')'', ''{'']"
    "strip_chars ''()'' (''('' @ n @ '')'') = n"
proof -
  have t: "is_token ''cell''" "is_token (''('' @ n @ '')'')" "is_token ''{''" "is_space (CHR '' '')" "is_space newline"
    using assms by (auto simp: cell_ok_def is_token_def is_space_def newline_def)
  have "cell_line n @ nl = CHR '' '' # CHR '' '' # ''cell'' @ CHR '' '' # (''('' @ n @ '')'') @ CHR '' '' # ''{'' @ newline # []"
    by (simp add: cell_line_def nl_def)
  then show "py_words (cell_line n @ nl) = [''cell'', ''('' @ n @ '')'', ''{'']"
    using t by (simp only: words_space words_token) (simp add: py_words_def)
  show "startswith (cell_line n @ nl) ''  cell (''" by (simp add: cell_line_def startswith_def)
  show "strip_chars ''()'' (''('' @ n @ '')'') = n"
    by (rule strip_chars_inner) (use assms in \<open>auto simp: cell_ok_def is_token_def list_all_iff\<close>)
qed

lemma area_line_words:
  assumes "cell_ok (n, a)"
  shows "\<not> startswith (area_line a @ nl) ''  cell (''" "startswith (area_line a @ nl) (CHR 9 # ''area'')"
    "py_words (area_line a @ nl) = [''area'', '':'', a @ '';'']" "strip_chars '';'' (a @ '';'') = a"
proof -
  have t: "is_token ''area''" "is_token '':''" "is_token (a @ '';'')" "is_space (CHR '' '')" "is_space (CHR 9)" "is_space newline"
    using assms by (auto simp: cell_ok_def is_token_def is_space_def newline_def)
  have "area_line a @ nl = CHR 9 # ''area'' @ CHR '' '' # '':'' @ CHR '' '' # (a @ '';'') @ newline # []"
    by (simp add: area_line_def nl_def)
  then show "py_words (area_line a @ nl) = [''area'', '':'', a @ '';'']"
    using t by (simp only: words_space words_token) (simp add: py_words_def)
  show "\<not> startswith (area_line a @ nl) ''  cell (''" "startswith (area_line a @ nl) (CHR 9 # ''area'')"
    by (simp_all add: area_line_def startswith_def)
  show "strip_chars '';'' (a @ '';'') = a"
    using strip_chars_inner [of "'';''" "[]" "'';''" a] assms by (auto simp: cell_ok_def is_token_def list_all_iff)
qed

lemma lib_entries:
  "list_all cell_ok cells \<Longrightarrow>
   rfold (lib_line path) (d, None) (enumerate k (file_lines (lib_text cells)))
   = Inr (fold (\<lambda>(n, a). AList.update n (float_of a)) cells d, None)"
proof (induction cells arbitrary: d k)
  case Nil
  show ?case by (simp add: lib_text_def file_lines_def)
next
  case (Cons p cells)
  obtain n a where p: "p = (n, a)" by (cases p)
  have ok: "cell_ok (n, a)" and oks: "list_all cell_ok cells" using Cons.prems p by simp_all
  have "newline \<notin> set (cell_line n)" "newline \<notin> set (area_line a)"
    using ok by (auto simp: cell_line_def area_line_def cell_ok_def is_token_def newline_def is_space_def list_all_iff)
  then have lines: "file_lines (lib_text (p # cells)) = (cell_line n @ nl) # (area_line a @ nl) # file_lines (lib_text cells)"
    by (simp add: lib_text_def p file_lines_line)
  have c: "lib_line path (d, None) (k, cell_line n @ nl) = Inr (d, Some n)"
    using cell_line_words [OF ok] by (simp add: lib_line_def at_index_def Let_def)
  obtain q where q: "read_float a = Inr q" using ok by (auto simp: cell_ok_def is_ok_iff)
  have "lib_line path (d, Some n) (Suc k, area_line a @ nl) = Inr (AList.update n (float_of a) d, None)"
    using area_line_words [OF ok] q by (simp add: lib_line_def at_index_def Let_def misformatted_def float_of_def)
  with c show ?case using Cons.IH [OF oks] unfolding lines by (simp add: p)
qed

lemma read_lib_weights:
  assumes "list_all cell_ok cells" "distinct (map fst cells)" "map_of cells ref = Some a" "float_of a \<noteq> 0"
  obtains d where "read_lib path (lib_text cells) ref = Inr d"
    "map_of d = (\<lambda>c. map_option (\<lambda>b. float_of b / float_of a) (map_of cells c))"
proof -
  let ?areas = "map (\<lambda>(n, a). (n, float_of a)) cells"
  define cd where "cd = fold (\<lambda>(n, a). AList.update n a) ?areas []"
  have cd: "map_of cd = map_of ?areas"
    using assms(2) map_of_rev_distinct [of ?areas] unfolding cd_def lookup_fold_update by (simp add: comp_def case_prod_unfold)
  have val: "map_of cd c = map_option float_of (map_of cells c)" for c by (simp add: cd map_of_map)
  have "fold (\<lambda>(n, a). AList.update n (float_of a)) cells [] = cd"
    by (simp add: cd_def fold_map comp_def case_prod_unfold)
  with lib_entries [OF assms(1), of path "[]" 0]
  have "read_lib path (lib_text cells) ref = rmap (\<lambda>(c, b). Inr (c, b / float_of a)) cd"
    using assms(3,4) val [of ref] by (simp add: read_lib_def numbered_def enumerate_eq_zip)
  also have "\<dots> = Inr (map (\<lambda>(c, b). (c, b / float_of a)) cd)" by (rule rmap_ok_map) auto
  finally show thesis using that val by (simp add: map_of_map comp_def option.map_comp fun_eq_iff)
qed

lemma kge_lines:
  assumes d: "map_of d = (\<lambda>c. map_option (\<lambda>b. float_of b / r) (map_of cells c))"
  shows "if list_all (\<lambda>l. line_area cells l \<noteq> None) ls
    then rfold (kge_line path d) ge (enumerate k ls) = Inr (ge + (\<Sum>l\<leftarrow>ls. the (line_area cells l)) / r)
    else \<exists>e. rfold (kge_line path d) ge (enumerate k ls) = Inl (RuntimeError e)"
proof (induction ls arbitrary: ge k)
  case (Cons l ls)
  have "case line_area cells l of
      None \<Rightarrow> \<exists>e. kge_line path d ge (k, l) = Inl (RuntimeError e)
    | Some q \<Rightarrow> kge_line path d ge (k, l) = Inr (ge + q / r)"
  proof (cases "py_words l")
    case (Cons cell rest)
    show ?thesis
    proof (cases "\<exists>b n ns. map_of cells cell = Some b \<and> rest = n # ns")
      case True
      then obtain b n ns where n: "map_of cells cell = Some b" "rest = n # ns" by blast
      show ?thesis
        by (cases "read_float n")
          (auto simp: line_area_def kge_line_def d at_index_def misformatted_def float_of_def Cons n dest: read_float_error)
    next
      case False
      then show ?thesis
        by (cases rest) (auto simp: line_area_def kge_line_def d at_index_def misformatted_def Cons split: option.splits)
    qed
  qed (simp add: line_area_def kge_line_def)
  then show ?case
    using Cons.IH [of "ge + the (line_area cells l) / r" "Suc k"]
    by (cases "line_area cells l") (auto simp: add_divide_distrib add.assoc split: if_splits)
qed simp



end
