(* ===== verification/Test_Vectors.thy ===== *)
theory Test_Vectors
  imports Py_Ints "HOL-Library.Word"
begin

text \<open>
  \<open>rtl/crypto/ed25519\<close>: the script \<open>generate_vectors.py\<close>, which prints a test bench with vectors for the reduction modulo
  the Ed25519 prime, and the circuit under test, \<open>pseudo_mersenne.sv\<close>, on words of the widths it declares. The circuit
  computes the reduction for every input, so every check of the printed test bench passes.
\<close>

section \<open>generate\_vectors.py\<close>

definition PRIME_P :: nat where "PRIME_P = 2 ^ 255 - 19"

definition reduce_val :: "nat \<Rightarrow> nat" where "reduce_val val = val mod PRIME_P"

definition test_cases :: "(nat \<times> string) list" where
  "test_cases =
    [(0, ''Edge Case: Zero''),
     (123456789, ''Normal Case: Value < p''),
     (PRIME_P, ''Edge Case: Exactly p''),
     (2 ^ 256, ''H1 Path: 2^256 -> 38''),
     (2 * PRIME_P, ''Edge Case: 2p -> 0''),
     (PRIME_P - 1, ''Edge Case: p-1 passthrough''),
     (2 ^ 256 - 1, ''Edge Case: Max 256-bit value''),
     (2 ^ 512 - 1, ''Edge Case: Max 512-bit value''),
     (2 ^ 511 - 1, ''Stage 2 Stress: Max H2''),
     (0xA1B2C3D4E5F67890A1B2C3D4E5F67890A1B2C3D4E5F67890A1B2C3D4E5F67890 * 2 ^ 256
        + 0x0987654321FEDCBA0987654321FEDCBA0987654321FEDCBA0987654321FEDCBA, ''Normal Case: 512-bit Hash'')]"

text \<open>\<open>f"{val:0wX}"\<close>.\<close>

definition upper_hex :: "char \<Rightarrow> char" where
  "upper_hex c = (if 97 \<le> (of_char c :: nat) \<and> (of_char c :: nat) \<le> 122 then char_of (of_char c - 32 :: nat) else c)"

definition fmt :: "nat \<Rightarrow> nat \<Rightarrow> string" where
  "fmt val width_bits = map upper_hex (hex_pad (width_bits div 4) val)"

definition in_line :: "nat \<Rightarrow> string \<Rightarrow> string" where
  "in_line i hex = ''    localparam logic [511:0] IN_'' @ nat_str i @ ''  = 512'h'' @ hex @ '';''"

definition exp_line :: "nat \<Rightarrow> string \<Rightarrow> string" where
  "exp_line i hex = ''    localparam logic [255:0] EXP_'' @ nat_str i @ '' = 256'h'' @ hex @ '';''"

definition vector_lines :: "nat \<Rightarrow> nat \<times> string \<Rightarrow> string list" where
  "vector_lines i = (\<lambda>(val, name).
     [''    // '' @ name, in_line i (fmt val 512), exp_line i (fmt (reduce_val val) 256), []])"

definition check_line :: "nat \<Rightarrow> nat \<times> string \<Rightarrow> string" where
  "check_line i = (\<lambda>(val, name).
     ''        check(IN_'' @ nat_str i @ '', EXP_'' @ nat_str i @ '', \"'' @ name @ ''\");'')"

text \<open>The lines the script prints.\<close>

definition tb_header :: "string list" where
  "tb_header =
    [''`timescale 1ns / 1ps'', ''module tb_pseudo_mersenne_vectors;'', [],
     ''    // =========================================='',
     ''    // Auto-generated by generate_vectors.py'',
     ''    // Python guarantees arbitrary-precision arithmetic'',
     ''    // =========================================='', [],
     ''    logic [511:0] data_in;'', ''    logic [255:0] data_out;'', [],
     ''    pseudo_mersenne dut ('', ''        .data_in(data_in),'', ''        .data_out(data_out)'', ''    );'', [],
     ''    localparam logic [255:0] PRIME_P = 256'h'' @ fmt PRIME_P 256 @ '';'', []]"

definition tb_task :: "string list" where
  "tb_task =
    [''    task check(input [511:0] iv, input [255:0] ev, input string nm);'',
     ''        data_in = iv;'', ''        #10;'', ''        if (data_out === ev)'',
     ''            $display(\"[PASS] %s\", nm);'', ''        else begin'',
     ''            $display(\"[FAIL] %s\", nm);'', ''            $display(\"       Input:    %h\", iv);'',
     ''            $display(\"       Expected: %h\", ev);'', ''            $display(\"       Got:      %h\", data_out);'',
     ''        end'', ''    endtask'', []]"

definition rule_line :: string where
  "rule_line = ''        $display(\"========================================\");''"

definition tb_lines :: "string list" where
  "tb_lines =
     tb_header @ concat (map2 vector_lines [0..<length test_cases] test_cases) @ tb_task
     @ [''    initial begin'', rule_line, ''        $display(\"Pseudo-Mersenne Tests (Pre-computed)\");'', rule_line]
     @ map2 check_line [0..<length test_cases] test_cases
     @ [rule_line, ''        $display(\"Tests Completed\");'', rule_line, ''        $finish;'', ''    end'', [], ''endmodule'']"

section \<open>pseudo\_mersenne.sv\<close>

definition pseudo_mersenne :: "512 word \<Rightarrow> 256 word" where
  "pseudo_mersenne data_in = (let
     H1 = ucast (drop_bit 256 data_in) :: 256 word;
     L1 = ucast data_in :: 256 word;
     H1_times_38 = (ucast H1 :: 262 word) * 38;
     stage1_sum = (ucast L1 :: 263 word) + ucast H1_times_38;
     H2 = ucast (drop_bit 255 stage1_sum) :: 8 word;
     L2 = ucast stage1_sum :: 255 word;
     H2_times_19 = (ucast H2 :: 13 word) * 19;
     stage2_sum = (ucast L2 :: 256 word) + ucast H2_times_19
   in if (0x7FFFFFFFFFFFFFFFFFFFFFFFFFFFFFFFFFFFFFFFFFFFFFFFFFFFFFFFFFFFFFED :: 256 word) \<le> stage2_sum
      then stage2_sum - 0x7FFFFFFFFFFFFFFFFFFFFFFFFFFFFFFFFFFFFFFFFFFFFFFFFFFFFFFFFFFFFFED else stage2_sum)"

text \<open>One fold: the part above bit \<open>k\<close> returns with weight \<open>c\<close> below it.\<close>

lemma fold_mod: "(2::nat) ^ k mod p = c mod p \<Longrightarrow> (x mod 2 ^ k + x div 2 ^ k * c) mod p = x mod p"
proof -
  assume a: "(2::nat) ^ k mod p = c mod p"
  have "(x div 2 ^ k * c) mod p = (x div 2 ^ k * 2 ^ k) mod p" using a by (metis mod_mult_right_eq)
  then have "(x mod 2 ^ k + x div 2 ^ k * c) mod p = (x mod 2 ^ k + x div 2 ^ k * 2 ^ k) mod p" by (metis mod_add_right_eq)
  then show ?thesis by (simp add: mod_div_mult_eq)
qed

lemma weights: "(2::nat) ^ 256 mod PRIME_P = 38 mod PRIME_P" "(2::nat) ^ 255 mod PRIME_P = 19 mod PRIME_P"
  by (simp_all add: PRIME_P_def)

lemma unat_slice: "unat (ucast (drop_bit k (x :: 'a::len word)) :: 'b::len word) = unat x div 2 ^ k mod 2 ^ LENGTH('b)"
  by (simp add: unsigned_ucast_eq unat_drop_bit_eq take_bit_eq_mod) (simp add: drop_bit_eq_div)

lemma unat_low: "unat (ucast (x :: 'a::len word) :: 'b::len word) = unat x mod 2 ^ LENGTH('b)"
  by (simp add: unsigned_ucast_eq take_bit_eq_mod)

lemma unat_plus_small: "unat x + unat y < 2 ^ LENGTH('a) \<Longrightarrow> unat (x + y) = unat x + unat (y :: 'a::len word)"
  by (simp add: unat_add_lem)

lemma unat_times_small: "unat x * unat y < 2 ^ LENGTH('a) \<Longrightarrow> unat (x * y) = unat x * unat (y :: 'a::len word)"
  by (simp add: unat_mult_lem)

lemma pseudo_mersenne_circuit: "unat (pseudo_mersenne data_in) = reduce_val (unat data_in)"
proof -
  define H1 where "H1 = (ucast (drop_bit 256 data_in) :: 256 word)"
  define L1 where "L1 = (ucast data_in :: 256 word)"
  define H1_times_38 where "H1_times_38 = (ucast H1 :: 262 word) * 38"
  define s1 where "s1 = (ucast L1 :: 263 word) + ucast H1_times_38"
  define H2 where "H2 = (ucast (drop_bit 255 s1) :: 8 word)"
  define L2 where "L2 = (ucast s1 :: 255 word)"
  define H2_times_19 where "H2_times_19 = (ucast H2 :: 13 word) * 19"
  define s2 where "s2 = (ucast L2 :: 256 word) + ucast H2_times_19"
  let ?x = "unat data_in" and ?p = "0x7FFFFFFFFFFFFFFFFFFFFFFFFFFFFFFFFFFFFFFFFFFFFFFFFFFFFFFFFFFFFFED :: 256 word"
  have x: "?x < 2 ^ 512" using unsigned_less [of data_in] by simp
  have h1: "unat H1 = ?x div 2 ^ 256" using x by (simp add: H1_def unat_slice)
  have l1: "unat L1 = ?x mod 2 ^ 256" by (simp add: L1_def unat_low)
  have "unat H1 < 2 ^ 256" using unsigned_less [of H1] by simp
  then have m1: "unat H1_times_38 = unat H1 * 38"
    unfolding H1_times_38_def by (subst unat_times_small) (simp_all add: unat_low)
  have "unat L1 < 2 ^ 256" using unsigned_less [of L1] by simp
  with \<open>unat H1 < 2 ^ 256\<close> have u1: "unat s1 = unat L1 + unat H1 * 38"
    unfolding s1_def by (subst unat_plus_small) (simp_all add: unat_low m1)
  then have b1: "unat s1 < 39 * 2 ^ 256"
    using \<open>unat H1 < 2 ^ 256\<close> \<open>unat L1 < 2 ^ 256\<close> by simp
  have h2: "unat H2 = unat s1 div 2 ^ 255" using b1 by (simp add: H2_def unat_slice)
  have l2: "unat L2 = unat s1 mod 2 ^ 255" by (simp add: L2_def unat_low)
  have c2: "unat H2 < 78" using b1 by (simp add: h2)
  then have m2: "unat H2_times_19 = unat H2 * 19"
    unfolding H2_times_19_def by (subst unat_times_small) (simp_all add: unat_low)
  have "unat L2 < 2 ^ 255" using unsigned_less [of L2] by simp
  with c2 have u2: "unat s2 = unat L2 + unat H2 * 19"
    unfolding s2_def by (subst unat_plus_small) (simp_all add: unat_low m2)
  then have b2: "unat s2 < 2 * PRIME_P" using c2 \<open>unat L2 < 2 ^ 255\<close> by (simp add: PRIME_P_def)
  have p: "unat ?p = PRIME_P" by (simp add: PRIME_P_def)
  have "unat (pseudo_mersenne data_in) = (if PRIME_P \<le> unat s2 then unat s2 - PRIME_P else unat s2)"
    by (simp add: pseudo_mersenne_def Let_def word_le_nat_alt unat_sub_if' PRIME_P_def
        flip: H1_def L1_def H1_times_38_def s1_def H2_def L2_def H2_times_19_def s2_def)
  also have "\<dots> = unat s2 mod PRIME_P" using b2 by (simp add: mod_if le_mod_geq)
  also have "\<dots> = unat s1 mod PRIME_P" using fold_mod [OF weights(2), of "unat s1"] by (simp add: u2 h2 l2)
  also have "\<dots> = ?x mod PRIME_P" using fold_mod [OF weights(1), of ?x] by (simp add: u1 h1 l1)
  finally show ?thesis by (simp add: reduce_val_def)
qed

text \<open>
  C18. The circuit computes the reduction: for every 512-bit input its output, computed on words of the declared widths, is the value
  the script expects, the input modulo the prime; no intermediate word overflows and one subtraction at the end is enough.
\<close>

theorem pseudo_mersenne_correct: "unat (pseudo_mersenne data_in) = reduce_val (unat data_in)"
  by (rule pseudo_mersenne_circuit)

section \<open>The printed vectors\<close>

lemma upper_hex_digit: "d < 16 \<Longrightarrow> digit_val (upper_hex (digit_char d)) = Some d \<and> upper_hex (digit_char d) \<noteq> CHR ''_''"
proof -
  assume d: "d < 16"
  have n: "(of_char (digit_char d) :: nat) = (if d < 10 then 48 + d else 87 + d)"
    using of_char_digit_char [of d] d by simp
  have "(of_char (upper_hex (digit_char d)) :: nat) = (if d < 10 then 48 + d else 55 + d)"
    using d by (auto simp: upper_hex_def n)
  moreover have "(of_char (CHR ''_'') :: nat) = 95" by simp
  ultimately show ?thesis using d by (auto simp: digit_val_def Let_def split: if_splits)
qed

lemma read_digits_upper: "\<forall>c \<in> set s. \<exists>d < 16. c = digit_char d \<Longrightarrow> read_digits 16 a f (map upper_hex s) = read_digits 16 a f s"
proof (induction s arbitrary: a f)
  case (Cons c s)
  then obtain d where d: "d < 16" "c = digit_char d" by auto
  with Cons upper_hex_digit [OF d(1)] show ?case by (simp add: digit_val_char digit_char_not_special)
qed simp

lemma read_fmt: "read_hex (fmt val w) = Some val"
  using read_hex_pad [of "w div 4" val] hex_pad_chars [of _ "w div 4" val]
  by (simp add: read_hex_def fmt_def read_digits_upper)

interpretation vector_hex: codec "\<lambda>val. fmt val w" read_hex "\<lambda>_. True" for w
  by unfold_locales (rule read_fmt)

lemma fmt_length: "val < 2 ^ (4 * k) \<Longrightarrow> 0 < k \<Longrightarrow> length (fmt val (4 * k)) = k"
  by (simp add: fmt_def hex_pad_length power_mult)

lemma test_cases_512: "list_all (\<lambda>(val, name). val < 2 ^ 512) test_cases"
  by (simp add: test_cases_def PRIME_P_def)

text \<open>What a printed localparam denotes: its digits fill the declared width.\<close>

definition literal :: "nat \<Rightarrow> string \<Rightarrow> nat \<Rightarrow> bool" where
  "literal w hex val = (4 * length hex = w \<and> read_hex hex = Some val)"

lemma vector_line_printed:
  assumes "i < length test_cases" "l \<in> set (vector_lines i (test_cases ! i))"
  shows "l \<in> set tb_lines"
proof -
  have "vector_lines i (test_cases ! i) \<in> set (map2 vector_lines [0..<length test_cases] test_cases)"
    using assms(1) by (force simp: in_set_conv_nth simp del: upt_Suc)
  with assms(2) show ?thesis by (auto simp: tb_lines_def simp del: upt_Suc)
qed

text \<open>
  C19. The printed test bench passes on the circuit: for every test case it declares an input and an expected value of the
  declared widths, whose literals read back as a 512-bit input and a value below the prime, and the circuit maps the one to the other.
\<close>

theorem vectors_pass:
  assumes "i < length test_cases"
  shows "\<exists>iv ev a b. in_line i iv \<in> set tb_lines \<and> exp_line i ev \<in> set tb_lines \<and> check_line i (test_cases ! i) \<in> set tb_lines
    \<and> literal 512 iv a \<and> literal 256 ev b \<and> a = fst (test_cases ! i) \<and> a < 2 ^ 512 \<and> b < PRIME_P
    \<and> pseudo_mersenne (word_of_nat a) = word_of_nat b"
proof -
  obtain val name where t: "test_cases ! i = (val, name)" by fastforce
  have val: "val < 2 ^ 512" using test_cases_512 assms t by (auto simp: list_all_length)
  have b: "reduce_val val < PRIME_P" by (simp add: reduce_val_def PRIME_P_def)
  then have b256: "reduce_val val < 2 ^ 256" by (simp add: PRIME_P_def)
  have l: "in_line i (fmt val 512) \<in> set tb_lines" "exp_line i (fmt (reduce_val val) 256) \<in> set tb_lines"
    using vector_line_printed [OF assms] by (simp_all add: t vector_lines_def)
  have "check_line i (test_cases ! i) \<in> set (map2 check_line [0..<length test_cases] test_cases)"
    using assms by (force simp: in_set_conv_nth simp del: upt_Suc)
  then have c: "check_line i (test_cases ! i) \<in> set tb_lines" by (simp add: tb_lines_def del: upt_Suc)
  have lit: "literal 512 (fmt val 512) val" "literal 256 (fmt (reduce_val val) 256) (reduce_val val)"
    using fmt_length [of val 128] fmt_length [of "reduce_val val" 64] val b256 by (simp_all add: literal_def vector_hex.dec_enc)
  have "unat (word_of_nat val :: 512 word) = val" using val by (simp add: unsigned_of_nat take_bit_nat_eq_self)
  then have "unat (pseudo_mersenne (word_of_nat val)) = reduce_val val" by (simp add: pseudo_mersenne_circuit)
  then have "word_of_nat (unat (pseudo_mersenne (word_of_nat val))) = (word_of_nat (reduce_val val) :: 256 word)" by (rule arg_cong)
  then have "pseudo_mersenne (word_of_nat val) = word_of_nat (reduce_val val)" by simp
  with l c lit t val b show ?thesis by (metis fst_conv)
qed

theorem vectors_pass_witness:
  "\<exists>iv a. in_line 3 iv \<in> set tb_lines \<and> literal 512 iv a \<and> a = 2 ^ 256"
  using vectors_pass [of 3] by (force simp: test_cases_def)

end
