(* ===== verification/Testlist_Text.thy ===== *)
theory Testlist_Text
  imports Py_Data
begin

text \<open>
  The constant text of \<open>directed_tests/gen_testlist.py\<close>: the configurations, and the hand-written directed tests, line by line.
  The names of the PMP tests encode the macros they are compiled with, which the last section states and checks.
\<close>

section \<open>Texts as lines\<close>

definition unlines :: "string list \<Rightarrow> string" where "unlines ls = concat (map (\<lambda>l. l @ nl) ls)"

definition no_newline :: "string \<Rightarrow> bool" where "no_newline s = (newline \<notin> set s)"

section \<open>The text of the script\<close>

text \<open>\<open>testlist_string\<close>: the heading and the three configurations.\<close>

definition testlist_header :: "string list" where
  "testlist_header =
    [''# Copyright lowRISC contributors.'',
     ''# Licensed under the Apache License, Version 2.0, see LICENSE for details.'',
     ''# SPDX-License-Identifier: Apache-2.0'',
     [],
     ''##########################################################'',
     [],
     ''# This file is generated by gen_testlist.py script and largely copies'',
     ''# the formatting of the testlist.yaml used by riscv-dv, but only specifies'',
     ''# directed tests.'',
     ''#'',
     ''# - All paths are relative to THIS FILE.'',
     ''# - Each '' @ [CHR 39] @ ''test'' @ [CHR 39] @ '' can specify a config by name to re-use common configuration'',
     ''# - If a test redefines a key already in the config, the test option takes priority.'',
     [],
     ''##########################################################'',
     [],
     ''- config: riscv-tests'',
     ''  ld_script: link.ld'',
     ''  includes: .'',
     ''  gcc_opts: -static -mcmodel=medany -fvisibility=hidden -nostdlib -nostartfiles'',
     ''            -I../../../vendor/riscv-test-env/'',
     ''            -I../../../vendor/riscv-test-env/p/'',
     ''            -I../../../vendor/riscv-tests/isa/macros/scalar/'',
     ''  rtl_test: core_ibex_base_test'',
     ''  rtl_params:'',
     ''    PMPEnable: 1'',
     ''  timeout_s: 300'',
     [],
     ''- config: riscv-arch-tests'',
     ''  ld_script: link.ld'',
     ''  includes: .'',
     ''  gcc_opts: -static -mcmodel=medany -fvisibility=hidden -nostdlib -nostartfiles'',
     ''            -I../../../vendor/riscv-arch-tests/riscv-test-suite/env/'',
     ''            -I../../../vendor/riscv-isa-sim/arch_test_target/spike/'',
     ''  rtl_test: core_ibex_base_test'',
     ''  rtl_params:'',
     ''    PMPEnable: 1'',
     ''  timeout_s: 300'',
     [],
     ''- config: epmp-tests'',
     ''  ld_script: ../../../../vendor/riscv-isa-sim/tests/mseccfg/mseccfg_test.ld'',
     ''  includes: .'',
     ''  gcc_opts: -march=rv32imc -O2 -I . -I ./. -I ../softfloat -I ../riscv -fno-builtin-printf'',
     ''            -fdata-sections -fno-section-anchors -DPRINTF_SUPPORTED=1'',
     ''            ../../../vendor/riscv-isa-sim/tests/mseccfg/crt.S'',
     ''            ../../../vendor/riscv-isa-sim/tests/mseccfg/syscalls.c'',
     ''            -mcmodel=medany -static -nostdlib -nostartfiles -lm -lgcc'',
     ''            -Wl,-M -Wl,-Map=link.log'',
     ''  rtl_test: core_ibex_base_test'',
     ''  rtl_params:'',
     ''    PMPEnable: 1'',
     ''  timeout_s: 300'']"

text \<open>\<open>available_directed_tests\<close>, in three parts.\<close>

definition custom_tests_1 :: "string list" where
  "custom_tests_1 =
    [[],
     ''# Custom directed tests'',
     [],
     ''- test: empty'',
     ''  desc: >'',
     ''    Empty directed test'',
     ''  iterations: 1'',
     ''  test_srcs: empty/empty.S'',
     ''  config: riscv-tests'',
     [],
     ''- test: pmp_mseccfg_test_rlb1_l0_0_u0'',
     ''  desc: >'',
     ''    mseccfg test'',
     ''  iterations: 1'',
     ''  test_srcs: pmp_mseccfg_test/pmp_mseccfg_test.S'',
     ''  config: riscv-tests'',
     ''  gcc_opts: -static -mcmodel=medany -fvisibility=hidden -nostdlib -nostartfiles'',
     ''            -I../../../vendor/riscv-test-env/'',
     ''            -I../../../vendor/riscv-test-env/p/'',
     ''            -I../../../vendor/riscv-tests/isa/macros/scalar/'',
     ''            -DPMP_REGION=4 -DRLB -DSET_PMP_L=0 -DSET_PMP_L_PREV=0'',
     [],
     ''- test: pmp_mseccfg_test_rlb1_l0_1_u0'',
     ''  desc: >'',
     ''    mseccfg test'',
     ''  iterations: 1'',
     ''  test_srcs: pmp_mseccfg_test/pmp_mseccfg_test.S'',
     ''  config: riscv-tests'',
     ''  gcc_opts: -static -mcmodel=medany -fvisibility=hidden -nostdlib -nostartfiles'',
     ''            -I../../../vendor/riscv-test-env/'',
     ''            -I../../../vendor/riscv-test-env/p/'',
     ''            -I../../../vendor/riscv-tests/isa/macros/scalar/'',
     ''            -DPMP_REGION=4 -DRLB -DSET_PMP_L=1 -DSET_PMP_L_PREV=0'',
     [],
     ''- test: pmp_mseccfg_test_rlb1_l1_0_u0'',
     ''  desc: >'',
     ''    mseccfg test'',
     ''  iterations: 1'',
     ''  test_srcs: pmp_mseccfg_test/pmp_mseccfg_test.S'',
     ''  config: riscv-tests'',
     ''  gcc_opts: -static -mcmodel=medany -fvisibility=hidden -nostdlib -nostartfiles'',
     ''            -I../../../vendor/riscv-test-env/'',
     ''            -I../../../vendor/riscv-test-env/p/'',
     ''            -I../../../vendor/riscv-tests/isa/macros/scalar/'',
     ''            -DPMP_REGION=4 -DRLB -DSET_PMP_L=0 -DSET_PMP_L_PREV=1'',
     [],
     ''- test: pmp_mseccfg_test_rlb1_l1_1_u0'',
     ''  desc: >'',
     ''    mseccfg test'',
     ''  iterations: 1'',
     ''  test_srcs: pmp_mseccfg_test/pmp_mseccfg_test.S'',
     ''  config: riscv-tests'',
     ''  gcc_opts: -static -mcmodel=medany -fvisibility=hidden -nostdlib -nostartfiles'',
     ''            -I../../../vendor/riscv-test-env/'',
     ''            -I../../../vendor/riscv-test-env/p/'',
     ''            -I../../../vendor/riscv-tests/isa/macros/scalar/'',
     ''            -DPMP_REGION=4 -DRLB -DSET_PMP_L=1 -DSET_PMP_L_PREV=1'',
     [],
     ''- test: pmp_mseccfg_test_rlb0_l0_0_u0'',
     ''  desc: >'',
     ''    mseccfg test'',
     ''  iterations: 1'',
     ''  test_srcs: pmp_mseccfg_test/pmp_mseccfg_test.S'',
     ''  config: riscv-tests'',
     ''  gcc_opts: -static -mcmodel=medany -fvisibility=hidden -nostdlib -nostartfiles'',
     ''            -I../../../vendor/riscv-test-env/'',
     ''            -I../../../vendor/riscv-test-env/p/'',
     ''            -I../../../vendor/riscv-tests/isa/macros/scalar/'',
     ''            -DPMP_REGION=4 -DSET_PMP_L=0 -DSET_PMP_L_PREV=0'',
     [],
     ''- test: pmp_mseccfg_test_rlb0_l0_1_next_l1_u0'',
     ''  desc: >'',
     ''    mseccfg test'',
     ''  iterations: 1'',
     ''  test_srcs: pmp_mseccfg_test/pmp_mseccfg_test.S'',
     ''  config: riscv-tests'',
     ''  gcc_opts: -static -mcmodel=medany -fvisibility=hidden -nostdlib -nostartfiles'',
     ''            -I../../../vendor/riscv-test-env/'',
     ''            -I../../../vendor/riscv-test-env/p/'',
     ''            -I../../../vendor/riscv-tests/isa/macros/scalar/'',
     ''            -DSET_PMP_L=1 -DSET_PMP_L_PREV=0 -DPMP_NEXT_L1'',
     [],
     ''- test: pmp_mseccfg_test_rlb0_l0_1_next_l1_r1_u0'',
     ''  desc: >'',
     ''    mseccfg test'',
     ''  iterations: 1'',
     ''  test_srcs: pmp_mseccfg_test/pmp_mseccfg_test.S'',
     ''  config: riscv-tests'',
     ''  gcc_opts: -static -mcmodel=medany -fvisibility=hidden -nostdlib -nostartfiles'',
     ''            -I../../../vendor/riscv-test-env/'',
     ''            -I../../../vendor/riscv-test-env/p/'',
     ''            -I../../../vendor/riscv-tests/isa/macros/scalar/'',
     ''            -DSET_PMP_L=1 -DSET_PMP_L_PREV=0 -DPMP_NEXT_L1_R1'',
     [],
     ''- test: pmp_mseccfg_test_rlb0_l0_1_next_l1_w1_u0'',
     ''  desc: >'',
     ''    mseccfg test'',
     ''  iterations: 1'',
     ''  test_srcs: pmp_mseccfg_test/pmp_mseccfg_test.S'',
     ''  config: riscv-tests'',
     ''  gcc_opts: -static -mcmodel=medany -fvisibility=hidden -nostdlib -nostartfiles'',
     ''            -I../../../vendor/riscv-test-env/'',
     ''            -I../../../vendor/riscv-test-env/p/'',
     ''            -I../../../vendor/riscv-tests/isa/macros/scalar/'',
     ''            -DSET_PMP_L=1 -DSET_PMP_L_PREV=0 -DPMP_NEXT_L1_W1'',
     [],
     ''- test: pmp_mseccfg_test_rlb0_l0_1_next_l1_x1_u0'',
     ''  desc: >'',
     ''    mseccfg test'',
     ''  iterations: 1'',
     ''  test_srcs: pmp_mseccfg_test/pmp_mseccfg_test.S'',
     ''  config: riscv-tests'',
     ''  gcc_opts: -static -mcmodel=medany -fvisibility=hidden -nostdlib -nostartfiles'',
     ''            -I../../../vendor/riscv-test-env/'',
     ''            -I../../../vendor/riscv-test-env/p/'',
     ''            -I../../../vendor/riscv-tests/isa/macros/scalar/'',
     ''            -DSET_PMP_L=1 -DSET_PMP_L_PREV=0 -DPMP_NEXT_L1_X1'']"

definition custom_tests_2 :: "string list" where
  "custom_tests_2 =
    [[],
     ''- test: pmp_mseccfg_test_rlb0_l0_1_next_l1_r1_w1_u0'',
     ''  desc: >'',
     ''    mseccfg test'',
     ''  iterations: 1'',
     ''  test_srcs: pmp_mseccfg_test/pmp_mseccfg_test.S'',
     ''  config: riscv-tests'',
     ''  gcc_opts: -static -mcmodel=medany -fvisibility=hidden -nostdlib -nostartfiles'',
     ''            -I../../../vendor/riscv-test-env/'',
     ''            -I../../../vendor/riscv-test-env/p/'',
     ''            -I../../../vendor/riscv-tests/isa/macros/scalar/'',
     ''            -DSET_PMP_L=1 -DSET_PMP_L_PREV=0 -DPMP_NEXT_L1_R1_W1'',
     [],
     ''- test: pmp_mseccfg_test_rlb0_l0_1_next_l1_r1_x1_u0'',
     ''  desc: >'',
     ''    mseccfg test'',
     ''  iterations: 1'',
     ''  test_srcs: pmp_mseccfg_test/pmp_mseccfg_test.S'',
     ''  config: riscv-tests'',
     ''  gcc_opts: -static -mcmodel=medany -fvisibility=hidden -nostdlib -nostartfiles'',
     ''            -I../../../vendor/riscv-test-env/'',
     ''            -I../../../vendor/riscv-test-env/p/'',
     ''            -I../../../vendor/riscv-tests/isa/macros/scalar/'',
     ''            -DSET_PMP_L=1 -DSET_PMP_L_PREV=0 -DPMP_NEXT_L1_R1_X1'',
     [],
     ''- test: pmp_mseccfg_test_rlb0_l0_1_next_l1_w1_x1_u0'',
     ''  desc: >'',
     ''    mseccfg test'',
     ''  iterations: 1'',
     ''  test_srcs: pmp_mseccfg_test/pmp_mseccfg_test.S'',
     ''  config: riscv-tests'',
     ''  gcc_opts: -static -mcmodel=medany -fvisibility=hidden -nostdlib -nostartfiles'',
     ''            -I../../../vendor/riscv-test-env/'',
     ''            -I../../../vendor/riscv-test-env/p/'',
     ''            -I../../../vendor/riscv-tests/isa/macros/scalar/'',
     ''            -DSET_PMP_L=1 -DSET_PMP_L_PREV=0 -DPMP_NEXT_L1_W1_X1'',
     [],
     ''- test: pmp_mseccfg_test_rlb0_l0_1_next_l1_r1_w1_x1_u0'',
     ''  desc: >'',
     ''    mseccfg test'',
     ''  iterations: 1'',
     ''  test_srcs: pmp_mseccfg_test/pmp_mseccfg_test.S'',
     ''  config: riscv-tests'',
     ''  gcc_opts: -static -mcmodel=medany -fvisibility=hidden -nostdlib -nostartfiles'',
     ''            -I../../../vendor/riscv-test-env/'',
     ''            -I../../../vendor/riscv-test-env/p/'',
     ''            -I../../../vendor/riscv-tests/isa/macros/scalar/'',
     ''            -DSET_PMP_L=1 -DSET_PMP_L_PREV=0 -DPMP_NEXT_L1_R1_W1_X1'',
     [],
     ''- test: pmp_mseccfg_test_rlb1_l0_0_u1'',
     ''  desc: >'',
     ''    mseccfg test'',
     ''  iterations: 1'',
     ''  test_srcs: pmp_mseccfg_test/pmp_mseccfg_test.S'',
     ''  config: riscv-tests'',
     ''  gcc_opts: -static -mcmodel=medany -fvisibility=hidden -nostdlib -nostartfiles'',
     ''            -I../../../vendor/riscv-test-env/'',
     ''            -I../../../vendor/riscv-test-env/p/'',
     ''            -I../../../vendor/riscv-tests/isa/macros/scalar/'',
     ''            -DPMP_REGION=4 -DRLB -DSET_PMP_L=0 -DSET_PMP_L_PREV=0 -DU_MODE'',
     [],
     ''- test: pmp_mseccfg_test_rlb1_l0_1_u1'',
     ''  desc: >'',
     ''    mseccfg test'',
     ''  iterations: 1'',
     ''  test_srcs: pmp_mseccfg_test/pmp_mseccfg_test.S'',
     ''  config: riscv-tests'',
     ''  gcc_opts: -static -mcmodel=medany -fvisibility=hidden -nostdlib -nostartfiles'',
     ''            -I../../../vendor/riscv-test-env/'',
     ''            -I../../../vendor/riscv-test-env/p/'',
     ''            -I../../../vendor/riscv-tests/isa/macros/scalar/'',
     ''            -DPMP_REGION=4 -DRLB -DSET_PMP_L=1 -DSET_PMP_L_PREV=0 -DU_MODE'',
     [],
     ''- test: pmp_mseccfg_test_rlb1_l1_0_u1'',
     ''  desc: >'',
     ''    mseccfg test'',
     ''  iterations: 1'',
     ''  test_srcs: pmp_mseccfg_test/pmp_mseccfg_test.S'',
     ''  config: riscv-tests'',
     ''  gcc_opts: -static -mcmodel=medany -fvisibility=hidden -nostdlib -nostartfiles'',
     ''            -I../../../vendor/riscv-test-env/'',
     ''            -I../../../vendor/riscv-test-env/p/'',
     ''            -I../../../vendor/riscv-tests/isa/macros/scalar/'',
     ''            -DPMP_REGION=4 -DRLB -DSET_PMP_L=0 -DSET_PMP_L_PREV=1 -DU_MODE'',
     [],
     ''- test: pmp_mseccfg_test_rlb1_l1_1_u1'',
     ''  desc: >'',
     ''    mseccfg test'',
     ''  iterations: 1'',
     ''  test_srcs: pmp_mseccfg_test/pmp_mseccfg_test.S'',
     ''  config: riscv-tests'',
     ''  gcc_opts: -static -mcmodel=medany -fvisibility=hidden -nostdlib -nostartfiles'',
     ''            -I../../../vendor/riscv-test-env/'',
     ''            -I../../../vendor/riscv-test-env/p/'',
     ''            -I../../../vendor/riscv-tests/isa/macros/scalar/'',
     ''            -DPMP_REGION=4 -DRLB -DSET_PMP_L=1 -DSET_PMP_L_PREV=1 -DU_MODE'',
     [],
     ''- test: pmp_mseccfg_test_rlb0_l0_0_u1'',
     ''  desc: >'',
     ''    mseccfg test'',
     ''  iterations: 1'',
     ''  test_srcs: pmp_mseccfg_test/pmp_mseccfg_test.S'',
     ''  config: riscv-tests'',
     ''  gcc_opts: -static -mcmodel=medany -fvisibility=hidden -nostdlib -nostartfiles'',
     ''            -I../../../vendor/riscv-test-env/'',
     ''            -I../../../vendor/riscv-test-env/p/'',
     ''            -I../../../vendor/riscv-tests/isa/macros/scalar/'',
     ''            -DPMP_REGION=4 -DSET_PMP_L=0 -DSET_PMP_L_PREV=0 -DU_MODE'']"

definition custom_tests_3 :: "string list" where
  "custom_tests_3 =
    [[],
     ''- test: pmp_mseccfg_test_rlb0_l0_1_next_l1_u1'',
     ''  desc: >'',
     ''    mseccfg test'',
     ''  iterations: 1'',
     ''  test_srcs: pmp_mseccfg_test/pmp_mseccfg_test.S'',
     ''  config: riscv-tests'',
     ''  gcc_opts: -static -mcmodel=medany -fvisibility=hidden -nostdlib -nostartfiles'',
     ''            -I../../../vendor/riscv-test-env/'',
     ''            -I../../../vendor/riscv-test-env/p/'',
     ''            -I../../../vendor/riscv-tests/isa/macros/scalar/'',
     ''            -DSET_PMP_L=1 -DSET_PMP_L_PREV=0 -DPMP_NEXT_L1 -DU_MODE'',
     [],
     ''- test: pmp_mseccfg_test_rlb0_l0_1_next_l1_r1_u1'',
     ''  desc: >'',
     ''    mseccfg test'',
     ''  iterations: 1'',
     ''  test_srcs: pmp_mseccfg_test/pmp_mseccfg_test.S'',
     ''  config: riscv-tests'',
     ''  gcc_opts: -static -mcmodel=medany -fvisibility=hidden -nostdlib -nostartfiles'',
     ''            -I../../../vendor/riscv-test-env/'',
     ''            -I../../../vendor/riscv-test-env/p/'',
     ''            -I../../../vendor/riscv-tests/isa/macros/scalar/'',
     ''            -DSET_PMP_L=1 -DSET_PMP_L_PREV=0 -DPMP_NEXT_L1_R1 -DU_MODE'',
     [],
     ''- test: pmp_mseccfg_test_rlb0_l0_1_next_l1_w1_u1'',
     ''  desc: >'',
     ''    mseccfg test'',
     ''  iterations: 1'',
     ''  test_srcs: pmp_mseccfg_test/pmp_mseccfg_test.S'',
     ''  config: riscv-tests'',
     ''  gcc_opts: -static -mcmodel=medany -fvisibility=hidden -nostdlib -nostartfiles'',
     ''            -I../../../vendor/riscv-test-env/'',
     ''            -I../../../vendor/riscv-test-env/p/'',
     ''            -I../../../vendor/riscv-tests/isa/macros/scalar/'',
     ''            -DSET_PMP_L=1 -DSET_PMP_L_PREV=0 -DPMP_NEXT_L1_W1 -DU_MODE'',
     [],
     ''- test: pmp_mseccfg_test_rlb0_l0_1_next_l1_x1_u1'',
     ''  desc: >'',
     ''    mseccfg test'',
     ''  iterations: 1'',
     ''  test_srcs: pmp_mseccfg_test/pmp_mseccfg_test.S'',
     ''  config: riscv-tests'',
     ''  gcc_opts: -static -mcmodel=medany -fvisibility=hidden -nostdlib -nostartfiles'',
     ''            -I../../../vendor/riscv-test-env/'',
     ''            -I../../../vendor/riscv-test-env/p/'',
     ''            -I../../../vendor/riscv-tests/isa/macros/scalar/'',
     ''            -DSET_PMP_L=1 -DSET_PMP_L_PREV=0 -DPMP_NEXT_L1_X1 -DU_MODE'',
     [],
     ''- test: pmp_mseccfg_test_rlb0_l0_1_next_l1_r1_w1_u1'',
     ''  desc: >'',
     ''    mseccfg test'',
     ''  iterations: 1'',
     ''  test_srcs: pmp_mseccfg_test/pmp_mseccfg_test.S'',
     ''  config: riscv-tests'',
     ''  gcc_opts: -static -mcmodel=medany -fvisibility=hidden -nostdlib -nostartfiles'',
     ''            -I../../../vendor/riscv-test-env/'',
     ''            -I../../../vendor/riscv-test-env/p/'',
     ''            -I../../../vendor/riscv-tests/isa/macros/scalar/'',
     ''            -DSET_PMP_L=1 -DSET_PMP_L_PREV=0 -DPMP_NEXT_L1_R1_W1 -DU_MODE'',
     [],
     ''- test: pmp_mseccfg_test_rlb0_l0_1_next_l1_r1_x1_u1'',
     ''  desc: >'',
     ''    mseccfg test'',
     ''  iterations: 1'',
     ''  test_srcs: pmp_mseccfg_test/pmp_mseccfg_test.S'',
     ''  config: riscv-tests'',
     ''  gcc_opts: -static -mcmodel=medany -fvisibility=hidden -nostdlib -nostartfiles'',
     ''            -I../../../vendor/riscv-test-env/'',
     ''            -I../../../vendor/riscv-test-env/p/'',
     ''            -I../../../vendor/riscv-tests/isa/macros/scalar/'',
     ''            -DSET_PMP_L=1 -DSET_PMP_L_PREV=0 -DPMP_NEXT_L1_R1_X1 -DU_MODE'',
     [],
     ''- test: pmp_mseccfg_test_rlb0_l0_1_next_l1_w1_x1_u1'',
     ''  desc: >'',
     ''    mseccfg test'',
     ''  iterations: 1'',
     ''  test_srcs: pmp_mseccfg_test/pmp_mseccfg_test.S'',
     ''  config: riscv-tests'',
     ''  gcc_opts: -static -mcmodel=medany -fvisibility=hidden -nostdlib -nostartfiles'',
     ''            -I../../../vendor/riscv-test-env/'',
     ''            -I../../../vendor/riscv-test-env/p/'',
     ''            -I../../../vendor/riscv-tests/isa/macros/scalar/'',
     ''            -DSET_PMP_L=1 -DSET_PMP_L_PREV=0 -DPMP_NEXT_L1_W1_X1 -DU_MODE'',
     [],
     ''- test: pmp_mseccfg_test_rlb0_l0_1_next_l1_r1_w1_x1_u1'',
     ''  desc: >'',
     ''    mseccfg test'',
     ''  iterations: 1'',
     ''  test_srcs: pmp_mseccfg_test/pmp_mseccfg_test.S'',
     ''  config: riscv-tests'',
     ''  gcc_opts: -static -mcmodel=medany -fvisibility=hidden -nostdlib -nostartfiles'',
     ''            -I../../../vendor/riscv-test-env/'',
     ''            -I../../../vendor/riscv-test-env/p/'',
     ''            -I../../../vendor/riscv-tests/isa/macros/scalar/'',
     ''            -DSET_PMP_L=1 -DSET_PMP_L_PREV=0 -DPMP_NEXT_L1_R1_W1_X1 -DU_MODE'',
     [],
     ''- test: access_pmp_overlap'',
     ''  desc: >'',
     ''    PMP access basic test'',
     ''  iterations: 1'',
     ''  test_srcs: access_pmp_overlap/access_pmp_overlap.S'',
     ''  config: riscv-tests'',
     [],
     ''- test: u_mode_exec_test'',
     ''  desc: >'',
     ''    PMP U mode exec test'',
     ''  iterations: 1'',
     ''  test_srcs: u_mode_exec_test/u_mode_exec_test.S'',
     ''  config: riscv-tests'']"

definition available_directed_tests :: "string list" where
  "available_directed_tests = custom_tests_1 @ custom_tests_2 @ custom_tests_3"

section \<open>The PMP tests\<close>

definition pmp_item :: "string \<Rightarrow> string \<Rightarrow> string list" where
  "pmp_item name macros =
     [[], ''- test: pmp_mseccfg_test_'' @ name, ''  desc: >'', ''    mseccfg test'', ''  iterations: 1'',
      ''  test_srcs: pmp_mseccfg_test/pmp_mseccfg_test.S'', ''  config: riscv-tests'',
      ''  gcc_opts: -static -mcmodel=medany -fvisibility=hidden -nostdlib -nostartfiles'',
      ''            -I../../../vendor/riscv-test-env/'', ''            -I../../../vendor/riscv-test-env/p/'',
      ''            -I../../../vendor/riscv-tests/isa/macros/scalar/'', ''            '' @ macros]"

definition upper_char :: "char \<Rightarrow> char" where
  "upper_char c = (if is_lower c then char_of ((of_char c :: nat) - 32) else c)"

text \<open>
  The name says whether locked rules may be bypassed, the lock bit before and now, and the permissions of the next
  region: each combination in machine mode (\<open>u0\<close>), then in user mode.
\<close>

definition pmp_variants :: "(string \<times> string) list" where
  "pmp_variants =
     map (\<lambda>(p, l). (''rlb1_l'' @ p @ ''_'' @ l, ''-DPMP_REGION=4 -DRLB -DSET_PMP_L='' @ l @ '' -DSET_PMP_L_PREV='' @ p))
       [(''0'', ''0''), (''0'', ''1''), (''1'', ''0''), (''1'', ''1'')]
     @ [(''rlb0_l0_0'', ''-DPMP_REGION=4 -DSET_PMP_L=0 -DSET_PMP_L_PREV=0'')]
     @ map (\<lambda>perm. (''rlb0_l0_1_next_l1'' @ perm, ''-DSET_PMP_L=1 -DSET_PMP_L_PREV=0 -DPMP_NEXT_L1'' @ map upper_char perm))
       [[], ''_r1'', ''_w1'', ''_x1'', ''_r1_w1'', ''_r1_x1'', ''_w1_x1'', ''_r1_w1_x1'']"

definition pmp_tests :: "string list" where
  "pmp_tests = concat (map (\<lambda>(name, macros). pmp_item (name @ ''_u0'') macros) pmp_variants)
     @ concat (map (\<lambda>(name, macros). pmp_item (name @ ''_u1'') (macros @ '' -DU_MODE'')) pmp_variants)"

text \<open>The texts around the PMP tests.\<close>

definition empty_item :: "string list" where
  "empty_item = [[], ''# Custom directed tests'', [], ''- test: empty'', ''  desc: >'', ''    Empty directed test'', ''  iterations: 1'',
     ''  test_srcs: empty/empty.S'', ''  config: riscv-tests'']"

definition last_items :: "string list" where
  "last_items =
     [[], ''- test: access_pmp_overlap'', ''  desc: >'', ''    PMP access basic test'', ''  iterations: 1'',
      ''  test_srcs: access_pmp_overlap/access_pmp_overlap.S'', ''  config: riscv-tests'',
      [], ''- test: u_mode_exec_test'', ''  desc: >'', ''    PMP U mode exec test'', ''  iterations: 1'',
      ''  test_srcs: u_mode_exec_test/u_mode_exec_test.S'', ''  config: riscv-tests'']"

lemma upper_perms: "map (map upper_char) [''_r1'', ''_w1'', ''_x1'', ''_r1_w1'', ''_r1_x1'', ''_w1_x1'', ''_r1_w1_x1'']
    = [''_R1'', ''_W1'', ''_X1'', ''_R1_W1'', ''_R1_X1'', ''_W1_X1'', ''_R1_W1_X1'']"
  by code_simp

lemma pmp_variants_eval: "pmp_variants =
   [(''rlb1_l0_0'', ''-DPMP_REGION=4 -DRLB -DSET_PMP_L=0 -DSET_PMP_L_PREV=0''),
    (''rlb1_l0_1'', ''-DPMP_REGION=4 -DRLB -DSET_PMP_L=1 -DSET_PMP_L_PREV=0''),
    (''rlb1_l1_0'', ''-DPMP_REGION=4 -DRLB -DSET_PMP_L=0 -DSET_PMP_L_PREV=1''),
    (''rlb1_l1_1'', ''-DPMP_REGION=4 -DRLB -DSET_PMP_L=1 -DSET_PMP_L_PREV=1''),
    (''rlb0_l0_0'', ''-DPMP_REGION=4 -DSET_PMP_L=0 -DSET_PMP_L_PREV=0''),
    (''rlb0_l0_1_next_l1'', ''-DSET_PMP_L=1 -DSET_PMP_L_PREV=0 -DPMP_NEXT_L1''),
    (''rlb0_l0_1_next_l1_r1'', ''-DSET_PMP_L=1 -DSET_PMP_L_PREV=0 -DPMP_NEXT_L1_R1''),
    (''rlb0_l0_1_next_l1_w1'', ''-DSET_PMP_L=1 -DSET_PMP_L_PREV=0 -DPMP_NEXT_L1_W1''),
    (''rlb0_l0_1_next_l1_x1'', ''-DSET_PMP_L=1 -DSET_PMP_L_PREV=0 -DPMP_NEXT_L1_X1''),
    (''rlb0_l0_1_next_l1_r1_w1'', ''-DSET_PMP_L=1 -DSET_PMP_L_PREV=0 -DPMP_NEXT_L1_R1_W1''),
    (''rlb0_l0_1_next_l1_r1_x1'', ''-DSET_PMP_L=1 -DSET_PMP_L_PREV=0 -DPMP_NEXT_L1_R1_X1''),
    (''rlb0_l0_1_next_l1_w1_x1'', ''-DSET_PMP_L=1 -DSET_PMP_L_PREV=0 -DPMP_NEXT_L1_W1_X1''),
    (''rlb0_l0_1_next_l1_r1_w1_x1'', ''-DSET_PMP_L=1 -DSET_PMP_L_PREV=0 -DPMP_NEXT_L1_R1_W1_X1'')]"
  using upper_perms by (simp add: pmp_variants_def)

text \<open>The hand-written text is exactly the scheme between the first test and the last two.\<close>

lemma pmp_tests_scheme: "available_directed_tests = empty_item @ pmp_tests @ last_items"
  by (simp only: available_directed_tests_def custom_tests_1_def custom_tests_2_def custom_tests_3_def empty_item_def last_items_def
      pmp_tests_def pmp_variants_eval pmp_item_def list.map concat.simps append.simps prod.case)

lemma pmp_item_clean: "no_newline n \<Longrightarrow> no_newline m \<Longrightarrow> list_all no_newline (pmp_item n m)"
  by (simp add: pmp_item_def no_newline_def newline_def)

lemma testlist_text_clean: "list_all no_newline testlist_header" "list_all no_newline available_directed_tests"
proof -
  show "list_all no_newline testlist_header" by (simp add: testlist_header_def no_newline_def newline_def)
  have v: "list_all (\<lambda>(n, m). no_newline n \<and> no_newline m) pmp_variants" by code_simp
  have items: "list_all no_newline (concat (map (\<lambda>(n, m). pmp_item (n @ s) (m @ t)) pmp_variants))"
    if "no_newline s" "no_newline t" for s t
  proof -
    have "list_all no_newline (pmp_item (n @ s) (m @ t))" if "(n, m) \<in> set pmp_variants" for n m
      using v that \<open>no_newline s\<close> \<open>no_newline t\<close> by (intro pmp_item_clean) (auto simp: list_all_iff no_newline_def)
    then show ?thesis by (auto simp: list_all_iff)
  qed
  have "list_all no_newline pmp_tests"
    using items [of "''_u0''" "[]"] items [of "''_u1''" "'' -DU_MODE''"]
    by (simp add: pmp_tests_def no_newline_def newline_def)
  moreover have "list_all no_newline empty_item" "list_all no_newline last_items"
    by (simp_all add: empty_item_def last_items_def no_newline_def newline_def)
  ultimately show "list_all no_newline available_directed_tests" by (simp add: pmp_tests_scheme)
qed

end
