(* ===== verification/Gen_Testlist.thy ===== *)
theory Gen_Testlist
  imports Testlist_Text
begin

text \<open>
  \<open>directed_tests/gen_testlist.py\<close>: the list of directed tests, generated from the listings of the test suites. What a
  shell command prints is a parameter, and so is the order in which Python iterates over a set. The constant text of the
  configurations and hand-written tests is in \<open>Testlist_Text\<close>. A file system is a map from names to texts.
\<close>

section \<open>The script\<close>

type_synonym text_files = "string \<rightharpoonup> string"

definition testlist_yaml :: string where "testlist_yaml = ''directed_testlist.yaml''"

text \<open>\<open>with open(p, "a") as f: f.write(s)\<close>.\<close>

definition append_file :: "string \<Rightarrow> string \<Rightarrow> text_files \<Rightarrow> text_files" where
  "append_file p s fs = fs(p \<mapsto> (case fs p of None \<Rightarrow> [] | Some old \<Rightarrow> old) @ s)"

text \<open>\<open>s.split(sep)[0]\<close>.\<close>

fun before :: "string \<Rightarrow> string \<Rightarrow> string" where
  "before sep [] = []"
| "before sep (c # cs) = (if prefix sep (c # cs) then [] else c # before sep cs)"

definition test_text :: "string \<Rightarrow> string \<Rightarrow> string \<Rightarrow> string \<Rightarrow> string \<Rightarrow> string" where
  "test_text test_suite test_group_name test_name extension config =
     nl @ ''- test: '' @ test_name @ nl @ ''  desc: >'' @ nl @ ''    riscv test - '' @ test_name @ nl
     @ ''  iterations: 1'' @ nl @ ''  test_srcs: '' @ test_suite @ test_group_name @ ''/'' @ test_name @ extension @ nl
     @ ''  config: '' @ config @ nl"

definition ext_of :: "bool \<Rightarrow> string" where "ext_of is_assembly = (if is_assembly then ''.S'' else ''.c'')"

definition ls_cmd :: "string \<Rightarrow> string \<Rightarrow> bool \<Rightarrow> string" where
  "ls_cmd test_suite test_group_name is_assembly =
     ''ls '' @ test_suite @ test_group_name @ (if is_assembly then '' | egrep .S'' else '' | egrep .c'')"

definition suite_heading :: "string \<Rightarrow> string" where
  "suite_heading test_suite_name = nl @ ''# Test-suite: '' @ test_suite_name @ nl"

definition append_directed_testlist ::
    "(string \<Rightarrow> string) \<Rightarrow> string list \<Rightarrow> string \<Rightarrow> string \<Rightarrow> bool \<Rightarrow> text_files \<Rightarrow> text_files" where
  "append_directed_testlist popen tests test_suite test_suite_name is_assembly fs =
     append_file testlist_yaml
       (suite_heading test_suite_name
        @ concat (map (\<lambda>test_group_name.
            concat (map (\<lambda>test_name_str.
                test_text test_suite test_group_name (before (ext_of is_assembly) test_name_str) (ext_of is_assembly) test_suite_name)
              (butlast (split_char newline (popen (ls_cmd test_suite test_group_name is_assembly))))))
          tests)) fs"

definition list_tests :: "(string \<Rightarrow> string) \<Rightarrow> string \<Rightarrow> string list" where
  "list_tests popen dir = butlast (split_char newline (popen (''ls '' @ dir)))"

definition add_configs_and_handwritten_directed_tests :: "text_files \<Rightarrow> text_files" where
  "add_configs_and_handwritten_directed_tests fs =
     append_file testlist_yaml (unlines testlist_header @ unlines available_directed_tests) fs"

definition isa_tests :: "string list" where "isa_tests = [''rv32mi'', ''rv32uc'', ''rv32ui'', ''rv32um'']"

definition arch_tests :: "string list" where
  "arch_tests = [''rv32i_m/B/src'', ''rv32i_m/C/src'', ''rv32i_m/I/src'', ''rv32i_m/M/src'', ''rv32i_m/Zifencei/src'']"

definition gen_testlist_main ::
    "(string \<Rightarrow> string) \<Rightarrow> (string list \<Rightarrow> string list) \<Rightarrow> string \<Rightarrow> text_files \<Rightarrow> (int \<times> text_files) res" where
  "gen_testlist_main popen set_order test_suite fs =
     (case fs testlist_yaml of
        None \<Rightarrow> Inl (OSError testlist_yaml)
      | Some _ \<Rightarrow>
          (let test_suite_list = split_char (CHR '','') test_suite;
               sel = (\<lambda>s. s \<in> set test_suite_list \<or> test_suite = ''all'');
               fs = add_configs_and_handwritten_directed_tests (fs(testlist_yaml \<mapsto> []));
               fs = (if sel ''riscv-tests''
                 then append_directed_testlist popen (set_order isa_tests) ''../../../../vendor/riscv-tests/isa/'' ''riscv-tests'' True fs else fs);
               fs = (if sel ''riscv-arch-tests''
                 then append_directed_testlist popen (set_order arch_tests) ''../../../../vendor/riscv-arch-tests/riscv-test-suite/''
                        ''riscv-arch-tests'' True fs else fs);
               fs = (if sel ''epmp-tests''
                 then append_directed_testlist popen (set_order [''outputs'']) ''../../../../vendor/riscv-isa-sim/tests/mseccfg/gengen_src/''
                        ''epmp-tests'' False fs else fs)
           in Inr (0, fs)))"

section \<open>The listed sources\<close>

lemma unlines_simps [simp]: "unlines [] = []" "unlines (l # ls) = l @ nl @ unlines ls"
  by (simp_all add: unlines_def)

lemma unlines_append: "unlines (xs @ ys) = unlines xs @ unlines ys"
  by (simp add: unlines_def)

lemma unlines_concat: "unlines (concat xss) = concat (map unlines xss)"
  by (induction xss) (simp_all add: unlines_append)

lemma file_lines_unlines: "list_all no_newline ls \<Longrightarrow> file_lines (unlines ls) = map (\<lambda>l. l @ nl) ls"
  by (induction ls) (simp_all add: file_lines_line no_newline_def, simp add: file_lines_def)

lemma split_unlines: "list_all no_newline ls \<Longrightarrow> butlast (split_char newline (unlines ls)) = ls"
  by (induction ls) (auto simp: no_newline_def split_char_append nl_def)

text \<open>What the \<open>test_srcs\<close> lines of a list name, and the sources that one test gives.\<close>

definition listed_srcs :: "string \<Rightarrow> string list" where
  "listed_srcs s = map (\<lambda>l. filter (\<lambda>c. c \<noteq> newline) (drop 13 l)) (filter (\<lambda>l. startswith l ''  test_srcs: '') (file_lines s))"

definition test_lines :: "string \<Rightarrow> string \<Rightarrow> string \<Rightarrow> string \<Rightarrow> string \<Rightarrow> string list" where
  "test_lines dir g n ext config =
     [[], ''- test: '' @ n, ''  desc: >'', ''    riscv test - '' @ n, ''  iterations: 1'',
      ''  test_srcs: '' @ dir @ g @ ''/'' @ n @ ext, ''  config: '' @ config]"

lemma test_text_lines: "test_text dir g n ext config = unlines (test_lines dir g n ext config)"
  by (simp add: test_text_def test_lines_def)

definition line_srcs :: "string list \<Rightarrow> string list" where
  "line_srcs ls = map (drop 13) (filter (\<lambda>l. startswith l ''  test_srcs: '') ls)"

lemma line_srcs_concat [simp]: "line_srcs (concat xss) = concat (map line_srcs xss)"
  by (induction xss) (simp_all add: line_srcs_def)

lemma line_srcs_simps [simp]:
  "line_srcs [] = []" "line_srcs (xs @ ys) = line_srcs xs @ line_srcs ys"
  "line_srcs (test_lines dir g n ext config) = [dir @ g @ ''/'' @ n @ ext]"
  by (simp_all add: line_srcs_def test_lines_def startswith_def)

lemma listed_unlines: "list_all no_newline ls \<Longrightarrow> listed_srcs (unlines ls) = line_srcs ls"
proof (induction ls)
  case (Cons l ls)
  have "startswith (l @ nl) ''  test_srcs: '' = startswith l ''  test_srcs: ''"
    by (auto simp: startswith_def nl_def newline_def prefix_snoc dest: arg_cong [of _ _ last])
  moreover have "filter (\<lambda>c. c \<noteq> newline) (drop 13 (l @ nl)) = drop 13 l" if "startswith l ''  test_srcs: ''"
    using Cons.prems that by (auto simp: startswith_def prefix_def no_newline_def nl_def filter_id_conv)
  ultimately show ?case
    using Cons by (auto simp: listed_srcs_def line_srcs_def no_newline_def file_lines_line)
qed (simp add: listed_srcs_def file_lines_def)

text \<open>The test suites: their names, directories, groups of tests and whether they are assembly.\<close>

type_synonym suite = "string \<times> string \<times> string list \<times> bool"

definition suites :: "suite list" where
  "suites =
    [(''riscv-tests'', ''../../../../vendor/riscv-tests/isa/'', isa_tests, True),
     (''riscv-arch-tests'', ''../../../../vendor/riscv-arch-tests/riscv-test-suite/'', arch_tests, True),
     (''epmp-tests'', ''../../../../vendor/riscv-isa-sim/tests/mseccfg/gengen_src/'', [''outputs''], False)]"

definition selected :: "string \<Rightarrow> string \<Rightarrow> bool" where
  "selected test_suite s = (s \<in> set (split_char (CHR '','') test_suite) \<or> test_suite = ''all'')"

text \<open>A name whose extension is at its end only, and what the shell prints for the tests of a group.\<close>

definition stem_ok :: "bool \<Rightarrow> string \<Rightarrow> bool" where
  "stem_ok asm n = (no_newline n \<and> before (ext_of asm) (n @ ext_of asm) = n)"

definition listing :: "bool \<Rightarrow> string list \<Rightarrow> string" where
  "listing asm ns = unlines (map (\<lambda>n. n @ ext_of asm) ns)"

definition suite_listed :: "(string \<Rightarrow> string) \<Rightarrow> (string \<Rightarrow> string \<Rightarrow> string list) \<Rightarrow> suite \<Rightarrow> bool" where
  "suite_listed popen names = (\<lambda>(nm, dir, gs, asm).
     list_all (\<lambda>g. popen (ls_cmd dir g asm) = listing asm (names dir g) \<and> list_all (stem_ok asm) (names dir g)) gs)"

definition suite_lines :: "(string \<Rightarrow> string \<Rightarrow> string list) \<Rightarrow> (string list \<Rightarrow> string list) \<Rightarrow> suite \<Rightarrow> string list" where
  "suite_lines names set_order = (\<lambda>(nm, dir, gs, asm).
     [[], ''# Test-suite: '' @ nm]
     @ concat (map (\<lambda>g. concat (map (\<lambda>n. test_lines dir g n (ext_of asm) nm) (names dir g))) (set_order gs)))"

definition suite_srcs :: "(string \<Rightarrow> string \<Rightarrow> string list) \<Rightarrow> (string list \<Rightarrow> string list) \<Rightarrow> suite \<Rightarrow> string list" where
  "suite_srcs names set_order = (\<lambda>(nm, dir, gs, asm).
     concat (map (\<lambda>g. map (\<lambda>n. dir @ g @ ''/'' @ n @ ext_of asm) (names dir g)) (set_order gs)))"

lemma ext_of_no_newline: "no_newline (ext_of asm)"
  by (simp add: no_newline_def ext_of_def newline_def)

lemma append_suite:
  assumes "suite_listed popen names (nm, dir, gs, asm)" "set (set_order gs) = set gs"
  shows "append_directed_testlist popen (set_order gs) dir nm asm fs
    = append_file testlist_yaml (unlines (suite_lines names set_order (nm, dir, gs, asm))) fs"
proof -
  have group: "concat (map (\<lambda>s. test_text dir g (before (ext_of asm) s) (ext_of asm) nm)
        (butlast (split_char newline (popen (ls_cmd dir g asm)))))
      = unlines (concat (map (\<lambda>n. test_lines dir g n (ext_of asm) nm) (names dir g)))" if "g \<in> set (set_order gs)" for g
  proof -
    have g: "popen (ls_cmd dir g asm) = listing asm (names dir g)" "list_all (stem_ok asm) (names dir g)"
      using assms that by (auto simp: suite_listed_def list_all_iff)
    have "list_all no_newline (map (\<lambda>n. n @ ext_of asm) (names dir g))"
      using g(2) ext_of_no_newline by (auto simp: list_all_iff stem_ok_def no_newline_def)
    then have "butlast (split_char newline (popen (ls_cmd dir g asm))) = map (\<lambda>n. n @ ext_of asm) (names dir g)"
      by (simp add: g(1) listing_def split_unlines)
    moreover have "map (\<lambda>n. test_text dir g (before (ext_of asm) (n @ ext_of asm)) (ext_of asm) nm) (names dir g)
        = map (\<lambda>n. unlines (test_lines dir g n (ext_of asm) nm)) (names dir g)"
      using g(2) by (auto simp: list_all_iff stem_ok_def test_text_lines)
    ultimately show ?thesis by (simp add: unlines_concat comp_def cong: map_cong)
  qed
  show ?thesis
    by (simp add: append_directed_testlist_def suite_lines_def suite_heading_def unlines_append unlines_concat group comp_def cong: map_cong)
qed

lemma suite_lines_clean:
  assumes "suite_listed popen names (nm, dir, gs, asm)" "set (set_order gs) = set gs" "no_newline nm" "no_newline dir" "list_all no_newline gs"
  shows "list_all no_newline (suite_lines names set_order (nm, dir, gs, asm))"
  using assms ext_of_no_newline [of asm]
  by (auto simp: list_all_iff suite_lines_def test_lines_def no_newline_def newline_def suite_listed_def stem_ok_def)

lemma suite_lines_srcs: "line_srcs (suite_lines names set_order s) = suite_srcs names set_order s"
proof -
  obtain nm dir gs asm where s: "s = (nm, dir, gs, asm)" by (cases s) 
  have "line_srcs ([] # (''# Test-suite: '' @ nm) # ls) = line_srcs ls" for ls by (simp add: line_srcs_def startswith_def)
  moreover have "concat (map (\<lambda>n. [f n]) ns) = map f ns" for f :: "string \<Rightarrow> string" and ns by (induction ns) simp_all
  ultimately show ?thesis by (simp add: s suite_lines_def suite_srcs_def comp_def)
qed

definition append_suite_if :: "(string \<Rightarrow> string) \<Rightarrow> (string list \<Rightarrow> string list) \<Rightarrow> string \<Rightarrow> suite \<Rightarrow> text_files \<Rightarrow> text_files" where
  "append_suite_if popen set_order ts = (\<lambda>(nm, dir, gs, asm) fs.
     if selected ts nm then append_directed_testlist popen (set_order gs) dir nm asm fs else fs)"

lemma main_suites:
  "gen_testlist_main popen set_order ts fs = (case fs testlist_yaml of
     None \<Rightarrow> Inl (OSError testlist_yaml)
   | Some _ \<Rightarrow> Inr (0, fold (append_suite_if popen set_order ts) suites
       (fs(testlist_yaml \<mapsto> unlines (testlist_header @ available_directed_tests)))))"
  by (simp add: gen_testlist_main_def add_configs_and_handwritten_directed_tests_def unlines_append suites_def append_suite_if_def selected_def append_file_def Let_def split: option.split)

lemma append_suites:
  assumes "\<And>xs. set (set_order xs) = set xs"
  shows "list_all (\<lambda>(nm, dir, gs, asm). no_newline nm \<and> no_newline dir \<and> list_all no_newline gs) ss \<Longrightarrow>
    list_all (\<lambda>s. selected ts (fst s) \<longrightarrow> suite_listed popen names s) ss \<Longrightarrow> list_all no_newline ls \<Longrightarrow>
    \<exists>ls'. fold (append_suite_if popen set_order ts) ss (fs(testlist_yaml \<mapsto> unlines ls)) = fs(testlist_yaml \<mapsto> unlines ls')
      \<and> list_all no_newline ls'
      \<and> line_srcs ls' = line_srcs ls @ concat (map (suite_srcs names set_order) (filter (\<lambda>s. selected ts (fst s)) ss))"
proof (induction ss arbitrary: ls)
  case (Cons s ss)
  obtain nm dir gs asm where s: "s = (nm, dir, gs, asm)" by (cases s) 
  show ?case
  proof (cases "selected ts nm")
    case True
    then have l: "suite_listed popen names (nm, dir, gs, asm)" using Cons.prems(2) by (simp add: s)
    let ?new = "suite_lines names set_order (nm, dir, gs, asm)"
    have "list_all no_newline ?new" using suite_lines_clean [where names = names and set_order = set_order, OF l assms [of gs]] Cons.prems(1) by (simp add: s)
    then have clean: "list_all no_newline (ls @ ?new)" using Cons.prems(3) by simp
    have step: "append_suite_if popen set_order ts s (fs(testlist_yaml \<mapsto> unlines ls)) = fs(testlist_yaml \<mapsto> unlines (ls @ ?new))"
      using True append_suite [where set_order = set_order, OF l assms [of gs]] by (simp add: s append_suite_if_def append_file_def unlines_append)
    have ss: "list_all (\<lambda>(nm, dir, gs, asm). no_newline nm \<and> no_newline dir \<and> list_all no_newline gs) ss"
      "list_all (\<lambda>s. selected ts (fst s) \<longrightarrow> suite_listed popen names s) ss"
      using Cons.prems(1,2) by simp_all
    obtain ls' where ls': "fold (append_suite_if popen set_order ts) ss (fs(testlist_yaml \<mapsto> unlines (ls @ ?new))) = fs(testlist_yaml \<mapsto> unlines ls')"
      "list_all no_newline ls'"
      "line_srcs ls' = line_srcs (ls @ ?new) @ concat (map (suite_srcs names set_order) (filter (\<lambda>s. selected ts (fst s)) ss))"
      using Cons.IH [OF ss clean] by blast
    have "fold (append_suite_if popen set_order ts) (s # ss) (fs(testlist_yaml \<mapsto> unlines ls)) = fs(testlist_yaml \<mapsto> unlines ls')"
      unfolding fold_Cons comp_def step by (rule ls'(1))
    moreover have "line_srcs ls' = line_srcs ls @ concat (map (suite_srcs names set_order) (filter (\<lambda>s. selected ts (fst s)) (s # ss)))"
      using True by (simp add: ls'(3) suite_lines_srcs s)
    ultimately show ?thesis using ls'(2) by blast
  next
    case False
    then show ?thesis using Cons.IH [of ls] Cons.prems by (simp add: s append_suite_if_def)
  qed
qed auto

lemma line_srcs_pmp_item: "line_srcs (pmp_item n m) = [''pmp_mseccfg_test/pmp_mseccfg_test.S'']"
  by (simp add: pmp_item_def line_srcs_def startswith_def)

lemma line_srcs_text:
  "line_srcs (testlist_header @ available_directed_tests) =
     [''empty/empty.S''] @ replicate 26 ''pmp_mseccfg_test/pmp_mseccfg_test.S''
     @ [''access_pmp_overlap/access_pmp_overlap.S'', ''u_mode_exec_test/u_mode_exec_test.S'']"
proof -
  have "line_srcs testlist_header = []" by (simp add: testlist_header_def line_srcs_def startswith_def)
  moreover have "line_srcs empty_item = [''empty/empty.S'']"
    "line_srcs last_items = [''access_pmp_overlap/access_pmp_overlap.S'', ''u_mode_exec_test/u_mode_exec_test.S'']"
    by (simp_all add: empty_item_def last_items_def line_srcs_def startswith_def)
  moreover have "line_srcs pmp_tests = replicate 26 ''pmp_mseccfg_test/pmp_mseccfg_test.S''"
    by (simp add: pmp_tests_def pmp_variants_eval line_srcs_pmp_item numeral_eq_Suc)
  ultimately show ?thesis by (simp add: pmp_tests_scheme)
qed


text \<open>The example of the help text: \<open>epmp_tests\<close> is no suite.\<close>

definition demo_popen :: "string \<Rightarrow> string" where
  "demo_popen cmd = (if sublist ''rv32mi'' cmd then ''csr.S'' @ nl @ ''illegal.S'' @ nl else [])"

definition demo_names :: "string \<Rightarrow> string \<Rightarrow> string list" where
  "demo_names dir g = (if g = ''rv32mi'' then [''csr'', ''illegal''] else [])"


end
