(* ===== verification/Sail_Fixes.thy ===== *)
theory Sail_Fixes
  imports Scripts_Lib
begin

text \<open>
  \<open>dv/formal/spec/fix_bugs.py\<close>: the repair of the SystemVerilog that the Sail compiler writes for the specification of the
  formal flow, a sequence of replacements of constant texts. The file system is a map from names to texts.
\<close>

text \<open>The constant \<open>S\<close>, a definition that the compiler puts into the wrong file, and \<open>T\<close>, which nothing uses.\<close>

definition sail_S :: string where
  "sail_S = nl @ ''typedef struct {'' @ nl @ ''    logic [7:0] bits;'' @ nl @ ''} t_Pmpcfg_ent;'' @ nl"

definition sail_T :: string where
  "sail_T = nl @ ''typedef logic [127:0] sail_int;'' @ nl"

definition main_call :: string where "main_call = ''main_result = main(insn_bits, mode);''"

definition init_lines :: "string list" where
  "init_lines =
     [''        wX_sail_invoke_arg_0[0] = 0; wX_sail_invoke_arg_1[0] = 0;'',
      ''        write_ram_sail_invoke_arg_0[0] = Write_plain; write_ram_sail_invoke_arg_0[1] = Write_plain;'',
      ''        write_ram_sail_invoke_arg_1[0] = 0; write_ram_sail_invoke_arg_1[1] = 0;'',
      ''        write_ram_sail_invoke_arg_2[0] = 0; write_ram_sail_invoke_arg_2[1] = 0;'',
      ''        write_ram_sail_invoke_arg_3[0] = 0; write_ram_sail_invoke_arg_3[1] = 0;'',
      ''        read_ram_sail_invoke_arg_0[0] = Read_plain; read_ram_sail_invoke_arg_0[1] = Read_plain;'',
      ''        read_ram_sail_invoke_arg_1[0] = 0; read_ram_sail_invoke_arg_1[1] = 0;'',
      ''        sail_reached_unreachable_loc = 0;'']"

text \<open>The replacements in the order of the script; the last two remove the declarations that have become ports.\<close>

definition sail_fixes :: "(string \<times> string) list" where
  "sail_fixes =
     [(sail_S, []),
      (''struct {'', ''struct packed {''),
      (''sail_return = sail_internal_pick(zz498);'', ''/* removed */''),
      (''sail_return = sail_internal_pick(zz495);'', ''/* removed */''),
      (''        '' @ main_call, concat (map (\<lambda>l. l @ nl) init_lines) @ ''        '' @ main_call @ '' ''),
      (''sail_reached_unreachable = 1;'',
       ''if (!sail_reached_unreachable) begin sail_reached_unreachable = 1; sail_reached_unreachable_loc = `__LINE__; end''),
      (''module sail_ibexspec('',
       ''module sail_ibexspec('' @ nl @ ''    output logic sail_reached_unreachable,'' @ nl
         @ ''    output logic [31:0] sail_reached_unreachable_loc,''),
      (''logic sail_reached_unreachable;'', []),
      (''logic [31:0] sail_reached_unreachable_loc;'', [])]"

definition fix_ibexspec :: "string \<Rightarrow> string" where
  "fix_ibexspec c = fold (\<lambda>(old, new) c. py_replace old new c) sail_fixes c"

definition fix_genlib :: "string \<Rightarrow> string" where
  "fix_genlib c = py_replace ''struct'' ''struct packed'' sail_S @ nl @ c"

definition read_text :: "string \<Rightarrow> (string \<rightharpoonup> string) \<Rightarrow> string res" where
  "read_text p fs = (case fs p of None \<Rightarrow> Inl (OSError p) | Some c \<Rightarrow> Inr c)"

definition fix_bugs :: "(string \<rightharpoonup> string) \<Rightarrow> (string \<rightharpoonup> string) res" where
  "fix_bugs fs =
     rbind (read_text ''build/ibexspec.sv'' fs) (\<lambda>c.
       let fs = fs(''build/ibexspec.sv'' \<mapsto> fix_ibexspec c) in
       rbind (read_text ''build/sail_genlib_ibexspec.sv'' fs) (\<lambda>c.
         Inr (fs(''build/sail_genlib_ibexspec.sv'' \<mapsto> fix_genlib c))))"

section \<open>What the fixes do\<close>

text \<open>The first occurrence of a text is replaced, and the search goes on behind it.\<close>

lemma py_replace_first:
  assumes "old \<noteq> []" "\<not> contains (a @ butlast old) old"
  shows "py_replace old new (a @ old @ b) = a @ new @ py_replace old new b"
  using assms(2)
proof (induction a)
  case Nil
  then show ?case using assms(1) by (cases old) (simp_all add: py_replace.simps)
next
  case (Cons c a)
  have "\<not> prefix old (c # a @ butlast old)" "\<not> contains (a @ butlast old) old"
    using Cons.prems assms(1) by (simp_all add: contains_Cons_iff)
  moreover have "prefix old (c # a @ old @ b) \<longleftrightarrow> prefix old (c # a @ butlast old)"
  proof -
    have len: "length old \<le> length (c # a @ butlast old)" using assms(1) by (cases old rule: rev_cases) simp_all
    have split: "c # a @ old @ b = (c # a @ butlast old) @ last old # b" using append_butlast_last_id [OF assms(1)] by simp
    have "prefix (c # a @ butlast old) (c # a @ old @ b)" unfolding split by (rule prefixI) simp
    then show ?thesis using prefix_length_prefix [OF _ _ len] prefix_order.trans by blast
  qed
  ultimately show ?case using Cons.IH assms(1) by (simp add: py_replace.simps [of old new "c # a @ old @ b"])
qed

text \<open>A text without any of the patterns is left as it is; every fix of a file that exists reads and writes both files.\<close>

lemma fix_ibexspec_id: "list_all (\<lambda>(old, new). \<not> contains c old) sail_fixes \<Longrightarrow> fix_ibexspec c = c"
proof -
  have "old \<noteq> []" if "(old, new) \<in> set sail_fixes" for old new
    using that by (auto simp: sail_fixes_def sail_S_def)
  then have "list_all (\<lambda>(old, new). old \<noteq> []) sail_fixes" by (auto simp: list_all_iff)
  moreover have "list_all (\<lambda>(old, new). old \<noteq> []) fs \<Longrightarrow> list_all (\<lambda>(old, new). \<not> contains c old) fs \<Longrightarrow>
      fold (\<lambda>(old, new) c. py_replace old new c) fs c = c" for fs
    by (induction fs) (auto simp: py_replace_absent)
  moreover assume "list_all (\<lambda>(old, new). \<not> contains c old) sail_fixes"
  ultimately show ?thesis unfolding fix_ibexspec_def by blast
qed

lemma fix_genlib_eq:
  "fix_genlib c = nl @ ''typedef struct packed {'' @ nl @ ''    logic [7:0] bits;'' @ nl @ ''} t_Pmpcfg_ent;'' @ nl @ nl @ c"
proof -
  have "py_replace ''struct'' ''struct packed'' sail_S
      = nl @ ''typedef struct packed {'' @ nl @ ''    logic [7:0] bits;'' @ nl @ ''} t_Pmpcfg_ent;'' @ nl" by code_simp
  then show ?thesis by (simp add: fix_genlib_def)
qed

text \<open>
  The definition moves: when it stands once in the specification and nothing else of the specification matches a pattern,
  the specification loses it and the library starts with it, packed.
\<close>

lemma fix_bugs_moves:
  assumes "fs ''build/ibexspec.sv'' = Some (a @ sail_S @ b)" "fs ''build/sail_genlib_ibexspec.sv'' = Some g"
    and "\<not> contains (a @ butlast sail_S) sail_S" "\<not> contains b sail_S"
    and "list_all (\<lambda>(old, new). \<not> contains (a @ b) old) sail_fixes"
  shows "fix_bugs fs = Inr (fs(''build/ibexspec.sv'' \<mapsto> a @ b, ''build/sail_genlib_ibexspec.sv'' \<mapsto>
    nl @ ''typedef struct packed {'' @ nl @ ''    logic [7:0] bits;'' @ nl @ ''} t_Pmpcfg_ent;'' @ nl @ nl @ g))"
proof -
  have S: "sail_S \<noteq> []" by (simp add: sail_S_def)
  have "py_replace sail_S [] (a @ sail_S @ b) = a @ b"
    by (simp add: py_replace_first [OF S assms(3)] py_replace_absent [OF S assms(4)])
  moreover have "fold (\<lambda>(old, new) c. py_replace old new c) (tl sail_fixes) (a @ b) = fix_ibexspec (a @ b)"
    using assms(5) S by (simp add: fix_ibexspec_def sail_fixes_def py_replace_absent)
  ultimately have "fix_ibexspec (a @ sail_S @ b) = a @ b"
    using fix_ibexspec_id [OF assms(5)] by (simp add: fix_ibexspec_def sail_fixes_def)
  then show ?thesis using assms(1,2) by (simp add: fix_bugs_def read_text_def fix_genlib_eq)
qed

end
