(* ===== verification/Openocd_Junit.thy ===== *)
theory Openocd_Junit
  imports Py_Data
begin

text \<open>
  \<open>riscv-dbg/ci/openocd-to-junit.py\<close>: the log of an OpenOCD compliance run as JUnit test cases. A test case is recorded with
  the calls the script makes on it; how \<open>junit_xml\<close> turns it into XML is left out.
\<close>

section \<open>The script\<close>

text \<open>\<open>test_strings\<close> and \<open>test_timestamps\<close>.\<close>

record ocd_state =
  test_strings :: "(string \<times> string list) list"
  test_timestamps :: "(string \<times> string) list"

text \<open>A test case: its name, its output, its time stamp and the messages given to \<open>add_error_info\<close>.\<close>

record junit_case =
  case_name :: string
  case_stdout :: string
  case_timestamp :: string
  case_errors :: "string list"

definition is_test_line :: "string \<Rightarrow> bool" where
  "is_test_line line = (contains line ''Info'' \<and> contains line ''riscv013_test_compliance()'')"

definition line_test :: "string \<Rightarrow> string" where
  "line_test line = py_join '' '' (drop 7 (split_char (CHR '' '') line))"

definition ocd_line :: "ocd_state \<Rightarrow> string \<Rightarrow> ocd_state res" where
  "ocd_line s line =
     (if is_test_line line then
        let current_testname = line_test line; parts = split_char (CHR '' '') line;
            old = (case map_of (test_strings s) current_testname of None \<Rightarrow> [] | Some ls \<Rightarrow> ls);
            s = s\<lparr>test_strings := AList.update current_testname (old @ [line]) (test_strings s)\<rparr>
        in if length parts \<le> 3 then Inl (IndexError ''list index out of range'')
           else Inr (s\<lparr>test_timestamps := AList.update current_testname (parts ! 3) (test_timestamps s)\<rparr>)
      else Inr s)"

text \<open>The loop over the lines of a test: the message so far and the calls.\<close>

definition ocd_error :: "string \<times> string list \<Rightarrow> string \<Rightarrow> string \<times> string list" where
  "ocd_error acc line = (case acc of (error_msg, calls) \<Rightarrow>
     let error_msg = (if contains line ''FAILED'' then error_msg @ line else error_msg)
     in (error_msg, if error_msg \<noteq> [] then calls @ [error_msg] else calls))"

definition ocd_case :: "ocd_state \<Rightarrow> string \<times> string list \<Rightarrow> junit_case" where
  "ocd_case s kv = (case kv of (k, v) \<Rightarrow>
     \<lparr>case_name = k, case_stdout = concat v,
      case_timestamp = (case map_of (test_timestamps s) k of None \<Rightarrow> [] | Some t \<Rightarrow> t),
      case_errors = snd (foldl ocd_error ([], []) v)\<rparr>)"

text \<open>The test cases of the suite and its output.\<close>

definition openocd_to_junit :: "string \<Rightarrow> (junit_case list \<times> string) res" where
  "openocd_to_junit infile =
     rbind (rfold ocd_line \<lparr>test_strings = [], test_timestamps = []\<rparr> (file_lines infile)) (\<lambda>s.
       Inr (map (ocd_case s) (test_strings s), concat (file_lines infile)))"

section \<open>The test cases of a log\<close>

text \<open>The lines of one test.\<close>

definition lines_of :: "string list \<Rightarrow> string \<Rightarrow> string list" where
  "lines_of lines k = filter (\<lambda>l. is_test_line l \<and> line_test l = k) lines"

lemma lines_of_append: "lines_of (xs @ ys) k = lines_of xs k @ lines_of ys k"
  by (simp add: lines_of_def)

definition ocd_state_ok :: "string list \<Rightarrow> ocd_state \<Rightarrow> bool" where
  "ocd_state_ok lines s = (distinct (map fst (test_strings s))
     \<and> map_of (test_strings s) = (\<lambda>k. if lines_of lines k = [] then None else Some (lines_of lines k))
     \<and> (\<forall>k. lines_of lines k \<noteq> [] \<longrightarrow> map_of (test_timestamps s) k = Some (split_char (CHR '' '') (last (lines_of lines k)) ! 3)))"

lemma ocd_line_ok:
  assumes "ocd_state_ok lines s" "is_test_line l \<longrightarrow> 3 < length (split_char (CHR '' '') l)"
  obtains s' where "ocd_line s l = Inr s'" "ocd_state_ok (lines @ [l]) s'"
proof (cases "is_test_line l")
  case True
  let ?k = "line_test l" and ?parts = "split_char (CHR '' '') l"
  define s' where "s' = s\<lparr>test_strings := AList.update ?k (lines_of lines ?k @ [l]) (test_strings s),
    test_timestamps := AList.update ?k (?parts ! 3) (test_timestamps s)\<rparr>"
  have new: "lines_of (lines @ [l]) k = (if k = ?k then lines_of lines k @ [l] else lines_of lines k)" for k
    using True by (auto simp: lines_of_def)
  have "ocd_line s l = Inr s'"
    using assms True by (auto simp: ocd_line_def s'_def ocd_state_ok_def Let_def)
  moreover have "ocd_state_ok (lines @ [l]) s'"
    using assms(1) by (auto simp: ocd_state_ok_def s'_def new distinct_update update_conv' fun_eq_iff)
  ultimately show thesis by (rule that)
next
  case False
  then have "lines_of (lines @ [l]) = lines_of lines" by (auto simp: lines_of_def fun_eq_iff)
  with False assms(1) show thesis by (intro that [of s]) (simp_all add: ocd_line_def ocd_state_ok_def cong: if_cong)
qed

lemma ocd_lines_ok:
  "ocd_state_ok lines s \<Longrightarrow> list_all (\<lambda>l. is_test_line l \<longrightarrow> 3 < length (split_char (CHR '' '') l)) ls \<Longrightarrow>
   \<exists>s'. rfold ocd_line s ls = Inr s' \<and> ocd_state_ok (lines @ ls) s'"
proof (induction ls arbitrary: lines s)
  case (Cons l ls)
  then obtain s1 where "ocd_line s l = Inr s1" "ocd_state_ok (lines @ [l]) s1"
    by (auto elim: ocd_line_ok)
  with Cons.IH [of "lines @ [l]" s1] Cons.prems show ?case by simp
qed simp

text \<open>The messages of a test: one call for every line from the first failed one on, each with all failed lines so far.\<close>

definition failed_lines :: "string list \<Rightarrow> string" where
  "failed_lines v = concat (filter (\<lambda>l. contains l ''FAILED'') v)"

definition error_calls :: "string list \<Rightarrow> string list" where
  "error_calls v = filter (\<lambda>m. m \<noteq> []) (map (\<lambda>i. failed_lines (take (Suc i) v)) [0..<length v])"

lemma failed_lines_empty: "failed_lines v = [] \<longleftrightarrow> \<not> list_ex (\<lambda>l. contains l ''FAILED'') v"
  by (auto simp: failed_lines_def list_ex_iff)

lemma error_calls_snoc:
  "error_calls (v @ [l]) = error_calls v @ (if failed_lines (v @ [l]) = [] then [] else [failed_lines (v @ [l])])"
proof -
  have "map (\<lambda>i. failed_lines (take (Suc i) (v @ [l]))) [0..<length v] = map (\<lambda>i. failed_lines (take (Suc i) v)) [0..<length v]"
    by (rule map_cong) simp_all
  moreover have "[0..<length (v @ [l])] = [0..<length v] @ [length v]" by simp
  ultimately have "error_calls (v @ [l]) = filter (\<lambda>m. m \<noteq> []) (map (\<lambda>i. failed_lines (take (Suc i) v)) [0..<length v] @ [failed_lines (v @ [l])])"
    unfolding error_calls_def by (simp only: map_append list.map) simp
  then show ?thesis by (simp add: error_calls_def)
qed

lemma ocd_errors: "foldl ocd_error ([], []) v = (failed_lines v, error_calls v)"
proof (induction v rule: rev_induct)
  case (snoc l v)
  from snoc show ?case by (auto simp: ocd_error_def error_calls_snoc failed_lines_def Let_def)
qed (simp add: failed_lines_def error_calls_def)

lemma error_calls_last:
  assumes "list_ex (\<lambda>l. contains l ''FAILED'') v"
  shows "error_calls v \<noteq> [] \<and> last (error_calls v) = failed_lines v"
proof -
  obtain u l where v: "v = u @ [l]" using assms by (cases v rule: rev_cases) auto
  then show ?thesis using assms failed_lines_empty [of v] by (simp add: error_calls_snoc)
qed

lemma error_calls_none: "\<not> list_ex (\<lambda>l. contains l ''FAILED'') v \<Longrightarrow> error_calls v = []"
  by (auto simp: error_calls_def failed_lines_empty list_ex_iff filter_empty_conv dest: in_set_takeD)

text \<open>
  The compliance report: when every line about a test has a time, the report has one case for every test, with the lines of
  the test in their order and the time of the last; its last error message is the failed lines of the test, and a test
  without failed lines has none. The output of the suite is the whole log.
\<close>

theorem openocd_to_junit_cases:
  assumes "list_all (\<lambda>l. is_test_line l \<longrightarrow> 3 < length (split_char (CHR '' '') l)) (file_lines log_text)"
  shows "\<exists>cs. openocd_to_junit log_text = Inr (cs, log_text) \<and> distinct (map case_name cs)
    \<and> set (map case_name cs) = line_test ` {l \<in> set (file_lines log_text). is_test_line l}
    \<and> (\<forall>c \<in> set cs. let ls = lines_of (file_lines log_text) (case_name c) in
          ls \<noteq> [] \<and> case_stdout c = concat ls \<and> case_timestamp c = split_char (CHR '' '') (last ls) ! 3
        \<and> (if list_ex (\<lambda>l. contains l ''FAILED'') ls then case_errors c \<noteq> [] \<and> last (case_errors c) = failed_lines ls
           else case_errors c = []))"
proof -
  let ?ls = "file_lines log_text"
  have "ocd_state_ok [] \<lparr>test_strings = [], test_timestamps = []\<rparr>" by (simp add: ocd_state_ok_def lines_of_def)
  from ocd_lines_ok [OF this assms] obtain s where
    s: "rfold ocd_line \<lparr>test_strings = [], test_timestamps = []\<rparr> ?ls = Inr s" "ocd_state_ok ?ls s" by auto
  have names: "map (case_name \<circ> ocd_case s) xs = map fst xs" for xs
    by (simp add: ocd_case_def split: prod.splits)
  have dom: "fst ` set (test_strings s) = {k. lines_of ?ls k \<noteq> []}"
    using s(2) by (simp add: ocd_state_ok_def flip: dom_map_of_conv_image_fst) (auto split: if_splits)
  have c: "let ls = lines_of ?ls (case_name c) in ls \<noteq> [] \<and> case_stdout c = concat ls \<and> case_timestamp c = split_char (CHR '' '') (last ls) ! 3
      \<and> (if list_ex (\<lambda>l. contains l ''FAILED'') ls then case_errors c \<noteq> [] \<and> last (case_errors c) = failed_lines ls else case_errors c = [])"
    if c: "c \<in> ocd_case s ` set (test_strings s)" for c
  proof -
    obtain k v where kv: "(k, v) \<in> set (test_strings s)" "c = ocd_case s (k, v)" using c by auto
    have "distinct (map fst (test_strings s))" using s(2) by (simp add: ocd_state_ok_def)
    then have "map_of (test_strings s) k = Some v" using kv(1) by (rule map_of_is_SomeI)
    moreover have "map_of (test_strings s) k = (if lines_of ?ls k = [] then None else Some (lines_of ?ls k))"
      using s(2) by (simp add: ocd_state_ok_def)
    ultimately have v: "lines_of ?ls k \<noteq> []" "v = lines_of ?ls k" by (simp_all split: if_splits)
    then show ?thesis using s(2) error_calls_last [of v] error_calls_none [of v]
      by (simp add: kv(2) ocd_case_def ocd_errors ocd_state_ok_def Let_def)
  qed
  have set_names: "fst ` set (test_strings s) = line_test ` {l \<in> set ?ls. is_test_line l}"
    by (auto simp: dom lines_of_def filter_empty_conv)
  have d: "distinct (map fst (test_strings s))" using s(2) by (simp add: ocd_state_ok_def)
  have r: "openocd_to_junit log_text = Inr (map (ocd_case s) (test_strings s), log_text)"
    by (simp add: openocd_to_junit_def s(1) concat_file_lines)
  show ?thesis
    by (rule exI [of _ "map (ocd_case s) (test_strings s)"], intro conjI ballI)
      (simp_all only: r map_map names d set_names set_map c)
qed

definition demo_ocd_log :: string where
  "demo_ocd_log = ''Info : 1 2 0.1 x riscv013_test_compliance() : reset'' @ nl @ ''other'' @ nl
     @ ''Info : 1 2 0.2 x riscv013_test_compliance() FAILED reset'' @ nl"

theorem openocd_to_junit_cases_witness:
  "\<exists>cs. openocd_to_junit demo_ocd_log = Inr (cs, demo_ocd_log) \<and> distinct (map case_name cs)"
proof -
  have "list_all (\<lambda>l. is_test_line l \<longrightarrow> 3 < length (split_char (CHR '' '') l)) (file_lines demo_ocd_log)" by code_simp
  from openocd_to_junit_cases [OF this] show ?thesis by blast
qed

end
