(* ===== verification/Drivers.thy ===== *)
theory Drivers
  imports Py_Regex Py_Paths Py_Shlex
begin

text \<open>
  The programs that start other programs: \<open>regression_handling.py\<close> of the SPI verification component (twice the same),
  \<open>riscv-dbg/tb/veri-run-openocd.py\<close>, and the paths of \<open>setup_imports.py\<close>. What a child process prints is a list of
  lines, the clock and the environment are functions; killing the children at the end is left out.
\<close>

section \<open>regression\_handling.py\<close>

definition test_re :: rx where "test_re = RGroup 1 (rseq [RStar rany, rstr ''Test''])"

definition listed_test :: "string \<Rightarrow> string option" where
  "listed_test line = (if contains line ''#'' then None else map_option (\<lambda>m. group_str m 1) (re_search test_re line))"

definition reg_list_array :: "string \<Rightarrow> string list" where
  "reg_list_array text1 = concat (map (\<lambda>line. case listed_test line of None \<Rightarrow> [] | Some t \<Rightarrow> [t]) (file_lines text1))"

text \<open>The \<open>i\<close>-th command with the time at which it is built.\<close>

definition make_cmd :: "(nat \<Rightarrow> string) \<Rightarrow> nat \<Rightarrow> string \<Rightarrow> string" where
  "make_cmd clock i testname =
     ''make simulate test_folder='' @ (testname @ ''_'' @ clock i) @ '' test='' @ testname"

definition regression_handling :: "(nat \<Rightarrow> string) \<Rightarrow> (string \<Rightarrow> string option) \<Rightarrow> string \<Rightarrow> string list res" where
  "regression_handling clock read_file regression_list =
     (case read_file (''../../src/hvlTop/tb/testlists/'' @ regression_list) of
        None \<Rightarrow> Inl (OSError regression_list)
      | Some t \<Rightarrow> Inr (map2 (make_cmd clock) [0..<length (reg_list_array t)] (reg_list_array t)))"

lemma rstr_run: "rx_run (rstr w) (MState p s cp) = (if prefix w s then [MState (rev w @ p) (drop (length w) s) cp] else [])"
proof (induction w arbitrary: p s)
  case (Cons c w)
  then show ?case by (cases w; cases s) (auto simp: rlit_def)
qed simp

text \<open>A line that is the name of a test, which ends in \<open>Test\<close>.\<close>

definition test_line :: "string \<Rightarrow> bool" where
  "test_line name = (suffix ''Test'' name \<and> CHR ''#'' \<notin> set name \<and> newline \<notin> set name)"

text \<open>A greedy search stops at the longest run that what follows accepts.\<close>

lemma first_of_greedy:
  "n \<le> N \<Longrightarrow> (\<And>k. n < k \<Longrightarrow> k \<le> N \<Longrightarrow> f k = []) \<Longrightarrow> f n \<noteq> [] \<Longrightarrow> first_of (concat (map f (rev [0..<Suc N]))) = first_of (f n)"
proof (induction N)
  case (Suc N)
  show ?case
  proof (cases "n = Suc N")
    case True
    with Suc.prems(3) show ?thesis by (cases "f n") (simp_all add: first_of_def)
  next
    case False
    with Suc.prems have "f (Suc N) = []" "first_of (concat (map f (rev [0..<Suc N]))) = first_of (f n)"
      by (simp, intro Suc.IH) simp_all
    then show ?thesis by simp
  qed
qed simp

lemma first_of_map: "first_of (map g xs) = map_option g (first_of xs)"
  by (cases xs) (simp_all add: first_of_def)

lemma listed_test_line:
  assumes "test_line name"
  shows "listed_test (name @ nl) = Some name"
proof -
  obtain u where u: "name = u @ ''Test''" using assms by (auto simp: test_line_def suffix_def)
  have ok: "CHR ''#'' \<notin> set name" "newline \<notin> set name" using assms by (simp_all add: test_line_def)
  let ?s = "name @ nl"
  let ?st = "\<lambda>k. MState (rev (take k ?s)) (drop k ?s) []"
  have tw: "takeWhile (\<lambda>x. x \<noteq> newline) ?s = name"
    using ok(2) by (induction name) (auto simp: nl_def)
  have no: "rx_run (rstr ''Test'') (?st k) = []" if "length u < k" "k \<le> length name" for k
  proof -
    from that have "k = length u + 1 \<or> k = length u + 2 \<or> k = length u + 3 \<or> k = length u + 4" by (auto simp: u)
    then show ?thesis by (auto simp: rstr_run u nl_def newline_def simp del: rstr.simps)
  qed
  have yes: "rx_run (rstr ''Test'') (?st (length u)) = [MState (rev name) nl []]"
    by (simp add: rstr_run u nl_def del: rstr.simps)
  have all: "rx_run (RSeq (RStar rany) (rstr ''Test'')) (MState [] ?s []) =
      concat (map (\<lambda>k. rx_run (rstr ''Test'') (?st k)) (rev [0..<Suc (length name)]))"
    by (simp only: rx_run.simps(3,5) rany_def mstate.sel iter_run_set [OF order_refl] map_map comp_def tw append_Nil2)
  have fst: "first_of (concat (map (\<lambda>k. rx_run (rstr ''Test'') (?st k)) (rev [0..<Suc (length name)])))
      = first_of (rx_run (rstr ''Test'') (?st (length u)))"
    by (rule first_of_greedy) (use no yes in \<open>auto simp: u\<close>)
  have "first_of (rx_run (rseq [RStar rany, rstr ''Test'']) (MState [] ?s [])) = Some (MState (rev name) nl [])"
    unfolding rseq.simps all fst yes by (simp add: first_of_def)
  then have f: "first_of (rx_run test_re (start_at [] ?s)) = Some (MState (rev name) nl [(1, name)])"
    by (simp add: test_re_def start_at_def first_of_map del: rseq.simps)
  have "search_from test_re [] ?s = Some ([], MState (rev name) nl [(1, name)])"
    using f by (cases ?s) simp_all
  moreover have "\<not> contains ?s ''#''"
    using ok(1) by (auto simp: contains_iff_sublist nl_def newline_def dest!: set_mono_sublist)
  ultimately show ?thesis by (simp add: listed_test_def re_search_def group_str_def group_def)
qed

text \<open>
  A regression list: every line that is the name of a test starts that test, in the order of the list, and lines with a
  comment sign start nothing. Only the time tells the folders of two runs of one test apart.
\<close>

theorem regression_handling_runs:
  assumes "list_all (\<lambda>l. newline \<notin> set l \<and> (test_line l \<or> contains l ''#'')) ls"
    and "read_file (''../../src/hvlTop/tb/testlists/'' @ name) = Some (concat (map (\<lambda>l. l @ nl) ls))"
  shows "regression_handling clock read_file name = Inr (map2 (make_cmd clock) [0..<length (filter test_line ls)] (filter test_line ls))"
proof -
  have "file_lines (concat (map (\<lambda>l. l @ nl) ls)) = map (\<lambda>l. l @ nl) ls"
    using assms(1) by (induction ls) (simp add: file_lines_def, auto simp: file_lines_line)
  moreover have "listed_test (l @ nl) = (if test_line l then Some l else None)" if "l \<in> set ls" for l
  proof (cases "test_line l")
    case False
    then have "contains (l @ nl) ''#''"
      using assms(1) that by (auto simp: list_all_iff contains_iff_sublist sublist_append)
    with False show ?thesis by (simp add: listed_test_def)
  qed (simp add: listed_test_line)
  moreover have "concat (map (\<lambda>l. if test_line l then [l] else []) ls) = filter test_line ls" by (induction ls) simp_all
  ultimately have "reg_list_array (concat (map (\<lambda>l. l @ nl) ls)) = filter test_line ls"
    by (simp add: reg_list_array_def comp_def if_distrib [of "case_option _ _"] cong: map_cong if_cong)
  with assms(2) show ?thesis by (simp add: regression_handling_def)
qed

theorem regression_handling_runs_witness:
  "regression_handling (\<lambda>i. nat_str i) (\<lambda>_. Some (''spi8bTest'' @ nl @ ''#spi16bTest'' @ nl @ ''spi32bTest'' @ nl)) ''l''
   = Inr [make_cmd (\<lambda>i. nat_str i) 0 ''spi8bTest'', make_cmd (\<lambda>i. nat_str i) 1 ''spi32bTest'']"
proof -
  let ?ls = "[''spi8bTest'', ''#spi16bTest'', ''spi32bTest'']"
  have l: "list_all (\<lambda>l. newline \<notin> set l \<and> (test_line l \<or> contains l ''#'')) ?ls" "filter test_line ?ls = [''spi8bTest'', ''spi32bTest'']"
    by code_simp+
  show ?thesis
    using regression_handling_runs [OF l(1), of "\<lambda>_. Some (''spi8bTest'' @ nl @ ''#spi16bTest'' @ nl @ ''spi32bTest'' @ nl)" "''l''" nat_str]
    by (simp add: l(2) upt_rec del: filter.simps)
qed

section \<open>veri-run-openocd.py\<close>

text \<open>What the simulator's output decides: to go on, or to stop with an exit code.\<close>

fun wait_listening :: "string list \<Rightarrow> int option" where
  "wait_listening [] = None"
| "wait_listening (line # ls) =
     (if contains line ''Listening on port'' then None
      else if contains line ''failed to bind socket'' then Some 1 else wait_listening ls)"

text \<open>An empty variable counts as unset.\<close>

definition getenv_set :: "(string \<Rightarrow> string option) \<Rightarrow> string \<Rightarrow> string option" where
  "getenv_set env k = (case env k of Some (c # cs) \<Rightarrow> Some (c # cs) | _ \<Rightarrow> None)"

definition openocd_cmd :: "(string \<Rightarrow> string option) \<Rightarrow> string" where
  "openocd_cmd env = (case getenv_set env ''OPENOCD'' of Some o' \<Rightarrow> o'
     | None \<Rightarrow> (case getenv_set env ''RISCV'' of Some r \<Rightarrow> r @ ''/bin/openocd'' | None \<Rightarrow> ''openocd''))
   @ '' -f '' @ (case getenv_set env ''OPENOCD_SCRIPT'' of Some s \<Rightarrow> s | None \<Rightarrow> ''dm_compliance_test.cfg'')"

text \<open>The exit code, with the lines that OpenOCD prints for its arguments.\<close>

definition veri_run_openocd :: "string list \<Rightarrow> (string \<Rightarrow> string option) \<Rightarrow> (string list \<Rightarrow> string list) \<Rightarrow> int res" where
  "veri_run_openocd veri_stdout env openocd_stdout = (case wait_listening veri_stdout of
     Some code \<Rightarrow> Inr code
   | None \<Rightarrow> rbind (shlex_split (openocd_cmd env)) (\<lambda>args.
       Inr (foldl (\<lambda>ret line. if contains line ''ALL TESTS PASSED'' then 0 else ret) 1 (openocd_stdout args))))"

lemma passed_fold: "foldl (\<lambda>ret line. if contains line p then 0 else ret) r ls = (if list_ex (\<lambda>l. contains l p) ls then 0 else (r :: int))"
  by (induction ls arbitrary: r) auto

lemma veri_run_openocd_passes:
  "veri_run_openocd veri_stdout env openocd_stdout = Inr 0 \<longleftrightarrow>
   wait_listening veri_stdout = None \<and>
   (\<exists>args. shlex_split (openocd_cmd env) = Inr args \<and> list_ex (\<lambda>l. contains l ''ALL TESTS PASSED'') (openocd_stdout args))"
proof -
  have "wait_listening ls \<noteq> Some 0" for ls by (induction ls) auto
  then show ?thesis by (auto simp: veri_run_openocd_def passed_fold rbind_def split: option.splits sum.splits if_splits)
qed

section \<open>setup\_imports.py\<close>

text \<open>The root is four directories above the file's.\<close>

definition get_pythonpath :: "string \<Rightarrow> string" where
  "get_pythonpath root =
     (let join = foldl os_join root; core = [''dv'', ''uvm'', ''core_ibex'']
      in py_join '':'' [root, join [''util''], join (core @ [''scripts'']), join (core @ [''riscv_dv_extension'']),
           join (core @ [''yaml'']), join [''vendor'', ''google_riscv-dv'', ''scripts'']])"

end
